(* ===== verification/Prelude.thy ===== *)
theory Prelude
  imports Main "HOL-Library.Word"
begin

text \<open>
  Shared vocabulary of the development: the machine integers of the Rust code as words of
  their width, the conversions (\<open>u128::from\<close>, \<open>as u64\<close>, \<open>u64::try_from\<close>), the
  \<open>checked_*\<close> operations, and the result type with Rust's \<open>?\<close> as \<open>and_then\<close>.
  Unchecked \<open>+\<close>, \<open>-\<close>, \<open>*\<close> are the word operations, which wrap as a release
  build does (the crate sets no \<open>overflow-checks\<close>); the component theories prove where
  no wrap-around can happen. Each operation comes with its value on the natural numbers
  (collection \<open>unat_simps\<close>), so that the component proofs are arithmetic on \<open>nat\<close>.
\<close>

section \<open>Machine integers\<close>

type_synonym u8 = "8 word"
type_synonym u16 = "16 word"
type_synonym u32 = "32 word"
type_synonym u64 = "64 word"
type_synonym u128 = "128 word"
type_synonym i128 = "128 word"
type_synonym byte = "8 word"

named_theorems unat_simps \<open>values of the machine operations on natural numbers\<close>
named_theorems res_simps \<open>characterisations of successful results\<close>

abbreviation U64_LIMIT :: nat where "U64_LIMIT \<equiv> 2 ^ 64"
abbreviation U128_LIMIT :: nat where "U128_LIMIT \<equiv> 2 ^ 128"

text \<open>\<open>u128::from(x)\<close> and \<open>x as u128\<close> for a \<open>u64\<close> or \<open>u16\<close>; \<open>x as u64\<close> (truncating) and
  \<open>u64::try_from(x)\<close> for a \<open>u128\<close>.\<close>

definition to_u128 :: "'a::len word \<Rightarrow> u128" where
  "to_u128 x = ucast x"

definition as_u64 :: "'a::len word \<Rightarrow> u64" where
  "as_u64 x = ucast x"

definition try_u64 :: "u128 \<Rightarrow> u64 option" where
  "try_u64 x = (if x < 2 ^ 64 then Some (ucast x) else None)"

definition checked_add :: "'a::len word \<Rightarrow> 'a word \<Rightarrow> 'a word option" where
  "checked_add a b = (if unat a + unat b < 2 ^ LENGTH('a) then Some (a + b) else None)"

definition checked_sub :: "'a::len word \<Rightarrow> 'a word \<Rightarrow> 'a word option" where
  "checked_sub a b = (if b \<le> a then Some (a - b) else None)"

definition checked_mul :: "'a::len word \<Rightarrow> 'a word \<Rightarrow> 'a word option" where
  "checked_mul a b = (if unat a * unat b < 2 ^ LENGTH('a) then Some (a * b) else None)"

definition checked_div :: "'a::len word \<Rightarrow> 'a word \<Rightarrow> 'a word option" where
  "checked_div a b = (if b = 0 then None else Some (a div b))"

text \<open>\<open>Option::filter\<close>.\<close>

definition opt_filter :: "('a \<Rightarrow> bool) \<Rightarrow> 'a option \<Rightarrow> 'a option" where
  "opt_filter P x = (case x of None \<Rightarrow> None | Some v \<Rightarrow> if P v then Some v else None)"

lemma u64_bound [simp]: "unat (x :: u64) < 18446744073709551616"
  using unsigned_less [of x, where ?'a = nat] by simp

lemma u64_le_bound [simp]: "unat (x :: u64) \<le> 18446744073709551615"
  using u64_bound [of x] by linarith

lemma u128_bound [simp]: "unat (x :: u128) < 340282366920938463463374607431768211456"
  using unsigned_less [of x, where ?'a = nat] by simp

lemma u16_bound [simp]: "unat (x :: u16) < 65536"
  using unsigned_less [of x, where ?'a = nat] by simp

lemma u8_bound [simp]: "unat (x :: u8) < 256"
  using unsigned_less [of x, where ?'a = nat] by simp

lemma unat_ucast_up:
  assumes "LENGTH('a::len) \<le> LENGTH('b::len)"
  shows "unat (ucast (x :: 'a word) :: 'b word) = unat x"
proof -
  have "unat x < 2 ^ LENGTH('b)"
    using unsigned_less [of x, where ?'a = nat] assms
    by (meson less_le_trans one_le_numeral power_increasing)
  then show ?thesis by (simp add: unsigned_ucast_eq take_bit_nat_eq_self)
qed

lemma unat_to_u128_u64 [simp, unat_simps]: "unat (to_u128 (x :: u64)) = unat x"
  unfolding to_u128_def by (rule unat_ucast_up) simp

lemma unat_to_u128_u16 [simp, unat_simps]: "unat (to_u128 (x :: u16)) = unat x"
  unfolding to_u128_def by (rule unat_ucast_up) simp

lemma unat_as_u64 [unat_simps]: "unat (as_u64 (x :: u128)) = unat x mod U64_LIMIT"
  by (simp add: as_u64_def unsigned_ucast_eq take_bit_eq_mod)

lemma unat_as_u64_small: "unat (x :: u128) < U64_LIMIT \<Longrightarrow> unat (as_u64 x) = unat x"
  by (simp add: unat_as_u64)

lemma to_u128_0 [simp]: "to_u128 0 = 0"
  by (simp add: to_u128_def)

lemma to_u128_eq_0 [simp]: "to_u128 (x :: u64) = 0 \<longleftrightarrow> x = 0"
  by (metis unat_0_iff unat_to_u128_u64)

lemma to_u128_le [simp]: "to_u128 (x :: u64) \<le> to_u128 y \<longleftrightarrow> x \<le> y"
  by (simp add: word_le_nat_alt)

lemma as_u64_to_u128 [simp]: "as_u64 (to_u128 (x :: u64)) = x"
  by (rule unsigned_word_eqI [where ?'a = nat]) (simp add: unat_as_u64)

lemma try_u64_Some [res_simps]: "try_u64 x = Some y \<longleftrightarrow> unat y = unat x"
proof -
  have lim: "(x < 2 ^ 64) = (unat x < U64_LIMIT)"
    by (simp add: word_less_nat_alt)
  show ?thesis
  proof (cases "unat x < U64_LIMIT")
    case True
    then have u: "unat (ucast x :: u64) = unat x"
      using unat_as_u64_small by (simp add: as_u64_def)
    show ?thesis
      using True u unfolding try_u64_def lim by (auto simp: word_unat_eq_iff)
  next
    case False
    moreover have "unat y < U64_LIMIT"
      using unsigned_less [of y, where ?'a = nat] by simp
    ultimately have "unat y \<noteq> unat x" by linarith
    with False show ?thesis
      unfolding try_u64_def lim by simp
  qed
qed

lemma try_u64_None [res_simps]: "try_u64 x = None \<longleftrightarrow> U64_LIMIT \<le> unat x"
  by (auto simp: try_u64_def word_less_nat_alt)

lemma checked_add_Some [res_simps]:
  "checked_add (a :: 'a::len word) b = Some c \<longleftrightarrow> unat c = unat a + unat b"
proof -
  have "unat (a + b) = unat a + unat b" if "unat a + unat b < 2 ^ LENGTH('a)"
    using that by (simp add: unat_add_lem [THEN iffD1])
  moreover have "unat c < 2 ^ LENGTH('a)" by (rule unsigned_less)
  ultimately show ?thesis
    unfolding checked_add_def word_unat_eq_iff option.inject if_split_asm
    by (metis option.distinct(1) option.inject word_unat_eq_iff)
qed

lemma checked_add_None [res_simps]:
  "checked_add (a :: 'a::len word) b = None \<longleftrightarrow> 2 ^ LENGTH('a) \<le> unat a + unat b"
  by (auto simp: checked_add_def)

lemma checked_sub_Some [res_simps]:
  "checked_sub a b = Some c \<longleftrightarrow> unat b \<le> unat a \<and> unat c = unat a - unat b"
  by (auto simp: checked_sub_def word_le_nat_alt word_unat_eq_iff unat_sub)

lemma checked_sub_None [res_simps]: "checked_sub a b = None \<longleftrightarrow> unat a < unat b"
  by (auto simp: checked_sub_def word_le_nat_alt)

lemma checked_mul_Some [res_simps]:
  "checked_mul (a :: 'a::len word) b = Some c \<longleftrightarrow> unat c = unat a * unat b"
proof -
  have "unat (a * b) = unat a * unat b" if "unat a * unat b < 2 ^ LENGTH('a)"
    using that by (simp add: unat_mult_lem [THEN iffD1])
  moreover have "unat c < 2 ^ LENGTH('a)" by (rule unsigned_less)
  ultimately show ?thesis
    unfolding checked_mul_def word_unat_eq_iff option.inject if_split_asm
    by (metis option.distinct(1) option.inject word_unat_eq_iff)
qed

lemma checked_mul_None [res_simps]:
  "checked_mul (a :: 'a::len word) b = None \<longleftrightarrow> 2 ^ LENGTH('a) \<le> unat a * unat b"
  by (auto simp: checked_mul_def)

lemma checked_div_Some [res_simps]:
  "checked_div a b = Some c \<longleftrightarrow> b \<noteq> 0 \<and> unat c = unat a div unat b"
  by (auto simp: checked_div_def word_unat_eq_iff unat_div)

lemma checked_div_None [res_simps]: "checked_div a b = None \<longleftrightarrow> b = 0"
  by (simp add: checked_div_def)

lemma opt_filter_Some [res_simps]: "opt_filter P x = Some v \<longleftrightarrow> x = Some v \<and> P v"
  by (auto simp: opt_filter_def split: option.splits)

lemma opt_filter_None [res_simps]:
  "opt_filter P x = None \<longleftrightarrow> (\<forall>v. x = Some v \<longrightarrow> \<not> P v)"
  by (auto simp: opt_filter_def split: option.splits)

text \<open>The checked operations are evaluated on integers.\<close>

lemma checked_add_code [code]:
  "checked_add (a :: 'a::len word) b =
     (if uint a + uint b < 2 ^ LENGTH('a) then Some (a + b) else None)"
proof -
  have "unat a + unat b < 2 ^ LENGTH('a) \<longleftrightarrow> uint a + uint b < 2 ^ LENGTH('a)"
    using of_nat_less_iff [of "unat a + unat b" "2 ^ LENGTH('a)", where ?'a = int] by simp
  then show ?thesis by (simp add: checked_add_def)
qed

lemma checked_mul_code [code]:
  "checked_mul (a :: 'a::len word) b =
     (if uint a * uint b < 2 ^ LENGTH('a) then Some (a * b) else None)"
proof -
  have "unat a * unat b < 2 ^ LENGTH('a) \<longleftrightarrow> uint a * uint b < 2 ^ LENGTH('a)"
    using of_nat_less_iff [of "unat a * unat b" "2 ^ LENGTH('a)", where ?'a = int] by simp
  then show ?thesis by (simp add: checked_mul_def)
qed

lemma ex_word: "n < 2 ^ LENGTH('a::len) \<Longrightarrow> \<exists>w :: 'a word. unat w = n"
  by (rule exI [of _ "word_of_nat n"]) (simp add: unat_of_nat)

text \<open>Signed reading of a 128-bit word.\<close>

lemma sint_u128:
  "sint (w :: u128) = (if unat w < 2 ^ 127 then int (unat w) else int (unat w) - 2 ^ 128)"
proof -
  obtain n where n: "uint w = int n" "unat w = n"
    by (metis of_nat_unat)
  have s: "sint w = (int n + 2 ^ 127) mod 2 ^ 128 - 2 ^ 127"
    by (simp add: sint_uint signed_take_bit_eq_take_bit_shift take_bit_eq_mod n)
  have n2: "n < 2 ^ 128" using u128_bound [of w] by (simp add: n del: u128_bound)
  show ?thesis
  proof (cases "n < 2 ^ 127")
    case True
    then have "(int n + 2 ^ 127) mod 2 ^ 128 = int n + 2 ^ 127"
      by (intro mod_pos_pos_trivial) simp_all
    with True s n show ?thesis by simp
  next
    case False
    have e: "int n + 2 ^ 127 = int n - 2 ^ 127 + 1 * 2 ^ 128" by simp
    have "(int n + 2 ^ 127) mod 2 ^ 128 = (int n - 2 ^ 127) mod 2 ^ 128"
      by (simp only: e mod_mult_self1)
    also have "\<dots> = int n - 2 ^ 127"
      using False n2 by (intro mod_pos_pos_trivial) simp_all
    finally show ?thesis using False s n by simp
  qed
qed

lemma sint_u128_neg: "sint (w :: u128) < 0 \<longleftrightarrow> 2 ^ 127 \<le> unat w"
proof -
  have "int (unat w) < 2 ^ 128" using uint_lt2p [of w] by simp
  then show ?thesis by (simp add: sint_u128)
qed

lemma signed_sub_neg:
  assumes a: "unat (a :: u128) < 2 ^ 127" and b: "unat (b :: u128) < 2 ^ 127"
  shows "sint (a - b) < 0 \<longleftrightarrow> unat a < unat b"
proof (cases "unat b \<le> unat a")
  case True
  then have "unat (a - b) = unat a - unat b" by (simp add: unat_sub word_le_nat_alt)
  then have "\<not> 2 ^ 127 \<le> unat (a - b)" using a by linarith
  with True show ?thesis by (simp add: sint_u128_neg)
next
  case False
  then have "unat (a - b) = unat a + 2 ^ 128 - unat b"
    by (simp add: unat_sub_if' word_le_nat_alt)
  then have "2 ^ 127 \<le> unat (a - b)" using b by simp
  with False show ?thesis by (simp add: sint_u128_neg)
qed

text \<open>Unchecked operations that do not wrap.\<close>

lemma unat_add_exact:
  "unat (a :: 'a::len word) + unat b < 2 ^ LENGTH('a) \<Longrightarrow> unat (a + b) = unat a + unat b"
  by (rule unat_add_lem [THEN iffD1])

lemma unat_mult_exact:
  "unat (a :: 'a::len word) * unat b < 2 ^ LENGTH('a) \<Longrightarrow> unat (a * b) = unat a * unat b"
  by (rule unat_mult_lem [THEN iffD1])

lemma mult_u64_bound:
  assumes "a < U64_LIMIT" and "b < U64_LIMIT"
  shows "a * b \<le> (U64_LIMIT - 1) * (U64_LIMIT - 1)"
  using assms by (intro mult_le_mono) auto

lemma unat_mult_u64 [unat_simps]:
  "unat (to_u128 (a :: u64) * to_u128 (b :: u64)) = unat a * unat b"
proof -
  have "unat a * unat b \<le> (U64_LIMIT - 1) * (U64_LIMIT - 1)"
    by (rule mult_u64_bound) simp_all
  then show ?thesis by (subst unat_mult_exact) simp_all
qed

lemma unat_add_u64 [unat_simps]:
  "unat (to_u128 (a :: u64) + to_u128 (b :: u64)) = unat a + unat b"
proof -
  have "unat a + unat b < 18446744073709551616 + 18446744073709551616"
    by (rule add_strict_mono) simp_all
  then show ?thesis by (subst unat_add_exact) simp_all
qed

section \<open>Results\<close>

text \<open>
  A Rust \<open>Result\<close> or a panic: \<open>Inr\<close> is \<open>Ok\<close>, \<open>Inl (Error x)\<close> is \<open>Err(x)\<close>
  and \<open>Inl Panic\<close> is a panic of the code (a division by zero, an index out of
  range, a failed \<open>expect\<close>), which ends the call whatever the caller does.
\<close>

datatype 'e fault = Error 'e | Panic

type_synonym ('e, 'a) res = "'e fault + 'a"

abbreviation Ok :: "'a \<Rightarrow> ('e, 'a) res" where "Ok \<equiv> Inr"
abbreviation Err :: "'e \<Rightarrow> ('e, 'a) res" where "Err x \<equiv> Inl (Error x)"
abbreviation panic :: "('e, 'a) res" where "panic \<equiv> Inl Panic"

text \<open>\<open>m?\<close> followed by the rest of the body; \<open>Option::ok_or\<close>; \<open>Result::map\<close>.\<close>

definition and_then :: "('e, 'a) res \<Rightarrow> ('a \<Rightarrow> ('e, 'b) res) \<Rightarrow> ('e, 'b) res" where
  "and_then m k = (case m of Inl f \<Rightarrow> Inl f | Inr x \<Rightarrow> k x)"

definition ok_or :: "'a option \<Rightarrow> 'e \<Rightarrow> ('e, 'a) res" where
  "ok_or x err = (case x of None \<Rightarrow> Err err | Some v \<Rightarrow> Ok v)"

definition map_res :: "('a \<Rightarrow> 'b) \<Rightarrow> ('e, 'a) res \<Rightarrow> ('e, 'b) res" where
  "map_res f m = (case m of Inl x \<Rightarrow> Inl x | Inr x \<Rightarrow> Ok (f x))"

lemma and_then_simps [simp]:
  "and_then (Inl f) k = Inl f" "and_then (Inr x) k = k x"
  by (simp_all add: and_then_def)

lemma and_then_Inr [res_simps]:
  "and_then m k = Inr y \<longleftrightarrow> (\<exists>x. m = Inr x \<and> k x = Inr y)"
  by (cases m) auto

lemma and_then_Inl [res_simps]:
  "and_then m k = Inl f \<longleftrightarrow> m = Inl f \<or> (\<exists>x. m = Inr x \<and> k x = Inl f)"
  by (cases m) auto

lemma ok_or_simps [simp]:
  "ok_or None err = Err err" "ok_or (Some v) err = Ok v"
  by (simp_all add: ok_or_def)

lemma ok_or_Inr [res_simps]: "ok_or x err = Inr v \<longleftrightarrow> x = Some v"
  by (cases x) auto

lemma ok_or_Inl [res_simps]: "ok_or x err = Inl f \<longleftrightarrow> x = None \<and> f = Error err"
  by (cases x) auto

lemma map_res_simps [simp]:
  "map_res g (Inl f) = Inl f" "map_res g (Inr x) = Inr (g x)"
  by (simp_all add: map_res_def)

lemma map_res_Inr [res_simps]: "map_res g m = Inr y \<longleftrightarrow> (\<exists>x. m = Inr x \<and> y = g x)"
  by (cases m) auto

lemma if_Inl_Inr [res_simps]:
  "(if b then Inl f else m) = Inr y \<longleftrightarrow> \<not> b \<and> m = Inr y"
  by simp

section \<open>Natural-number arithmetic of the quotes\<close>

text \<open>Ceiling division, the nat counterpart of \<open>u128::div_ceil\<close>.\<close>

definition cdiv :: "nat \<Rightarrow> nat \<Rightarrow> nat" where
  "cdiv a b = a div b + (if a mod b = 0 then 0 else 1)"

lemma cdiv_ge: "0 < b \<Longrightarrow> a \<le> cdiv a b * b"
proof -
  assume "0 < b"
  then have "a mod b \<le> b" by simp
  moreover have "a = a div b * b + a mod b" by simp
  ultimately have "a \<le> a div b * b + b" by linarith
  then show ?thesis
    unfolding cdiv_def by (auto simp: add_mult_distrib)
qed

lemma cdiv_lt: "0 < b \<Longrightarrow> cdiv a b * b < a + b"
proof -
  assume "0 < b"
  moreover have "a div b * b \<le> a" by simp
  moreover have "a mod b \<noteq> 0 \<Longrightarrow> a div b * b < a"
    using div_mult_mod_eq [of a b] by linarith
  ultimately show ?thesis by (auto simp: cdiv_def)
qed

lemma cdiv_le_iff: "0 < b \<Longrightarrow> cdiv a b \<le> c \<longleftrightarrow> a \<le> c * b"
proof
  assume b: "0 < b" and "cdiv a b \<le> c"
  then have "cdiv a b * b \<le> c * b" by simp
  with cdiv_ge [OF b, of a] show "a \<le> c * b" by linarith
next
  assume b: "0 < b" and a: "a \<le> c * b"
  with cdiv_lt [OF b, of a] have "cdiv a b * b < (c + 1) * b"
    by (simp add: algebra_simps)
  then show "cdiv a b \<le> c" by (simp only: mult_less_cancel2) linarith
qed

lemma cdiv_0 [simp]: "cdiv 0 b = 0"
  by (simp add: cdiv_def)

lemma cdiv_le_self: "0 < b \<Longrightarrow> cdiv a b \<le> a"
  by (subst cdiv_le_iff) auto

lemma div_le_iff_mult: "0 < (b::nat) \<Longrightarrow> c \<le> a div b \<longleftrightarrow> c * b \<le> a"
  by (simp add: less_eq_div_iff_mult_less_eq)

end
