(* ===== verification/Accounts.thy ===== *)
theory Accounts
  imports Prelude
begin

text \<open>
  On-chain accounts the SDK reads (\<open>src/src/state.rs\<close>, whose structs are the ones of
  \<open>src/idls/pump.json\<close> and \<open>src/idls/pump_amm.json\<close>), public keys and the program
  ids and mints of \<open>src/src/constants.rs\<close>. \<open>AccountWrapper<T>\<close> is a transparent
  newtype around \<open>T\<close>, so an account is its struct here; its decoding is modelled apart.
  Fields shared by several structs carry a prefix (\<open>bc_\<close> bonding curve, \<open>g_\<close> pump
  global, \<open>fc_\<close> fee config, \<open>gc_\<close> pump-amm global config, \<open>p_\<close> pool,
  \<open>qc_\<close> quote control).
\<close>

section \<open>Public keys\<close>

text \<open>
  A \<open>Pubkey\<close> is 32 bytes, ordered and compared as bytes: a 256-bit word read
  big-endian, whose order is the byte order. \<open>Pubkey::default()\<close> is all zero.
\<close>

type_synonym pubkey = "256 word"

abbreviation default_key :: pubkey where "default_key \<equiv> 0"

text \<open>The low \<open>n\<close> bytes of a word, least significant first, and \<open>AsRef<[u8]>\<close>: the 32
  bytes of a key, most significant first.\<close>

primrec le_bytes :: "nat \<Rightarrow> 'a::len word \<Rightarrow> byte list" where
  "le_bytes 0 k = []"
| "le_bytes (Suc n) k = ucast k # le_bytes n (k div 256)"

definition key_bytes :: "pubkey \<Rightarrow> byte list" where
  "key_bytes k = rev (le_bytes 32 k)"

definition bytes_of_string :: "string \<Rightarrow> byte list" where
  "bytes_of_string s = map (\<lambda>c. of_nat (of_char c)) s"

section \<open>Constants\<close>

text \<open>Base58 addresses are given by the number they denote.\<close>

\<comment> \<open>\<open>So11111111111111111111111111111111111111112\<close>\<close>
definition NATIVE_MINT :: pubkey where
  "NATIVE_MINT = 0x069b8857feab8184fb687f634618c035dac439dc1aeb3b5598a0f00000000001"

\<comment> \<open>\<open>EPjFWdd5AufqSSqeM2qN1xzybapC8G4wEGGkZwyTDt1v\<close>\<close>
definition USDC_MINT :: pubkey where
  "USDC_MINT = 0xc6fa7af3bedbad3a3d65f36aabc97431b1bbe4c2d2f6e0e47ca60203452f5d61"

\<comment> \<open>\<open>6EF8rrecthR5Dkzon8Nwu78hRvfCKubJ14M5uBEwF6P\<close>\<close>
definition PUMP_PROGRAM_ID :: pubkey where
  "PUMP_PROGRAM_ID = 0x0156e0f693665acf44db1568bf175baa5189cb97f5d2ff3b655d2bb6fd6d18b0"

\<comment> \<open>\<open>pAMMBay6oceH9fJKBRHGP5D4bD4sWpmSwMn52FMfXEA\<close>\<close>
definition PUMP_AMM_PROGRAM_ID :: pubkey where
  "PUMP_AMM_PROGRAM_ID = 0x0c14defc825ec67694250818bb654065f4298d3156d571b4d4f8090c18e9a863"

\<comment> \<open>\<open>AgenTMiC2hvxGebTsgmsD4HHBa8WEcqGFf87iwRRxLo7\<close>\<close>
definition AGENT_PAYMENTS_PROGRAM_ID :: pubkey where
  "AGENT_PAYMENTS_PROGRAM_ID = 0x8fe18e5987ab2aa40a6062aa3b99cfceda5d453665954371e92349750bd93736"

\<comment> \<open>\<open>pfeeUxB6jkeY1Hxd7CsFCAjcbHA9rWtchMGdZ6VojVZ\<close>\<close>
definition FEE_PROGRAM_ID :: pubkey where
  "FEE_PROGRAM_ID = 0x0c35ffa9055a8e568da8f7bc075615274cf1c92ca41f40009c516aa414c27c70"

\<comment> \<open>\<open>MAyhSmzXzV1pTf7LsNkrNwkWKTo4ougAJ1PPg47MD4e\<close>\<close>
definition MAYHEM_PROGRAM_ID :: pubkey where
  "MAYHEM_PROGRAM_ID = 0x052ae5d7a7daa724a6eab0a7295491855ad4a0671660674c4e034559803d65a3"

\<comment> \<open>\<open>SysvarRent111111111111111111111111111111111\<close>\<close>
definition RENT_SYSVAR_ID :: pubkey where
  "RENT_SYSVAR_ID = 0x06a7d517192c5c51218cc94c3d4af17f58daee089ba1fd44e3dbd98a00000000"

section \<open>Account structs\<close>

record fees =
  lp_fee_bps :: u64
  protocol_fee_bps :: u64
  creator_fee_bps :: u64

record fee_tier =
  market_cap_lamports_threshold :: u128
  tier_fees :: fees

record fee_config =
  fc_bump :: u8
  fc_admin :: pubkey
  flat_fees :: fees
  fee_tiers :: "fee_tier list"
  stable_fee_tiers :: "fee_tier list"
  exotic_flat_fees :: fees

record bonding_curve =
  virtual_token_reserves :: u64
  virtual_quote_reserves :: u64
  real_token_reserves :: u64
  real_quote_reserves :: u64
  bc_token_total_supply :: u64
  complete :: bool
  bc_creator :: pubkey
  bc_is_mayhem_mode :: bool
  bc_is_cashback_coin :: bool
  bc_quote_mint :: pubkey
  bc_creator_fee_bps :: u64
  bc_can_edit_creator_fee :: bool
  bc_is_holder_reward :: bool
  bc_creator_fee :: u64
  bc_protocol_fees :: u64
  depth :: u8
  bc_initial_virtual_quote_reserves :: u64
  post_complete_base_out :: u64
  post_complete_quote_in :: u64

record global =
  g_initialized :: bool
  g_authority :: pubkey
  g_fee_recipient :: pubkey
  g_initial_virtual_token_reserves :: u64
  g_initial_virtual_sol_reserves :: u64
  g_initial_real_token_reserves :: u64
  g_token_total_supply :: u64
  g_fee_basis_points :: u64
  g_withdraw_authority :: pubkey
  g_enable_migrate :: bool
  g_pool_migration_fee :: u64
  g_creator_fee_basis_points :: u64
  g_fee_recipients :: "pubkey list"
  g_set_creator_authority :: pubkey
  g_admin_set_creator_authority :: pubkey
  g_create_v2_enabled :: bool
  g_whitelist_pda :: pubkey
  g_reserved_fee_recipient :: pubkey
  g_mayhem_mode_enabled :: bool
  g_reserved_fee_recipients :: "pubkey list"
  g_is_cashback_enabled :: bool
  g_buyback_fee_recipients :: "pubkey list"
  g_buyback_basis_points :: u64
  g_initial_virtual_quote_reserves :: u64
  g_whitelisted_quote_mints :: "pubkey list"
  g_creator_fee_configurable :: bool
  g_max_configurable_creator_fee_bps :: u64
  g_holder_reward_claim_authority :: pubkey
  g_is_holder_reward_enabled :: bool
  g_max_curve_depth :: u8

record quote_control_mint =
  qcm_mint :: pubkey
  qcm_initial_virtual_quote_reserves :: u64

record quote_control =
  qc_admin :: pubkey
  qc_reserves_admin :: pubkey
  qc_reserved :: "byte list"
  qc_mints :: "quote_control_mint list"

record global_config =
  gc_admin :: pubkey
  gc_lp_fee_basis_points :: u64
  gc_protocol_fee_basis_points :: u64
  gc_disable_flags :: u8
  gc_protocol_fee_recipients :: "pubkey list"
  gc_coin_creator_fee_basis_points :: u64
  gc_admin_set_coin_creator_authority :: pubkey
  gc_whitelist_pda :: pubkey
  gc_reserved_fee_recipient :: pubkey
  gc_mayhem_mode_enabled :: bool
  gc_reserved_fee_recipients :: "pubkey list"
  gc_is_cashback_enabled :: bool
  gc_buyback_fee_recipients :: "pubkey list"
  gc_buyback_basis_points :: u64
  gc_boost_authority :: pubkey
  gc_boost_enabled :: bool
  gc_creator_fee_configurable :: bool
  gc_max_configurable_creator_fee_bps :: u64

record pool =
  p_pool_bump :: u8
  p_index :: u16
  p_creator :: pubkey
  p_base_mint :: pubkey
  p_quote_mint :: pubkey
  p_lp_mint :: pubkey
  p_pool_base_token_account :: pubkey
  p_pool_quote_token_account :: pubkey
  p_lp_supply :: u64
  p_coin_creator :: pubkey
  p_is_mayhem_mode :: bool
  p_is_cashback_coin :: bool
  p_virtual_quote_reserves :: i128
  p_creator_fee_bps :: u64
  p_can_edit_creator_fee :: bool
  p_is_holder_reward :: bool
  p_protocol_fees :: u64
  p_creator_fees :: u64

text \<open>\<open>Default::default()\<close> of the generated structs: every field zero, every array of keys
  zero keys of its length.\<close>

definition default_fees :: fees where
  "default_fees = \<lparr>lp_fee_bps = 0, protocol_fee_bps = 0, creator_fee_bps = 0\<rparr>"

definition default_bonding_curve :: bonding_curve where
  "default_bonding_curve = \<lparr>virtual_token_reserves = 0, virtual_quote_reserves = 0,
     real_token_reserves = 0, real_quote_reserves = 0, bc_token_total_supply = 0,
     complete = False, bc_creator = default_key, bc_is_mayhem_mode = False,
     bc_is_cashback_coin = False, bc_quote_mint = default_key, bc_creator_fee_bps = 0,
     bc_can_edit_creator_fee = False, bc_is_holder_reward = False, bc_creator_fee = 0,
     bc_protocol_fees = 0, depth = 0, bc_initial_virtual_quote_reserves = 0,
     post_complete_base_out = 0, post_complete_quote_in = 0\<rparr>"

definition default_global :: global where
  "default_global = \<lparr>g_initialized = False, g_authority = default_key,
     g_fee_recipient = default_key, g_initial_virtual_token_reserves = 0,
     g_initial_virtual_sol_reserves = 0, g_initial_real_token_reserves = 0,
     g_token_total_supply = 0, g_fee_basis_points = 0, g_withdraw_authority = default_key,
     g_enable_migrate = False, g_pool_migration_fee = 0, g_creator_fee_basis_points = 0,
     g_fee_recipients = replicate 7 default_key, g_set_creator_authority = default_key,
     g_admin_set_creator_authority = default_key, g_create_v2_enabled = False,
     g_whitelist_pda = default_key, g_reserved_fee_recipient = default_key,
     g_mayhem_mode_enabled = False, g_reserved_fee_recipients = replicate 7 default_key,
     g_is_cashback_enabled = False, g_buyback_fee_recipients = replicate 8 default_key,
     g_buyback_basis_points = 0, g_initial_virtual_quote_reserves = 0,
     g_whitelisted_quote_mints = replicate 1 default_key, g_creator_fee_configurable = False,
     g_max_configurable_creator_fee_bps = 0, g_holder_reward_claim_authority = default_key,
     g_is_holder_reward_enabled = False, g_max_curve_depth = 0\<rparr>"

definition default_global_config :: global_config where
  "default_global_config = \<lparr>gc_admin = default_key, gc_lp_fee_basis_points = 0,
     gc_protocol_fee_basis_points = 0, gc_disable_flags = 0,
     gc_protocol_fee_recipients = replicate 8 default_key,
     gc_coin_creator_fee_basis_points = 0, gc_admin_set_coin_creator_authority = default_key,
     gc_whitelist_pda = default_key, gc_reserved_fee_recipient = default_key,
     gc_mayhem_mode_enabled = False, gc_reserved_fee_recipients = replicate 7 default_key,
     gc_is_cashback_enabled = False, gc_buyback_fee_recipients = replicate 8 default_key,
     gc_buyback_basis_points = 0, gc_boost_authority = default_key, gc_boost_enabled = False,
     gc_creator_fee_configurable = False, gc_max_configurable_creator_fee_bps = 0\<rparr>"

definition default_pool :: pool where
  "default_pool = \<lparr>p_pool_bump = 0, p_index = 0, p_creator = default_key,
     p_base_mint = default_key, p_quote_mint = default_key, p_lp_mint = default_key,
     p_pool_base_token_account = default_key, p_pool_quote_token_account = default_key,
     p_lp_supply = 0, p_coin_creator = default_key, p_is_mayhem_mode = False,
     p_is_cashback_coin = False, p_virtual_quote_reserves = 0, p_creator_fee_bps = 0,
     p_can_edit_creator_fee = False, p_is_holder_reward = False, p_protocol_fees = 0,
     p_creator_fees = 0\<rparr>"

lemmas account_defaults =
  default_fees_def default_bonding_curve_def default_global_def
  default_global_config_def default_pool_def

lemmas key_constants =
  NATIVE_MINT_def USDC_MINT_def PUMP_PROGRAM_ID_def PUMP_AMM_PROGRAM_ID_def
  AGENT_PAYMENTS_PROGRAM_ID_def FEE_PROGRAM_ID_def MAYHEM_PROGRAM_ID_def RENT_SYSVAR_ID_def

text \<open>The quote mints the fee schedule distinguishes are distinct, and neither is the zero
  key.\<close>

lemma quote_mints_distinct [simp]:
  "NATIVE_MINT \<noteq> default_key" "USDC_MINT \<noteq> default_key" "USDC_MINT \<noteq> NATIVE_MINT"
  "NATIVE_MINT \<noteq> USDC_MINT"
  by (simp_all add: key_constants)

lemma length_le_bytes [simp]: "length (le_bytes n k) = n"
  by (induction n arbitrary: k) simp_all

lemma length_key_bytes [simp]: "length (key_bytes k) = 32"
  by (simp add: key_bytes_def)

section \<open>External functions of the pricing code\<close>

text \<open>
  Code the pricing relies on that is not part of the repository is a field of this
  environment: \<open>spl_token_2022::native_mint::ID\<close> and
  \<open>Pubkey::find_program_address(seeds, program)\<close>, which returns an address and its bump.
\<close>

record pda_env =
  token_2022_native_mint :: pubkey
  find_program_address :: "byte list list \<Rightarrow> pubkey \<Rightarrow> pubkey \<times> u8"

text \<open>An environment to evaluate the model on: the address of a derivation is the program plus a
  number made of the length of the seeds and their last byte. It stands for no real derivation.\<close>

definition sample_env :: pda_env where
  "sample_env = \<lparr>
     token_2022_native_mint = 0x8137f2e3,
     find_program_address = (\<lambda>seeds prog.
       (prog + 65536 * word_of_nat (length (concat seeds)) + ucast (last (last seeds)), 255))\<rparr>"

end
