(* ===== verification/Pda.thy ===== *)
theory Pda
  imports Accounts
begin

text \<open>
  The seeds of \<open>src/src/constants.rs\<close> and the address derivations of
  \<open>src/src/pda.rs\<close>. \<open>find_program_address\<close> itself is a field of the environment; that
  the bytes hashed for two derivations differ is shown in \<open>Pda_Separation\<close>.
\<close>

section \<open>Constants\<close>

\<comment> \<open>\<open>TokenkegQfeZyiNwAJbNbGKPFXCWuBvf9Ss623VQ5DA\<close>\<close>
definition SPL_TOKEN_PROGRAM_ID :: pubkey where
  "SPL_TOKEN_PROGRAM_ID = 0x06ddf6e1d765a193d9cbe146ceeb79ac1cb485ed5f5b37913a8cf5857eff00a9"

\<comment> \<open>\<open>TokenzQdBNbLqP5VEhdkAS6EPFLC1PHnBqCXEpPxuEb\<close>\<close>
definition SPL_TOKEN_2022_PROGRAM_ID :: pubkey where
  "SPL_TOKEN_2022_PROGRAM_ID =
     0x06ddf6e1ee758fde18425dbce46ccddab61afc4d83b90d27febdf928d8a18bfc"

\<comment> \<open>\<open>ATokenGPvbdGVxr1b2hvZbsiqW5xWH25efTNsLJA8knL\<close>\<close>
definition SPL_ATA_PROGRAM_ID :: pubkey where
  "SPL_ATA_PROGRAM_ID = 0x8c97258f4e2489f1bb3d1029148e0d830b5a1399daff1084048e7bd8dbe9f859"

\<comment> \<open>\<open>metaqbxxUerdq28cj1RbAWkYQm3ybzjb6a8bt518x1s\<close>\<close>
definition MPL_TOKEN_METADATA_PROGRAM_ID :: pubkey where
  "MPL_TOKEN_METADATA_PROGRAM_ID =
     0x0b7065b1e3d17c45389d527f6b04c3cd58b86c731aa0fdb549b6d1bc03f82946"

\<comment> \<open>\<open>system_program::ID\<close>: \<open>11111111111111111111111111111111\<close>\<close>
definition SYSTEM_PROGRAM_ID :: pubkey where
  "SYSTEM_PROGRAM_ID = 0"

\<comment> \<open>\<open>Hyif6eWb8x88RVrvjPfabsgRYnwkVnyByEXTVTXbUcyP\<close> and
  \<open>7Je3GuLHSXZT6oC96EuAKTH8LsMhvC32z72cqVxUnvR7\<close>\<close>
definition MAINNET_ALT :: pubkey where
  "MAINNET_ALT = 0xfc429e205e87a740e2accd85adbc11b0c511814754cb4e7ef3c8c2a6e5c2a24a"

definition DEVNET_ALT :: pubkey where
  "DEVNET_ALT = 0x5daae02c9a986da1963c3c33136e0c36d3af8080ffa4ef7fd166391f8aed7102"

lemmas program_id_defs =
  SPL_TOKEN_PROGRAM_ID_def SPL_TOKEN_2022_PROGRAM_ID_def SPL_ATA_PROGRAM_ID_def
  MPL_TOKEN_METADATA_PROGRAM_ID_def SYSTEM_PROGRAM_ID_def

definition GLOBAL_SEED :: "byte list" where "GLOBAL_SEED = bytes_of_string ''global''"
definition QUOTE_CONTROL_SEED :: "byte list" where
  "QUOTE_CONTROL_SEED = bytes_of_string ''quote-control''"
definition BONDING_CURVE_SEED :: "byte list" where
  "BONDING_CURVE_SEED = bytes_of_string ''bonding-curve''"
definition BONDING_CURVE_V2_SEED :: "byte list" where
  "BONDING_CURVE_V2_SEED = bytes_of_string ''bonding-curve-v2''"
definition CREATOR_VAULT_SEED :: "byte list" where
  "CREATOR_VAULT_SEED = bytes_of_string ''creator-vault''"
definition EVENT_AUTHORITY_SEED :: "byte list" where
  "EVENT_AUTHORITY_SEED = bytes_of_string ''__event_authority''"
definition MINT_AUTHORITY_SEED :: "byte list" where
  "MINT_AUTHORITY_SEED = bytes_of_string ''mint-authority''"
definition POOL_AUTHORITY_SEED :: "byte list" where
  "POOL_AUTHORITY_SEED = bytes_of_string ''pool-authority''"
definition GLOBAL_VOLUME_ACCUMULATOR_SEED :: "byte list" where
  "GLOBAL_VOLUME_ACCUMULATOR_SEED = bytes_of_string ''global_volume_accumulator''"
definition USER_VOLUME_ACCUMULATOR_SEED :: "byte list" where
  "USER_VOLUME_ACCUMULATOR_SEED = bytes_of_string ''user_volume_accumulator''"
definition METADATA_SEED :: "byte list" where "METADATA_SEED = bytes_of_string ''metadata''"
definition FEE_CONFIG_SEED :: "byte list" where "FEE_CONFIG_SEED = bytes_of_string ''fee_config''"
definition SHARING_CONFIG_SEED :: "byte list" where
  "SHARING_CONFIG_SEED = bytes_of_string ''sharing-config''"
definition AMM_GLOBAL_CONFIG_SEED :: "byte list" where
  "AMM_GLOBAL_CONFIG_SEED = bytes_of_string ''global_config''"
definition POOL_SEED :: "byte list" where "POOL_SEED = bytes_of_string ''pool''"
definition POOL_LP_MINT_SEED :: "byte list" where
  "POOL_LP_MINT_SEED = bytes_of_string ''pool_lp_mint''"
definition AMM_CREATOR_VAULT_SEED :: "byte list" where
  "AMM_CREATOR_VAULT_SEED = bytes_of_string ''creator_vault''"
definition POOL_V2_SEED :: "byte list" where "POOL_V2_SEED = bytes_of_string ''pool-v2''"
definition BOOST_VAULT_AUTHORITY_SEED :: "byte list" where
  "BOOST_VAULT_AUTHORITY_SEED = bytes_of_string ''boost_vault''"
definition AGENT_GLOBAL_CONFIG_SEED :: "byte list" where
  "AGENT_GLOBAL_CONFIG_SEED = bytes_of_string ''global-config''"
definition TOKEN_AGENT_PAYMENTS_SEED :: "byte list" where
  "TOKEN_AGENT_PAYMENTS_SEED = bytes_of_string ''token-agent-payments''"
definition GLOBAL_PARAMS_SEED :: "byte list" where
  "GLOBAL_PARAMS_SEED = bytes_of_string ''global-params''"
definition SOL_VAULT_SEED :: "byte list" where "SOL_VAULT_SEED = bytes_of_string ''sol-vault''"
definition MAYHEM_STATE_SEED :: "byte list" where
  "MAYHEM_STATE_SEED = bytes_of_string ''mayhem-state''"

lemmas seed_defs =
  GLOBAL_SEED_def QUOTE_CONTROL_SEED_def BONDING_CURVE_SEED_def BONDING_CURVE_V2_SEED_def
  CREATOR_VAULT_SEED_def EVENT_AUTHORITY_SEED_def MINT_AUTHORITY_SEED_def
  POOL_AUTHORITY_SEED_def GLOBAL_VOLUME_ACCUMULATOR_SEED_def
  USER_VOLUME_ACCUMULATOR_SEED_def METADATA_SEED_def FEE_CONFIG_SEED_def
  SHARING_CONFIG_SEED_def AMM_GLOBAL_CONFIG_SEED_def POOL_SEED_def POOL_LP_MINT_SEED_def
  AMM_CREATOR_VAULT_SEED_def POOL_V2_SEED_def BOOST_VAULT_AUTHORITY_SEED_def
  AGENT_GLOBAL_CONFIG_SEED_def TOKEN_AGENT_PAYMENTS_SEED_def GLOBAL_PARAMS_SEED_def
  SOL_VAULT_SEED_def MAYHEM_STATE_SEED_def

section \<open>Derivations\<close>

definition associated_token :: "'e pda_env_scheme \<Rightarrow> pubkey \<Rightarrow> pubkey \<Rightarrow> pubkey \<Rightarrow> pubkey \<times> u8" where
  "associated_token e owner token_program mint =
     find_program_address e [key_bytes owner, key_bytes token_program, key_bytes mint]
       SPL_ATA_PROGRAM_ID"

subsection \<open>Program pump\<close>

definition pump_global :: "'e pda_env_scheme \<Rightarrow> pubkey \<times> u8" where
  "pump_global e = find_program_address e [GLOBAL_SEED] PUMP_PROGRAM_ID"

definition pump_quote_control :: "'e pda_env_scheme \<Rightarrow> pubkey \<times> u8" where
  "pump_quote_control e = find_program_address e [QUOTE_CONTROL_SEED] PUMP_PROGRAM_ID"

definition pump_bonding_curve :: "'e pda_env_scheme \<Rightarrow> pubkey \<Rightarrow> pubkey \<times> u8" where
  "pump_bonding_curve e mint =
     find_program_address e [BONDING_CURVE_SEED, key_bytes mint] PUMP_PROGRAM_ID"

definition pump_bonding_curve_v2 :: "'e pda_env_scheme \<Rightarrow> pubkey \<Rightarrow> pubkey \<times> u8" where
  "pump_bonding_curve_v2 e mint =
     find_program_address e [BONDING_CURVE_V2_SEED, key_bytes mint] PUMP_PROGRAM_ID"

definition pump_creator_vault :: "'e pda_env_scheme \<Rightarrow> pubkey \<Rightarrow> pubkey \<times> u8" where
  "pump_creator_vault e creator =
     find_program_address e [CREATOR_VAULT_SEED, key_bytes creator] PUMP_PROGRAM_ID"

definition pump_event_authority :: "'e pda_env_scheme \<Rightarrow> pubkey \<times> u8" where
  "pump_event_authority e = find_program_address e [EVENT_AUTHORITY_SEED] PUMP_PROGRAM_ID"

definition pump_mint_authority :: "'e pda_env_scheme \<Rightarrow> pubkey \<times> u8" where
  "pump_mint_authority e = find_program_address e [MINT_AUTHORITY_SEED] PUMP_PROGRAM_ID"

definition pool_authority :: "'e pda_env_scheme \<Rightarrow> pubkey \<Rightarrow> pubkey \<times> u8" where
  "pool_authority e mint =
     find_program_address e [POOL_AUTHORITY_SEED, key_bytes mint] PUMP_PROGRAM_ID"

definition pump_global_volume_accumulator :: "'e pda_env_scheme \<Rightarrow> pubkey \<times> u8" where
  "pump_global_volume_accumulator e =
     find_program_address e [GLOBAL_VOLUME_ACCUMULATOR_SEED] PUMP_PROGRAM_ID"

definition pump_user_volume_accumulator :: "'e pda_env_scheme \<Rightarrow> pubkey \<Rightarrow> pubkey \<times> u8" where
  "pump_user_volume_accumulator e user =
     find_program_address e [USER_VOLUME_ACCUMULATOR_SEED, key_bytes user] PUMP_PROGRAM_ID"

definition pump_fee_config :: "'e pda_env_scheme \<Rightarrow> pubkey \<times> u8" where
  "pump_fee_config e =
     find_program_address e [FEE_CONFIG_SEED, key_bytes PUMP_PROGRAM_ID] FEE_PROGRAM_ID"

definition pump_metadata :: "'e pda_env_scheme \<Rightarrow> pubkey \<Rightarrow> pubkey \<times> u8" where
  "pump_metadata e mint =
     find_program_address e
       [METADATA_SEED, key_bytes MPL_TOKEN_METADATA_PROGRAM_ID, key_bytes mint]
       MPL_TOKEN_METADATA_PROGRAM_ID"

definition pump_sharing_config :: "'e pda_env_scheme \<Rightarrow> pubkey \<Rightarrow> pubkey \<times> u8" where
  "pump_sharing_config e mint =
     find_program_address e [SHARING_CONFIG_SEED, key_bytes mint] FEE_PROGRAM_ID"

subsection \<open>Program mayhem\<close>

definition mayhem_global_params :: "'e pda_env_scheme \<Rightarrow> pubkey \<times> u8" where
  "mayhem_global_params e = find_program_address e [GLOBAL_PARAMS_SEED] MAYHEM_PROGRAM_ID"

definition mayhem_sol_vault :: "'e pda_env_scheme \<Rightarrow> pubkey \<times> u8" where
  "mayhem_sol_vault e = find_program_address e [SOL_VAULT_SEED] MAYHEM_PROGRAM_ID"

definition mayhem_state :: "'e pda_env_scheme \<Rightarrow> pubkey \<Rightarrow> pubkey \<times> u8" where
  "mayhem_state e mint =
     find_program_address e [MAYHEM_STATE_SEED, key_bytes mint] MAYHEM_PROGRAM_ID"

definition mayhem_token_vault :: "'e pda_env_scheme \<Rightarrow> pubkey \<Rightarrow> pubkey \<times> u8" where
  "mayhem_token_vault e mint =
     associated_token e (fst (mayhem_sol_vault e)) SPL_TOKEN_2022_PROGRAM_ID mint"

subsection \<open>Program pump_amm\<close>

definition amm_global_config :: "'e pda_env_scheme \<Rightarrow> pubkey \<times> u8" where
  "amm_global_config e = find_program_address e [AMM_GLOBAL_CONFIG_SEED] PUMP_AMM_PROGRAM_ID"

text \<open>\<open>u16::to_le_bytes\<close>.\<close>

definition u16_le_bytes :: "u16 \<Rightarrow> byte list" where
  "u16_le_bytes w = [ucast w, ucast (drop_bit 8 w)]"

definition amm_pool :: "'e pda_env_scheme \<Rightarrow> u16 \<Rightarrow> pubkey \<Rightarrow> pubkey \<Rightarrow> pubkey \<Rightarrow> pubkey \<times> u8" where
  "amm_pool e index creator base_mint quote_mint =
     find_program_address e
       [POOL_SEED, u16_le_bytes index, key_bytes creator, key_bytes base_mint,
        key_bytes quote_mint]
       PUMP_AMM_PROGRAM_ID"

definition canonical_pool :: "'e pda_env_scheme \<Rightarrow> pubkey \<Rightarrow> pubkey \<Rightarrow> pubkey \<times> u8" where
  "canonical_pool e base_mint quote_mint =
     (let creator = fst (pool_authority e base_mint)
      in amm_pool e 0 creator base_mint quote_mint)"

definition amm_lp_mint :: "'e pda_env_scheme \<Rightarrow> pubkey \<Rightarrow> pubkey \<times> u8" where
  "amm_lp_mint e pool =
     find_program_address e [POOL_LP_MINT_SEED, key_bytes pool] PUMP_AMM_PROGRAM_ID"

definition coin_creator_vault_authority :: "'e pda_env_scheme \<Rightarrow> pubkey \<Rightarrow> pubkey \<times> u8" where
  "coin_creator_vault_authority e coin_creator =
     find_program_address e [AMM_CREATOR_VAULT_SEED, key_bytes coin_creator]
       PUMP_AMM_PROGRAM_ID"

definition amm_event_authority :: "'e pda_env_scheme \<Rightarrow> pubkey \<times> u8" where
  "amm_event_authority e = find_program_address e [EVENT_AUTHORITY_SEED] PUMP_AMM_PROGRAM_ID"

definition amm_global_volume_accumulator :: "'e pda_env_scheme \<Rightarrow> pubkey \<times> u8" where
  "amm_global_volume_accumulator e =
     find_program_address e [GLOBAL_VOLUME_ACCUMULATOR_SEED] PUMP_AMM_PROGRAM_ID"

definition amm_user_volume_accumulator :: "'e pda_env_scheme \<Rightarrow> pubkey \<Rightarrow> pubkey \<times> u8" where
  "amm_user_volume_accumulator e user =
     find_program_address e [USER_VOLUME_ACCUMULATOR_SEED, key_bytes user] PUMP_AMM_PROGRAM_ID"

definition amm_pool_v2 :: "'e pda_env_scheme \<Rightarrow> pubkey \<Rightarrow> pubkey \<times> u8" where
  "amm_pool_v2 e base_mint =
     find_program_address e [POOL_V2_SEED, key_bytes base_mint] PUMP_AMM_PROGRAM_ID"

definition amm_fee_config :: "'e pda_env_scheme \<Rightarrow> pubkey \<times> u8" where
  "amm_fee_config e =
     find_program_address e [FEE_CONFIG_SEED, key_bytes PUMP_AMM_PROGRAM_ID] FEE_PROGRAM_ID"

definition boost_vault_authority :: "'e pda_env_scheme \<Rightarrow> pubkey \<Rightarrow> pubkey \<times> u8" where
  "boost_vault_authority e pool =
     find_program_address e [BOOST_VAULT_AUTHORITY_SEED, key_bytes pool] PUMP_AMM_PROGRAM_ID"

definition boost_vault :: "'e pda_env_scheme \<Rightarrow> pubkey \<Rightarrow> pubkey \<Rightarrow> pubkey \<Rightarrow> pubkey \<times> u8" where
  "boost_vault e pool quote_mint quote_token_program =
     associated_token e (fst (boost_vault_authority e pool)) quote_token_program quote_mint"

subsection \<open>Programs pump_fees and pump_agent_payments\<close>

definition fees_event_authority :: "'e pda_env_scheme \<Rightarrow> pubkey \<times> u8" where
  "fees_event_authority e = find_program_address e [EVENT_AUTHORITY_SEED] FEE_PROGRAM_ID"

definition agent_global_config :: "'e pda_env_scheme \<Rightarrow> pubkey \<times> u8" where
  "agent_global_config e =
     find_program_address e [AGENT_GLOBAL_CONFIG_SEED] AGENT_PAYMENTS_PROGRAM_ID"

definition token_agent_payments :: "'e pda_env_scheme \<Rightarrow> pubkey \<Rightarrow> pubkey \<times> u8" where
  "token_agent_payments e mint =
     find_program_address e [TOKEN_AGENT_PAYMENTS_SEED, key_bytes mint]
       AGENT_PAYMENTS_PROGRAM_ID"

definition agent_event_authority :: "'e pda_env_scheme \<Rightarrow> pubkey \<times> u8" where
  "agent_event_authority e =
     find_program_address e [EVENT_AUTHORITY_SEED] AGENT_PAYMENTS_PROGRAM_ID"

end
