(* ===== verification/Math_Utils.thy ===== *)
theory Math_Utils
  imports Prelude
begin

text \<open>
  \<open>src/src/math/mod.rs\<close> (the quote errors) and \<open>src/src/math/utils.rs\<close> (the numeric
  helpers of every quote): \<open>mul_div_u128\<close>, the constant-product swap and the slippage
  bounds. Each is characterised by its value on the natural numbers; \<open>const_product\<close> states
  what the swap promises a pool, and the quote theories use only that interface.
\<close>

section \<open>Errors\<close>

datatype quote_error =
    EmptyReserves
  | BaseOutExceedsReserve
  | FeesExceedOutput
  | DepletedBondingCurve
  | MathOverflow
  | InsufficientRealQuoteReserves
  | SlippageExceeded
  | ZeroAmount
  | EmptyFeeTiers
  | TradingDisabled
  | CurveDepthExceeded
  | QuoteCurveNotEligible
  | QuoteReservesOutOfRange
  | QuoteCurveAwaitingMigration
  | QuotePoolAccountsRequired
  | MultiHopDiscontinuousPath
  | MultiHopMixedDirection
  | VenueNotSupported
  | PostCompleteLegNotAllowed

type_synonym 'a quote_result = "(quote_error, 'a) res"

text \<open>\<open>impl Display for QuoteError\<close>.\<close>

fun display_quote_error :: "quote_error \<Rightarrow> string" where
  "display_quote_error EmptyReserves = ''pool reserves are zero''"
| "display_quote_error BaseOutExceedsReserve = ''base_out exceeds the pool's base reserve''"
| "display_quote_error FeesExceedOutput = ''fees exceed the pool's quote output''"
| "display_quote_error DepletedBondingCurve =
     ''bonding curve is depleted (real == virtual reserves)''"
| "display_quote_error MathOverflow = ''checked arithmetic overflowed''"
| "display_quote_error InsufficientRealQuoteReserves =
     ''pool quote vault cannot cover the payout''"
| "display_quote_error SlippageExceeded = ''market cap fell outside the slippage envelope''"
| "display_quote_error ZeroAmount = ''amount is zero after fees''"
| "display_quote_error EmptyFeeTiers = ''fee schedule has no tiers''"
| "display_quote_error TradingDisabled = ''trading is disabled on pump-amm''"
| "display_quote_error CurveDepthExceeded = ''curve depth exceeds Global.max_curve_depth''"
| "display_quote_error QuoteCurveNotEligible =
     ''quote coin's bonding curve is not eligible as a quote''"
| "display_quote_error QuoteReservesOutOfRange = ''derived quote reserves are zero''"
| "display_quote_error QuoteCurveAwaitingMigration =
     ''quote coin's curve is complete but not migrated''"
| "display_quote_error QuotePoolAccountsRequired =
     ''quote coin migrated; its pool accounts are required''"
| "display_quote_error MultiHopDiscontinuousPath = ''multi-hop route does not connect''"
| "display_quote_error MultiHopMixedDirection =
     ''multi-hop hops trade in different directions''"
| "display_quote_error VenueNotSupported = ''venue not supported on this hop''"
| "display_quote_error PostCompleteLegNotAllowed =
     ''buy exceeds the curve and the post-completion leg is not allowed''"

lemma display_quote_error_inj:
  "display_quote_error a = display_quote_error b \<longleftrightarrow> a = b"
  by (cases a; cases b; simp)

section \<open>Constant product\<close>

definition mul_div_u128 :: "u128 \<Rightarrow> u128 \<Rightarrow> u128 \<Rightarrow> u128 quote_result" where
  "mul_div_u128 a b c =
     and_then (ok_or (checked_mul a b) MathOverflow) (\<lambda>p.
       ok_or (checked_div p c) MathOverflow)"

definition swap_exact_input :: "u128 \<Rightarrow> u128 \<Rightarrow> u128 \<Rightarrow> u128 quote_result" where
  "swap_exact_input amount in_reserve out_reserve =
     and_then (ok_or (checked_add in_reserve amount) MathOverflow) (\<lambda>denom.
       mul_div_u128 amount out_reserve denom)"

lemma mul_div_u128_Ok [res_simps]:
  "mul_div_u128 a b c = Ok r \<longleftrightarrow>
     unat a * unat b < U128_LIMIT \<and> c \<noteq> 0 \<and> unat r = unat a * unat b div unat c"
  (is "?l \<longleftrightarrow> ?r")
proof
  assume ?l
  then have "\<exists>p. unat (p :: u128) = unat a * unat b \<and> c \<noteq> 0 \<and> unat r = unat p div unat c"
    by (auto simp: mul_div_u128_def res_simps)
  then obtain p :: u128 where p: "unat p = unat a * unat b" "c \<noteq> 0" "unat r = unat p div unat c"
    by blast
  with u128_bound [of p] show ?r by auto
next
  assume ?r
  then show ?l
    by (auto simp: mul_div_u128_def res_simps checked_mul_def checked_div_def unat_mult_exact
        word_unat_eq_iff unat_div)
qed

lemma mul_div_u128_Inl [res_simps]:
  "mul_div_u128 a b c = Inl f \<longleftrightarrow>
     (U128_LIMIT \<le> unat a * unat b \<or> c = 0) \<and> f = Error MathOverflow"
  by (auto simp: mul_div_u128_def res_simps checked_mul_def checked_div_def)

lemma swap_exact_input_Ok [res_simps]:
  "swap_exact_input a i z = Ok r \<longleftrightarrow>
     unat i + unat a < U128_LIMIT \<and> unat a * unat z < U128_LIMIT \<and> 0 < unat i + unat a \<and>
     unat r = unat a * unat z div (unat i + unat a)"
  (is "?l \<longleftrightarrow> ?r")
proof (cases "unat i + unat a < U128_LIMIT")
  case True
  then have d: "unat (i + a) = unat i + unat a" by (simp add: unat_add_exact)
  then have "i + a \<noteq> 0 \<longleftrightarrow> 0 < unat i + unat a"
    by (metis unat_gt_0)
  with True d show ?thesis
    by (auto simp: swap_exact_input_def checked_add_def mul_div_u128_Ok)
next
  case False
  then show ?thesis by (simp add: swap_exact_input_def checked_add_def)
qed

text \<open>On \<open>u64\<close> reserves nothing overflows: the only failure is an empty pool.\<close>

lemma swap_exact_input_u64 [res_simps]:
  "swap_exact_input (to_u128 (a :: u64)) (to_u128 (i :: u64)) (to_u128 (z :: u64)) = Ok r \<longleftrightarrow>
     0 < unat i + unat a \<and> unat r = unat a * unat z div (unat i + unat a)"
proof -
  have "unat a * unat z < U128_LIMIT"
    using mult_u64_bound [of "unat a" "unat z"] by simp
  moreover have "unat i + unat a < U128_LIMIT"
    using u64_bound [of i] u64_bound [of a] by (simp del: u64_bound)
  ultimately show ?thesis by (simp add: swap_exact_input_Ok)
qed

section \<open>The constant-product interface\<close>

text \<open>
  What the pricing relies on in a swap of \<open>a\<close> into the side holding \<open>i\<close>: the amount \<open>r\<close> it
  takes out of \<open>z\<close> is the floor of \<open>a z / (i + a)\<close>. The laws are the two sides of the
  floor; the lemmas are what a liquidity provider is owed.
\<close>

locale const_product =
  fixes swap :: "'a::len word \<Rightarrow> 'a word \<Rightarrow> 'a word \<Rightarrow> u128 quote_result"
  assumes swap_floor: "swap a i z = Ok r \<Longrightarrow> unat r * (unat i + unat a) \<le> unat a * unat z"
    and swap_ceil: "swap a i z = Ok r \<Longrightarrow> unat a * unat z < (unat r + 1) * (unat i + unat a)"
begin

lemma reserves_pos: "swap a i z = Ok r \<Longrightarrow> 0 < unat i + unat a"
  using swap_ceil [of a i z r] by (cases "unat i + unat a = 0") auto

lemma out_le_reserve: "swap a i z = Ok r \<Longrightarrow> unat r \<le> unat z"
proof -
  assume s: "swap a i z = Ok r"
  have "unat r * (unat i + unat a) \<le> unat z * (unat i + unat a)"
    using swap_floor [OF s] by (simp add: algebra_simps trans_le_add2)
  with reserves_pos [OF s] show ?thesis by simp
qed

lemma never_drains:
  assumes s: "swap a i z = Ok r" and i: "i \<noteq> 0" and z: "z \<noteq> 0"
  shows "unat r < unat z"
proof -
  have "0 < unat z * unat i" using i z by (simp add: unat_gt_0)
  then have "unat r * (unat i + unat a) < unat z * (unat i + unat a)"
    using swap_floor [OF s] unfolding add_mult_distrib2 mult.commute [of "unat a" "unat z"]
    by linarith
  then show ?thesis by simp
qed

lemma product_kept:
  assumes s: "swap a i z = Ok r"
  shows "unat i * unat z \<le> (unat i + unat a) * (unat z - unat r)"
proof -
  have "(unat i + unat a) * (unat z - unat r) = (unat i + unat a) * unat z - unat r * (unat i + unat a)"
    by (simp only: diff_mult_distrib2 mult.commute [of "unat r"])
  moreover have "unat i * unat z + unat a * unat z = (unat i + unat a) * unat z"
    by (simp add: add_mult_distrib)
  ultimately show ?thesis using swap_floor [OF s] by linarith
qed

lemma monotone:
  assumes "swap a i z = Ok r" and "swap b i z = Ok q" and ab: "a \<le> b"
  shows "unat r \<le> unat q"
proof -
  let ?i = "unat i" and ?z = "unat z" and ?a = "unat a" and ?b = "unat b"
  have le: "?a \<le> ?b" using ab by (simp add: word_le_nat_alt)
  have "unat r * (?i + ?a) * (?i + ?b) \<le> ?a * ?z * (?i + ?b)"
    using swap_floor [OF assms(1)] by (rule mult_right_mono) simp
  also have "\<dots> \<le> ?b * ?z * (?i + ?a)"
    using le by (simp add: algebra_simps mult_le_mono)
  also have "\<dots> < (unat q + 1) * (?i + ?b) * (?i + ?a)"
    using swap_ceil [OF assms(2)] reserves_pos [OF assms(1)] by (rule mult_strict_right_mono)
  finally have "unat r * ((?i + ?a) * (?i + ?b)) < (unat q + 1) * ((?i + ?a) * (?i + ?b))"
    by (simp only: ac_simps)
  then have "unat r < unat q + 1" by (simp only: mult_less_cancel2)
  then show ?thesis by simp
qed

text \<open>Selling what was just bought, on the reserves the buy leaves, never returns more than
  was paid.\<close>

lemma no_round_trip_profit:
  assumes buy: "swap a i z = Ok r" and sell: "swap r' z' i' = Ok s"
    and r': "unat r' = unat r" and z': "unat z' = unat z - unat r" and i': "unat i' = unat i + unat a"
    and z: "z \<noteq> 0"
  shows "unat s \<le> unat a"
proof -
  have rz: "unat r \<le> unat z" by (rule out_le_reserve [OF buy])
  have "unat s * unat z \<le> unat r * (unat i + unat a)"
    using swap_floor [OF sell] r' z' i' rz by simp
  also have "\<dots> \<le> unat a * unat z" by (rule swap_floor [OF buy])
  finally show ?thesis using z by (simp add: unat_gt_0)
qed

end

lemma div_ceil_gt: "0 < (d::nat) \<Longrightarrow> n < (n div d + 1) * d"
proof -
  assume "0 < d"
  then show "n < (n div d + 1) * d"
    using div_mult_mod_eq [of n d] mod_less_divisor [of d n] unfolding add_mult_distrib
    by linarith
qed

interpretation xin: const_product swap_exact_input
proof
  fix a i z r :: u128
  assume "swap_exact_input a i z = Ok r"
  then have "0 < unat i + unat a" and r: "unat r = unat a * unat z div (unat i + unat a)"
    by (simp_all add: swap_exact_input_Ok)
  from div_ceil_gt [OF this(1), of "unat a * unat z"] r
  show "unat r * (unat i + unat a) \<le> unat a * unat z"
    and "unat a * unat z < (unat r + 1) * (unat i + unat a)"
    by simp_all
qed

section \<open>Slippage\<close>

definition add_slippage :: "u64 \<Rightarrow> u16 \<Rightarrow> u64" where
  "add_slippage value bps = as_u64 ((to_u128 value * (10000 + to_u128 bps)) div 10000)"

definition sub_slippage :: "u64 \<Rightarrow> u16 \<Rightarrow> u64" where
  "sub_slippage value bps =
     (let bps' = to_u128 (min bps 10000)
      in as_u64 ((to_u128 value * (10000 - bps')) div 10000))"

definition slippage_bounds :: "u128 \<Rightarrow> u16 \<Rightarrow> (u128 \<times> u128) option" where
  "slippage_bounds value bps =
     (case checked_mul value (to_u128 bps) of None \<Rightarrow> None | Some m \<Rightarrow>
      (case checked_div m 10000 of None \<Rightarrow> None | Some delta \<Rightarrow>
       (case checked_sub value delta of None \<Rightarrow> None | Some lo \<Rightarrow>
        (case checked_add value delta of None \<Rightarrow> None | Some hi \<Rightarrow> Some (lo, hi)))))"

text \<open>The product is formed in \<open>u128\<close> and cannot overflow there; only the final cast of
  \<open>add_slippage\<close> can lose bits.\<close>

lemma unat_slippage_product:
  assumes "unat (k :: u128) \<le> 75535"
  shows "unat (to_u128 (v :: u64) * k) = unat v * unat k"
proof -
  have "unat v * unat k \<le> 18446744073709551615 * 75535"
    by (rule mult_le_mono) (use assms in simp_all)
  then show ?thesis by (subst unat_mult_exact) simp_all
qed

lemma unat_plus_bps: "unat (10000 + to_u128 (b :: u16)) = 10000 + unat b"
  by (subst unat_add_exact) (use u16_bound [of b] in \<open>simp_all del: u16_bound\<close>)

lemma unat_minus_bps: "unat (10000 - to_u128 (min (b :: u16) 10000)) = 10000 - unat b"
proof -
  have "to_u128 (min b 10000) \<le> 10000"
    by (simp add: word_le_nat_alt min_def)
  then show ?thesis by (subst unat_sub) (auto simp: min_def word_le_nat_alt)
qed

lemma unat_add_slippage [unat_simps]:
  "unat (add_slippage v b) = (unat v * (10000 + unat b) div 10000) mod U64_LIMIT"
proof -
  have "unat (to_u128 v * (10000 + to_u128 b)) = unat v * (10000 + unat b)"
    using unat_slippage_product [of "10000 + to_u128 b" v] u16_bound [of b]
    by (simp add: unat_plus_bps del: u16_bound)
  then show ?thesis by (simp add: add_slippage_def unat_as_u64 unat_div)
qed

lemma unat_sub_slippage [unat_simps]:
  "unat (sub_slippage v b) = unat v * (10000 - unat b) div 10000"
proof -
  have "unat (to_u128 v * (10000 - to_u128 (min b 10000))) = unat v * (10000 - unat b)"
    using unat_slippage_product [of "10000 - to_u128 (min b 10000)" v]
    by (simp add: unat_minus_bps)
  moreover have "unat v * (10000 - unat b) div 10000 \<le> unat v"
    using div_le_mono [OF mult_le_mono2 [of "10000 - unat b" 10000 "unat v"], of 10000] by simp
  ultimately show ?thesis
    using u64_bound [of v]
    by (simp add: sub_slippage_def Let_def unat_as_u64 unat_div del: u64_bound)
qed

lemma sub_slippage_le: "sub_slippage v b \<le> v"
proof -
  have "unat v * (10000 - unat b) div 10000 \<le> unat v * 10000 div 10000"
    by (intro div_le_mono mult_le_mono) simp_all
  then show ?thesis by (simp add: word_le_nat_alt unat_sub_slippage)
qed

lemma add_slippage_ge:
  assumes "unat v * (10000 + unat b) div 10000 < U64_LIMIT"
  shows "v \<le> add_slippage v b"
proof -
  have "unat v * 10000 div 10000 \<le> unat v * (10000 + unat b) div 10000"
    by (intro div_le_mono mult_le_mono) simp_all
  with assms show ?thesis by (simp add: word_le_nat_alt unat_add_slippage)
qed

lemma slippage_bounds_Some [res_simps]:
  "slippage_bounds v b = Some (lo, hi) \<longleftrightarrow>
     unat v * unat b < U128_LIMIT \<and>
     unat v * unat b div 10000 \<le> unat v \<and> unat v + unat v * unat b div 10000 < U128_LIMIT \<and>
     unat lo = unat v - unat v * unat b div 10000 \<and>
     unat hi = unat v + unat v * unat b div 10000"
proof (cases "unat v * unat b < U128_LIMIT")
  case True
  then have m: "checked_mul v (to_u128 b) = Some (v * to_u128 b)"
    and p: "unat (v * to_u128 b) = unat v * unat b"
    by (simp_all add: checked_mul_def unat_mult_exact)
  define d where "d = v * to_u128 b div 10000"
  have d: "unat d = unat v * unat b div 10000" by (simp add: d_def unat_div p)
  show ?thesis
    using True m
    by (auto simp: slippage_bounds_def checked_div_def checked_sub_def checked_add_def
        d_def [symmetric] d word_le_nat_alt word_unat_eq_iff unat_sub unat_add_exact
        split: option.splits if_splits)
next
  case False
  then show ?thesis by (simp add: slippage_bounds_def checked_mul_def)
qed

end
