(* ===== verification/Fees.thy ===== *)
theory Fees
  imports Pda Math_Utils
begin

text \<open>
  \<open>src/src/math/fees.rs\<close>: the ceil'd fees, the net of an exact-in budget, the market caps
  and the schedule of the pump-fees \<open>FeeConfig\<close>. The word-level functions are shown equal
  to their natural-number specification (\<open>exact_in_spec\<close>): no \<open>u128\<close> intermediate
  overflows and no \<open>as u64\<close> loses a bit, for any budget and any rates.
\<close>

section \<open>Fee amounts\<close>

text \<open>\<open>u128::div_ceil\<close>, used with a non-zero divisor.\<close>

definition ceil_div :: "u128 \<Rightarrow> u128 \<Rightarrow> u128" where
  "ceil_div a b = a div b + (if a mod b > 0 then 1 else 0)"

definition fee_amount :: "u128 \<Rightarrow> u64 \<Rightarrow> u128" where
  "fee_amount amount basis_points = ceil_div (amount * to_u128 basis_points) 10000"

definition creator_fee_amount :: "pubkey \<Rightarrow> u128 \<Rightarrow> u64 \<Rightarrow> u128" where
  "creator_fee_amount creator amount basis_points =
     (if creator = default_key then 0 else fee_amount amount basis_points)"

type_synonym bps3 = "u64 \<times> u64 \<times> u64"

text \<open>\<open>bps.iter().map(..).sum::<u128>()\<close> of the three rates.\<close>

fun total_bps :: "bps3 \<Rightarrow> u128" where
  "total_bps (b0, b1, b2) = 0 + to_u128 b0 + to_u128 b1 + to_u128 b2"

fun exact_in_fee_amounts :: "u64 \<Rightarrow> bps3 \<Rightarrow> (u64 \<times> bps3) quote_result" where
  "exact_in_fee_amounts amount_in (b0, b1, b2) =
     (let total = total_bps (b0, b1, b2);
          input = to_u128 amount_in;
          net = input * 10000 div (10000 + total)
      in if net = 0 then Err ZeroAmount
         else
           let f0 = fee_amount net b0;
               f1 = fee_amount net b1;
               f2 = fee_amount net b2;
               cost = net + (0 + f0 + f1 + f2)
           in and_then
                (if cost > input
                 then ok_or (opt_filter (\<lambda>n. n > 0) (checked_sub net (cost - input))) ZeroAmount
                 else Ok net)
                (\<lambda>net'. Ok (as_u64 net', (as_u64 f0, as_u64 f1, as_u64 f2))))"

declare exact_in_fee_amounts.simps [simp del]

definition exact_in_fees :: "u64 \<Rightarrow> bps3 \<Rightarrow> u64 quote_result" where
  "exact_in_fees amount_in bps = map_res fst (exact_in_fee_amounts amount_in bps)"

subsection \<open>Values\<close>

text \<open>\<open>ceil(amount * bps / 10000)\<close> on the natural numbers.\<close>

definition fee_nat :: "nat \<Rightarrow> nat \<Rightarrow> nat" where
  "fee_nat amount bps = cdiv (amount * bps) 10000"

lemma unat_ceil_div [unat_simps]: "b \<noteq> 0 \<Longrightarrow> unat (ceil_div a b) = cdiv (unat a) (unat b)"
proof -
  assume b: "b \<noteq> 0"
  show ?thesis
  proof (cases "a mod b > 0")
    case True
    then have m: "unat a mod unat b \<noteq> 0"
      by (metis unat_0_iff unat_mod word_not_simps(1))
    have "unat b \<noteq> 1"
      using m by (metis mod_by_1 One_nat_def)
    then have "2 \<le> unat b" using b by (cases "unat b") (auto simp: unat_eq_0)
    then have "unat a div unat b \<le> unat a div 2" by (simp add: div_le_mono2)
    also have "\<dots> < U128_LIMIT - 1" using u128_bound [of a] by (simp del: u128_bound)
    finally have "unat (a div b + 1) = unat a div unat b + 1"
      by (subst unat_add_exact) (simp_all add: unat_div)
    with True m show ?thesis by (simp add: ceil_div_def cdiv_def)
  next
    case False
    then have "unat a mod unat b = 0"
      by (metis unat_mod unat_eq_0 word_gt_0)
    with False show ?thesis by (simp add: ceil_div_def cdiv_def unat_div)
  qed
qed

lemma unat_fee_amount [unat_simps]:
  assumes "unat a * unat b < U128_LIMIT"
  shows "unat (fee_amount a b) = fee_nat (unat a) (unat b)"
  using assms by (simp add: fee_amount_def unat_ceil_div fee_nat_def unat_mult_exact)

lemma fee_nat_0 [simp]: "fee_nat 0 b = 0" "fee_nat a 0 = 0"
  by (simp_all add: fee_nat_def)

lemma fee_nat_ge: "a * b \<le> fee_nat a b * 10000"
  unfolding fee_nat_def by (rule cdiv_ge) simp

lemma fee_nat_lt: "fee_nat a b * 10000 < a * b + 10000"
  unfolding fee_nat_def by (rule cdiv_lt) simp

lemma fee_nat_le_iff: "fee_nat a b \<le> c \<longleftrightarrow> a * b \<le> c * 10000"
  unfolding fee_nat_def by (rule cdiv_le_iff) simp

lemma fee_nat_le_prod: "fee_nat a b \<le> a * b"
  by (simp add: fee_nat_le_iff)

lemma fee_nat_mono: "a \<le> c \<Longrightarrow> fee_nat a b \<le> fee_nat c b"
proof -
  assume "a \<le> c"
  then have "a * b \<le> c * b" by simp
  also have "\<dots> \<le> fee_nat c b * 10000" by (rule fee_nat_ge)
  finally show ?thesis by (simp add: fee_nat_le_iff)
qed

lemma fee_nat_le_self: "b \<le> 10000 \<Longrightarrow> fee_nat a b \<le> a"
  by (simp add: fee_nat_le_iff)

subsection \<open>The net of a budget\<close>

text \<open>
  The specification of an exact-in budget \<open>a\<close> at rates \<open>b0, b1, b2\<close>: the raw net
  \<open>n\<close>, the ceil'd fees on it, and the excess of their sum over the budget taken off the net.
\<close>

definition raw_net :: "nat \<Rightarrow> nat \<Rightarrow> nat" where
  "raw_net a T = a * 10000 div (10000 + T)"

definition raw_cost :: "nat \<Rightarrow> nat \<Rightarrow> nat \<Rightarrow> nat \<Rightarrow> nat" where
  "raw_cost n b0 b1 b2 = n + fee_nat n b0 + fee_nat n b1 + fee_nat n b2"

definition exact_in_spec :: "nat \<Rightarrow> nat \<Rightarrow> nat \<Rightarrow> nat \<Rightarrow> (nat \<times> nat \<times> nat \<times> nat) option" where
  "exact_in_spec a b0 b1 b2 =
     (let n = raw_net a (b0 + b1 + b2);
          excess = raw_cost n b0 b1 b2 - a
      in if n \<le> excess then None
         else Some (n - excess, fee_nat n b0, fee_nat n b1, fee_nat n b2))"

lemma raw_net_mult: "raw_net a T * (10000 + T) \<le> a * 10000"
  by (simp add: raw_net_def)

lemma raw_net_gt: "a * 10000 < (raw_net a T + 1) * (10000 + T)"
  unfolding raw_net_def by (rule div_ceil_gt) simp

lemma raw_net_le: "raw_net a T \<le> a"
proof -
  have "raw_net a T * 10000 \<le> a * 10000"
    using raw_net_mult [of a T] by (simp add: algebra_simps)
  then show ?thesis by simp
qed

lemma raw_net_fee: "b \<le> T \<Longrightarrow> raw_net a T * b \<le> a * 10000"
proof -
  assume "b \<le> T"
  then have "raw_net a T * b \<le> raw_net a T * (10000 + T)" by (intro mult_le_mono) simp_all
  with raw_net_mult [of a T] show ?thesis by linarith
qed

lemma raw_fee_le: "b \<le> T \<Longrightarrow> fee_nat (raw_net a T) b \<le> a"
  by (simp add: fee_nat_le_iff raw_net_fee)

text \<open>Three ceilings overshoot the budget by at most two units.\<close>

lemma raw_cost_excess:
  "raw_cost (raw_net a (b0 + b1 + b2)) b0 b1 b2 \<le> a + 2"
proof -
  let ?n = "raw_net a (b0 + b1 + b2)"
  have "?n * 10000 + ?n * b0 + ?n * b1 + ?n * b2 \<le> a * 10000"
    using raw_net_mult [of a "b0 + b1 + b2"] by (simp add: algebra_simps)
  moreover note fee_nat_lt [of ?n b0] fee_nat_lt [of ?n b1] fee_nat_lt [of ?n b2]
  ultimately have "raw_cost ?n b0 b1 b2 * 10000 < (a + 3) * 10000"
    unfolding raw_cost_def by (simp add: algebra_simps)
  then show ?thesis by simp
qed

lemma raw_cost_slack:
  "a * 10000 < raw_cost (raw_net a (b0 + b1 + b2)) b0 b1 b2 * 10000 + (10000 + b0 + b1 + b2)"
proof -
  let ?n = "raw_net a (b0 + b1 + b2)"
  have "a * 10000 < ?n * 10000 + ?n * b0 + ?n * b1 + ?n * b2 + (10000 + b0 + b1 + b2)"
    using raw_net_gt [of a "b0 + b1 + b2"] by (simp add: algebra_simps)
  moreover note fee_nat_ge [of ?n b0] fee_nat_ge [of ?n b1] fee_nat_ge [of ?n b2]
  ultimately show ?thesis unfolding raw_cost_def by (simp add: algebra_simps)
qed

lemma unat_total_bps: "unat (total_bps (b0, b1, b2)) = unat b0 + unat b1 + unat b2"
proof -
  have s: "unat b0 + unat b1 + unat b2 < 3 * U64_LIMIT"
    using u64_bound [of b0] u64_bound [of b1] u64_bound [of b2] by (simp del: u64_bound)
  have "unat (to_u128 b0 + to_u128 b1 + to_u128 b2) = unat b0 + unat b1 + unat b2"
    using s by (subst unat_add_exact) (simp_all add: unat_add_u64)
  then show ?thesis by (simp add: total_bps.simps)
qed

declare total_bps.simps [simp del]

lemma unat_plus_total: "unat (10000 + total_bps (b0, b1, b2)) = 10000 + (unat b0 + unat b1 + unat b2)"
proof -
  have "unat b0 + unat b1 + unat b2 < 3 * U64_LIMIT"
    using u64_bound [of b0] u64_bound [of b1] u64_bound [of b2] by (simp del: u64_bound)
  then show ?thesis by (subst unat_add_exact) (simp_all add: unat_total_bps)
qed

lemma unat_raw_net:
  "unat (to_u128 (a :: u64) * 10000 div (10000 + total_bps (b0, b1, b2))) =
     raw_net (unat a) (unat b0 + unat b1 + unat b2)"
proof -
  have "unat a * 10000 < U64_LIMIT * 10000" by simp
  then have "unat (to_u128 a * 10000) = unat a * 10000"
    by (subst unat_mult_exact) (simp_all del: u64_bound)
  then show ?thesis by (simp add: unat_div unat_plus_total raw_net_def)
qed

lemma unat_raw_fee:
  assumes "unat n = raw_net (unat (a :: u64)) T" and "unat b \<le> T"
  shows "unat (fee_amount n b) = fee_nat (unat n) (unat b)"
proof (rule unat_fee_amount)
  have "unat n * unat b \<le> unat a * 10000" using assms raw_net_fee by metis
  also have "\<dots> < U128_LIMIT" using u64_bound [of a] by (simp del: u64_bound)
  finally show "unat n * unat b < U128_LIMIT" .
qed

text \<open>The word-level function computes the specification for every input.\<close>

lemma exact_in_fee_amounts_spec:
  "(case exact_in_fee_amounts a (b0, b1, b2) of
      Inr (net, f0, f1, f2) \<Rightarrow>
        exact_in_spec (unat a) (unat b0) (unat b1) (unat b2) =
          Some (unat net, unat f0, unat f1, unat f2)
    | Inl f \<Rightarrow> f = Error ZeroAmount \<and>
        exact_in_spec (unat a) (unat b0) (unat b1) (unat b2) = None)"
proof -
  let ?T = "unat b0 + unat b1 + unat b2"
  define n where "n = to_u128 a * 10000 div (10000 + total_bps (b0, b1, b2))"
  define f0 where "f0 = fee_amount n b0"
  define f1 where "f1 = fee_amount n b1"
  define f2 where "f2 = fee_amount n b2"
  define cost where "cost = n + (0 + f0 + f1 + f2)"
  have n: "unat n = raw_net (unat a) ?T" by (simp add: n_def unat_raw_net)
  have f: "unat f0 = fee_nat (unat n) (unat b0)" "unat f1 = fee_nat (unat n) (unat b1)"
    "unat f2 = fee_nat (unat n) (unat b2)"
    unfolding f0_def f1_def f2_def using unat_raw_fee [OF n] by simp_all
  have le: "unat f0 \<le> unat a" "unat f1 \<le> unat a" "unat f2 \<le> unat a" "unat n \<le> unat a"
    using f n raw_fee_le [of _ ?T "unat a"] raw_net_le by simp_all
  have lt: "unat a < U64_LIMIT" by simp
  have s01: "unat (f0 + f1) = unat f0 + unat f1"
    using le lt by (intro unat_add_exact) (simp del: u64_bound u128_bound)
  then have s: "unat (f0 + f1 + f2) = unat f0 + unat f1 + unat f2"
    using le lt by (subst unat_add_exact) (simp_all del: u64_bound u128_bound)
  have c: "unat cost = raw_cost (unat n) (unat b0) (unat b1) (unat b2)"
    unfolding cost_def using le lt s
    by (subst unat_add_exact) (simp_all add: raw_cost_def f [symmetric] del: u64_bound u128_bound)
  have sm: "unat (as_u64 x) = unat x" if "unat x \<le> unat a" for x :: u128
    using that lt by (intro unat_as_u64_small) linarith
  have ex: "exact_in_fee_amounts a (b0, b1, b2) =
      (if n = 0 then Err ZeroAmount
       else and_then (if cost > to_u128 a
              then ok_or (opt_filter (\<lambda>n. n > 0) (checked_sub n (cost - to_u128 a))) ZeroAmount
              else Ok n)
              (\<lambda>net'. Ok (as_u64 net', (as_u64 f0, as_u64 f1, as_u64 f2))))"
    by (simp add: exact_in_fee_amounts.simps Let_def n_def f0_def f1_def f2_def cost_def)
  define x where "x = unat cost - unat a"
  have sp: "exact_in_spec (unat a) (unat b0) (unat b1) (unat b2) =
      (if unat n \<le> x then None else Some (unat n - x, unat f0, unat f1, unat f2))"
    unfolding x_def exact_in_spec_def Let_def n [symmetric] c f by simp
  show ?thesis
  proof (cases "n = 0")
    case True
    then show ?thesis by (simp add: ex sp)
  next
    case nz: False
    then have npos: "0 < unat n" by (simp add: unat_gt_0)
    show ?thesis
    proof (cases "cost > to_u128 a")
      case False
      then have "x = 0" by (simp add: x_def not_less word_le_nat_alt)
      with False nz npos le show ?thesis by (simp add: ex sp sm)
    next
      case True
      then have d: "unat (cost - to_u128 a) = x"
        unfolding x_def by (subst unat_sub) (simp_all add: word_le_nat_alt word_less_nat_alt)
      show ?thesis
      proof (cases "unat n \<le> x")
        case le1: True
        have "opt_filter (\<lambda>n. n > 0) (checked_sub n (cost - to_u128 a)) = None"
          using le1 by (auto simp: opt_filter_None checked_sub_Some d word_less_nat_alt)
        with True nz le1 show ?thesis by (simp add: ex sp)
      next
        case gt: False
        have u: "unat (n - (cost - to_u128 a)) = unat n - x"
          using gt by (subst unat_sub) (simp_all add: word_le_nat_alt d)
        have "opt_filter (\<lambda>n. n > 0) (checked_sub n (cost - to_u128 a)) =
            Some (n - (cost - to_u128 a))"
          using gt u by (simp add: opt_filter_Some checked_sub_Some d word_less_nat_alt)
        moreover have "unat (as_u64 (n - (cost - to_u128 a))) = unat n - x"
          using u le by (subst sm) simp_all
        ultimately show ?thesis using True nz gt le by (simp add: ex sp sm)
      qed
    qed
  qed
qed

lemma exact_in_fee_amounts_Ok [res_simps]:
  "exact_in_fee_amounts a (b0, b1, b2) = Ok (net, f0, f1, f2) \<longleftrightarrow>
     exact_in_spec (unat a) (unat b0) (unat b1) (unat b2) =
       Some (unat net, unat f0, unat f1, unat f2)"
  using exact_in_fee_amounts_spec [of a b0 b1 b2]
  by (auto split: sum.splits prod.splits simp: word_unat_eq_iff)

lemma exact_in_fee_amounts_Inl [res_simps]:
  "exact_in_fee_amounts a (b0, b1, b2) = Inl f \<longleftrightarrow>
     f = Error ZeroAmount \<and> exact_in_spec (unat a) (unat b0) (unat b1) (unat b2) = None"
  using exact_in_fee_amounts_spec [of a b0 b1 b2]
  by (auto split: sum.splits prod.splits)

lemma exact_in_fees_Ok [res_simps]:
  "exact_in_fees a (b0, b1, b2) = Ok net \<longleftrightarrow>
     (\<exists>f0 f1 f2. exact_in_fee_amounts a (b0, b1, b2) = Ok (net, f0, f1, f2))"
  by (auto simp: exact_in_fees_def map_res_Inr)

lemma exact_in_fees_Inl [res_simps]:
  "exact_in_fees a bps = Inl f \<longleftrightarrow> exact_in_fee_amounts a bps = Inl f"
  by (cases "exact_in_fee_amounts a bps") (simp_all add: exact_in_fees_def)

text \<open>What the specification gives.\<close>

lemma exact_in_spec_budget:
  assumes "exact_in_spec a b0 b1 b2 = Some (net, f0, f1, f2)"
  shows "1 \<le> net" "net \<le> a" "net + f0 + f1 + f2 \<le> a"
    "net \<le> raw_net a (b0 + b1 + b2)" "raw_net a (b0 + b1 + b2) \<le> net + 2"
    "(a - (net + f0 + f1 + f2)) * 10000 < 10000 + b0 + b1 + b2"
    "f0 = fee_nat (raw_net a (b0 + b1 + b2)) b0" "f1 = fee_nat (raw_net a (b0 + b1 + b2)) b1"
    "f2 = fee_nat (raw_net a (b0 + b1 + b2)) b2"
proof -
  let ?n = "raw_net a (b0 + b1 + b2)"
  let ?c = "raw_cost ?n b0 b1 b2"
  from assms have g: "\<not> ?n \<le> ?c - a" and net: "net = ?n - (?c - a)"
    and f: "f0 = fee_nat ?n b0" "f1 = fee_nat ?n b1" "f2 = fee_nat ?n b2"
    by (auto simp: exact_in_spec_def Let_def split: if_splits)
  have x: "?c - a \<le> 2" using raw_cost_excess [of a b0 b1 b2] by simp
  have c: "?c = ?n + f0 + f1 + f2" by (simp add: raw_cost_def f)
  have sum: "net + f0 + f1 + f2 = ?c - (?c - a)" using g net c by simp
  from f show "f0 = fee_nat ?n b0" "f1 = fee_nat ?n b1" "f2 = fee_nat ?n b2" .
  show "1 \<le> net" "net \<le> ?n" "?n \<le> net + 2" using g net x by auto
  then show "net \<le> a" using raw_net_le [of a "b0 + b1 + b2"] by linarith
  show "net + f0 + f1 + f2 \<le> a" using sum by simp
  show "(a - (net + f0 + f1 + f2)) * 10000 < 10000 + b0 + b1 + b2"
    using raw_cost_slack [of a b0 b1 b2] sum by simp
qed

text \<open>A budget of at least 3 units at rates below 100 percent in total always leaves a net.\<close>

lemma exact_in_spec_total:
  assumes "b0 + b1 + b2 \<le> 10000" and "6 \<le> a"
  shows "exact_in_spec a b0 b1 b2 \<noteq> None"
proof -
  let ?T = "b0 + b1 + b2"
  have "3 * (10000 + ?T) \<le> a * 10000" using assms by simp
  then have "3 \<le> raw_net a ?T" unfolding raw_net_def by (subst div_le_iff_mult) simp_all
  moreover have "raw_cost (raw_net a ?T) b0 b1 b2 - a \<le> 2"
    using raw_cost_excess [of a b0 b1 b2] by simp
  ultimately show ?thesis unfolding exact_in_spec_def Let_def by simp
qed

section \<open>Market caps\<close>

text \<open>A zero divisor is a division by zero, a panic (the \<open>debug_assert!\<close> of a debug build
  panics on the same inputs).\<close>

definition bonding_curve_market_cap :: "u64 \<Rightarrow> u64 \<Rightarrow> u64 \<Rightarrow> u128 quote_result" where
  "bonding_curve_market_cap mint_supply vq vt =
     (if vt = 0 then panic
      else Ok (to_u128 vq * to_u128 mint_supply div to_u128 vt))"

definition pool_market_cap :: "u64 \<Rightarrow> u64 \<Rightarrow> u64 \<Rightarrow> u128 quote_result" where
  "pool_market_cap base_mint_supply base_reserve quote_reserve =
     (if base_reserve = 0 then panic
      else Ok (to_u128 quote_reserve * to_u128 base_mint_supply div to_u128 base_reserve))"

lemma bonding_curve_market_cap_Ok [res_simps]:
  "bonding_curve_market_cap s vq vt = Ok m \<longleftrightarrow>
     vt \<noteq> 0 \<and> unat m = unat vq * unat s div unat vt"
  by (auto simp: bonding_curve_market_cap_def word_unat_eq_iff unat_div unat_mult_u64)

lemma pool_market_cap_Ok [res_simps]:
  "pool_market_cap s b q = Ok m \<longleftrightarrow> b \<noteq> 0 \<and> unat m = unat q * unat s div unat b"
  by (auto simp: pool_market_cap_def word_unat_eq_iff unat_div unat_mult_u64)

section \<open>The schedule\<close>

definition is_sol_like_quote_mint :: "'e pda_env_scheme \<Rightarrow> pubkey \<Rightarrow> bool" where
  "is_sol_like_quote_mint e quote_mint \<longleftrightarrow>
     quote_mint = default_key \<or> quote_mint = NATIVE_MINT \<or> quote_mint = token_2022_native_mint e"

definition is_pump_pool :: "'e pda_env_scheme \<Rightarrow> pubkey \<Rightarrow> pubkey \<Rightarrow> bool" where
  "is_pump_pool e base_mint pool_creator \<longleftrightarrow> fst (pool_authority e base_mint) = pool_creator"

record bonding_curve_fee_bps =
  bcf_protocol_fee_bps :: u64
  bcf_creator_fee_bps :: u64

record amm_fee_bps =
  af_lp_fee_bps :: u64
  af_protocol_fee_bps :: u64
  af_creator_fee_bps :: u64

definition calculate_fee_tier :: "fee_tier list \<Rightarrow> u128 \<Rightarrow> fees option" where
  "calculate_fee_tier tiers market_cap =
     (case tiers of
        [] \<Rightarrow> None
      | first # _ \<Rightarrow>
          if market_cap < market_cap_lamports_threshold first then Some (tier_fees first)
          else Some (case find (\<lambda>t. market_cap \<ge> market_cap_lamports_threshold t) (rev tiers) of
                       None \<Rightarrow> tier_fees first
                     | Some t \<Rightarrow> tier_fees t))"

definition configured_creator_fee_bps :: "bool \<Rightarrow> u64 \<Rightarrow> u64 \<Rightarrow> u64" where
  "configured_creator_fee_bps gate_on stored_bps schedule_bps =
     (if gate_on \<and> stored_bps \<noteq> 0 then stored_bps else schedule_bps)"

definition fees_for_quote_mint ::
  "'e pda_env_scheme \<Rightarrow> fee_config \<Rightarrow> bool \<Rightarrow> u128 \<Rightarrow> pubkey \<Rightarrow> fees quote_result" where
  "fees_for_quote_mint e cfg pump_pool market_cap quote_mint =
     (if \<not> pump_pool then Ok (flat_fees cfg)
      else if is_sol_like_quote_mint e quote_mint
      then ok_or (calculate_fee_tier (fee_tiers cfg) market_cap) EmptyFeeTiers
      else if quote_mint = USDC_MINT
      then ok_or (calculate_fee_tier (stable_fee_tiers cfg) market_cap) EmptyFeeTiers
      else
        let exotic = exotic_flat_fees cfg
        in if lp_fee_bps exotic = 0 \<and> protocol_fee_bps exotic = 0 \<and> creator_fee_bps exotic = 0
           then Ok (flat_fees cfg) else Ok exotic)"

definition compute_bonding_curve_fee_bps ::
  "'e pda_env_scheme \<Rightarrow> global \<Rightarrow> fee_config \<Rightarrow> pubkey \<Rightarrow> u64 \<Rightarrow> u64 \<Rightarrow> u64 \<Rightarrow> u64 \<Rightarrow>
     bonding_curve_fee_bps quote_result" where
  "compute_bonding_curve_fee_bps e glob fee_cfg quote_mint coin_creator_fee_bps mint_supply vq vt =
     and_then (bonding_curve_market_cap mint_supply vq vt) (\<lambda>market_cap.
     and_then (fees_for_quote_mint e fee_cfg True market_cap quote_mint) (\<lambda>fs.
       Ok \<lparr>bcf_protocol_fee_bps = protocol_fee_bps fs,
           bcf_creator_fee_bps = configured_creator_fee_bps (g_creator_fee_configurable glob)
             coin_creator_fee_bps (creator_fee_bps fs)\<rparr>))"

definition compute_amm_fee_bps ::
  "'e pda_env_scheme \<Rightarrow> global_config \<Rightarrow> fee_config \<Rightarrow> pubkey \<Rightarrow> pubkey \<Rightarrow> pubkey \<Rightarrow> u64 \<Rightarrow>
     u64 \<Rightarrow> u64 \<Rightarrow> u64 \<Rightarrow> amm_fee_bps quote_result" where
  "compute_amm_fee_bps e cfg fee_cfg base_mint pool_creator quote_mint coin_creator_fee_bps
       base_mint_supply base_reserve quote_reserve =
     and_then (pool_market_cap base_mint_supply base_reserve quote_reserve) (\<lambda>market_cap.
     and_then (fees_for_quote_mint e fee_cfg (is_pump_pool e base_mint pool_creator) market_cap
                 quote_mint) (\<lambda>fs.
       Ok \<lparr>af_lp_fee_bps = lp_fee_bps fs,
           af_protocol_fee_bps = protocol_fee_bps fs,
           af_creator_fee_bps = configured_creator_fee_bps (gc_creator_fee_configurable cfg)
             coin_creator_fee_bps (creator_fee_bps fs)\<rparr>))"

subsection \<open>Tier selection\<close>

lemma calculate_fee_tier_None [res_simps]:
  "calculate_fee_tier ts m = None \<longleftrightarrow> ts = []"
  by (cases ts) (simp_all add: calculate_fee_tier_def)

lemma find_rev_last:
  assumes "find P (rev xs) = Some x"
  shows "\<exists>k<length xs. xs ! k = x \<and> P x \<and> (\<forall>j<length xs. k < j \<longrightarrow> \<not> P (xs ! j))"
proof -
  from assms obtain i where i: "i < length xs" "P (rev xs ! i)" "x = rev xs ! i"
    and before: "\<forall>j<i. \<not> P (rev xs ! j)"
    by (auto simp: find_Some_iff)
  let ?k = "length xs - Suc i"
  have "xs ! ?k = x" using i by (simp add: rev_nth)
  moreover have "\<not> P (xs ! j)" if j: "j < length xs" "?k < j" for j
  proof -
    have "length xs - Suc j < i" using j i by simp
    then have "\<not> P (rev xs ! (length xs - Suc j))" using before by blast
    then show ?thesis using j by (simp add: rev_nth)
  qed
  ultimately show ?thesis using i by (intro exI [of _ ?k]) auto
qed

text \<open>The tier at index \<open>k\<close> applies to \<open>m\<close>: it is the last one whose threshold \<open>m\<close>
  reaches, or the first when \<open>m\<close> is below it.\<close>

definition applicable_tier :: "fee_tier list \<Rightarrow> u128 \<Rightarrow> nat \<Rightarrow> bool" where
  "applicable_tier ts m k \<longleftrightarrow>
     k < length ts \<and>
     (if m < market_cap_lamports_threshold (ts ! 0) then k = 0
      else market_cap_lamports_threshold (ts ! k) \<le> m \<and>
        (\<forall>j\<in>{k<..<length ts}. m < market_cap_lamports_threshold (ts ! j)))"

lemma calculate_fee_tier_applicable:
  assumes "ts \<noteq> []"
  shows "\<exists>k. applicable_tier ts m k \<and> calculate_fee_tier ts m = Some (tier_fees (ts ! k))"
proof (cases "m < market_cap_lamports_threshold (ts ! 0)")
  case True
  with assms show ?thesis
    by (intro exI [of _ 0]) (auto simp: applicable_tier_def calculate_fee_tier_def neq_Nil_conv)
next
  case False
  let ?P = "\<lambda>t. m \<ge> market_cap_lamports_threshold t"
  from assms obtain t0 ts' where ts: "ts = t0 # ts'" by (cases ts) auto
  with False have P0: "?P t0" by simp
  then have "find ?P (rev ts) \<noteq> None"
    by (auto simp: find_None_iff ts)
  then obtain t where t: "find ?P (rev ts) = Some t" by auto
  from find_rev_last [OF this] obtain k where
    "k < length ts" "ts ! k = t" "?P t" "\<forall>j<length ts. k < j \<longrightarrow> \<not> ?P (ts ! j)"
    by blast
  moreover have "calculate_fee_tier ts m = Some (tier_fees t)"
    using False t by (simp add: calculate_fee_tier_def ts)
  ultimately show ?thesis
    using False by (intro exI [of _ k]) (auto simp: applicable_tier_def not_le)
qed

lemma applicable_tier_le: "applicable_tier ts m j \<Longrightarrow> applicable_tier ts m k \<Longrightarrow> k \<le> j"
proof (rule ccontr)
  assume j: "applicable_tier ts m j" and k: "applicable_tier ts m k" and "\<not> k \<le> j"
  have "k < length ts" using k unfolding applicable_tier_def by blast
  with \<open>\<not> k \<le> j\<close> have range: "k \<in> {j<..<length ts}" and "k \<noteq> 0" by simp_all
  then have top: "\<not> m < market_cap_lamports_threshold (ts ! 0)"
    and le: "market_cap_lamports_threshold (ts ! k) \<le> m"
    using k unfolding applicable_tier_def by argo+
  with j have "\<forall>i\<in>{j<..<length ts}. m < market_cap_lamports_threshold (ts ! i)"
    unfolding applicable_tier_def by argo
  with range have "m < market_cap_lamports_threshold (ts ! k)" by blast
  with le show False by (simp add: not_less [symmetric])
qed

lemma applicable_tier_unique:
  "applicable_tier ts m j \<Longrightarrow> applicable_tier ts m k \<Longrightarrow> j = k"
  by (simp add: applicable_tier_le order_antisym)

lemma fees_for_quote_mint_Inl:
  "fees_for_quote_mint e cfg pp m qm = Inl f \<longleftrightarrow>
     f = Error EmptyFeeTiers \<and> pp \<and>
     (if is_sol_like_quote_mint e qm then fee_tiers cfg = []
      else qm = USDC_MINT \<and> stable_fee_tiers cfg = [])"
  by (auto simp: fees_for_quote_mint_def Let_def ok_or_Inl calculate_fee_tier_None)

lemma compute_bonding_curve_fee_bps_Inl:
  "compute_bonding_curve_fee_bps e g cfg qm c s vq vt = Inl f \<longleftrightarrow>
     (if vt = 0 then f = Panic
      else f = Error EmptyFeeTiers \<and>
        (if is_sol_like_quote_mint e qm then fee_tiers cfg = []
         else qm = USDC_MINT \<and> stable_fee_tiers cfg = []))"
  by (auto simp: compute_bonding_curve_fee_bps_def bonding_curve_market_cap_def and_then_Inl
      fees_for_quote_mint_Inl)

end
