(* ===== verification/Curve.thy ===== *)
theory Curve
  imports Fees
begin

text \<open>
  \<open>src/src/math/bonding_curve.rs\<close>: buy and sell quotes of a bonding curve, the v3 buys
  with their post-completion leg and the curve hop of a multi-hop swap. First the definitions in
  the order of the code, then their values on the natural numbers.
\<close>

section \<open>Quotes\<close>

definition TOKEN_SUPPLY :: u128 where
  "TOKEN_SUPPLY = 1000000000000000"

definition curve_tier_supply :: "bonding_curve \<Rightarrow> u64 \<Rightarrow> u64" where
  "curve_tier_supply curve mint_supply =
     (if bc_is_mayhem_mode curve then bc_token_total_supply curve else mint_supply)"

definition curve_fee_bps ::
  "'e pda_env_scheme \<Rightarrow> global \<Rightarrow> fee_config \<Rightarrow> bonding_curve \<Rightarrow> u64 \<Rightarrow> (u64 \<times> u64) quote_result"
where
  "curve_fee_bps e glob fee_cfg bc mint_supply =
     and_then (compute_bonding_curve_fee_bps e glob fee_cfg (bc_quote_mint bc)
                 (bc_creator_fee_bps bc) (curve_tier_supply bc mint_supply)
                 (virtual_quote_reserves bc) (virtual_token_reserves bc)) (\<lambda>bps.
     let creator = (if bc_creator bc \<noteq> default_key then bcf_creator_fee_bps bps else 0)
     in Ok (bcf_protocol_fee_bps bps, creator))"

definition fee_for_quote ::
  "'e pda_env_scheme \<Rightarrow> global \<Rightarrow> fee_config \<Rightarrow> bonding_curve \<Rightarrow> u64 \<Rightarrow> u128 \<Rightarrow> u128 quote_result"
where
  "fee_for_quote e glob fee_cfg bc mint_supply amount =
     and_then (curve_fee_bps e glob fee_cfg bc mint_supply) (\<lambda>(protocol, creator).
       Ok (fee_amount amount protocol + fee_amount amount creator))"

definition buy_tokens_exact_in ::
  "'e pda_env_scheme \<Rightarrow> global \<Rightarrow> fee_config \<Rightarrow> bonding_curve \<Rightarrow> u64 \<Rightarrow> u64 \<Rightarrow> u128 quote_result"
where
  "buy_tokens_exact_in e glob fee_cfg bc mint_supply sol_amount =
     (if sol_amount = 0 \<or> virtual_token_reserves bc = 0 then Ok 0
      else if virtual_quote_reserves bc = 0 then Err EmptyReserves
      else
        and_then (curve_fee_bps e glob fee_cfg bc mint_supply) (\<lambda>(protocol, creator).
          case exact_in_fees sol_amount (protocol, creator, 0) of
            Inr net \<Rightarrow>
              swap_exact_input (to_u128 net - 1) (to_u128 (virtual_quote_reserves bc))
                (to_u128 (virtual_token_reserves bc))
          | Inl f \<Rightarrow> if f = Error ZeroAmount then Ok 0 else Inl f))"

definition buy_token_amount_from_sol_amount ::
  "'e pda_env_scheme \<Rightarrow> global \<Rightarrow> fee_config \<Rightarrow> bonding_curve \<Rightarrow> u64 \<Rightarrow> u64 \<Rightarrow> u64 quote_result"
where
  "buy_token_amount_from_sol_amount e glob fee_cfg bc mint_supply sol_amount =
     and_then (buy_tokens_exact_in e glob fee_cfg bc mint_supply sol_amount) (\<lambda>tokens.
       Ok (as_u64 (min tokens (to_u128 (real_token_reserves bc)))))"

definition buy_sol_amount_from_token_amount ::
  "'e pda_env_scheme \<Rightarrow> global \<Rightarrow> fee_config \<Rightarrow> bonding_curve \<Rightarrow> u64 \<Rightarrow> u64 \<Rightarrow> u64 quote_result"
where
  "buy_sol_amount_from_token_amount e glob fee_cfg bc mint_supply token_amount =
     (if token_amount = 0 \<or> virtual_token_reserves bc = 0 then Ok 0
      else
        let min_amount = min (to_u128 token_amount) (to_u128 (real_token_reserves bc));
            vt = to_u128 (virtual_token_reserves bc)
        in if min_amount \<ge> vt then Err DepletedBondingCurve
           else
             let sol_cost = min_amount * to_u128 (virtual_quote_reserves bc) div (vt - min_amount) + 1
             in and_then (fee_for_quote e glob fee_cfg bc mint_supply sol_cost) (\<lambda>fee.
                  Ok (as_u64 (sol_cost + fee))))"

definition sell_sol_amount_from_token_amount ::
  "'e pda_env_scheme \<Rightarrow> global \<Rightarrow> fee_config \<Rightarrow> bonding_curve \<Rightarrow> u64 \<Rightarrow> u64 \<Rightarrow> u64 quote_result"
where
  "sell_sol_amount_from_token_amount e glob fee_cfg bc mint_supply token_amount =
     (if token_amount = 0 \<or> virtual_token_reserves bc = 0 then Ok 0
      else
        let sol_out = to_u128 token_amount * to_u128 (virtual_quote_reserves bc)
              div (to_u128 (virtual_token_reserves bc) + to_u128 token_amount)
        in and_then (fee_for_quote e glob fee_cfg bc mint_supply sol_out) (\<lambda>fee.
             if sint ((sol_out :: i128) - fee) < 0 then Err FeesExceedOutput
             else Ok (as_u64 (sol_out - fee))))"

section \<open>The v3 buys\<close>

definition check_curve_open :: "bonding_curve \<Rightarrow> bool \<Rightarrow> unit quote_result" where
  "check_curve_open bc allow_cashback =
     (if complete bc \<or> (bc_is_cashback_coin bc \<and> \<not> allow_cashback)
      then Err VenueNotSupported else Ok ())"

fun with_fees :: "u64 \<Rightarrow> u64 \<times> u64 \<Rightarrow> u128" where
  "with_fees amount (protocol, creator) =
     (let amount = to_u128 amount
      in amount + fee_amount amount protocol + fee_amount amount creator)"

definition buy_quote :: "bonding_curve \<Rightarrow> u64 \<Rightarrow> u64 quote_result" where
  "buy_quote bc amount =
     (if amount = 0 then Err ZeroAmount
      else
        and_then (ok_or (opt_filter (\<lambda>d. d > 0)
                    (checked_sub (to_u128 (virtual_token_reserves bc)) (to_u128 amount)))
                  DepletedBondingCurve) (\<lambda>denom.
        and_then (mul_div_u128 (to_u128 amount) (to_u128 (virtual_quote_reserves bc)) denom)
          (\<lambda>q. let cost = q + 1 in ok_or (try_u64 cost) MathOverflow)))"

definition pool_to_be ::
  "global \<Rightarrow> bonding_curve \<Rightarrow> u64 \<Rightarrow> bool \<Rightarrow> u64 \<Rightarrow> u64 \<Rightarrow> (u64 \<times> u64) quote_result"
where
  "pool_to_be glob bc base_ata_amount is_legacy curve_tokens curve_net_quote =
     and_then (ok_or (checked_sub base_ata_amount curve_tokens) MathOverflow) (\<lambda>base.
     and_then (ok_or (checked_add (real_quote_reserves bc) curve_net_quote) MathOverflow)
       (\<lambda>raised.
     and_then (if is_legacy
               then ok_or (checked_sub raised (g_pool_migration_fee glob)) MathOverflow
               else Ok raised) (\<lambda>quote.
       if base = 0 \<or> quote = 0 then Err EmptyReserves else Ok (base, quote))))"

fun post_complete_leg_exact_quote ::
  "u64 \<times> u64 \<Rightarrow> u64 \<times> u64 \<Rightarrow> u64 \<Rightarrow> bool \<Rightarrow> (u64 \<times> u64) option quote_result"
where
  "post_complete_leg_exact_quote (pool_base, pool_quote) (protocol, creator) budget whole_budget =
     (let total = to_u128 protocol + to_u128 creator
      in if to_u128 budget * 10000 div (10000 + total) < 2 then Ok None
         else
           and_then (exact_in_fee_amounts budget (protocol, creator, 0))
             (\<lambda>(net, fee, creator_fee, _).
           and_then (if whole_budget
                     then ok_or (checked_sub budget (fee + creator_fee)) MathOverflow
                     else Ok net) (\<lambda>quote_in.
           and_then (swap_exact_input (to_u128 (quote_in - 1)) (to_u128 pool_quote)
                       (to_u128 pool_base)) (\<lambda>base_out.
             if base_out = 0 then Ok None
             else Ok (Some (as_u64 base_out, quote_in + fee + creator_fee))))))"

definition buy_v3_sol_amount_from_token_amount ::
  "'e pda_env_scheme \<Rightarrow> global \<Rightarrow> fee_config \<Rightarrow> bonding_curve \<Rightarrow> u64 \<Rightarrow> u64 \<Rightarrow> u64 \<Rightarrow> u64 quote_result"
where
  "buy_v3_sol_amount_from_token_amount e glob fee_cfg bc mint_supply base_ata_amount token_amount =
     and_then (check_curve_open bc False) (\<lambda>_.
     let remaining = real_token_reserves bc
     in if token_amount \<le> remaining \<or> bc_is_mayhem_mode bc
        then buy_sol_amount_from_token_amount e glob fee_cfg bc mint_supply token_amount
        else
          and_then (curve_fee_bps e glob fee_cfg bc mint_supply) (\<lambda>bps.
          and_then (buy_quote bc remaining) (\<lambda>sol_cost.
          let is_legacy = is_sol_like_quote_mint e (bc_quote_mint bc)
          in and_then (pool_to_be glob bc base_ata_amount is_legacy remaining sol_cost)
               (\<lambda>(pool_base, pool_quote).
             let past = token_amount - remaining
             in if pool_base \<le> past then Err BaseOutExceedsReserve
                else
                  and_then (ok_or (try_u64 (ceil_div (to_u128 pool_quote * to_u128 past)
                              (to_u128 (pool_base - past)))) MathOverflow) (\<lambda>quote_in.
                  ok_or (try_u64 (with_fees sol_cost bps + with_fees quote_in bps))
                    MathOverflow)))))"

definition buy_v3_token_amount_from_sol_amount ::
  "'e pda_env_scheme \<Rightarrow> global \<Rightarrow> fee_config \<Rightarrow> bonding_curve \<Rightarrow> u64 \<Rightarrow> u64 \<Rightarrow> u64 \<Rightarrow>
     (u64 \<times> u64) quote_result"
where
  "buy_v3_token_amount_from_sol_amount e glob fee_cfg bc mint_supply base_ata_amount sol_amount =
     and_then (check_curve_open bc False) (\<lambda>_.
     and_then (buy_tokens_exact_in e glob fee_cfg bc mint_supply sol_amount) (\<lambda>tokens.
     if tokens = 0 then Ok (0, 0)
     else
       and_then (curve_fee_bps e glob fee_cfg bc mint_supply) (\<lambda>bps.
       let remaining = real_token_reserves bc
       in if tokens \<le> to_u128 remaining
          then
            and_then (exact_in_fee_amounts sol_amount (fst bps, snd bps, 0))
              (\<lambda>(net, fee, creator_fee, _). Ok (as_u64 tokens, net + fee + creator_fee))
          else
            and_then (buy_quote bc remaining) (\<lambda>net.
            and_then (ok_or (try_u64 (with_fees net bps)) MathOverflow) (\<lambda>curve_total.
            and_then (ok_or (checked_sub sol_amount curve_total) MathOverflow) (\<lambda>budget_left.
            if budget_left = 0 \<or> bc_is_mayhem_mode bc then Ok (remaining, curve_total)
            else
              let is_legacy = is_sol_like_quote_mint e (bc_quote_mint bc)
              in and_then (pool_to_be glob bc base_ata_amount is_legacy remaining net) (\<lambda>pool.
                 and_then (post_complete_leg_exact_quote pool bps budget_left False) (\<lambda>leg.
                   Ok (case leg of
                         Some (base_out, leg_total) \<Rightarrow>
                           (remaining + base_out, curve_total + leg_total)
                       | None \<Rightarrow> (remaining, curve_total))))))))))"

section \<open>The curve hop\<close>

definition HOP_FEE_PROTOCOL :: u8 where "HOP_FEE_PROTOCOL = push_bit 0 1"
definition HOP_FEE_CREATOR :: u8 where "HOP_FEE_CREATOR = push_bit 1 1"

definition sell_quote :: "u64 \<Rightarrow> u64 \<Rightarrow> u64 \<Rightarrow> u128 quote_result" where
  "sell_quote vq vt amount =
     (let amount = to_u128 amount;
          v_sol = to_u128 vq;
          v_tokens = to_u128 vt
      in and_then (ok_or (checked_add v_tokens amount) MathOverflow) (\<lambda>denom.
           mul_div_u128 amount v_sol denom))"

definition multi_hop_curve_hop ::
  "'e pda_env_scheme \<Rightarrow> global \<Rightarrow> fee_config \<Rightarrow> bonding_curve \<Rightarrow> u64 \<Rightarrow> u64 \<Rightarrow> pubkey \<Rightarrow> bool \<Rightarrow>
     u64 \<Rightarrow> u8 \<Rightarrow> u64 quote_result"
where
  "multi_hop_curve_hop e glob fee_cfg bc mint_supply base_ata_amount user is_buy amount_in flags =
     (let charges_creator = and flags HOP_FEE_CREATOR \<noteq> 0
      in and_then (check_curve_open bc (\<not> charges_creator)) (\<lambda>_.
         if bc_is_mayhem_mode bc then Err VenueNotSupported
         else
           and_then (curve_fee_bps e glob fee_cfg bc mint_supply) (\<lambda>(protocol, creator).
           let bps0 = (if and flags HOP_FEE_PROTOCOL \<noteq> 0 then protocol else 0);
               bps1 = (if charges_creator then creator else 0)
           in if \<not> is_buy
              then
                and_then (sell_quote (virtual_quote_reserves bc) (virtual_token_reserves bc)
                            amount_in) (\<lambda>gross.
                and_then (ok_or (opt_filter (\<lambda>out. out > 0)
                            (checked_sub gross (fee_amount gross bps0 + fee_amount gross bps1)))
                          ZeroAmount) (\<lambda>out.
                  ok_or (try_u64 out) MathOverflow))
              else
                and_then (exact_in_fee_amounts amount_in (bps0, bps1, 0))
                  (\<lambda>(_, fee, creator_fee, _).
                and_then (ok_or (opt_filter (\<lambda>net. net > 0)
                            (checked_sub amount_in (fee + creator_fee))) ZeroAmount) (\<lambda>net.
                and_then (swap_exact_input (to_u128 net - 1)
                            (to_u128 (virtual_quote_reserves bc))
                            (to_u128 (virtual_token_reserves bc))) (\<lambda>tokens.
                if tokens = 0 then Err ZeroAmount
                else
                  let remaining = real_token_reserves bc
                  in if tokens \<le> to_u128 remaining then Ok (as_u64 tokens)
                     else if user = g_whitelist_pda glob then Err PostCompleteLegNotAllowed
                     else
                       and_then (buy_quote bc remaining) (\<lambda>curve_net.
                       case opt_filter (\<lambda>left. left > 0)
                              (checked_sub (to_u128 amount_in) (with_fees curve_net (bps0, bps1))) of
                         None \<Rightarrow> Ok remaining
                       | Some left \<Rightarrow>
                           and_then (pool_to_be glob bc base_ata_amount
                                       (is_sol_like_quote_mint e (bc_quote_mint bc)) remaining
                                       curve_net) (\<lambda>pool.
                           and_then (post_complete_leg_exact_quote pool (bps0, bps1)
                                       (as_u64 left) True) (\<lambda>leg.
                             Ok (remaining + (case leg of None \<Rightarrow> 0
                                              | Some (base_out, _) \<Rightarrow> base_out)))))))))))"

section \<open>Fee-less primitives\<close>

definition buy_token_quote_with_sol :: "u64 \<Rightarrow> u64 \<Rightarrow> u64 \<Rightarrow> u128 quote_result" where
  "buy_token_quote_with_sol vq vt sol_amount =
     (let sol_amount = to_u128 sol_amount;
          v_sol = to_u128 vq;
          v_tokens = to_u128 vt
      in and_then (ok_or (checked_add v_sol sol_amount) MathOverflow) (\<lambda>denom.
           mul_div_u128 sol_amount v_tokens denom))"

definition sell_token_quote_with_sol :: "u64 \<Rightarrow> u64 \<Rightarrow> u64 \<Rightarrow> u128 quote_result" where
  "sell_token_quote_with_sol vq vt sol_amount =
     (let sol_amount = to_u128 sol_amount;
          v_sol = to_u128 vq;
          v_tokens = to_u128 vt
      in and_then (ok_or (checked_sub v_sol sol_amount) MathOverflow) (\<lambda>denom.
           mul_div_u128 sol_amount v_tokens denom))"

definition validate_market_cap :: "u64 \<Rightarrow> u64 \<Rightarrow> u128 \<Rightarrow> u16 \<Rightarrow> unit quote_result" where
  "validate_market_cap vq vt target_market_cap slippage_bps =
     (let v_sol = to_u128 vq;
          v_tokens = to_u128 vt
      in and_then (mul_div_u128 TOKEN_SUPPLY v_sol v_tokens) (\<lambda>current.
         and_then (ok_or (slippage_bounds target_market_cap slippage_bps) MathOverflow)
           (\<lambda>(mn, mx). if current < mn \<or> current > mx then Err SlippageExceeded else Ok ())))"

end
