(* ===== verification/Amm.thy ===== *)
theory Amm
  imports Curve
begin

text \<open>
  \<open>src/src/math/amm.rs\<close>: the reserves of a pump-amm pool, its three quotes, the fee split
  of a multi-hop route (\<open>HopFees\<close>) and the pool hop. Functions the code names as in
  \<open>bonding_curve.rs\<close> carry the prefix \<open>amm_\<close>.
\<close>

section \<open>Reserves and switches\<close>

text \<open>\<open>i128::checked_add\<close> and \<open>u64::try_from(i128)\<close>.\<close>

definition checked_add_i128 :: "i128 \<Rightarrow> i128 \<Rightarrow> i128 option" where
  "checked_add_i128 a b =
     (let s = sint a + sint b
      in if - (2 ^ 127) \<le> s \<and> s < 2 ^ 127 then Some (word_of_int s) else None)"

definition try_u64_i128 :: "i128 \<Rightarrow> u64 option" where
  "try_u64_i128 v = (if 0 \<le> sint v \<and> sint v < 2 ^ 64 then Some (ucast v) else None)"

definition effective_quote_reserve :: "pool \<Rightarrow> u64 \<Rightarrow> u64 quote_result" where
  "effective_quote_reserve pl quote_vault_balance =
     ok_or (case checked_add_i128 (to_u128 quote_vault_balance) (p_virtual_quote_reserves pl) of
              None \<Rightarrow> None | Some v \<Rightarrow> try_u64_i128 v)
       MathOverflow"

definition check_trading_enabled :: "global_config \<Rightarrow> bool \<Rightarrow> unit quote_result" where
  "check_trading_enabled cfg is_buy =
     (let b = (if is_buy then 3 else 4)
      in if and (gc_disable_flags cfg) (push_bit b 1) \<noteq> 0 then Err TradingDisabled else Ok ())"

definition fee_buckets_total :: "pool \<Rightarrow> u64 quote_result" where
  "fee_buckets_total pl = ok_or (checked_add (p_protocol_fees pl) (p_creator_fees pl)) MathOverflow"

definition real_quote_reserve :: "pool \<Rightarrow> u64 \<Rightarrow> u64 quote_result" where
  "real_quote_reserve pl quote_vault_balance =
     and_then (fee_buckets_total pl) (\<lambda>buckets.
       ok_or (checked_sub quote_vault_balance buckets) MathOverflow)"

section \<open>Quotes\<close>

record buy_quote_input_result =
  bqi_base_amount_out :: u64
  bqi_effective_quote :: u64

record buy_base_input_result =
  bbi_total_quote_in :: u64
  bbi_raw_quote_in :: u64

record sell_base_input_result =
  sbi_final_quote_out :: u64
  sbi_raw_quote_out :: u64

record amm_context =
  cx_global_config :: global_config
  cx_fee_config :: fee_config
  cx_base_mint :: pubkey
  cx_pool_creator :: pubkey
  cx_coin_creator :: pubkey
  cx_quote_mint :: pubkey
  cx_creator_fee_bps :: u64
  cx_base_reserve :: u64
  cx_quote_reserve :: u64
  cx_base_mint_supply :: u64
  cx_real_quote_reserve :: u64

definition check_reserves :: "amm_context \<Rightarrow> unit quote_result" where
  "check_reserves ctx =
     (if cx_base_reserve ctx = 0 \<or> cx_quote_reserve ctx = 0 then Err EmptyReserves else Ok ())"

text \<open>The call of \<open>compute_amm_fee_bps\<close> the three quotes share.\<close>

definition ctx_fee_bps :: "'e pda_env_scheme \<Rightarrow> amm_context \<Rightarrow> amm_fee_bps quote_result" where
  "ctx_fee_bps e ctx =
     compute_amm_fee_bps e (cx_global_config ctx) (cx_fee_config ctx) (cx_base_mint ctx)
       (cx_pool_creator ctx) (cx_quote_mint ctx) (cx_creator_fee_bps ctx)
       (cx_base_mint_supply ctx) (cx_base_reserve ctx) (cx_quote_reserve ctx)"

definition buy_quote_input ::
  "'e pda_env_scheme \<Rightarrow> amm_context \<Rightarrow> u64 \<Rightarrow> buy_quote_input_result quote_result" where
  "buy_quote_input e ctx quote_in =
     and_then (check_trading_enabled (cx_global_config ctx) True) (\<lambda>_.
     and_then (check_reserves ctx) (\<lambda>_.
     and_then (ctx_fee_bps e ctx) (\<lambda>bps.
     let coin_creator_bps =
           (if cx_coin_creator ctx = default_key then 0 else af_creator_fee_bps bps)
     in and_then (exact_in_fees quote_in
                    (af_lp_fee_bps bps, af_protocol_fee_bps bps, coin_creator_bps)) (\<lambda>net.
        and_then (swap_exact_input (to_u128 net - 1) (to_u128 (cx_quote_reserve ctx))
                    (to_u128 (cx_base_reserve ctx))) (\<lambda>base_out.
        if base_out = 0 then Err ZeroAmount
        else Ok \<lparr>bqi_base_amount_out = as_u64 base_out, bqi_effective_quote = net\<rparr>)))))"

definition buy_base_input ::
  "'e pda_env_scheme \<Rightarrow> amm_context \<Rightarrow> u64 \<Rightarrow> buy_base_input_result quote_result" where
  "buy_base_input e ctx base_out =
     and_then (check_trading_enabled (cx_global_config ctx) True) (\<lambda>_.
     and_then (check_reserves ctx) (\<lambda>_.
     if base_out \<ge> cx_base_reserve ctx then Err BaseOutExceedsReserve
     else
       let numerator = to_u128 (cx_quote_reserve ctx) * to_u128 base_out;
           denominator = to_u128 (cx_base_reserve ctx) - to_u128 base_out;
           raw_quote = ceil_div numerator denominator
       in and_then (ctx_fee_bps e ctx) (\<lambda>bps.
          let lp = fee_amount raw_quote (af_lp_fee_bps bps);
              protocol = fee_amount raw_quote (af_protocol_fee_bps bps);
              coin_creator =
                creator_fee_amount (cx_coin_creator ctx) raw_quote (af_creator_fee_bps bps);
              total_in = raw_quote + lp + protocol + coin_creator
          in Ok \<lparr>bbi_total_quote_in = as_u64 total_in, bbi_raw_quote_in = as_u64 raw_quote\<rparr>)))"

definition sell_base_input ::
  "'e pda_env_scheme \<Rightarrow> amm_context \<Rightarrow> u64 \<Rightarrow> sell_base_input_result quote_result" where
  "sell_base_input e ctx base_in =
     and_then (check_trading_enabled (cx_global_config ctx) False) (\<lambda>_.
     and_then (check_reserves ctx) (\<lambda>_.
     let raw_quote = to_u128 (cx_quote_reserve ctx) * to_u128 base_in
           div (to_u128 (cx_base_reserve ctx) + to_u128 base_in)
     in and_then (ctx_fee_bps e ctx) (\<lambda>bps.
        let lp = fee_amount raw_quote (af_lp_fee_bps bps);
            protocol = fee_amount raw_quote (af_protocol_fee_bps bps);
            coin_creator =
              creator_fee_amount (cx_coin_creator ctx) raw_quote (af_creator_fee_bps bps);
            total_fee = lp + protocol + coin_creator
        in if raw_quote < total_fee then Err FeesExceedOutput
           else
             let final_quote = raw_quote - total_fee
             in if to_u128 (cx_real_quote_reserve ctx) < raw_quote - lp
                then Err InsufficientRealQuoteReserves
                else Ok \<lparr>sbi_final_quote_out = as_u64 final_quote,
                        sbi_raw_quote_out = as_u64 raw_quote\<rparr>)))"

section \<open>Multi-hop fees\<close>

record hop_fees =
  hf_protocol :: bool
  hf_creator :: bool
  hf_lp :: bool

definition for_hop :: "bool \<Rightarrow> nat \<Rightarrow> nat \<Rightarrow> hop_fees" where
  "for_hop route_is_buy index hops =
     (let first = (index = 0);
          final = (index + 1 = hops);
          (protocol, target) = (if route_is_buy then (first, final) else (final, first))
      in \<lparr>hf_protocol = protocol, hf_creator = target, hf_lp = target\<rparr>)"

definition curve_flags :: "hop_fees \<Rightarrow> u8" where
  "curve_flags f = or (of_bool (hf_protocol f)) (push_bit 1 (of_bool (hf_creator f)))"

definition amm_sell_quote :: "u64 \<Rightarrow> u64 \<Rightarrow> u64 \<Rightarrow> u128 quote_result" where
  "amm_sell_quote base quote amount =
     (let amount = to_u128 amount; v_quote = to_u128 quote; v_base = to_u128 base
      in and_then (ok_or (checked_add v_base amount) MathOverflow) (\<lambda>denom.
           mul_div_u128 amount v_quote denom))"

definition multi_hop_pool_hop ::
  "'e pda_env_scheme \<Rightarrow> global_config \<Rightarrow> fee_config \<Rightarrow> pool \<Rightarrow> u64 \<Rightarrow> u64 \<Rightarrow> u64 \<Rightarrow> bool \<Rightarrow> u64 \<Rightarrow>
     hop_fees \<Rightarrow> u64 quote_result"
where
  "multi_hop_pool_hop e cfg fee_cfg pl base_reserve quote_vault_balance base_mint_supply is_buy
       amount_in legs =
     and_then (check_trading_enabled cfg is_buy) (\<lambda>_.
     if \<not> is_pump_pool e (p_base_mint pl) (p_creator pl) \<or> (hf_creator legs \<and> p_is_cashback_coin pl)
        \<or> p_is_mayhem_mode pl
     then Err VenueNotSupported
     else
       and_then (real_quote_reserve pl quote_vault_balance) (\<lambda>real_quote.
       and_then (effective_quote_reserve pl quote_vault_balance) (\<lambda>quote_reserve.
       if base_reserve = 0 \<or> quote_reserve = 0 then Err EmptyReserves
       else
         and_then (compute_amm_fee_bps e cfg fee_cfg (p_base_mint pl) (p_creator pl)
                     (p_quote_mint pl) (p_creator_fee_bps pl) base_mint_supply base_reserve
                     quote_reserve) (\<lambda>rates.
         let has_creator = p_coin_creator pl \<noteq> default_key;
             b0 = (if hf_lp legs then af_lp_fee_bps rates else 0);
             b1 = (if hf_protocol legs then af_protocol_fee_bps rates else 0);
             b2 = (if hf_creator legs \<and> has_creator then af_creator_fee_bps rates else 0)
         in if is_buy
            then
              and_then (exact_in_fee_amounts amount_in (b0, b1, b2)) (\<lambda>(_, f0, f1, f2).
              and_then (ok_or (opt_filter (\<lambda>net. net > 0)
                          (checked_sub amount_in (0 + f0 + f1 + f2))) ZeroAmount) (\<lambda>net.
              and_then (swap_exact_input (to_u128 net - 1) (to_u128 quote_reserve)
                          (to_u128 base_reserve)) (\<lambda>out.
                if out = 0 then Err ZeroAmount else Ok (as_u64 out))))
            else
              and_then (amm_sell_quote base_reserve quote_reserve amount_in) (\<lambda>gross.
              let lp = fee_amount gross b0;
                  protocol = fee_amount gross b1;
                  creator = fee_amount gross b2
              in and_then (ok_or (checked_sub gross lp) FeesExceedOutput) (\<lambda>without_lp.
                 if to_u128 real_quote < without_lp then Err InsufficientRealQuoteReserves
                 else
                   and_then (ok_or (checked_sub without_lp (protocol + creator)) FeesExceedOutput)
                     (\<lambda>out. if out = 0 then Err ZeroAmount else Ok (as_u64 out))))))))"

section \<open>Fee-less primitives\<close>

definition amm_buy_token_quote_with_sol :: "u64 \<Rightarrow> u64 \<Rightarrow> u64 \<Rightarrow> u128 quote_result" where
  "amm_buy_token_quote_with_sol base quote sol_amount =
     (let sol_amount = to_u128 sol_amount; v_quote = to_u128 quote; v_base = to_u128 base
      in and_then (ok_or (checked_add v_quote sol_amount) MathOverflow) (\<lambda>denom.
           mul_div_u128 sol_amount v_base denom))"

definition amm_sell_token_quote_with_sol :: "u64 \<Rightarrow> u64 \<Rightarrow> u64 \<Rightarrow> u128 quote_result" where
  "amm_sell_token_quote_with_sol base quote sol_amount =
     (let sol_amount = to_u128 sol_amount; v_quote = to_u128 quote; v_base = to_u128 base
      in and_then (ok_or (checked_sub v_quote sol_amount) MathOverflow) (\<lambda>denom.
           mul_div_u128 sol_amount v_base denom))"

definition amm_validate_market_cap :: "u64 \<Rightarrow> u64 \<Rightarrow> u128 \<Rightarrow> u16 \<Rightarrow> unit quote_result" where
  "amm_validate_market_cap base quote target_market_cap slippage_bps =
     (let v_quote = to_u128 quote; v_base = to_u128 base
      in and_then (mul_div_u128 TOKEN_SUPPLY v_quote v_base) (\<lambda>current.
         and_then (ok_or (slippage_bounds target_market_cap slippage_bps) MathOverflow)
           (\<lambda>(mn, mx). if current < mn \<or> current > mx then Err SlippageExceeded else Ok ())))"

end
