(* ===== verification/Sdk_Quotes.thy ===== *)
theory Sdk_Quotes
  imports Amm
begin

text \<open>
  The offline quoting half of \<open>PumpSdk\<close>: fee recipients and quotes of
  \<open>src/src/sdk/mod.rs\<close>, routes (\<open>MultiHopHop\<close>, \<open>multi_hop_route\<close>) of
  \<open>src/src/sdk/pump_amm_ix.rs\<close>, the virtual reserves of a new curve of
  \<open>src/src/sdk/pump_v2.rs\<close> and \<open>quote_trade\<close> of \<open>src/src/sdk/trade_tx.rs\<close>.
\<close>

section \<open>Fee recipients\<close>

text \<open>
  \<open>fastrand::usize(..n)\<close> is an argument \<open>draw\<close>, one per call of the generator, of
  which the code relies on \<open>draw n < n\<close> for \<open>n > 0\<close> (\<open>draw_ok\<close>): that is what keeps
  the index in range.
\<close>

definition draw_ok :: "(nat \<Rightarrow> nat) \<Rightarrow> bool" where
  "draw_ok draw \<longleftrightarrow> (\<forall>n>0. draw n < n)"

definition dedupe_sorted :: "pubkey list \<Rightarrow> pubkey list" where
  "dedupe_sorted keys = remdups_adj (sort keys)"

definition pick_random_pubkey :: "(nat \<Rightarrow> nat) \<Rightarrow> pubkey list \<Rightarrow> pubkey option" where
  "pick_random_pubkey draw candidates =
     (if candidates = [] then None else Some (candidates ! draw (length candidates)))"

definition fee_recipient_from_pump_global :: "(nat \<Rightarrow> nat) \<Rightarrow> global \<Rightarrow> bool \<Rightarrow> pubkey option" where
  "fee_recipient_from_pump_global draw glob is_mayhem =
     (let (primary, pl) =
            (if is_mayhem then (g_reserved_fee_recipient glob, g_reserved_fee_recipients glob)
             else (g_fee_recipient glob, g_fee_recipients glob));
          candidates = (if primary \<noteq> default_key then [primary] else [])
            @ filter (\<lambda>p. p \<noteq> default_key) pl
      in pick_random_pubkey draw (dedupe_sorted candidates))"

definition buyback_fee_recipient_from_pump_global :: "(nat \<Rightarrow> nat) \<Rightarrow> global \<Rightarrow> pubkey option" where
  "buyback_fee_recipient_from_pump_global draw glob =
     pick_random_pubkey draw (dedupe_sorted
       (filter (\<lambda>p. p \<noteq> default_key) (g_buyback_fee_recipients glob)))"

definition protocol_fee_recipient_from_amm_global ::
  "(nat \<Rightarrow> nat) \<Rightarrow> global_config \<Rightarrow> pubkey option" where
  "protocol_fee_recipient_from_amm_global draw cfg =
     pick_random_pubkey draw (dedupe_sorted
       (filter (\<lambda>p. p \<noteq> default_key) (gc_protocol_fee_recipients cfg)))"

definition buyback_fee_recipient_from_amm_global ::
  "(nat \<Rightarrow> nat) \<Rightarrow> global_config \<Rightarrow> pubkey option" where
  "buyback_fee_recipient_from_amm_global draw cfg =
     pick_random_pubkey draw (dedupe_sorted
       (filter (\<lambda>p. p \<noteq> default_key) (gc_buyback_fee_recipients cfg)))"

definition pump_fee_recipients_pair ::
  "(nat \<Rightarrow> nat) \<Rightarrow> (nat \<Rightarrow> nat) \<Rightarrow> global \<Rightarrow> bool \<Rightarrow> (pubkey \<times> pubkey) option" where
  "pump_fee_recipients_pair d1 d2 glob is_mayhem =
     (case fee_recipient_from_pump_global d1 glob is_mayhem of None \<Rightarrow> None | Some fee \<Rightarrow>
      (case buyback_fee_recipient_from_pump_global d2 glob of None \<Rightarrow> None | Some buyback \<Rightarrow>
         Some (fee, buyback)))"

definition amm_fee_recipients_pair ::
  "(nat \<Rightarrow> nat) \<Rightarrow> (nat \<Rightarrow> nat) \<Rightarrow> global_config \<Rightarrow> (pubkey \<times> pubkey) option" where
  "amm_fee_recipients_pair d1 d2 cfg =
     (case protocol_fee_recipient_from_amm_global d1 cfg of None \<Rightarrow> None | Some fee \<Rightarrow>
      (case buyback_fee_recipient_from_amm_global d2 cfg of None \<Rightarrow> None | Some buyback \<Rightarrow>
         Some (fee, buyback)))"

section \<open>Quotes\<close>

record trade_quote =
  q_amount :: u64
  q_min_out :: u64
  q_input_amount_used :: u64
  q_max_input :: u64

datatype amm_quote_source =
    PoolSource pool u64 u64 u64
  | BondingCurveComplete global bonding_curve pubkey u64

definition fee_tier_supply :: "bool \<Rightarrow> u64 \<Rightarrow> u64" where
  "fee_tier_supply is_mayhem_mode base_mint_supply =
     (if is_mayhem_mode then as_u64 TOKEN_SUPPLY else base_mint_supply)"

definition estimated_reserves ::
  "'e pda_env_scheme \<Rightarrow> global \<Rightarrow> bonding_curve \<Rightarrow> (u64 \<times> u64) quote_result" where
  "estimated_reserves e glob bc =
     and_then (ok_or (case checked_sub (bc_token_total_supply bc) (g_initial_real_token_reserves glob) of
                        None \<Rightarrow> None
                      | Some base \<Rightarrow> checked_sub base (post_complete_base_out bc)) EmptyReserves)
       (\<lambda>base_reserve.
     let migration_fee =
           (if is_sol_like_quote_mint e (bc_quote_mint bc) then g_pool_migration_fee glob else 0)
     in and_then (ok_or (case checked_add (real_quote_reserves bc) (post_complete_quote_in bc) of
                           None \<Rightarrow> None
                         | Some raised \<Rightarrow> checked_sub raised migration_fee) EmptyReserves)
          (\<lambda>quote_reserve.
        if base_reserve = 0 \<or> quote_reserve = 0 then Err EmptyReserves
        else Ok (base_reserve, quote_reserve)))"

fun map_amm_quote_source ::
  "'e pda_env_scheme \<Rightarrow> global_config \<Rightarrow> fee_config \<Rightarrow> amm_quote_source \<Rightarrow>
     (amm_context \<Rightarrow> 'r quote_result) \<Rightarrow> 'r quote_result"
where
  "map_amm_quote_source e cfg fee_cfg (PoolSource pl base_reserve quote_reserve base_mint_supply)
       with_ctx =
     and_then (effective_quote_reserve pl quote_reserve) (\<lambda>effective.
     and_then (real_quote_reserve pl quote_reserve) (\<lambda>real.
       with_ctx \<lparr>cx_global_config = cfg, cx_fee_config = fee_cfg, cx_base_mint = p_base_mint pl,
         cx_pool_creator = p_creator pl, cx_coin_creator = p_coin_creator pl,
         cx_quote_mint = p_quote_mint pl, cx_creator_fee_bps = p_creator_fee_bps pl,
         cx_base_reserve = base_reserve, cx_quote_reserve = effective,
         cx_base_mint_supply = fee_tier_supply (p_is_mayhem_mode pl) base_mint_supply,
         cx_real_quote_reserve = real\<rparr>))"
| "map_amm_quote_source e cfg fee_cfg (BondingCurveComplete glob bc base_mint base_mint_supply)
       with_ctx =
     and_then (estimated_reserves e glob bc) (\<lambda>(base_reserve, quote_reserve).
     let pool_creator_pk = fst (pool_authority e base_mint)
     in with_ctx \<lparr>cx_global_config = cfg, cx_fee_config = fee_cfg, cx_base_mint = base_mint,
          cx_pool_creator = pool_creator_pk, cx_coin_creator = bc_creator bc,
          cx_quote_mint = bc_quote_mint bc, cx_creator_fee_bps = bc_creator_fee_bps bc,
          cx_base_reserve = base_reserve, cx_quote_reserve = quote_reserve,
          cx_base_mint_supply = fee_tier_supply (bc_is_mayhem_mode bc) base_mint_supply,
          cx_real_quote_reserve = quote_reserve\<rparr>)"

subsection \<open>Bonding curve\<close>

definition buy_quote_bonding_curve_sol_in ::
  "'e pda_env_scheme \<Rightarrow> global \<Rightarrow> fee_config \<Rightarrow> bonding_curve \<Rightarrow> u64 \<Rightarrow> u64 \<Rightarrow> u16 \<Rightarrow>
     trade_quote quote_result"
where
  "buy_quote_bonding_curve_sol_in e glob fee_cfg bc mint_supply sol_amount slippage_bps =
     and_then (buy_token_amount_from_sol_amount e glob fee_cfg bc mint_supply sol_amount)
       (\<lambda>tokens_out.
     and_then (if tokens_out > 0 \<and> tokens_out \<ge> real_token_reserves bc
               then buy_sol_amount_from_token_amount e glob fee_cfg bc mint_supply tokens_out
               else Ok sol_amount) (\<lambda>input_amount_used.
       Ok \<lparr>q_amount = tokens_out, q_min_out = sub_slippage tokens_out slippage_bps,
           q_input_amount_used = input_amount_used, q_max_input = sol_amount\<rparr>))"

definition buy_quote_bonding_curve_token_out ::
  "'e pda_env_scheme \<Rightarrow> global \<Rightarrow> fee_config \<Rightarrow> bonding_curve \<Rightarrow> u64 \<Rightarrow> u64 \<Rightarrow> u16 \<Rightarrow>
     trade_quote quote_result"
where
  "buy_quote_bonding_curve_token_out e glob fee_cfg bc mint_supply token_amount slippage_bps =
     and_then (buy_sol_amount_from_token_amount e glob fee_cfg bc mint_supply token_amount)
       (\<lambda>sol_cost.
     let tokens = min token_amount (real_token_reserves bc)
     in Ok \<lparr>q_amount = sol_cost, q_min_out = tokens, q_input_amount_used = tokens,
            q_max_input = add_slippage sol_cost slippage_bps\<rparr>)"

definition buy_quote_bonding_curve_v3_sol_in ::
  "'e pda_env_scheme \<Rightarrow> global \<Rightarrow> fee_config \<Rightarrow> bonding_curve \<Rightarrow> u64 \<Rightarrow> u64 \<Rightarrow> u64 \<Rightarrow> u16 \<Rightarrow>
     trade_quote quote_result"
where
  "buy_quote_bonding_curve_v3_sol_in e glob fee_cfg bc mint_supply base_ata_amount sol_amount
       slippage_bps =
     and_then (buy_v3_token_amount_from_sol_amount e glob fee_cfg bc mint_supply base_ata_amount
                 sol_amount) (\<lambda>(tokens_out, input_amount_used).
       Ok \<lparr>q_amount = tokens_out, q_min_out = sub_slippage tokens_out slippage_bps,
           q_input_amount_used = input_amount_used, q_max_input = sol_amount\<rparr>)"

definition buy_quote_bonding_curve_v3_token_out ::
  "'e pda_env_scheme \<Rightarrow> global \<Rightarrow> fee_config \<Rightarrow> bonding_curve \<Rightarrow> u64 \<Rightarrow> u64 \<Rightarrow> u64 \<Rightarrow> u16 \<Rightarrow>
     trade_quote quote_result"
where
  "buy_quote_bonding_curve_v3_token_out e glob fee_cfg bc mint_supply base_ata_amount token_amount
       slippage_bps =
     and_then (buy_v3_sol_amount_from_token_amount e glob fee_cfg bc mint_supply base_ata_amount
                 token_amount) (\<lambda>sol_cost.
     let tokens = (if bc_is_mayhem_mode bc then min token_amount (real_token_reserves bc)
                   else token_amount)
     in Ok \<lparr>q_amount = sol_cost, q_min_out = tokens, q_input_amount_used = tokens,
            q_max_input = add_slippage sol_cost slippage_bps\<rparr>)"

definition sell_quote_bonding_curve ::
  "'e pda_env_scheme \<Rightarrow> global \<Rightarrow> fee_config \<Rightarrow> bonding_curve \<Rightarrow> u64 \<Rightarrow> u64 \<Rightarrow> u16 \<Rightarrow>
     trade_quote quote_result"
where
  "sell_quote_bonding_curve e glob fee_cfg bc mint_supply token_amount slippage_bps =
     and_then (sell_sol_amount_from_token_amount e glob fee_cfg bc mint_supply token_amount)
       (\<lambda>sol_out.
       Ok \<lparr>q_amount = sol_out, q_min_out = sub_slippage sol_out slippage_bps,
           q_input_amount_used = token_amount, q_max_input = token_amount\<rparr>)"

subsection \<open>AMM\<close>

definition buy_quote_amm_sol_in ::
  "'e pda_env_scheme \<Rightarrow> global_config \<Rightarrow> fee_config \<Rightarrow> amm_quote_source \<Rightarrow> u64 \<Rightarrow> u16 \<Rightarrow>
     trade_quote quote_result"
where
  "buy_quote_amm_sol_in e cfg fee_cfg source sol_amount slippage_bps =
     map_amm_quote_source e cfg fee_cfg source (\<lambda>ctx.
       and_then (buy_quote_input e ctx sol_amount) (\<lambda>r.
         Ok \<lparr>q_amount = bqi_base_amount_out r,
             q_min_out = sub_slippage (bqi_base_amount_out r) slippage_bps,
             q_input_amount_used = sol_amount,
             q_max_input = add_slippage sol_amount slippage_bps\<rparr>))"

definition buy_quote_amm_token_out ::
  "'e pda_env_scheme \<Rightarrow> global_config \<Rightarrow> fee_config \<Rightarrow> amm_quote_source \<Rightarrow> u64 \<Rightarrow> u16 \<Rightarrow>
     trade_quote quote_result"
where
  "buy_quote_amm_token_out e cfg fee_cfg source token_amount slippage_bps =
     map_amm_quote_source e cfg fee_cfg source (\<lambda>ctx.
       and_then (buy_base_input e ctx token_amount) (\<lambda>r.
         Ok \<lparr>q_amount = bbi_total_quote_in r, q_min_out = token_amount,
             q_input_amount_used = token_amount,
             q_max_input = add_slippage (bbi_total_quote_in r) slippage_bps\<rparr>))"

definition sell_quote_amm ::
  "'e pda_env_scheme \<Rightarrow> global_config \<Rightarrow> fee_config \<Rightarrow> amm_quote_source \<Rightarrow> u64 \<Rightarrow> u16 \<Rightarrow>
     trade_quote quote_result"
where
  "sell_quote_amm e cfg fee_cfg source token_amount slippage_bps =
     map_amm_quote_source e cfg fee_cfg source (\<lambda>ctx.
       and_then (sell_base_input e ctx token_amount) (\<lambda>r.
         Ok \<lparr>q_amount = sbi_final_quote_out r,
             q_min_out = sub_slippage (sbi_final_quote_out r) slippage_bps,
             q_input_amount_used = token_amount, q_max_input = token_amount\<rparr>))"

subsection \<open>Auto-routed quotes\<close>

record pump_pool_quote_ctx =
  pq_amm_global :: global_config
  pq_amm_fee_config :: fee_config
  pq_pool_state :: pool
  pq_base_reserve :: u64
  pq_quote_reserve :: u64

record trade_quote_params =
  tq_is_buy :: bool
  tq_base_amount :: u64
  tq_slippage_bps :: u16
  tq_base_mint_supply :: u64
  tq_pump_global :: global
  tq_pump_fee_config :: fee_config
  tq_bonding_curve :: bonding_curve
  tq_pump_pool :: "pump_pool_quote_ctx option"

definition quote_trade ::
  "'e pda_env_scheme \<Rightarrow> trade_quote_params \<Rightarrow> trade_quote quote_result option" where
  "quote_trade e params =
     (if complete (tq_bonding_curve params)
      then
        (case tq_pump_pool params of
           None \<Rightarrow> None
         | Some p \<Rightarrow>
             let source = PoolSource (pq_pool_state p) (pq_base_reserve p) (pq_quote_reserve p)
                   (tq_base_mint_supply params)
             in Some (if tq_is_buy params
                      then buy_quote_amm_token_out e (pq_amm_global p) (pq_amm_fee_config p) source
                             (tq_base_amount params) (tq_slippage_bps params)
                      else sell_quote_amm e (pq_amm_global p) (pq_amm_fee_config p) source
                             (tq_base_amount params) (tq_slippage_bps params)))
      else
        Some (if tq_is_buy params
              then buy_quote_bonding_curve_token_out e (tq_pump_global params)
                     (tq_pump_fee_config params) (tq_bonding_curve params)
                     (tq_base_mint_supply params) (tq_base_amount params) (tq_slippage_bps params)
              else sell_quote_bonding_curve e (tq_pump_global params)
                     (tq_pump_fee_config params) (tq_bonding_curve params)
                     (tq_base_mint_supply params) (tq_base_amount params) (tq_slippage_bps params)))"

section \<open>Routes\<close>

record multi_hop_hop =
  mh_base_mint :: pubkey
  mh_quote_mint :: pubkey
  mh_venue :: pubkey
  mh_base_vault :: pubkey
  mh_quote_vault :: pubkey

definition pool_address :: "'e pda_env_scheme \<Rightarrow> pool \<Rightarrow> pubkey" where
  "pool_address e pl =
     fst (amm_pool e (p_index pl) (p_creator pl) (p_base_mint pl) (p_quote_mint pl))"

definition resolve_quote_mint :: "pubkey \<Rightarrow> pubkey" where
  "resolve_quote_mint quote_mint = (if quote_mint = default_key then NATIVE_MINT else quote_mint)"

definition pool_hop :: "'e pda_env_scheme \<Rightarrow> pool \<Rightarrow> multi_hop_hop" where
  "pool_hop e pl = \<lparr>mh_base_mint = p_base_mint pl, mh_quote_mint = p_quote_mint pl,
     mh_venue = pool_address e pl, mh_base_vault = p_pool_base_token_account pl,
     mh_quote_vault = p_pool_quote_token_account pl\<rparr>"

definition curve_hop ::
  "'e pda_env_scheme \<Rightarrow> pubkey \<Rightarrow> pubkey \<Rightarrow> pubkey \<Rightarrow> pubkey \<Rightarrow> multi_hop_hop" where
  "curve_hop e mint quote_mint base_token_program quote_token_program =
     (let venue = fst (pump_bonding_curve e mint);
          quote_mint = resolve_quote_mint quote_mint
      in \<lparr>mh_base_mint = mint, mh_quote_mint = quote_mint, mh_venue = venue,
          mh_base_vault = fst (associated_token e venue base_token_program mint),
          mh_quote_vault = fst (associated_token e venue quote_token_program quote_mint)\<rparr>)"

text \<open>The loop of \<open>multi_hop_route\<close>: the running mint and \<open>direction\<close>.\<close>

fun route_loop ::
  "pubkey \<Rightarrow> bool option \<Rightarrow> multi_hop_hop list \<Rightarrow> (bool option \<times> pubkey) quote_result" where
  "route_loop mint direction [] = Ok (direction, mint)"
| "route_loop mint direction (hop # hops) =
     and_then (if mint = mh_quote_mint hop then Ok True
               else if mint = mh_base_mint hop then Ok False
               else Err MultiHopDiscontinuousPath) (\<lambda>is_buy.
     let d = (case direction of None \<Rightarrow> is_buy | Some d \<Rightarrow> d)
     in if d \<noteq> is_buy then Err MultiHopMixedDirection
        else route_loop (if is_buy then mh_base_mint hop else mh_quote_mint hop) (Some d) hops)"

definition multi_hop_route :: "pubkey \<Rightarrow> multi_hop_hop list \<Rightarrow> (bool \<times> pubkey) quote_result" where
  "multi_hop_route in_mint hops =
     and_then (route_loop in_mint None hops) (\<lambda>(direction, mint).
     and_then (ok_or direction MultiHopDiscontinuousPath) (\<lambda>is_buy. Ok (is_buy, mint)))"

datatype route_hop =
    PoolHop pool u64 u64 u64
  | CurveHop pubkey bonding_curve pubkey pubkey u64 u64

fun route_hop_accounts :: "'e pda_env_scheme \<Rightarrow> route_hop \<Rightarrow> multi_hop_hop" where
  "route_hop_accounts e (PoolHop pl _ _ _) = pool_hop e pl"
| "route_hop_accounts e (CurveHop mint bc base_token_program quote_token_program _ _) =
     curve_hop e mint (bc_quote_mint bc) base_token_program quote_token_program"

text \<open>The loop of \<open>quote_multi_hop_swap\<close> over \<open>hops.iter().enumerate()\<close>.\<close>

fun quote_hops ::
  "'e pda_env_scheme \<Rightarrow> global \<Rightarrow> fee_config \<Rightarrow> global_config \<Rightarrow> fee_config \<Rightarrow> pubkey \<Rightarrow> bool \<Rightarrow>
     nat \<Rightarrow> nat \<Rightarrow> route_hop list \<Rightarrow> u64 \<Rightarrow> u64 quote_result"
where
  "quote_hops e glob pump_fc cfg amm_fc user is_buy n i [] amount = Ok amount"
| "quote_hops e glob pump_fc cfg amm_fc user is_buy n i (hop # hops) amount =
     (let legs = for_hop is_buy i n
      in and_then (case hop of
            PoolHop pl base_reserve quote_vault_balance base_mint_supply \<Rightarrow>
              multi_hop_pool_hop e cfg amm_fc pl base_reserve quote_vault_balance
                base_mint_supply is_buy amount legs
          | CurveHop _ bc _ _ mint_supply base_ata_amount \<Rightarrow>
              multi_hop_curve_hop e glob pump_fc bc mint_supply base_ata_amount user is_buy amount
                (curve_flags legs))
          (\<lambda>amount'. quote_hops e glob pump_fc cfg amm_fc user is_buy n (i + 1) hops amount'))"

definition quote_multi_hop_swap ::
  "'e pda_env_scheme \<Rightarrow> global \<Rightarrow> fee_config \<Rightarrow> global_config \<Rightarrow> fee_config \<Rightarrow> pubkey \<Rightarrow> pubkey \<Rightarrow>
     route_hop list \<Rightarrow> u64 \<Rightarrow> u16 \<Rightarrow> trade_quote quote_result"
where
  "quote_multi_hop_swap e glob pump_fc cfg amm_fc user in_mint hops amount_in slippage_bps =
     (if amount_in = 0 then Err ZeroAmount
      else
        let keys = map (route_hop_accounts e) hops
        in and_then (multi_hop_route in_mint keys) (\<lambda>(is_buy, _).
           and_then (quote_hops e glob pump_fc cfg amm_fc user is_buy (length hops) 0 hops amount_in)
             (\<lambda>amount.
             Ok \<lparr>q_amount = amount, q_min_out = max (sub_slippage amount slippage_bps) 1,
                 q_input_amount_used = amount_in, q_max_input = amount_in\<rparr>)))"

section \<open>The reserves of a new curve\<close>

definition initial_virtual_quote_reserves ::
  "global \<Rightarrow> quote_control option \<Rightarrow> pubkey \<Rightarrow> u64 option" where
  "initial_virtual_quote_reserves glob qc quote_mint =
     (if quote_mint = default_key \<or> quote_mint = NATIVE_MINT
      then Some (g_initial_virtual_sol_reserves glob)
      else if quote_mint \<in> set (g_whitelisted_quote_mints glob)
      then Some (g_initial_virtual_quote_reserves glob)
      else
        (case qc of None \<Rightarrow> None
         | Some qc \<Rightarrow> map_option qcm_initial_virtual_quote_reserves
             (find (\<lambda>m. qcm_mint m = quote_mint) (qc_mints qc))))"

text \<open>\<open>u128::try_from(i128)\<close>.\<close>

definition try_u128_i128 :: "i128 \<Rightarrow> u128 option" where
  "try_u128_i128 v = (if 0 \<le> sint v then Some v else None)"

definition pump_quote_initial_virtual_quote_reserves ::
  "global \<Rightarrow> quote_control option \<Rightarrow> bonding_curve \<Rightarrow> (pool \<times> u64 \<times> u64) option \<Rightarrow>
     (u64 \<times> u8) quote_result"
where
  "pump_quote_initial_virtual_quote_reserves glob qc quote_curve quote_pool =
     and_then (ok_or (checked_add (depth quote_curve) 1) MathOverflow) (\<lambda>new_depth.
     if new_depth > g_max_curve_depth glob then Err CurveDepthExceeded
     else if bc_is_mayhem_mode quote_curve then Err QuoteCurveNotEligible
     else
       let q = bc_quote_mint quote_curve
       in and_then
            (if depth quote_curve > 0 then Ok (bc_initial_virtual_quote_reserves quote_curve)
             else if q = default_key then Ok (g_initial_virtual_sol_reserves glob)
             else if q = NATIVE_MINT \<or> q \<in> set (g_whitelisted_quote_mints glob)
             then Ok (g_initial_virtual_quote_reserves glob)
             else ok_or (case qc of None \<Rightarrow> None
                         | Some qc \<Rightarrow> map_option qcm_initial_virtual_quote_reserves
                             (find (\<lambda>m. qcm_mint m = q) (qc_mints qc))) QuoteCurveNotEligible)
            (\<lambda>target.
          let migrated = (real_quote_reserves quote_curve = 0 \<and>
                virtual_quote_reserves quote_curve = 0 \<and> real_token_reserves quote_curve = 0 \<and>
                virtual_token_reserves quote_curve = 0)
          in and_then
               (if migrated
                then
                  and_then (ok_or quote_pool QuotePoolAccountsRequired)
                    (\<lambda>(pl, base_vault, quote_vault).
                  and_then (ok_or
                      (case checked_add_i128 (to_u128 quote_vault) (p_virtual_quote_reserves pl) of
                         None \<Rightarrow> None | Some v \<Rightarrow> try_u128_i128 v) MathOverflow) (\<lambda>quote.
                    Ok (base_vault, quote)))
                else if complete quote_curve then Err QuoteCurveAwaitingMigration
                else Ok (virtual_token_reserves quote_curve,
                         to_u128 (virtual_quote_reserves quote_curve)))
               (\<lambda>(base, quote).
             if quote = 0 then Err MathOverflow
             else
               let real = to_u128 (g_initial_real_token_reserves glob)
               in and_then (ok_or (checked_sub (to_u128 (g_initial_virtual_token_reserves glob)) real)
                              MathOverflow) (\<lambda>unsold.
                  and_then (mul_div_u128 (to_u128 target) real unsold) (\<lambda>cost.
                  and_then (swap_exact_input cost quote (to_u128 base)) (\<lambda>raise.
                  and_then (mul_div_u128 raise unsold real) (\<lambda>d.
                  and_then (ok_or (try_u64 d) MathOverflow) (\<lambda>derived.
                    if derived = 0 then Err QuoteReservesOutOfRange
                    else Ok (derived, new_depth)))))))))"

definition initial_bonding_curve ::
  "global \<Rightarrow> pubkey \<Rightarrow> pubkey \<Rightarrow> u64 \<Rightarrow> bool \<Rightarrow> bool \<Rightarrow> u64 \<Rightarrow> bonding_curve" where
  "initial_bonding_curve glob creator quote_mint vq mayhem_mode cashback creator_bps =
     default_bonding_curve\<lparr>
       virtual_token_reserves := g_initial_virtual_token_reserves glob,
       virtual_quote_reserves := vq,
       real_token_reserves := g_initial_real_token_reserves glob,
       real_quote_reserves := 0,
       bc_token_total_supply := g_token_total_supply glob,
       complete := False,
       bc_creator := creator,
       bc_is_mayhem_mode := mayhem_mode,
       bc_is_cashback_coin := cashback,
       bc_quote_mint := resolve_quote_mint quote_mint,
       bc_creator_fee_bps := creator_bps,
       bc_can_edit_creator_fee := False,
       bc_initial_virtual_quote_reserves := vq\<rparr>"

end
