(* ===== verification/Curve_Facts.thy ===== *)
theory Curve_Facts
  imports Curve
begin

text \<open>
  Facts about the bonding-curve quotes: their values on the natural numbers, the reserves they
  respect, the absence of round-trip profit and the bounds of the v3 buys. The pool's side
  comes from the interface \<open>const_product\<close>, which \<open>sell_quote\<close> and the fee-less buys
  implement too.
\<close>

section \<open>Primitives\<close>

lemma sell_quote_swap: "sell_quote vq vt t = swap_exact_input (to_u128 t) (to_u128 vt) (to_u128 vq)"
  by (simp add: sell_quote_def swap_exact_input_def Let_def)

lemma buy_token_quote_swap:
  "buy_token_quote_with_sol vq vt x = swap_exact_input (to_u128 x) (to_u128 vq) (to_u128 vt)"
  by (simp add: buy_token_quote_with_sol_def swap_exact_input_def Let_def)

lemma sell_quote_Ok [res_simps]:
  "sell_quote vq vt t = Ok r \<longleftrightarrow>
     0 < unat vt + unat t \<and> unat r = unat t * unat vq div (unat vt + unat t)"
  by (simp add: sell_quote_swap swap_exact_input_u64)

lemma swap_u64_le:
  assumes "unat r = unat a * unat z div (unat i + unat a)"
  shows "unat r \<le> unat z"
proof -
  have "unat a * unat z div (unat i + unat a) \<le> unat z * (unat i + unat a) div (unat i + unat a)"
    by (intro div_le_mono) (simp add: algebra_simps)
  also have "\<dots> \<le> unat z" by simp
  finally show ?thesis using assms by simp
qed

lemma sell_quote_le:
  assumes "sell_quote vq vt t = Ok r"
  shows "unat r \<le> unat vq"
  using assms by (intro swap_u64_le [of r t vq vt]) (simp add: sell_quote_Ok)

lemma sell_token_quote_Ok [res_simps]:
  "sell_token_quote_with_sol vq vt x = Ok r \<longleftrightarrow>
     unat x < unat vq \<and> unat r = unat x * unat vt div (unat vq - unat x)"
proof (cases "unat x \<le> unat vq")
  case True
  then have c: "checked_sub (to_u128 vq) (to_u128 x) = Some (to_u128 vq - to_u128 x)"
    and u: "unat (to_u128 vq - to_u128 x) = unat vq - unat x"
    by (simp_all add: checked_sub_def word_le_nat_alt unat_sub)
  have "unat x * unat vt < U128_LIMIT"
    using mult_u64_bound [of "unat x" "unat vt"] by simp
  moreover have "to_u128 vq - to_u128 x \<noteq> 0 \<longleftrightarrow> unat x < unat vq"
    using u True unat_eq_0 [of "to_u128 vq - to_u128 x"] by auto
  ultimately show ?thesis
    using c u by (simp add: sell_token_quote_with_sol_def Let_def mul_div_u128_Ok)
next
  case False
  then have "checked_sub (to_u128 vq) (to_u128 x) = None" by (simp add: checked_sub_None)
  with False show ?thesis by (simp add: sell_token_quote_with_sol_def Let_def)
qed

lemma validate_market_cap_Ok:
  "validate_market_cap vq vt target bps = Ok () \<longleftrightarrow>
     vt \<noteq> 0 \<and> unat target * unat bps < U128_LIMIT \<and>
     unat target * unat bps div 10000 \<le> unat target \<and>
     unat target + unat target * unat bps div 10000 < U128_LIMIT \<and>
     (let cap = 10 ^ 15 * unat vq div unat vt; delta = unat target * unat bps div 10000
      in unat target - delta \<le> cap \<and> cap \<le> unat target + delta)"
  (is "_ \<longleftrightarrow> ?R")
proof -
  have b: "10 ^ 15 * unat vq < U128_LIMIT"
    using u64_bound [of vq] by (simp del: u64_bound)
  have md: "mul_div_u128 TOKEN_SUPPLY (to_u128 vq) (to_u128 vt) = Ok c \<longleftrightarrow>
      vt \<noteq> 0 \<and> unat c = 10 ^ 15 * unat vq div unat vt" for c
    using b by (simp add: mul_div_u128_Ok TOKEN_SUPPLY_def)
  show ?thesis
  proof
    assume "validate_market_cap vq vt target bps = Ok ()"
    then obtain c mn mx where "mul_div_u128 TOKEN_SUPPLY (to_u128 vq) (to_u128 vt) = Ok c"
      and "slippage_bounds target bps = Some (mn, mx)" and "\<not> c < mn" "\<not> mx < c"
      by (auto simp: validate_market_cap_def Let_def and_then_Inr ok_or_Inr split: if_splits)
    then show ?R
      by (auto simp: md slippage_bounds_Some Let_def word_less_nat_alt)
  next
    assume R: ?R
    then have vt: "vt \<noteq> 0" by blast
    let ?d = "unat target * unat bps div 10000"
    have "10 ^ 15 * unat vq div unat vt < U128_LIMIT"
      using b div_le_dividend [of "10 ^ 15 * unat vq" "unat vt"] by linarith
    then obtain cap :: u128 where c: "unat cap = 10 ^ 15 * unat vq div unat vt"
      using ex_word [where ?'a = 128] by auto
    have "unat target - ?d < U128_LIMIT" using u128_bound [of target] by (simp del: u128_bound)
    then obtain lo :: u128 where lo: "unat lo = unat target - ?d"
      using ex_word [where ?'a = 128] by auto
    obtain hi :: u128 where hi: "unat hi = unat target + ?d"
      using R ex_word [where ?'a = 128] by auto
    from lo hi R have s: "slippage_bounds target bps = Some (lo, hi)"
      by (simp add: slippage_bounds_Some)
    have "mul_div_u128 TOKEN_SUPPLY (to_u128 vq) (to_u128 vt) = Ok cap"
      by (simp add: md vt c)
    with s R c lo hi show "validate_market_cap vq vt target bps = Ok ()"
      by (simp add: validate_market_cap_def Let_def word_less_nat_alt)
  qed
qed

section \<open>Fees of a curve trade\<close>

lemma curve_fee_bps_Inl:
  assumes "virtual_token_reserves bc \<noteq> 0" and "curve_fee_bps e g cfg bc s = Inl f"
  shows "f = Error EmptyFeeTiers"
  using assms
  by (auto simp: curve_fee_bps_def and_then_Inl Let_def compute_bonding_curve_fee_bps_Inl)

lemma creator_less_curve:
  "curve_fee_bps e g cfg bc s = Ok (p, c) \<Longrightarrow> bc_creator bc = default_key \<Longrightarrow> c = 0"
  by (auto simp: curve_fee_bps_def and_then_Inr Let_def)

text \<open>Fees of an amount below \<open>2^64\<close> never overflow.\<close>

lemma unat_fee_small:
  assumes "unat (x :: u128) < U64_LIMIT"
  shows "unat (fee_amount x b) = fee_nat (unat x) (unat b)"
    and "unat (fee_amount x b) \<le> 2 ^ 115"
proof -
  have m: "unat x * unat b \<le> (U64_LIMIT - 1) * (U64_LIMIT - 1)"
    using assms by (intro mult_u64_bound) simp_all
  show e: "unat (fee_amount x b) = fee_nat (unat x) (unat b)"
    using m by (intro unat_fee_amount) (simp add: le_less_trans)
  have "fee_nat (unat x) (unat b) * 10000 < (U64_LIMIT - 1) * (U64_LIMIT - 1) + 10000"
    using m fee_nat_lt [of "unat x" "unat b"] by linarith
  then show "unat (fee_amount x b) \<le> 2 ^ 115" by (simp add: e)
qed

lemma unat_two_fees:
  assumes "unat (x :: u128) < U64_LIMIT"
  shows "unat (fee_amount x p + fee_amount x c) =
     fee_nat (unat x) (unat p) + fee_nat (unat x) (unat c)"
    "fee_nat (unat x) (unat p) + fee_nat (unat x) (unat c) \<le> 2 ^ 116"
  using unat_fee_small [OF assms, of p] unat_fee_small [OF assms, of c]
  by (simp_all add: unat_add_exact)

lemma unat_with_fees:
  "unat (with_fees x (p, c)) =
     unat x + fee_nat (unat x) (unat p) + fee_nat (unat x) (unat c)"
  "unat (with_fees x (p, c)) \<le> 2 ^ 117"
proof -
  have x: "unat (to_u128 x) < U64_LIMIT" by simp
  note f = unat_fee_small [OF x]
  have s1: "unat (to_u128 x + fee_amount (to_u128 x) p) =
      unat x + fee_nat (unat x) (unat p)"
    using f [of p] u64_bound [of x] by (subst unat_add_exact) (simp_all del: u64_bound)
  have s2: "unat (to_u128 x + fee_amount (to_u128 x) p + fee_amount (to_u128 x) c) =
      unat x + fee_nat (unat x) (unat p) + fee_nat (unat x) (unat c)"
    using f [of p] f [of c] s1 u64_bound [of x] by (subst unat_add_exact) (simp_all del: u64_bound)
  then show "unat (with_fees x (p, c)) = unat x + fee_nat (unat x) (unat p) + fee_nat (unat x) (unat c)"
    by (simp add: Let_def)
  then show "unat (with_fees x (p, c)) \<le> 2 ^ 117"
    using f [of p] f [of c] u64_bound [of x] by (simp del: u64_bound)
qed

declare with_fees.simps [simp del]

section \<open>Exact-out buys\<close>

text \<open>The net cost of \<open>t\<close> tokens on reserves \<open>vq, vt\<close>: the code rounds down and adds one.\<close>

definition curve_cost :: "nat \<Rightarrow> nat \<Rightarrow> nat \<Rightarrow> nat" where
  "curve_cost t vq vt = t * vq div (vt - t) + 1"

lemma curve_cost_gt: "t < vt \<Longrightarrow> t * vq < curve_cost t vq vt * (vt - t)"
  unfolding curve_cost_def by (rule div_ceil_gt) simp

lemma curve_cost_le: "t < vt \<Longrightarrow> (curve_cost t vq vt - 1) * (vt - t) \<le> t * vq"
  by (simp add: curve_cost_def)

lemma buy_quote_Ok [res_simps]:
  "buy_quote bc t = Ok c \<longleftrightarrow>
     t \<noteq> 0 \<and> unat t < unat (virtual_token_reserves bc) \<and>
     unat c = curve_cost (unat t) (unat (virtual_quote_reserves bc)) (unat (virtual_token_reserves bc))"
  (is "?l \<longleftrightarrow> ?r")
proof -
  let ?vt = "virtual_token_reserves bc" and ?vq = "virtual_quote_reserves bc"
  have m: "unat t * unat ?vq \<le> (U64_LIMIT - 1) * (U64_LIMIT - 1)" by (rule mult_u64_bound) simp_all
  show ?thesis
  proof (cases "unat t < unat ?vt")
    case True
    define d where "d = to_u128 ?vt - to_u128 t"
    have d: "unat d = unat ?vt - unat t" "checked_sub (to_u128 ?vt) (to_u128 t) = Some d"
      using True by (simp_all add: d_def unat_sub checked_sub_def word_le_nat_alt)
    then have dz: "0 < d" "d \<noteq> 0" using True by (auto simp: word_less_nat_alt)
    then have f: "opt_filter (\<lambda>d. d > 0) (checked_sub (to_u128 ?vt) (to_u128 t)) = Some d"
      by (simp add: opt_filter_Some d)
    obtain q :: u128 where q: "mul_div_u128 (to_u128 t) (to_u128 ?vq) d = Ok q"
      "unat q = unat t * unat ?vq div unat d"
    proof -
      have "unat t * unat ?vq div unat d < U128_LIMIT"
        using m by (intro le_less_trans [OF div_le_dividend]) simp
      then obtain q :: u128 where "unat q = unat t * unat ?vq div unat d"
        using ex_word [where ?'a = 128] by auto
      with that [of q] m dz show ?thesis by (simp add: mul_div_u128_Ok)
    qed
    have "unat q \<le> (U64_LIMIT - 1) * (U64_LIMIT - 1)"
      using m q(2) div_le_dividend [of "unat t * unat ?vq" "unat d"] by linarith
    then have "unat (q + 1) = unat q + 1" by (subst unat_add_exact) simp_all
    with f q d(1) True show ?thesis
      by (simp add: buy_quote_def curve_cost_def Let_def ok_or_Inr try_u64_Some)
  next
    case False
    have "opt_filter (\<lambda>d. d > 0) (checked_sub (to_u128 ?vt) (to_u128 t)) = None"
      using False by (auto simp: opt_filter_None checked_sub_Some word_less_nat_alt)
    with False show ?thesis by (simp add: buy_quote_def)
  qed
qed

lemma buy_quote_pos: "buy_quote bc t = Ok c \<Longrightarrow> t \<noteq> 0 \<and> c \<noteq> 0"
  by (auto simp: buy_quote_Ok curve_cost_def)

text \<open>The v2 buy, on every branch that charges: the net cost in \<open>u128\<close>, its fees, and the
  final cast, which keeps the value modulo \<open>2^64\<close>.\<close>

definition capped :: "bonding_curve \<Rightarrow> u64 \<Rightarrow> nat" where
  "capped bc t = min (unat t) (unat (real_token_reserves bc))"

definition capped_cost :: "bonding_curve \<Rightarrow> u64 \<Rightarrow> nat" where
  "capped_cost bc t =
     curve_cost (capped bc t) (unat (virtual_quote_reserves bc)) (unat (virtual_token_reserves bc))"

lemma buy_sol_value:
  assumes r: "buy_sol_amount_from_token_amount e g cfg bc s t = Ok c"
    and t: "t \<noteq> 0" and vt: "virtual_token_reserves bc \<noteq> 0"
    and fits: "capped_cost bc t < U64_LIMIT"
  obtains p cr where "curve_fee_bps e g cfg bc s = Ok (p, cr)"
    and "capped bc t < unat (virtual_token_reserves bc)"
    and "unat c = (capped_cost bc t + fee_nat (capped_cost bc t) (unat p)
                     + fee_nat (capped_cost bc t) (unat cr)) mod U64_LIMIT"
proof -
  let ?vt = "virtual_token_reserves bc" and ?vq = "virtual_quote_reserves bc"
  define m where "m = min (to_u128 t) (to_u128 (real_token_reserves bc))"
  have um: "unat m = capped bc t" by (simp add: m_def capped_def min_def word_le_nat_alt)
  define k where "k = m * to_u128 ?vq div (to_u128 ?vt - m) + 1"
  from r t vt have lt: "m < to_u128 ?vt"
    and q: "and_then (fee_for_quote e g cfg bc s k) (\<lambda>fee. Ok (as_u64 (k + fee))) = Ok c"
    by (auto simp: buy_sol_amount_from_token_amount_def Let_def m_def [symmetric]
        k_def [symmetric] not_le split: if_splits)
  have ult: "capped bc t < unat ?vt" using lt um by (simp add: word_less_nat_alt)
  have ms: "m = to_u128 (min t (real_token_reserves bc))" by (simp add: m_def min_def)
  have mq: "unat (m * to_u128 ?vq) = unat m * unat ?vq"
    unfolding ms by (simp add: unat_mult_u64)
  have "unat (to_u128 ?vt - m) = unat ?vt - unat m"
    using lt by (subst unat_sub) simp_all
  then have kd: "unat (m * to_u128 ?vq div (to_u128 ?vt - m)) =
      capped bc t * unat ?vq div (unat ?vt - capped bc t)"
    by (simp add: unat_div mq um)
  have k: "unat k = capped_cost bc t"
    unfolding k_def using fits kd
    by (subst unat_add_exact) (simp_all add: capped_cost_def curve_cost_def)
  from q obtain p cr where b: "curve_fee_bps e g cfg bc s = Ok (p, cr)"
    and c: "c = as_u64 (k + (fee_amount k p + fee_amount k cr))"
    by (auto simp: fee_for_quote_def and_then_Inr)
  have kl: "unat k < U64_LIMIT" using k fits by simp
  have "unat (k + (fee_amount k p + fee_amount k cr)) =
      capped_cost bc t + (fee_nat (capped_cost bc t) (unat p) + fee_nat (capped_cost bc t) (unat cr))"
    using unat_two_fees [OF kl, of p cr] kl k by (subst unat_add_exact) simp_all
  then have "unat c = (capped_cost bc t + fee_nat (capped_cost bc t) (unat p)
                     + fee_nat (capped_cost bc t) (unat cr)) mod U64_LIMIT"
    by (simp add: c unat_as_u64 add.assoc)
  with b ult show thesis by (rule that)
qed

section \<open>Sells\<close>

definition gross_out :: "bonding_curve \<Rightarrow> u64 \<Rightarrow> nat" where
  "gross_out bc t = unat t * unat (virtual_quote_reserves bc)
     div (unat (virtual_token_reserves bc) + unat t)"

lemma gross_out_le: "gross_out bc t \<le> unat (virtual_quote_reserves bc)"
proof -
  have "sell_quote (virtual_quote_reserves bc) (virtual_token_reserves bc) t = Ok r \<Longrightarrow>
    unat r \<le> unat (virtual_quote_reserves bc)" for r by (rule sell_quote_le)
  have "unat t * unat (virtual_quote_reserves bc) div (unat (virtual_token_reserves bc) + unat t)
      \<le> unat (virtual_quote_reserves bc) * (unat (virtual_token_reserves bc) + unat t)
          div (unat (virtual_token_reserves bc) + unat t)"
    by (intro div_le_mono) (simp add: algebra_simps)
  also have "\<dots> \<le> unat (virtual_quote_reserves bc)" by simp
  finally show ?thesis by (simp add: gross_out_def)
qed

lemma sell_sol_value:
  assumes t: "t \<noteq> 0" and vt: "virtual_token_reserves bc \<noteq> 0"
    and b: "curve_fee_bps e g cfg bc s = Ok (p, cr)"
  defines "fees \<equiv> fee_nat (gross_out bc t) (unat p) + fee_nat (gross_out bc t) (unat cr)"
  shows "sell_sol_amount_from_token_amount e g cfg bc s t =
     (if gross_out bc t < fees then Err FeesExceedOutput
      else Ok (word_of_nat (gross_out bc t - fees)))"
proof -
  let ?vt = "virtual_token_reserves bc" and ?vq = "virtual_quote_reserves bc"
  define o' where "o' = to_u128 t * to_u128 ?vq div (to_u128 ?vt + to_u128 t)"
  have o: "unat o' = gross_out bc t"
    by (simp add: o'_def gross_out_def unat_div unat_mult_u64 unat_add_u64)
  have ol: "unat o' < U64_LIMIT"
    using o gross_out_le [of bc t] u64_bound [of ?vq] by (simp del: u64_bound)
  define fee where "fee = fee_amount o' p + fee_amount o' cr"
  have fee: "unat fee = fees" "unat fee \<le> 2 ^ 116"
    using unat_two_fees [OF ol, of p cr] by (simp_all add: fee_def fees_def o)
  have neg: "sint (o' - fee) < 0 \<longleftrightarrow> gross_out bc t < fees"
    using ol fee by (subst signed_sub_neg) (simp_all add: o)
  have ok: "as_u64 (o' - fee) = word_of_nat (gross_out bc t - fees)" if "\<not> gross_out bc t < fees"
  proof (rule unsigned_word_eqI [where ?'a = nat])
    have "unat (o' - fee) = gross_out bc t - fees"
      using that by (subst unat_sub) (simp_all add: word_le_nat_alt o fee)
    then show "unat (as_u64 (o' - fee)) = unat (word_of_nat (gross_out bc t - fees) :: u64)"
      by (simp add: unat_as_u64 unat_of_nat)
  qed
  show ?thesis
    using t vt b neg ok
    by (simp add: sell_sol_amount_from_token_amount_def Let_def fee_for_quote_def
        o'_def [symmetric] fee_def [symmetric])
qed

end
