(* ===== verification/Curve_Trades.thy ===== *)
theory Curve_Trades
  imports Curve_Facts
begin

text \<open>
  How the curve quotes fit together: exact-in against exact-out, buy against sell, the post-completion leg and the v3 buys built on it, and the curve
  hop of a multi-hop swap.
\<close>

section \<open>Exact-in buys\<close>

text \<open>Tokens a net of \<open>n\<close> buys: the first unit of the net is the rounding unit the program
  keeps.\<close>

definition curve_out :: "nat \<Rightarrow> nat \<Rightarrow> nat \<Rightarrow> nat" where
  "curve_out n vq vt = (n - 1) * vt div (vq + (n - 1))"

lemma unat_net_minus_one: "1 \<le> unat net \<Longrightarrow> unat (to_u128 (net :: u64) - 1) = unat net - 1"
  by (subst unat_sub) (simp_all add: word_le_nat_alt)

lemma net_swap:
  assumes "1 \<le> unat net" and "vq \<noteq> (0 :: u64)"
  shows "swap_exact_input (to_u128 (net :: u64) - 1) (to_u128 vq) (to_u128 (vt :: u64)) = Ok r \<longleftrightarrow>
     unat r = curve_out (unat net) (unat vq) (unat vt)"
proof -
  have e: "to_u128 net - 1 = to_u128 (net - 1)"
    using assms by (intro unsigned_word_eqI [where ?'a = nat])
      (simp add: unat_net_minus_one unat_sub word_le_nat_alt)
  have "unat (net - 1) = unat net - 1" using assms by (simp add: unat_sub word_le_nat_alt)
  moreover have "0 < unat vq" using assms by (simp add: unat_gt_0)
  ultimately show ?thesis by (simp add: e swap_exact_input_u64 curve_out_def)
qed

lemma curve_out_less:
  assumes "0 < vq" and "0 < vt"
  shows "curve_out n vq vt < vt"
proof -
  have "(n - 1) * vt < vt * (vq + (n - 1))" using assms by (simp add: algebra_simps)
  then have "(n - 1) * vt div (vq + (n - 1)) < vt"
    using assms by (subst div_less_iff_less_mult) simp_all
  then show ?thesis by (simp add: curve_out_def)
qed

lemma ex_curve_out:
  assumes "vq \<noteq> (0 :: u64)"
  shows "\<exists>r :: u128. unat r = curve_out n (unat vq) (unat (vt :: u64))"
proof (cases "vt = 0")
  case True
  then show ?thesis by (intro exI [of _ 0]) (simp add: curve_out_def)
next
  case False
  have "curve_out n (unat vq) (unat vt) < unat vt"
    using assms False by (intro curve_out_less) (simp_all add: unat_gt_0)
  then have "curve_out n (unat vq) (unat vt) < U128_LIMIT"
    using u64_bound [of vt] by (simp del: u64_bound)
  then show ?thesis using ex_word [where ?'a = 128] by auto
qed

text \<open>The value of an exact-in buy before the cap.\<close>

lemma buy_tokens_Ok:
  assumes "a \<noteq> 0" and "virtual_token_reserves bc \<noteq> 0" and "virtual_quote_reserves bc \<noteq> 0"
    and b: "curve_fee_bps e g cfg bc s = Ok (p, cr)"
  shows "buy_tokens_exact_in e g cfg bc s a = Ok r \<longleftrightarrow>
     (case exact_in_spec (unat a) (unat p) (unat cr) 0 of
        None \<Rightarrow> r = 0
      | Some (net, _) \<Rightarrow>
          unat r = curve_out net (unat (virtual_quote_reserves bc)) (unat (virtual_token_reserves bc)))"
proof (cases "exact_in_fees a (p, cr, 0)")
  case (Inl f)
  then have "exact_in_spec (unat a) (unat p) (unat cr) 0 = None" "f = Error ZeroAmount"
    by (simp_all add: exact_in_fees_Inl exact_in_fee_amounts_Inl)
  with assms Inl show ?thesis by (auto simp: buy_tokens_exact_in_def)
next
  case (Inr net)
  then obtain f0 f1 f2 where sp: "exact_in_spec (unat a) (unat p) (unat cr) 0 =
      Some (unat net, unat (f0 :: u64), unat (f1 :: u64), unat (f2 :: u64))"
    by (auto simp: exact_in_fees_Ok exact_in_fee_amounts_Ok)
  then have "1 \<le> unat net" by (rule exact_in_spec_budget)
  with assms Inr sp show ?thesis by (simp add: buy_tokens_exact_in_def net_swap)
qed

lemma buy_tokens_less:
  assumes r: "buy_tokens_exact_in e g cfg bc s a = Ok r" and nz: "r \<noteq> 0"
  shows "unat r < unat (virtual_token_reserves bc)"
    and "a \<noteq> 0" "virtual_token_reserves bc \<noteq> 0" "virtual_quote_reserves bc \<noteq> 0"
    and "\<exists>p cr. curve_fee_bps e g cfg bc s = Ok (p, cr)"
proof -
  from r nz show g1: "a \<noteq> 0" "virtual_token_reserves bc \<noteq> 0" "virtual_quote_reserves bc \<noteq> 0"
    and "\<exists>p cr. curve_fee_bps e g cfg bc s = Ok (p, cr)"
    by (auto simp: buy_tokens_exact_in_def and_then_Inr split: if_splits)
  then obtain p cr where b: "curve_fee_bps e g cfg bc s = Ok (p, cr)" by blast
  have "0 < unat (virtual_quote_reserves bc)" "0 < unat (virtual_token_reserves bc)"
    using g1 by (simp_all add: unat_gt_0)
  then show "unat r < unat (virtual_token_reserves bc)"
    using r nz buy_tokens_Ok [OF g1 b, of r] curve_out_less
    by (auto split: option.splits)
qed

lemma buy_token_amount_Ok:
  assumes "buy_token_amount_from_sol_amount e g cfg bc s a = Ok t"
  obtains r where "buy_tokens_exact_in e g cfg bc s a = Ok r"
    and "unat t = min (unat r) (unat (real_token_reserves bc))"
proof -
  from assms obtain r where r: "buy_tokens_exact_in e g cfg bc s a = Ok r"
    and t: "t = as_u64 (min r (to_u128 (real_token_reserves bc)))"
    by (auto simp: buy_token_amount_from_sol_amount_def and_then_Inr)
  have "unat t = min (unat r) (unat (real_token_reserves bc))"
    unfolding t using u64_bound [of "real_token_reserves bc"]
    by (subst unat_as_u64_small) (auto simp: min_def word_le_nat_alt not_le simp del: u64_bound)
  with r show thesis by (rule that)
qed

section \<open>Exact-in against exact-out\<close>

text \<open>The net cost of what a net bought is at most that net.\<close>

lemma curve_cost_of_out:
  assumes "1 \<le> n" and "t \<le> curve_out n vq vt" and "t < vt" and "0 < vq"
  shows "curve_cost t vq vt \<le> n"
proof -
  have "t * (vq + (n - 1)) \<le> (n - 1) * vt"
    using assms unfolding curve_out_def by (subst (asm) div_le_iff_mult) simp_all
  then have "t * vq \<le> (n - 1) * vt - t * (n - 1)" by (simp add: add_mult_distrib2)
  also have "\<dots> = (n - 1) * (vt - t)" by (metis diff_mult_distrib2 mult.commute)
  finally have "t * vq div (vt - t) \<le> (n - 1) * (vt - t) div (vt - t)" by (rule div_le_mono)
  then show ?thesis using assms by (simp add: curve_cost_def)
qed

text \<open>A net below the cost of \<open>t\<close> plus one buys at most \<open>t\<close>.\<close>

lemma curve_out_of_cost:
  assumes "n \<le> curve_cost t vq vt" and "t < vt" and "0 < vq"
  shows "curve_out n vq vt \<le> t"
proof -
  have "n - 1 \<le> t * vq div (vt - t)" using assms by (simp add: curve_cost_def)
  then have "(n - 1) * (vt - t) \<le> t * vq" using assms by (subst (asm) div_le_iff_mult) simp_all
  then have "(n - 1) * vt \<le> t * (vq + (n - 1))"
    unfolding diff_mult_distrib2 add_mult_distrib2 mult.commute [of "n - 1" t] by linarith
  then have "(n - 1) * vt < (t + 1) * (vq + (n - 1))" using assms by (simp add: add_mult_distrib)
  then have "(n - 1) * vt div (vq + (n - 1)) < t + 1"
    using assms by (subst div_less_iff_less_mult) simp_all
  then show ?thesis by (simp add: curve_out_def)
qed

text \<open>The budget \<open>k + fees(k)\<close> is worth a net of at most \<open>k\<close>.\<close>

lemma exact_in_of_cost:
  assumes sp: "exact_in_spec (k + fee_nat k p + fee_nat k c) p c 0 = Some (net, f0, f1, f2)"
  shows "net \<le> k"
proof (rule ccontr)
  let ?a = "k + fee_nat k p + fee_nat k c"
  assume "\<not> net \<le> k"
  then have gt: "k + 1 \<le> net" by simp
  note facts = exact_in_spec_budget [OF sp]
  have "fee_nat k p \<le> f0" "fee_nat k c \<le> f1"
    using facts(4,7,8) gt by (auto intro!: fee_nat_mono)
  with gt have "?a < net + f0 + f1 + f2" by simp
  with facts(3) show False by simp
qed

lemma curve_cost_mono:
  assumes "t \<le> t'" and "t' < vt"
  shows "curve_cost t vq vt \<le> curve_cost t' vq vt"
proof -
  have "t * vq div (vt - t) \<le> t' * vq div (vt - t)" using assms by (intro div_le_mono) simp
  also have "\<dots> \<le> t' * vq div (vt - t')" using assms by (intro div_le_mono2) simp_all
  finally show ?thesis by (simp add: curve_cost_def)
qed

text \<open>A budget covers the net cost of the tokens it was quoted and the fees on that cost.\<close>

lemma exact_in_covers:
  assumes q: "buy_token_amount_from_sol_amount e g cfg bc s a = Ok t" and t0: "t \<noteq> 0"
  obtains p cr where "curve_fee_bps e g cfg bc s = Ok (p, cr)"
    and "unat t < unat (virtual_token_reserves bc)" and "t \<le> real_token_reserves bc"
    and "capped_cost bc t + fee_nat (capped_cost bc t) (unat p)
      + fee_nat (capped_cost bc t) (unat cr) \<le> unat a"
proof -
  let ?vt = "virtual_token_reserves bc" and ?vq = "virtual_quote_reserves bc"
  from buy_token_amount_Ok [OF q] obtain r where r: "buy_tokens_exact_in e g cfg bc s a = Ok r"
    and t: "unat t = min (unat r) (unat (real_token_reserves bc))" by blast
  have rnz: "r \<noteq> 0" using t0 t by (auto simp: unat_eq_0 min_def split: if_splits)
  note pos = buy_tokens_less [OF r rnz]
  from pos(5) obtain p cr where b: "curve_fee_bps e g cfg bc s = Ok (p, cr)" by blast
  from r buy_tokens_Ok [OF pos(2,3,4) b, of r] rnz
  obtain net f0 f1 f2 where sp: "exact_in_spec (unat a) (unat p) (unat cr) 0 = Some (net, f0, f1, f2)"
    and ro: "unat r = curve_out net (unat ?vq) (unat ?vt)"
    by (auto split: option.splits)
  note facts = exact_in_spec_budget [OF sp]
  have cap: "capped bc t = unat t" using t by (simp add: capped_def)
  have lt: "unat t < unat ?vt" using t pos(1) by simp
  have vq: "0 < unat ?vq" using pos(4) by (simp add: unat_gt_0)
  have k: "capped_cost bc t \<le> net"
    unfolding capped_cost_def cap using facts(1) t ro lt vq
    by (intro curve_cost_of_out) simp_all
  have "capped_cost bc t + fee_nat (capped_cost bc t) (unat p)
      + fee_nat (capped_cost bc t) (unat cr) \<le> unat a"
    using k facts(3,4,7,8) fee_nat_mono [of "capped_cost bc t" "raw_net (unat a) (unat p + unat cr + 0)" "unat p"]
      fee_nat_mono [of "capped_cost bc t" "raw_net (unat a) (unat p + unat cr + 0)" "unat cr"]
    by linarith
  with b lt t show thesis by (intro that) (simp_all add: word_le_nat_alt)
qed

text \<open>Asking for the tokens a budget was quoted costs at most the budget.\<close>

lemma exact_out_of_exact_in:
  assumes q: "buy_token_amount_from_sol_amount e g cfg bc s a = Ok t"
  shows "\<exists>c. buy_sol_amount_from_token_amount e g cfg bc s t = Ok c \<and> c \<le> a"
proof (cases "t = 0")
  case True
  then show ?thesis by (simp add: buy_sol_amount_from_token_amount_def)
next
  case False
  let ?vt = "virtual_token_reserves bc"
  from q False obtain p cr where b: "curve_fee_bps e g cfg bc s = Ok (p, cr)"
    and lt: "unat t < unat ?vt"
    and kf: "capped_cost bc t + fee_nat (capped_cost bc t) (unat p)
      + fee_nat (capped_cost bc t) (unat cr) \<le> unat a"
    by (rule exact_in_covers)
  have vt: "?vt \<noteq> 0" using lt by auto
  have fits: "capped_cost bc t < U64_LIMIT" using kf u64_bound [of a] by (simp del: u64_bound)
  have "\<not> to_u128 ?vt \<le> min (to_u128 t) (to_u128 (real_token_reserves bc))"
    using lt by (auto simp: min_def word_le_nat_alt)
  then have "\<exists>c. buy_sol_amount_from_token_amount e g cfg bc s t = Ok c"
    using False vt b by (simp add: buy_sol_amount_from_token_amount_def Let_def fee_for_quote_def)
  then obtain c where c: "buy_sol_amount_from_token_amount e g cfg bc s t = Ok c" by blast
  from buy_sol_value [OF c False vt fits] obtain p' cr' where
    b': "curve_fee_bps e g cfg bc s = Ok (p', cr')"
    and uc: "unat c = (capped_cost bc t + fee_nat (capped_cost bc t) (unat p')
        + fee_nat (capped_cost bc t) (unat cr')) mod U64_LIMIT" by blast
  have "unat c \<le> unat a"
    using uc kf b b' by (simp add: le_trans [OF mod_less_eq_dividend])
  with c show ?thesis by (auto simp: word_le_nat_alt)
qed

text \<open>Spending the cost quoted for \<open>t\<close> tokens buys at most \<open>t\<close> of them.\<close>

lemma exact_in_of_exact_out:
  assumes c: "buy_sol_amount_from_token_amount e g cfg bc s t = Ok c"
    and t: "t \<noteq> 0" "t \<le> real_token_reserves bc"
    and b: "curve_fee_bps e g cfg bc s = Ok (p, cr)"
    and fits: "capped_cost bc t + fee_nat (capped_cost bc t) (unat p)
      + fee_nat (capped_cost bc t) (unat cr) < U64_LIMIT"
    and q: "buy_tokens_exact_in e g cfg bc s c = Ok r"
  shows "unat r \<le> unat t"
proof (cases "r = 0")
  case True
  then show ?thesis by simp
next
  case False
  let ?vt = "virtual_token_reserves bc" and ?vq = "virtual_quote_reserves bc"
  note pos = buy_tokens_less [OF q False]
  have k64: "capped_cost bc t < U64_LIMIT" using fits by simp
  from buy_sol_value [OF c t(1) pos(3) k64] b
  have lt: "capped bc t < unat ?vt"
    and uc: "unat c = (capped_cost bc t + fee_nat (capped_cost bc t) (unat p)
        + fee_nat (capped_cost bc t) (unat cr)) mod U64_LIMIT" by auto
  have cap: "capped bc t = unat t" using t(2) by (simp add: capped_def word_le_nat_alt)
  have uc': "unat c = capped_cost bc t + fee_nat (capped_cost bc t) (unat p)
        + fee_nat (capped_cost bc t) (unat cr)" using uc fits by simp
  from q buy_tokens_Ok [OF pos(2,3,4) b, of r] False
  obtain net f0 f1 f2 where sp: "exact_in_spec (unat c) (unat p) (unat cr) 0 = Some (net, f0, f1, f2)"
    and ro: "unat r = curve_out net (unat ?vq) (unat ?vt)"
    by (auto split: option.splits)
  have "net \<le> capped_cost bc t" using sp unfolding uc' by (rule exact_in_of_cost)
  then show ?thesis
    unfolding ro using lt pos(4) cap
    by (intro curve_out_of_cost) (simp_all add: capped_cost_def unat_gt_0)
qed

section \<open>Buy then sell\<close>

text \<open>A sell of \<open>t\<close> tokens at a curve that has at most \<open>t\<close> virtual tokens less and at most \<open>k\<close>
  virtual quote more than the curve where they cost a net \<open>k\<close>.\<close>

lemma gross_out_le_cost:
  assumes k: "buy_quote bc t = Ok k"
    and vt: "unat (virtual_token_reserves bc) \<le> unat (virtual_token_reserves bc') + unat t"
    and vq: "unat (virtual_quote_reserves bc') \<le> unat (virtual_quote_reserves bc) + unat k"
  shows "gross_out bc' t \<le> unat k"
proof -
  let ?vt = "unat (virtual_token_reserves bc)" and ?vq = "unat (virtual_quote_reserves bc)"
  from k have lt: "unat t < ?vt" and uk: "unat k = curve_cost (unat t) ?vq ?vt"
    by (simp_all add: buy_quote_Ok)
  have "unat t * ?vq < unat k * (?vt - unat t)" unfolding uk using lt by (rule curve_cost_gt)
  then have "unat t * (?vq + unat k) \<le> unat k * ?vt"
    using lt by (simp add: diff_mult_distrib2 add_mult_distrib2 mult.commute)
  then have "unat t * (?vq + unat k) div ?vt \<le> unat k"
    using lt by (metis div_le_mono nonzero_mult_div_cancel_right not_less_zero)
  moreover have "gross_out bc' t \<le> unat t * (?vq + unat k) div (unat (virtual_token_reserves bc') + unat t)"
    unfolding gross_out_def using vq by (intro div_le_mono mult_le_mono2)
  moreover have "\<dots> \<le> unat t * (?vq + unat k) div ?vt"
    using vt lt by (intro div_le_mono2) simp_all
  ultimately show ?thesis by linarith
qed

lemma capped_cost_buy_quote:
  assumes "buy_quote bc t = Ok k" and "t \<le> real_token_reserves bc"
  shows "capped_cost bc t = unat k" and "virtual_token_reserves bc \<noteq> 0" and "t \<noteq> 0"
  using assms by (auto simp: buy_quote_Ok capped_cost_def capped_def word_le_nat_alt)

text \<open>A sell pays at most its gross.\<close>

lemma sell_sol_le_gross:
  assumes sell: "sell_sol_amount_from_token_amount e g cfg bc s t = Ok out"
  shows "unat out \<le> gross_out bc t"
proof (cases "t = 0 \<or> virtual_token_reserves bc = 0")
  case True
  with sell show ?thesis by (auto simp: sell_sol_amount_from_token_amount_def)
next
  case False
  with sell obtain p cr where b: "curve_fee_bps e g cfg bc s = Ok (p, cr)"
    by (auto simp: sell_sol_amount_from_token_amount_def Let_def fee_for_quote_def and_then_Inr)
  define fees where "fees = fee_nat (gross_out bc t) (unat p) + fee_nat (gross_out bc t) (unat cr)"
  have "out = word_of_nat (gross_out bc t - fees)"
    using sell sell_sol_value [OF _ _ b] False by (simp add: fees_def split: if_splits)
  then have "unat out \<le> gross_out bc t - fees"
    by (simp only: unat_of_nat mod_less_eq_dividend)
  then show ?thesis by simp
qed

text \<open>Whatever the fee schedule does between the two trades, selling back what was bought pays
  at most what was paid.\<close>

lemma no_profit_round_trip:
  assumes c: "buy_sol_amount_from_token_amount e g cfg bc s t = Ok c"
    and k: "buy_quote bc t = Ok k" and t: "t \<le> real_token_reserves bc"
    and b: "curve_fee_bps e g cfg bc s = Ok (p, cr)"
    and fits: "unat k + fee_nat (unat k) (unat p) + fee_nat (unat k) (unat cr) < U64_LIMIT"
    and vt: "unat (virtual_token_reserves bc) \<le> unat (virtual_token_reserves bc') + unat t"
    and vq: "unat (virtual_quote_reserves bc') \<le> unat (virtual_quote_reserves bc) + unat k"
    and sell: "sell_sol_amount_from_token_amount e' g' cfg' bc' s' t = Ok out"
  shows "out \<le> c"
proof -
  note kk = capped_cost_buy_quote [OF k t]
  have k64: "capped_cost bc t < U64_LIMIT" using kk fits by simp
  obtain p1 cr1 where "curve_fee_bps e g cfg bc s = Ok (p1, cr1)"
    and uc: "unat c = (unat k + fee_nat (unat k) (unat p1) + fee_nat (unat k) (unat cr1)) mod U64_LIMIT"
    using buy_sol_value [OF c kk(3,2) k64] unfolding kk(1) by blast
  then have "p1 = p" "cr1 = cr" using b by simp_all
  with uc fits have "unat k \<le> unat c" by simp
  moreover have "unat out \<le> gross_out bc' t" using sell by (rule sell_sol_le_gross)
  moreover have "gross_out bc' t \<le> unat k" using k vt vq by (rule gross_out_le_cost)
  ultimately show ?thesis by (simp add: word_le_nat_alt)
qed

text \<open>Buying more never costs less, as long as the larger cost is not truncated.\<close>

lemma capped_cost_mono:
  assumes "t \<le> t'" and "capped bc t' < unat (virtual_token_reserves bc)"
  shows "capped_cost bc t \<le> capped_cost bc t'"
proof -
  have "capped bc t \<le> capped bc t'" using assms(1) by (auto simp: capped_def word_le_nat_alt)
  then show ?thesis unfolding capped_cost_def using assms(2) by (rule curve_cost_mono)
qed

lemma buy_sol_mono:
  assumes c: "buy_sol_amount_from_token_amount e g cfg bc s t = Ok c"
    and c': "buy_sol_amount_from_token_amount e g cfg bc s t' = Ok c'" and le: "t \<le> t'"
    and b: "curve_fee_bps e g cfg bc s = Ok (p, cr)"
    and fits: "capped_cost bc t' + fee_nat (capped_cost bc t') (unat p)
      + fee_nat (capped_cost bc t') (unat cr) < U64_LIMIT"
  shows "c \<le> c'"
proof (cases "t = 0 \<or> virtual_token_reserves bc = 0")
  case True
  with c show ?thesis by (auto simp: buy_sol_amount_from_token_amount_def)
next
  case False
  then have t': "t' \<noteq> 0" and vt: "virtual_token_reserves bc \<noteq> 0" using le by auto
  have k': "capped_cost bc t' < U64_LIMIT" using fits by simp
  have lt: "capped bc t' < unat (virtual_token_reserves bc)"
    and v': "unat c' = (capped_cost bc t' + fee_nat (capped_cost bc t') (unat p)
      + fee_nat (capped_cost bc t') (unat cr)) mod U64_LIMIT"
    using buy_sol_value [OF c' t' vt k'] b by auto
  have km: "capped_cost bc t \<le> capped_cost bc t'" using le lt by (rule capped_cost_mono)
  then have k: "capped_cost bc t < U64_LIMIT" using k' by simp
  have v: "unat c = (capped_cost bc t + fee_nat (capped_cost bc t) (unat p)
      + fee_nat (capped_cost bc t) (unat cr)) mod U64_LIMIT"
    using buy_sol_value [OF c _ vt k] b False by auto
  have "unat c \<le> capped_cost bc t + fee_nat (capped_cost bc t) (unat p)
      + fee_nat (capped_cost bc t) (unat cr)" unfolding v by (rule mod_less_eq_dividend)
  also have "\<dots> \<le> capped_cost bc t' + fee_nat (capped_cost bc t') (unat p)
      + fee_nat (capped_cost bc t') (unat cr)" using km by (intro add_mono fee_nat_mono)
  also have "\<dots> = unat c'" unfolding v' using fits by (rule mod_less [symmetric])
  finally show ?thesis by (simp add: word_le_nat_alt)
qed

section \<open>The post-completion leg\<close>

lemma pool_to_be_Ok [res_simps]:
  "pool_to_be g bc ata lg ct nq = Ok (pb, pq) \<longleftrightarrow>
     unat ct < unat ata \<and> unat pb = unat ata - unat ct \<and>
     unat (real_quote_reserves bc) + unat nq < U64_LIMIT \<and>
     (if lg then unat (g_pool_migration_fee g) else 0) < unat (real_quote_reserves bc) + unat nq \<and>
     unat pq = unat (real_quote_reserves bc) + unat nq
       - (if lg then unat (g_pool_migration_fee g) else 0)"
  (is "?l \<longleftrightarrow> ?r")
proof
  assume ?l
  then obtain raised :: u64 where "unat pb = unat ata - unat ct" "unat ct \<le> unat ata"
    "unat raised = unat (real_quote_reserves bc) + unat nq" "pb \<noteq> 0" "pq \<noteq> 0"
    "if lg then unat (g_pool_migration_fee g) \<le> unat raised \<and>
       unat pq = unat raised - unat (g_pool_migration_fee g) else pq = raised"
    by (auto simp: pool_to_be_def and_then_Inr ok_or_Inr res_simps split: if_splits)
  moreover from this(4,5) have "0 < unat pb" "0 < unat pq" by (simp_all add: unat_gt_0)
  moreover note u64_bound [of raised]
  ultimately show ?r by (auto split: if_splits simp del: u64_bound)
next
  assume r: ?r
  then obtain raised :: u64 where ra: "unat raised = unat (real_quote_reserves bc) + unat nq"
    using ex_word [where ?'a = 64] by auto
  have "pb \<noteq> 0" "pq \<noteq> 0" using r by (auto simp: unat_eq_0 [symmetric])
  moreover have "checked_add (real_quote_reserves bc) nq = Some raised"
    "checked_sub ata ct = Some pb"
    "lg \<longrightarrow> checked_sub raised (g_pool_migration_fee g) = Some pq"
    "\<not> lg \<longrightarrow> pq = raised"
    using r ra by (auto simp: res_simps word_unat_eq_iff)
  ultimately show ?l by (cases lg) (simp_all add: pool_to_be_def)
qed

lemma unat_two_bps: "unat (to_u128 (p :: u64) + to_u128 (c :: u64)) = unat p + unat c"
  by (rule unat_add_u64)

lemma raw_net_two:
  "unat (to_u128 (a :: u64) * 10000 div (10000 + (to_u128 (p :: u64) + to_u128 (c :: u64)))) =
     raw_net (unat a) (unat p + unat c)"
proof -
  have "to_u128 p + to_u128 c = total_bps (p, c, 0)" by (simp add: total_bps.simps)
  then show ?thesis using unat_raw_net [of a p c 0] by simp
qed

text \<open>The leg never fails on a live pool: it takes at most the budget (all of it on a
  multi-hop hop) and less than the pool's base.\<close>

lemma post_complete_leg_Ok:
  assumes r: "post_complete_leg_exact_quote (pb, pq) (p, c) budget whole = Ok leg"
    and pq: "pq \<noteq> 0" and pb: "pb \<noteq> 0"
  shows "case leg of None \<Rightarrow> True
    | Some (out, ttl) \<Rightarrow> 0 < unat out \<and> unat out < unat pb \<and> unat ttl \<le> unat budget \<and>
        (whole \<longrightarrow> ttl = budget)"
proof (cases leg)
  case None
  then show ?thesis by simp
next
  case (Some ot)
  obtain out ttl where ot: "ot = (out, ttl)" by (cases ot)
  define small where
    "small \<longleftrightarrow> to_u128 budget * 10000 div (10000 + (to_u128 p + to_u128 c)) < 2"
  note r' = r [unfolded post_complete_leg_exact_quote.simps Let_def small_def [symmetric]]
  have ns: "\<not> small" using r' Some by (cases small) simp_all
  obtain net f0 f1 f2 where sp: "exact_in_fee_amounts budget (p, c, 0) = Ok (net, f0, f1, f2)"
    using r' ns by (cases "exact_in_fee_amounts budget (p, c, 0)") auto
  define Q where "Q = (if whole then ok_or (checked_sub budget (f0 + f1)) MathOverflow else Ok net)"
  note r2 = r' [unfolded sp, simplified ns if_False and_then_simps prod.case, folded Q_def]
  then obtain qi where qi: "Q = Ok qi" by (cases Q) simp_all
  note r3 = r2 [unfolded qi, simplified and_then_simps]
  then obtain o' where sw: "swap_exact_input (to_u128 (qi - 1)) (to_u128 pq) (to_u128 pb) = Ok o'"
    by (cases "swap_exact_input (to_u128 (qi - 1)) (to_u128 pq) (to_u128 pb)") simp_all
  have o': "o' \<noteq> 0" "out = as_u64 o'" "ttl = qi + f0 + f1"
    using r3 [unfolded sw] Some ot by (simp_all split: if_splits)
  from sp have "exact_in_spec (unat budget) (unat p) (unat c) (unat (0 :: u64)) =
      Some (unat net, unat f0, unat f1, unat f2)" by (simp only: exact_in_fee_amounts_Ok)
  note facts = exact_in_spec_budget [OF this]
  note lt = u64_bound [of budget]
  have f01: "unat (f0 + f1) = unat f0 + unat f1"
    using facts(3) lt by (intro unat_add_exact) (simp del: u64_bound)
  have qv: "unat qi + unat f0 + unat f1 \<le> unat budget \<and>
      (whole \<longrightarrow> unat qi + unat f0 + unat f1 = unat budget)"
    using qi facts(3) by (auto simp: Q_def ok_or_Inr checked_sub_Some f01 split: if_splits)
  have t1: "unat (qi + f0) = unat qi + unat f0"
    using qv lt by (intro unat_add_exact) (simp del: u64_bound)
  have t2: "unat ttl = unat qi + unat f0 + unat f1"
    unfolding o'(3) using qv lt t1 by (subst unat_add_exact) (simp_all del: u64_bound)
  have "unat o' < unat (to_u128 pb)"
    using sw by (rule xin.never_drains) (use pq pb in simp_all)
  then have ob: "unat o' < unat pb" by simp
  have "unat out = unat o'"
    unfolding o'(2) using ob u64_bound [of pb] by (intro unat_as_u64_small) (simp del: u64_bound)
  moreover have "0 < unat o'" using o'(1) by (simp add: unat_gt_0)
  ultimately show ?thesis
    using Some ot ob qv t2 by (auto simp: word_unat_eq_iff)
qed

end
