(* ===== verification/Curve_V3.thy ===== *)
theory Curve_V3
  imports Curve_Trades
begin

text \<open>
  The v3 buys of \<open>bonding_curve.rs\<close>, which may run past the curve's remaining supply into
  the pool its migration will create, and the curve hop of a multi-hop swap.
\<close>

section \<open>Exact-in v3 buys\<close>

lemma exact_in_charge:
  assumes "exact_in_fee_amounts a (p, c, 0) = Ok (net, f0, f1, f2)"
  shows "unat (net + f0 + f1) = unat net + unat f0 + unat f1"
    and "unat net + unat f0 + unat f1 \<le> unat a"
    and "unat (f0 + f1) = unat f0 + unat f1"
proof -
  from assms have "exact_in_spec (unat a) (unat p) (unat c) (unat (0 :: u64)) =
      Some (unat net, unat f0, unat f1, unat f2)" by (simp only: exact_in_fee_amounts_Ok)
  note facts = exact_in_spec_budget [OF this]
  show le: "unat net + unat f0 + unat f1 \<le> unat a" using facts(3) by simp
  note lt = u64_bound [of a]
  have "unat (net + f0) = unat net + unat f0"
    using le lt by (intro unat_add_exact) (simp del: u64_bound)
  then show "unat (net + f0 + f1) = unat net + unat f0 + unat f1"
    using le lt by (subst unat_add_exact) (simp_all del: u64_bound)
  show "unat (f0 + f1) = unat f0 + unat f1"
    using le lt by (intro unat_add_exact) (simp del: u64_bound)
qed

lemma try_with_fees:
  "ok_or (try_u64 (with_fees n (p, c))) MathOverflow = Ok x \<longleftrightarrow>
     unat x = unat n + fee_nat (unat n) (unat p) + fee_nat (unat n) (unat c)"
  by (simp add: ok_or_Inr try_u64_Some unat_with_fees)

text \<open>The two halves of a v3 exact-in buy that completes the curve.\<close>

lemma v3_leg_bounds:
  assumes pool: "pool_to_be g bc ata lg rem net = Ok pool"
    and leg: "post_complete_leg_exact_quote pool (p, c) left whole = Ok l"
    and l: "l = Some (out, spent)"
  shows "unat (rem + out) = unat rem + unat out" "unat rem + unat out < unat ata"
    "0 < unat out" "unat spent \<le> unat left" "whole \<longrightarrow> spent = left"
proof -
  obtain pb pq where pp: "pool = (pb, pq)" by (cases pool)
  from pool have pv: "unat rem < unat ata" "unat pb = unat ata - unat rem" "0 < unat pq"
    unfolding pp pool_to_be_Ok by auto
  then have nz: "pq \<noteq> 0" "pb \<noteq> 0" by (auto simp: unat_eq_0 [symmetric])
  note b = post_complete_leg_Ok [OF leg [unfolded pp] nz, unfolded l, simplified]
  show o: "unat rem + unat out < unat ata" and "0 < unat out" "unat spent \<le> unat left"
    "whole \<longrightarrow> spent = left" using b pv by (simp_all add: less_diff_conv add.commute)
  show "unat (rem + out) = unat rem + unat out"
    using o u64_bound [of ata] by (intro unat_add_exact) (simp del: u64_bound)
qed

text \<open>No u64 of the result wraps: the charge stays within the budget and the tokens within
  the curve's remaining supply, or within the base the curve's token account holds.\<close>

lemma buy_v3_token_bounds:
  assumes r: "buy_v3_token_amount_from_sol_amount e g cfg bc s ata a = Ok (t, ch)"
  shows "ch \<le> a" and "t \<le> real_token_reserves bc \<or> (t < ata \<and> \<not> bc_is_mayhem_mode bc)"
proof -
  let ?rem = "real_token_reserves bc"
  note r1 = r [unfolded buy_v3_token_amount_from_sol_amount_def]
  then have op: "check_curve_open bc False = Ok ()"
    by (cases "check_curve_open bc False") simp_all
  note r2 = r1 [unfolded op and_then_simps]
  then obtain tk where tk: "buy_tokens_exact_in e g cfg bc s a = Ok tk"
    by (cases "buy_tokens_exact_in e g cfg bc s a") simp_all
  note r3 = r2 [unfolded tk and_then_simps]
  have "ch \<le> a \<and> (t \<le> ?rem \<or> (t < ata \<and> \<not> bc_is_mayhem_mode bc))"
  proof (cases "tk = 0")
    case True
    with r3 show ?thesis by simp
  next
    case nz: False
    note r4 = r3 [unfolded if_not_P [OF nz]]
    then obtain p c where b: "curve_fee_bps e g cfg bc s = Ok (p, c)"
      by (cases "curve_fee_bps e g cfg bc s") auto
    note r5 = r4 [unfolded b and_then_simps Let_def fst_conv snd_conv]
    show ?thesis
    proof (cases "tk \<le> to_u128 ?rem")
      case True
      then obtain net f0 f1 f2 where ex: "exact_in_fee_amounts a (p, c, 0) = Ok (net, f0, f1, f2)"
        using r5 by (cases "exact_in_fee_amounts a (p, c, 0)") auto
      from r5 [unfolded if_P [OF True] ex, simplified]
      have t: "t = as_u64 tk" "ch = net + f0 + f1" by simp_all
      have "unat tk \<le> unat ?rem" using True by (simp add: word_le_nat_alt)
      then have "unat t \<le> unat ?rem"
        unfolding t using u64_bound [of ?rem]
        by (subst unat_as_u64_small) (simp_all del: u64_bound)
      with exact_in_charge [OF ex] t show ?thesis by (simp add: word_le_nat_alt)
    next
      case past: False
      note r6 = r5 [unfolded if_not_P [OF past]]
      then obtain n where n: "buy_quote bc ?rem = Ok n"
        by (cases "buy_quote bc ?rem") simp_all
      note r7 = r6 [unfolded n and_then_simps]
      then obtain ct where ct: "ok_or (try_u64 (with_fees n (p, c))) MathOverflow = Ok ct"
        by (cases "ok_or (try_u64 (with_fees n (p, c))) MathOverflow") simp_all
      note r8 = r7 [unfolded ct and_then_simps]
      then obtain left where left: "ok_or (checked_sub a ct) MathOverflow = Ok left"
        by (cases "ok_or (checked_sub a ct) MathOverflow") simp_all
      then have lv: "unat ct \<le> unat a" "unat left = unat a - unat ct"
        by (simp_all add: ok_or_Inr checked_sub_Some)
      note r9 = r8 [unfolded left and_then_simps]
      show ?thesis
      proof (cases "left = 0 \<or> bc_is_mayhem_mode bc")
        case True
        with r9 lv show ?thesis by (simp add: word_le_nat_alt)
      next
        case go: False
        note r10 = r9 [unfolded if_not_P [OF go]]
        let ?pl = "pool_to_be g bc ata (is_sol_like_quote_mint e (bc_quote_mint bc)) ?rem n"
        from r10 obtain pool where pool: "?pl = Ok pool" by (cases ?pl) simp_all
        note r11 = r10 [unfolded pool and_then_simps]
        then obtain l where l: "post_complete_leg_exact_quote pool (p, c) left False = Ok l"
          by (cases "post_complete_leg_exact_quote pool (p, c) left False") simp_all
        note r12 = r11 [unfolded l and_then_simps]
        show ?thesis
        proof (cases l)
          case None
          with r12 lv show ?thesis by (simp add: word_le_nat_alt)
        next
          case (Some os)
          then obtain out spent where l2: "l = Some (out, spent)" by (cases os) simp
          note lb = v3_leg_bounds [OF pool l l2]
          from r12 l2 have tv: "t = ?rem + out" "ch = ct + spent" by simp_all
          have "unat ch = unat ct + unat spent"
            unfolding tv using lb(4) lv u64_bound [of a]
            by (intro unat_add_exact) (simp del: u64_bound)
          with lb lv go tv show ?thesis by (simp add: word_le_nat_alt word_less_nat_alt)
        qed
      qed
    qed
  qed
  then show "ch \<le> a" "t \<le> ?rem \<or> (t < ata \<and> \<not> bc_is_mayhem_mode bc)" by blast+
qed

section \<open>Exact-out v3 buys\<close>

lemma check_curve_open_Ok [res_simps]:
  "check_curve_open bc allow = Ok u \<longleftrightarrow> \<not> complete bc \<and> (bc_is_cashback_coin bc \<longrightarrow> allow)"
  by (auto simp: check_curve_open_def)

lemma buy_v3_within_supply:
  assumes "\<not> complete bc" "\<not> bc_is_cashback_coin bc"
    and "t \<le> real_token_reserves bc \<or> bc_is_mayhem_mode bc"
  shows "buy_v3_sol_amount_from_token_amount e g cfg bc s ata t =
     buy_sol_amount_from_token_amount e g cfg bc s t"
  using assms by (auto simp: buy_v3_sol_amount_from_token_amount_def check_curve_open_def)

text \<open>The value past the supply, with no truncation anywhere: the curve leg and the pool leg,
  each with its fees.\<close>

definition two_fees :: "nat \<Rightarrow> nat \<Rightarrow> nat \<Rightarrow> nat" where
  "two_fees n p c = n + fee_nat n p + fee_nat n c"

lemma two_fees_mono: "n \<le> m \<Longrightarrow> two_fees n p c \<le> two_fees m p c"
  unfolding two_fees_def by (intro add_mono fee_nat_mono)

lemma buy_v3_past_supply:
  assumes r: "buy_v3_sol_amount_from_token_amount e g cfg bc s ata t = Ok cost"
    and past: "real_token_reserves bc < t" and nm: "\<not> bc_is_mayhem_mode bc"
  obtains p c net pb pq where "curve_fee_bps e g cfg bc s = Ok (p, c)"
    and "buy_quote bc (real_token_reserves bc) = Ok net"
    and "pool_to_be g bc ata (is_sol_like_quote_mint e (bc_quote_mint bc))
           (real_token_reserves bc) net = Ok (pb, pq)"
    and "unat t - unat (real_token_reserves bc) < unat pb"
    and "unat cost = two_fees (unat net) (unat p) (unat c) +
      two_fees (cdiv (unat pq * (unat t - unat (real_token_reserves bc)))
                     (unat pb - (unat t - unat (real_token_reserves bc)))) (unat p) (unat c)"
proof -
  let ?rem = "real_token_reserves bc"
  note r1 = r [unfolded buy_v3_sol_amount_from_token_amount_def]
  then have op: "check_curve_open bc False = Ok ()"
    by (cases "check_curve_open bc False") simp_all
  have np: "\<not> (t \<le> ?rem \<or> bc_is_mayhem_mode bc)" using past nm by auto
  note r2 = r1 [unfolded op and_then_simps Let_def if_not_P [OF np]]
  then obtain p c where b: "curve_fee_bps e g cfg bc s = Ok (p, c)"
    by (cases "curve_fee_bps e g cfg bc s") auto
  note r3 = r2 [unfolded b and_then_simps]
  then obtain net where n: "buy_quote bc ?rem = Ok net"
    by (cases "buy_quote bc ?rem") simp_all
  note r4 = r3 [unfolded n and_then_simps]
  let ?pl = "pool_to_be g bc ata (is_sol_like_quote_mint e (bc_quote_mint bc)) ?rem net"
  from r4 obtain pb pq where pool: "?pl = Ok (pb, pq)" by (cases ?pl) auto
  note r5 = r4 [unfolded pool and_then_simps prod.case]
  then have np2: "\<not> pb \<le> t - ?rem" by (auto split: if_splits)
  note r6 = r5 [unfolded if_not_P [OF np2]]
  let ?q = "ceil_div (to_u128 pq * to_u128 (t - ?rem)) (to_u128 (pb - (t - ?rem)))"
  from r6 obtain qi where qi: "ok_or (try_u64 ?q) MathOverflow = Ok qi"
    by (cases "ok_or (try_u64 ?q) MathOverflow") simp_all
  note r7 = r6 [unfolded qi and_then_simps]
  have pv: "unat (t - ?rem) = unat t - unat ?rem"
    using past by (simp add: unat_sub word_less_nat_alt word_le_nat_alt)
  have lt: "unat t - unat ?rem < unat pb"
    using np2 pv by (simp add: word_le_nat_alt)
  have dv: "unat (pb - (t - ?rem)) = unat pb - (unat t - unat ?rem)"
    using lt pv by (simp add: unat_sub word_le_nat_alt)
  then have dz: "to_u128 (pb - (t - ?rem)) \<noteq> 0"
    using lt by (auto simp: unat_eq_0 [symmetric])
  have qv: "unat qi = cdiv (unat pq * (unat t - unat ?rem)) (unat pb - (unat t - unat ?rem))"
    using qi dz by (simp add: ok_or_Inr try_u64_Some unat_ceil_div unat_mult_u64 pv dv)
  have "unat (with_fees net (p, c) + with_fees qi (p, c)) =
      unat (with_fees net (p, c)) + unat (with_fees qi (p, c))"
    using unat_with_fees(2) [of net p c] unat_with_fees(2) [of qi p c]
    by (intro unat_add_exact) simp
  with r7 have "unat cost = two_fees (unat net) (unat p) (unat c) + two_fees (unat qi) (unat p) (unat c)"
    by (simp add: ok_or_Inr try_u64_Some unat_with_fees two_fees_def)
  with b n pool lt qv show thesis by (intro that) simp_all
qed

section \<open>The curve hop\<close>

lemma hop_refuses:
  "complete bc \<Longrightarrow> multi_hop_curve_hop e g cfg bc s ata user is_buy a flags = Err VenueNotSupported"
  "bc_is_mayhem_mode bc \<Longrightarrow>
     multi_hop_curve_hop e g cfg bc s ata user is_buy a flags = Err VenueNotSupported"
  "bc_is_cashback_coin bc \<Longrightarrow> and flags HOP_FEE_CREATOR \<noteq> 0 \<Longrightarrow>
     multi_hop_curve_hop e g cfg bc s ata user is_buy a flags = Err VenueNotSupported"
  by (simp_all add: multi_hop_curve_hop_def check_curve_open_def Let_def)

lemma hop_Ok_guards:
  assumes "multi_hop_curve_hop e g cfg bc s ata user is_buy a flags = Ok out"
  shows "\<not> complete bc" "\<not> bc_is_mayhem_mode bc"
    "bc_is_cashback_coin bc \<Longrightarrow> and flags HOP_FEE_CREATOR = 0"
  using assms hop_refuses by (metis Inl_Inr_False)+

text \<open>The rates a hop charges on a curve with rates \<open>p, c\<close>.\<close>

definition hop_rates :: "u8 \<Rightarrow> u64 \<Rightarrow> u64 \<Rightarrow> u64 \<times> u64" where
  "hop_rates flags p c =
     ((if and flags HOP_FEE_PROTOCOL \<noteq> 0 then p else 0),
      (if and flags HOP_FEE_CREATOR \<noteq> 0 then c else 0))"

text \<open>A sell hop pays what its gross leaves after the fees of its flags, and pays something.\<close>

lemma hop_sell_value:
  assumes r: "multi_hop_curve_hop e g cfg bc s ata user False a flags = Ok out"
  obtains p c where "curve_fee_bps e g cfg bc s = Ok (p, c)"
    and "0 < unat out"
    and "unat out + fee_nat (gross_out bc a) (unat (fst (hop_rates flags p c)))
         + fee_nat (gross_out bc a) (unat (snd (hop_rates flags p c))) = gross_out bc a"
proof -
  note g = hop_Ok_guards [OF r]
  have op: "check_curve_open bc (\<not> and flags HOP_FEE_CREATOR \<noteq> 0) = Ok ()"
    using g by (auto simp: check_curve_open_def)
  note r1 = r [unfolded multi_hop_curve_hop_def Let_def op and_then_simps if_not_P [OF g(2)]]
  then obtain p c where b: "curve_fee_bps e g cfg bc s = Ok (p, c)"
    by (cases "curve_fee_bps e g cfg bc s") auto
  obtain b0 b1 where hr: "hop_rates flags p c = (b0, b1)" by (cases "hop_rates flags p c")
  then have bb: "(if and flags HOP_FEE_PROTOCOL \<noteq> 0 then p else 0) = b0"
    "(if and flags HOP_FEE_CREATOR \<noteq> 0 then c else 0) = b1"
    by (simp_all add: hop_rates_def)
  note r2 = r1 [unfolded b and_then_simps prod.case bb]
  let ?s = "sell_quote (virtual_quote_reserves bc) (virtual_token_reserves bc) a"
  from r2 obtain gr where gr: "?s = Ok gr" by (cases ?s) simp_all
  have gv: "unat gr = gross_out bc a" using gr by (simp add: sell_quote_Ok gross_out_def)
  have gl: "unat gr < U64_LIMIT"
    using gv gross_out_le [of bc a] u64_bound [of "virtual_quote_reserves bc"]
    by (simp del: u64_bound)
  note fv = unat_two_fees [OF gl, of b0 b1]
  let ?f = "opt_filter (\<lambda>out. out > 0) (checked_sub gr (fee_amount gr b0 + fee_amount gr b1))"
  from r2 gr obtain o' where o': "?f = Some o'" by (cases ?f) simp_all
  have "try_u64 o' = Some out" using r2 gr o' by (simp add: ok_or_Inr)
  moreover have "0 < o'" "fee_nat (unat gr) (unat b0) + fee_nat (unat gr) (unat b1) \<le> unat gr"
    "unat o' = unat gr - (fee_nat (unat gr) (unat b0) + fee_nat (unat gr) (unat b1))"
    using o' by (simp_all add: opt_filter_Some checked_sub_Some fv)
  ultimately show thesis
    using b gv hr by (intro that [of p c]) (auto simp: try_u64_Some word_less_nat_alt)
qed

lemma hop_buy_pos:
  assumes r: "multi_hop_curve_hop e g cfg bc s ata user True a flags = Ok out"
  shows "0 < unat out \<and>
    (out \<le> real_token_reserves bc \<or> (out < ata \<and> user \<noteq> g_whitelist_pda g))"
proof -
  let ?rem = "real_token_reserves bc"
  note g = hop_Ok_guards [OF r]
  have op: "check_curve_open bc (\<not> and flags HOP_FEE_CREATOR \<noteq> 0) = Ok ()"
    using g by (auto simp: check_curve_open_def)
  note r1 = r [unfolded multi_hop_curve_hop_def Let_def op and_then_simps if_not_P [OF g(2)]
      not_True_eq_False if_False]
  then obtain p c where b: "curve_fee_bps e g cfg bc s = Ok (p, c)"
    by (cases "curve_fee_bps e g cfg bc s") auto
  obtain b0 b1 where hr: "hop_rates flags p c = (b0, b1)" by (cases "hop_rates flags p c")
  then have bb: "(if and flags HOP_FEE_PROTOCOL \<noteq> 0 then p else 0) = b0"
    "(if and flags HOP_FEE_CREATOR \<noteq> 0 then c else 0) = b1"
    by (simp_all add: hop_rates_def)
  note r2 = r1 [unfolded b and_then_simps prod.case bb]
  then obtain net f0 f1 f2 where ex: "exact_in_fee_amounts a (b0, b1, 0) = Ok (net, f0, f1, f2)"
    by (cases "exact_in_fee_amounts a (b0, b1, 0)") auto
  note r3 = r2 [unfolded ex and_then_simps prod.case]
  let ?n = "ok_or (opt_filter (\<lambda>net. net > 0) (checked_sub a (f0 + f1))) ZeroAmount"
  from r3 obtain n where n: "?n = Ok n" by (cases ?n) simp_all
  note r4 = r3 [unfolded n and_then_simps]
  let ?sw = "swap_exact_input (to_u128 n - 1) (to_u128 (virtual_quote_reserves bc))
               (to_u128 (virtual_token_reserves bc))"
  from r4 obtain tk where tk: "?sw = Ok tk" by (cases ?sw) simp_all
  note r5 = r4 [unfolded tk and_then_simps]
  then have tz: "tk \<noteq> 0" by (auto split: if_splits)
  note r6 = r5 [unfolded if_not_P [OF tz]]
  show ?thesis
  proof (cases "tk \<le> to_u128 ?rem")
    case True
    with r6 have "out = as_u64 tk" by simp
    moreover have "unat tk \<le> unat ?rem" using True by (simp add: word_le_nat_alt)
    ultimately have "unat out = unat tk" "unat out \<le> unat ?rem"
      using u64_bound [of ?rem] by (simp_all add: unat_as_u64_small del: u64_bound)
    with tz show ?thesis by (simp add: word_le_nat_alt unat_gt_0)
  next
    case past: False
    note r7 = r6 [unfolded if_not_P [OF past]]
    then have wl: "user \<noteq> g_whitelist_pda g" by (auto split: if_splits)
    note r8 = r7 [unfolded if_not_P [OF wl]]
    then obtain cn where cn: "buy_quote bc ?rem = Ok cn"
      by (cases "buy_quote bc ?rem") simp_all
    note r9 = r8 [unfolded cn and_then_simps]
    have remz: "?rem \<noteq> 0" using buy_quote_pos [OF cn] by blast
    let ?l = "opt_filter (\<lambda>left. left > 0) (checked_sub (to_u128 a) (with_fees cn (b0, b1)))"
    show ?thesis
    proof (cases ?l)
      case None
      with r9 have "out = ?rem" by simp
      with remz show ?thesis by (simp add: unat_gt_0)
    next
      case (Some left)
      note r10 = r9 [unfolded Some option.case]
      let ?pl = "pool_to_be g bc ata (is_sol_like_quote_mint e (bc_quote_mint bc)) ?rem cn"
      from r10 obtain pool where pool: "?pl = Ok pool" by (cases ?pl) simp_all
      note r11 = r10 [unfolded pool and_then_simps]
      let ?leg = "post_complete_leg_exact_quote pool (b0, b1) (as_u64 left) True"
      from r11 obtain l where l: "?leg = Ok l" by (cases ?leg) simp_all
      note r12 = r11 [unfolded l and_then_simps]
      show ?thesis
      proof (cases l)
        case None
        with r12 remz show ?thesis by (simp add: unat_gt_0)
      next
        case (Some os)
        then obtain o2 spent where l2: "l = Some (o2, spent)" by (cases os) simp
        note lb = v3_leg_bounds [OF pool l l2]
        from r12 l2 have "out = ?rem + o2" by simp
        with lb wl show ?thesis by (simp add: word_less_nat_alt)
      qed
    qed
  qed
qed

end
