(* ===== verification/Amm_Facts.thy ===== *)
theory Amm_Facts
  imports Amm Curve_V3
begin

text \<open>
  Facts about the AMM quotes: the signed effective reserve, the values of the three quotes,
  the constant product they keep, their duality, and the pool hop.
\<close>

section \<open>Reserves\<close>

declare of_nat_unat [simp del]

lemma sint_to_u128: "sint (to_u128 (b :: u64)) = int (unat b)"
proof -
  have "unat b < 2 ^ 127" using u64_bound [of b] by (simp del: u64_bound)
  then show ?thesis by (simp add: sint_u128)
qed

lemma sint_u128_range: "- (2 ^ 127) \<le> sint (v :: u128)" "sint v < 2 ^ 127"
proof -
  have "int (unat v) < 2 ^ 128" using uint_lt2p [of v] by (simp add: of_nat_unat)
  moreover have "0 \<le> int (unat v)" by simp
  ultimately show "- (2 ^ 127) \<le> sint v" "sint v < 2 ^ 127"
    unfolding sint_u128 using u128_bound [of v] by (simp_all split: if_split del: u128_bound)
qed

lemma sint_word_of_int_u128:
  assumes "- (2 ^ 127) \<le> s" "s < 2 ^ 127"
  shows "sint (word_of_int s :: u128) = s"
  using assms by (simp add: sint_sbintrunc' signed_take_bit_int_eq_self)

lemma try_u64_i128_Some: "try_u64_i128 v = Some r \<longleftrightarrow> sint v = int (unat r)"
proof -
  have r: "int (unat r) < 2 ^ 64" using uint_lt2p [of r] by (simp add: of_nat_unat)
  show ?thesis
  proof (cases "0 \<le> sint v \<and> sint v < 2 ^ 64")
    case True
    then have "sint v = int (unat v)" using sint_u128_neg [of v] by (simp add: sint_u128)
    moreover from this True have "unat v < U64_LIMIT" by simp
    then have "unat (ucast v :: u64) = unat v"
      using unat_as_u64_small [of v] by (simp add: as_u64_def)
    ultimately show ?thesis using True
      by (auto simp: try_u64_i128_def word_unat_eq_iff)
  next
    case False
    with r show ?thesis by (auto simp: try_u64_i128_def)
  qed
qed

text \<open>The pricing reserve is the exact signed sum whenever that sum is a \<open>u64\<close>; otherwise
  the call fails.\<close>

lemma effective_quote_reserve_Ok [res_simps]:
  "effective_quote_reserve pl b = Ok r \<longleftrightarrow>
     int (unat r) = int (unat b) + sint (p_virtual_quote_reserves pl)"
proof -
  let ?s = "int (unat b) + sint (p_virtual_quote_reserves pl)"
  have r: "int (unat r) < 2 ^ 64" using uint_lt2p [of r] by (simp add: of_nat_unat)
  show ?thesis
  proof (cases "- (2 ^ 127) \<le> ?s \<and> ?s < 2 ^ 127")
    case True
    then have "sint (word_of_int ?s :: u128) = ?s" by (intro sint_word_of_int_u128) simp_all
    with True show ?thesis
      by (auto simp: effective_quote_reserve_def checked_add_i128_def Let_def sint_to_u128
          ok_or_Inr try_u64_i128_Some)
  next
    case False
    have ne: "?s \<noteq> int (unat r)"
    proof
      assume s: "?s = int (unat r)"
      have "- (2 ^ 127) \<le> int (unat r)" "int (unat r) < 2 ^ 127"
        using u64_bound [of r] by (simp_all del: u64_bound)
      with False show False unfolding s by blast
    qed
    from False ne show ?thesis
      by (auto simp: effective_quote_reserve_def checked_add_i128_def Let_def sint_to_u128)
  qed
qed

lemma real_quote_reserve_Ok [res_simps]:
  "real_quote_reserve pl b = Ok r \<longleftrightarrow>
     unat (p_protocol_fees pl) + unat (p_creator_fees pl) \<le> unat b \<and>
     unat r = unat b - (unat (p_protocol_fees pl) + unat (p_creator_fees pl))"
proof -
  show ?thesis
  proof (cases "unat (p_protocol_fees pl) + unat (p_creator_fees pl) < U64_LIMIT")
    case True
    then obtain t :: u64 where t: "unat t = unat (p_protocol_fees pl) + unat (p_creator_fees pl)"
      using ex_word [where ?'a = 64] by auto
    then have "fee_buckets_total pl = Ok t"
      by (simp add: fee_buckets_total_def ok_or_Inr checked_add_Some)
    with t show ?thesis by (simp add: real_quote_reserve_def ok_or_Inr checked_sub_Some)
  next
    case False
    then have "fee_buckets_total pl = Err MathOverflow"
      by (simp add: fee_buckets_total_def ok_or_Inl checked_add_None)
    with False u64_bound [of b] show ?thesis by (simp add: real_quote_reserve_def del: u64_bound)
  qed
qed

lemma check_trading_enabled_Ok:
  "check_trading_enabled cfg is_buy = Ok () \<longleftrightarrow>
     \<not> bit (gc_disable_flags cfg) (if is_buy then 3 else 4)"
  by (simp add: check_trading_enabled_def bit_iff_and_push_bit_not_eq_0)

section \<open>The primitives implement the constant product\<close>

lemma amm_sell_quote_swap:
  "amm_sell_quote b q t = swap_exact_input (to_u128 t) (to_u128 b) (to_u128 q)"
  by (simp add: amm_sell_quote_def swap_exact_input_def Let_def)

lemma amm_buy_token_quote_swap:
  "amm_buy_token_quote_with_sol b q x = swap_exact_input (to_u128 x) (to_u128 q) (to_u128 b)"
  by (simp add: amm_buy_token_quote_with_sol_def swap_exact_input_def Let_def)

lemma swap_u64_laws:
  assumes "swap_exact_input (to_u128 (a :: u64)) (to_u128 (i :: u64)) (to_u128 (z :: u64)) = Ok r"
  shows "unat r * (unat i + unat a) \<le> unat a * unat z"
    and "unat a * unat z < (unat r + 1) * (unat i + unat a)"
  using xin.swap_floor [OF assms] xin.swap_ceil [OF assms] by simp_all

interpretation curve_sell: const_product "\<lambda>t vt vq. sell_quote vq vt t"
  by unfold_locales (simp_all only: sell_quote_swap swap_u64_laws)

interpretation curve_buy: const_product "\<lambda>x vq vt. buy_token_quote_with_sol vq vt x"
  by unfold_locales (simp_all only: buy_token_quote_swap swap_u64_laws)

interpretation amm_sell: const_product "\<lambda>t b q. amm_sell_quote b q t"
  by unfold_locales (simp_all only: amm_sell_quote_swap swap_u64_laws)

interpretation amm_buy: const_product "\<lambda>x q b. amm_buy_token_quote_with_sol b q x"
  by unfold_locales (simp_all only: amm_buy_token_quote_swap swap_u64_laws)

section \<open>Quotes\<close>

text \<open>The creator rate a context charges.\<close>

definition ctx_creator_bps :: "amm_context \<Rightarrow> amm_fee_bps \<Rightarrow> u64" where
  "ctx_creator_bps ctx bps =
     (if cx_coin_creator ctx = default_key then 0 else af_creator_fee_bps bps)"

lemma creator_fee_ctx:
  "creator_fee_amount (cx_coin_creator ctx) x (af_creator_fee_bps bps) =
     fee_amount x (ctx_creator_bps ctx bps)"
proof -
  have "fee_amount x 0 = 0"
    by (rule unsigned_word_eqI [where ?'a = nat]) (simp add: unat_fee_amount)
  then show ?thesis by (simp add: creator_fee_amount_def ctx_creator_bps_def)
qed

lemma unat_three_fees:
  assumes x: "unat (x :: u128) < U64_LIMIT"
  shows "unat (fee_amount x a + fee_amount x b + fee_amount x c) =
     fee_nat (unat x) (unat a) + fee_nat (unat x) (unat b) + fee_nat (unat x) (unat c)"
    and "unat (fee_amount x a + fee_amount x b + fee_amount x c) \<le> 2 ^ 117"
proof -
  note f = unat_two_fees [OF x, of a b] unat_fee_small [OF x, of c]
  show e: "unat (fee_amount x a + fee_amount x b + fee_amount x c) =
     fee_nat (unat x) (unat a) + fee_nat (unat x) (unat b) + fee_nat (unat x) (unat c)"
    using f by (subst unat_add_exact) simp_all
  show "unat (fee_amount x a + fee_amount x b + fee_amount x c) \<le> 2 ^ 117"
    unfolding e using f by simp
qed

definition three_fees :: "nat \<Rightarrow> nat \<Rightarrow> nat \<Rightarrow> nat \<Rightarrow> nat" where
  "three_fees n a b c = fee_nat n a + fee_nat n b + fee_nat n c"

subsection \<open>Exact-out buys\<close>

definition raw_quote_in :: "amm_context \<Rightarrow> u64 \<Rightarrow> nat" where
  "raw_quote_in ctx b =
     cdiv (unat (cx_quote_reserve ctx) * unat b) (unat (cx_base_reserve ctx) - unat b)"

lemma buy_base_input_parts:
  assumes r: "buy_base_input e ctx b = Ok res"
  obtains bps raw where "ctx_fee_bps e ctx = Ok bps"
    and "check_trading_enabled (cx_global_config ctx) True = Ok ()"
    and "cx_base_reserve ctx \<noteq> 0" "cx_quote_reserve ctx \<noteq> 0"
    and "unat b < unat (cx_base_reserve ctx)" and "unat raw = raw_quote_in ctx b"
    and "res = \<lparr>bbi_total_quote_in = as_u64 (raw + fee_amount raw (af_lp_fee_bps bps)
        + fee_amount raw (af_protocol_fee_bps bps) + fee_amount raw (ctx_creator_bps ctx bps)),
      bbi_raw_quote_in = as_u64 raw\<rparr>"
proof -
  let ?B = "cx_base_reserve ctx" and ?Q = "cx_quote_reserve ctx"
  note r1 = r [unfolded buy_base_input_def]
  then have en: "check_trading_enabled (cx_global_config ctx) True = Ok ()"
    by (cases "check_trading_enabled (cx_global_config ctx) True") simp_all
  note r2 = r1 [unfolded en and_then_simps]
  then have cr: "check_reserves ctx = Ok ()" by (cases "check_reserves ctx") simp_all
  then have nz: "?B \<noteq> 0" "?Q \<noteq> 0" by (auto simp: check_reserves_def split: if_splits)
  note r3 = r2 [unfolded cr and_then_simps]
  then have nge: "\<not> ?B \<le> b" by (auto split: if_splits)
  then have lt: "unat b < unat ?B" by (simp add: word_le_nat_alt)
  define raw where "raw = ceil_div (to_u128 ?Q * to_u128 b) (to_u128 ?B - to_u128 b)"
  note r4 = r3 [unfolded if_not_P [OF nge] Let_def raw_def [symmetric] creator_fee_ctx]
  then obtain bps where bps: "ctx_fee_bps e ctx = Ok bps" by (cases "ctx_fee_bps e ctx") simp_all
  have d: "unat (to_u128 ?B - to_u128 b) = unat ?B - unat b"
    using lt by (subst unat_sub) (simp_all add: word_le_nat_alt)
  then have "to_u128 ?B - to_u128 b \<noteq> 0" using lt by (auto simp: unat_eq_0 [symmetric])
  then have raw: "unat raw = raw_quote_in ctx b"
    by (simp add: raw_def unat_ceil_div unat_mult_u64 d raw_quote_in_def)
  from r4 [unfolded bps and_then_simps] show thesis
    by (intro that [OF bps en nz lt raw]) simp
qed

text \<open>The raw amount is reported modulo 2^64.\<close>

lemma buy_base_input_raw:
  assumes "buy_base_input e ctx b = Ok res"
  shows "unat b < unat (cx_base_reserve ctx)"
    and "unat (bbi_raw_quote_in res) = raw_quote_in ctx b mod U64_LIMIT"
  using assms by (rule buy_base_input_parts, simp add: unat_as_u64)+

lemma buy_base_input_value:
  assumes r: "buy_base_input e ctx b = Ok res"
    and fits: "raw_quote_in ctx b < U64_LIMIT"
  obtains bps where "ctx_fee_bps e ctx = Ok bps"
    and "check_trading_enabled (cx_global_config ctx) True = Ok ()"
    and "cx_base_reserve ctx \<noteq> 0" "cx_quote_reserve ctx \<noteq> 0"
    and "unat b < unat (cx_base_reserve ctx)"
    and "unat (bbi_raw_quote_in res) = raw_quote_in ctx b"
    and "unat (bbi_total_quote_in res) = (raw_quote_in ctx b +
      three_fees (raw_quote_in ctx b) (unat (af_lp_fee_bps bps)) (unat (af_protocol_fee_bps bps))
        (unat (ctx_creator_bps ctx bps))) mod U64_LIMIT"
  using r
proof (rule buy_base_input_parts)
  fix bps raw
  assume bps: "ctx_fee_bps e ctx = Ok bps"
    and en: "check_trading_enabled (cx_global_config ctx) True = Ok ()"
    and nz: "cx_base_reserve ctx \<noteq> 0" "cx_quote_reserve ctx \<noteq> 0"
    and lt: "unat b < unat (cx_base_reserve ctx)" and raw: "unat raw = raw_quote_in ctx b"
    and res: "res = \<lparr>bbi_total_quote_in = as_u64 (raw + fee_amount raw (af_lp_fee_bps bps)
        + fee_amount raw (af_protocol_fee_bps bps) + fee_amount raw (ctx_creator_bps ctx bps)),
      bbi_raw_quote_in = as_u64 raw\<rparr>"
  have rl: "unat raw < U64_LIMIT" using raw fits by simp
  let ?l = "af_lp_fee_bps bps" and ?p = "af_protocol_fee_bps bps" and ?c = "ctx_creator_bps ctx bps"
  note three = unat_three_fees [OF rl, of ?l ?p ?c]
  have "unat (raw + (fee_amount raw ?l + fee_amount raw ?p + fee_amount raw ?c)) =
      unat raw + three_fees (unat raw) (unat ?l) (unat ?p) (unat ?c)"
    using three rl by (subst unat_add_exact) (simp_all add: three_fees_def)
  then have tv: "unat (raw + fee_amount raw ?l + fee_amount raw ?p + fee_amount raw ?c) =
      unat raw + three_fees (unat raw) (unat ?l) (unat ?p) (unat ?c)"
    by (simp add: add.assoc)
  have "unat raw mod U64_LIMIT = unat raw" using rl by (rule mod_less)
  then show thesis
    by (intro that [OF bps en nz lt]) (simp_all add: res raw [symmetric] unat_as_u64 tv)
qed

text \<open>The raw amount is the least one that keeps the constant product.\<close>

lemma raw_quote_in_least:
  assumes "unat b < unat (cx_base_reserve ctx)"
  shows "raw_quote_in ctx b \<le> x \<longleftrightarrow>
    unat (cx_base_reserve ctx) * unat (cx_quote_reserve ctx) \<le>
      (unat (cx_base_reserve ctx) - unat b) * (unat (cx_quote_reserve ctx) + x)"
proof -
  let ?B = "unat (cx_base_reserve ctx)" and ?Q = "unat (cx_quote_reserve ctx)"
  have "raw_quote_in ctx b \<le> x \<longleftrightarrow> ?Q * unat b \<le> x * (?B - unat b)"
    unfolding raw_quote_in_def using assms by (intro cdiv_le_iff) simp
  also have "\<dots> \<longleftrightarrow> ?B * ?Q \<le> (?B - unat b) * ?Q + x * (?B - unat b)"
  proof -
    have "?B * ?Q = (?B - unat b) * ?Q + ?Q * unat b"
      using assms by (metis add_mult_distrib le_add_diff_inverse2 less_imp_le_nat mult.commute)
    then show ?thesis by simp
  qed
  also have "(?B - unat b) * ?Q + x * (?B - unat b) = (?B - unat b) * (?Q + x)"
    by (simp only: add_mult_distrib2 mult.commute [of x])
  finally show ?thesis .
qed

subsection \<open>Exact-in buys\<close>

lemma buy_quote_input_value:
  assumes r: "buy_quote_input e ctx a = Ok res"
  obtains bps f0 f1 f2 where "ctx_fee_bps e ctx = Ok bps"
    and "check_trading_enabled (cx_global_config ctx) True = Ok ()"
    and "cx_base_reserve ctx \<noteq> 0" "cx_quote_reserve ctx \<noteq> 0"
    and "exact_in_spec (unat a) (unat (af_lp_fee_bps bps)) (unat (af_protocol_fee_bps bps))
      (unat (ctx_creator_bps ctx bps)) = Some (unat (bqi_effective_quote res), f0, f1, f2)"
    and "unat (bqi_base_amount_out res) = curve_out (unat (bqi_effective_quote res))
      (unat (cx_quote_reserve ctx)) (unat (cx_base_reserve ctx))"
    and "0 < unat (bqi_base_amount_out res)"
    and "unat (bqi_base_amount_out res) < unat (cx_base_reserve ctx)"
proof -
  let ?B = "cx_base_reserve ctx" and ?Q = "cx_quote_reserve ctx"
  note r1 = r [unfolded buy_quote_input_def]
  then have en: "check_trading_enabled (cx_global_config ctx) True = Ok ()"
    by (cases "check_trading_enabled (cx_global_config ctx) True") simp_all
  note r2 = r1 [unfolded en and_then_simps]
  then have cr: "check_reserves ctx = Ok ()" by (cases "check_reserves ctx") simp_all
  then have nz: "?B \<noteq> 0" "?Q \<noteq> 0" by (auto simp: check_reserves_def split: if_splits)
  note r3 = r2 [unfolded cr and_then_simps Let_def]
  then obtain bps where bps: "ctx_fee_bps e ctx = Ok bps" by (cases "ctx_fee_bps e ctx") simp_all
  let ?l = "af_lp_fee_bps bps" and ?p = "af_protocol_fee_bps bps" and ?c = "ctx_creator_bps ctx bps"
  note r4 = r3 [unfolded bps and_then_simps ctx_creator_bps_def [symmetric]]
  then obtain net where net: "exact_in_fees a (?l, ?p, ?c) = Ok net"
    by (cases "exact_in_fees a (?l, ?p, ?c)") simp_all
  note r5 = r4 [unfolded net and_then_simps]
  let ?sw = "swap_exact_input (to_u128 net - 1) (to_u128 ?Q) (to_u128 ?B)"
  from r5 obtain out where out: "?sw = Ok out" by (cases ?sw) simp_all
  from r5 [unfolded out and_then_simps] have oz: "out \<noteq> 0"
    and res: "res = \<lparr>bqi_base_amount_out = as_u64 out, bqi_effective_quote = net\<rparr>"
    by (auto split: if_splits)
  from net obtain f0 f1 f2 where sp: "exact_in_spec (unat a) (unat ?l) (unat ?p) (unat ?c) =
      Some (unat net, unat (f0 :: u64), unat (f1 :: u64), unat (f2 :: u64))"
    by (auto simp: exact_in_fees_Ok exact_in_fee_amounts_Ok)
  then have "1 \<le> unat net" by (rule exact_in_spec_budget)
  with out nz have ov: "unat out = curve_out (unat net) (unat ?Q) (unat ?B)"
    by (simp add: net_swap)
  have "curve_out (unat net) (unat ?Q) (unat ?B) < unat ?B"
    using nz by (intro curve_out_less) (simp_all add: unat_gt_0)
  then have ol: "unat out < unat ?B" using ov by simp
  then have oe: "unat (as_u64 out) = unat out"
    using u64_bound [of ?B] by (intro unat_as_u64_small) (simp del: u64_bound)
  have op: "0 < unat out" using oz by (simp add: unat_gt_0)
  show thesis
    by (rule that [OF bps en nz]) (use sp oe ol ov op res in simp_all)
qed

text \<open>Asking for the base an exact-in buy was quoted costs at most its budget.\<close>

lemma raw_of_out:
  assumes "b = curve_out n q B" and "1 \<le> n" and "b < B" and "0 < q"
  shows "cdiv (q * b) (B - b) \<le> n - 1"
proof -
  have "0 < q + (n - 1)" using assms(4) by simp
  then have "b * (q + (n - 1)) \<le> (n - 1) * B"
    using div_le_iff_mult [of "q + (n - 1)" b "(n - 1) * B"] assms(1) by (simp add: curve_out_def)
  then have "q * b \<le> (n - 1) * (B - b)"
    unfolding diff_mult_distrib2 add_mult_distrib2 mult.commute [of "n - 1" b] mult.commute [of q b]
    by linarith
  then show ?thesis using assms by (subst cdiv_le_iff) simp_all
qed

lemma amm_exact_out_of_exact_in:
  assumes q: "buy_quote_input e ctx a = Ok res"
  shows "\<exists>res'. buy_base_input e ctx (bqi_base_amount_out res) = Ok res' \<and>
    bbi_total_quote_in res' \<le> a \<and> bbi_raw_quote_in res' < bqi_effective_quote res"
proof -
  let ?b = "bqi_base_amount_out res" and ?n = "unat (bqi_effective_quote res)"
  from q obtain bps f0 f1 f2 where bps: "ctx_fee_bps e ctx = Ok bps"
    and en: "check_trading_enabled (cx_global_config ctx) True = Ok ()"
    and nz: "cx_base_reserve ctx \<noteq> 0" "cx_quote_reserve ctx \<noteq> 0"
    and sp: "exact_in_spec (unat a) (unat (af_lp_fee_bps bps)) (unat (af_protocol_fee_bps bps))
      (unat (ctx_creator_bps ctx bps)) = Some (?n, f0, f1, f2)"
    and out: "unat ?b = curve_out ?n (unat (cx_quote_reserve ctx)) (unat (cx_base_reserve ctx))"
    and pos: "0 < unat ?b" and lt: "unat ?b < unat (cx_base_reserve ctx)"
    by (rule buy_quote_input_value)
  note facts = exact_in_spec_budget [OF sp]
  have raw: "raw_quote_in ctx ?b \<le> ?n - 1"
    unfolding raw_quote_in_def using out facts(1) lt nz
    by (intro raw_of_out) (simp_all add: unat_gt_0)
  have fits: "raw_quote_in ctx ?b < U64_LIMIT"
    using raw u64_bound [of "bqi_effective_quote res"] by (simp del: u64_bound)
  let ?T = "unat (af_lp_fee_bps bps) + unat (af_protocol_fee_bps bps) + unat (ctx_creator_bps ctx bps)"
  have le: "raw_quote_in ctx ?b \<le> raw_net (unat a) ?T" using raw facts(4) by linarith
  have tot: "raw_quote_in ctx ?b + three_fees (raw_quote_in ctx ?b) (unat (af_lp_fee_bps bps))
      (unat (af_protocol_fee_bps bps)) (unat (ctx_creator_bps ctx bps)) \<le> unat a"
    using raw facts(3,7,8,9) fee_nat_mono [OF le, of "unat (af_lp_fee_bps bps)"]
      fee_nat_mono [OF le, of "unat (af_protocol_fee_bps bps)"]
      fee_nat_mono [OF le, of "unat (ctx_creator_bps ctx bps)"]
    unfolding three_fees_def by linarith
  have "\<not> cx_base_reserve ctx \<le> ?b" using lt by (simp add: word_le_nat_alt)
  then obtain res' where r': "buy_base_input e ctx ?b = Ok res'"
    using en nz bps by (simp add: buy_base_input_def check_reserves_def Let_def)
  from r' fits obtain bps' where "ctx_fee_bps e ctx = Ok bps'"
    and "check_trading_enabled (cx_global_config ctx) True = Ok ()"
      "cx_base_reserve ctx \<noteq> 0" "cx_quote_reserve ctx \<noteq> 0" "unat ?b < unat (cx_base_reserve ctx)"
    and rw: "unat (bbi_raw_quote_in res') = raw_quote_in ctx ?b"
    and tl: "unat (bbi_total_quote_in res') = (raw_quote_in ctx ?b +
      three_fees (raw_quote_in ctx ?b) (unat (af_lp_fee_bps bps')) (unat (af_protocol_fee_bps bps'))
        (unat (ctx_creator_bps ctx bps'))) mod U64_LIMIT"
    by (rule buy_base_input_value)
  then have b': "bps' = bps" using bps by simp
  have "unat (bbi_total_quote_in res') \<le> unat a"
    unfolding tl b' using tot by (rule le_trans [OF mod_less_eq_dividend])
  moreover have "unat (bbi_raw_quote_in res') < ?n" using rw raw facts(1) by simp
  ultimately show ?thesis
    by (intro exI [of _ res'] conjI r') (simp_all only: word_le_nat_alt word_less_nat_alt)
qed

subsection \<open>Sells\<close>

definition raw_quote_out :: "amm_context \<Rightarrow> u64 \<Rightarrow> nat" where
  "raw_quote_out ctx b =
     unat (cx_quote_reserve ctx) * unat b div (unat (cx_base_reserve ctx) + unat b)"

lemma raw_quote_out_le: "raw_quote_out ctx b \<le> unat (cx_quote_reserve ctx)"
proof -
  have "unat (cx_quote_reserve ctx) * unat b div (unat (cx_base_reserve ctx) + unat b) \<le>
    unat (cx_quote_reserve ctx) * (unat (cx_base_reserve ctx) + unat b)
      div (unat (cx_base_reserve ctx) + unat b)"
    by (intro div_le_mono mult_le_mono) simp_all
  also have "\<dots> \<le> unat (cx_quote_reserve ctx)" by simp
  finally show ?thesis by (simp add: raw_quote_out_def)
qed

text \<open>The fees of a sell, as natural numbers.\<close>

definition sell_fees :: "amm_context \<Rightarrow> amm_fee_bps \<Rightarrow> u64 \<Rightarrow> nat" where
  "sell_fees ctx bps b = three_fees (raw_quote_out ctx b) (unat (af_lp_fee_bps bps))
     (unat (af_protocol_fee_bps bps)) (unat (ctx_creator_bps ctx bps))"

lemma sell_base_input_value:
  assumes en: "check_trading_enabled (cx_global_config ctx) False = Ok ()"
    and nz: "cx_base_reserve ctx \<noteq> 0" "cx_quote_reserve ctx \<noteq> 0"
    and bps: "ctx_fee_bps e ctx = Ok bps"
  shows "sell_base_input e ctx b =
    (if raw_quote_out ctx b < sell_fees ctx bps b then Err FeesExceedOutput
     else if unat (cx_real_quote_reserve ctx) <
       raw_quote_out ctx b - fee_nat (raw_quote_out ctx b) (unat (af_lp_fee_bps bps))
     then Err InsufficientRealQuoteReserves
     else Ok \<lparr>sbi_final_quote_out = word_of_nat (raw_quote_out ctx b - sell_fees ctx bps b),
             sbi_raw_quote_out = word_of_nat (raw_quote_out ctx b)\<rparr>)"
proof -
  let ?B = "cx_base_reserve ctx" and ?Q = "cx_quote_reserve ctx"
  let ?l = "af_lp_fee_bps bps" and ?p = "af_protocol_fee_bps bps" and ?c = "ctx_creator_bps ctx bps"
  define raw where "raw = to_u128 ?Q * to_u128 b div (to_u128 ?B + to_u128 b)"
  have raw: "unat raw = raw_quote_out ctx b"
    by (simp add: raw_def raw_quote_out_def unat_div unat_mult_u64 unat_add_u64)
  have rl: "unat raw < U64_LIMIT"
    using raw raw_quote_out_le [of ctx b] u64_bound [of ?Q] by (simp del: u64_bound)
  define tf where "tf = fee_amount raw ?l + fee_amount raw ?p + fee_amount raw ?c"
  have tf: "unat tf = sell_fees ctx bps b"
    using unat_three_fees [OF rl, of ?l ?p ?c] by (simp add: tf_def sell_fees_def three_fees_def raw)
  have lp: "unat (fee_amount raw ?l) = fee_nat (raw_quote_out ctx b) (unat ?l)"
    using unat_fee_small [OF rl, of ?l] raw by simp
  have lple: "fee_nat (raw_quote_out ctx b) (unat ?l) \<le> sell_fees ctx bps b"
    by (simp add: sell_fees_def three_fees_def)
  have w: "as_u64 x = word_of_nat (unat x)" for x :: u128
    by (rule unsigned_word_eqI [where ?'a = nat]) (simp add: unat_as_u64 unat_of_nat)
  have eq: "sell_base_input e ctx b =
    (if raw < tf then Err FeesExceedOutput
     else if to_u128 (cx_real_quote_reserve ctx) < raw - fee_amount raw ?l
     then Err InsufficientRealQuoteReserves
     else Ok \<lparr>sbi_final_quote_out = as_u64 (raw - tf), sbi_raw_quote_out = as_u64 raw\<rparr>)"
    using en nz bps
    by (simp add: sell_base_input_def check_reserves_def Let_def raw_def [symmetric]
        creator_fee_ctx tf_def [symmetric])
  have lt: "raw < tf \<longleftrightarrow> raw_quote_out ctx b < sell_fees ctx bps b"
    by (simp add: word_less_nat_alt raw tf)
  show ?thesis
  proof (cases "raw < tf")
    case True
    then show ?thesis by (simp add: eq lt)
  next
    case False
    then have ge: "sell_fees ctx bps b \<le> raw_quote_out ctx b" by (simp add: lt)
    have "unat (raw - fee_amount raw ?l) = raw_quote_out ctx b - fee_nat (raw_quote_out ctx b) (unat ?l)"
      using ge lple by (subst unat_sub) (simp_all add: word_le_nat_alt raw lp)
    then have lt2: "to_u128 (cx_real_quote_reserve ctx) < raw - fee_amount raw ?l \<longleftrightarrow>
      unat (cx_real_quote_reserve ctx) <
        raw_quote_out ctx b - fee_nat (raw_quote_out ctx b) (unat ?l)"
      by (simp add: word_less_nat_alt)
    have "unat (raw - tf) = raw_quote_out ctx b - sell_fees ctx bps b"
      using ge by (subst unat_sub) (simp_all add: word_le_nat_alt raw tf)
    with False lt lt2 show ?thesis by (simp add: eq w raw)
  qed
qed

text \<open>Whatever happens to the fees and whoever trades in between on the pool's side, the
  gross of selling back \<open>b\<close> on the reserves a buy of \<open>b\<close> leaves is at most the raw
  cost of the buy.\<close>

lemma raw_round_trip:
  assumes "unat b < unat (cx_base_reserve ctx)"
    and base: "unat (cx_base_reserve ctx') + unat b = unat (cx_base_reserve ctx)"
    and quote: "unat (cx_quote_reserve ctx') = unat (cx_quote_reserve ctx) + raw_quote_in ctx b"
  shows "raw_quote_out ctx' b \<le> raw_quote_in ctx b"
proof -
  let ?B = "unat (cx_base_reserve ctx)" and ?Q = "unat (cx_quote_reserve ctx)"
  let ?r = "raw_quote_in ctx b"
  have "?Q * unat b \<le> ?r * (?B - unat b)"
    unfolding raw_quote_in_def using assms(1) by (intro cdiv_ge) simp
  moreover have "?r * unat b \<le> ?r * ?B" using assms(1) by simp
  ultimately have "(?Q + ?r) * unat b \<le> ?r * ?B"
    unfolding diff_mult_distrib2 add_mult_distrib by linarith
  then have "(?Q + ?r) * unat b div ?B \<le> ?r * ?B div ?B" by (rule div_le_mono)
  with assms show ?thesis by (simp add: raw_quote_out_def)
qed

section \<open>Multi-hop\<close>

text \<open>The flags of a hop, read back by the curve hop.\<close>

lemma curve_flags_bits:
  "and (curve_flags f) HOP_FEE_PROTOCOL \<noteq> 0 \<longleftrightarrow> hf_protocol f"
  "and (curve_flags f) HOP_FEE_CREATOR \<noteq> 0 \<longleftrightarrow> hf_creator f"
  by (cases "hf_protocol f"; cases "hf_creator f";
      simp add: curve_flags_def HOP_FEE_PROTOCOL_def HOP_FEE_CREATOR_def)+

lemma for_hop_fields:
  "hf_protocol (for_hop is_buy i n) \<longleftrightarrow> (if is_buy then i = 0 else i + 1 = n)"
  "hf_creator (for_hop is_buy i n) \<longleftrightarrow> (if is_buy then i + 1 = n else i = 0)"
  "hf_lp (for_hop is_buy i n) = hf_creator (for_hop is_buy i n)"
  by (simp_all add: for_hop_def Let_def)

lemma pool_hop_Ok_guards:
  assumes "multi_hop_pool_hop e cfg fc pl base vault supply is_buy a legs = Ok out"
  shows "check_trading_enabled cfg is_buy = Ok ()"
    "is_pump_pool e (p_base_mint pl) (p_creator pl)" "\<not> p_is_mayhem_mode pl"
    "\<not> (hf_creator legs \<and> p_is_cashback_coin pl)"
proof -
  show en: "check_trading_enabled cfg is_buy = Ok ()"
    using assms unfolding multi_hop_pool_hop_def
    by (cases "check_trading_enabled cfg is_buy") simp_all
  show "is_pump_pool e (p_base_mint pl) (p_creator pl)" "\<not> p_is_mayhem_mode pl"
    "\<not> (hf_creator legs \<and> p_is_cashback_coin pl)"
    using assms unfolding multi_hop_pool_hop_def en and_then_simps by (auto split: if_splits)
qed

lemma sub_filter_pos:
  "ok_or (opt_filter (\<lambda>n. n > 0) (checked_sub a b)) err = Ok n \<Longrightarrow>
     unat n = unat a - unat b \<and> unat b < unat a"
  by (auto simp: ok_or_Inr opt_filter_Some checked_sub_Some word_less_nat_alt)

text \<open>A pool hop pays something, less than the side of the pool it takes from; a sell pays
  out of the vault's liquidity.\<close>

lemma pool_hop_buy_out:
  assumes r: "multi_hop_pool_hop e cfg fc pl base vault supply True a legs = Ok out"
  shows "0 < unat out \<and> unat out < unat base"
proof -
  note g = pool_hop_Ok_guards [OF r]
  let ?bad = "\<not> is_pump_pool e (p_base_mint pl) (p_creator pl) \<or> (hf_creator legs \<and> p_is_cashback_coin pl)
        \<or> p_is_mayhem_mode pl"
  have nb: "\<not> ?bad" using g by blast
  note r1 = r [unfolded multi_hop_pool_hop_def g(1) and_then_simps if_not_P [OF nb] if_True]
  then obtain rq where rq: "real_quote_reserve pl vault = Ok rq"
    by (cases "real_quote_reserve pl vault") simp_all
  note r2 = r1 [unfolded rq and_then_simps]
  then obtain q where q: "effective_quote_reserve pl vault = Ok q"
    by (cases "effective_quote_reserve pl vault") simp_all
  note r3 = r2 [unfolded q and_then_simps]
  then have nz: "\<not> (base = 0 \<or> q = 0)" by (auto split: if_splits)
  note r4 = r3 [unfolded if_not_P [OF nz] Let_def]
  let ?rates = "compute_amm_fee_bps e cfg fc (p_base_mint pl) (p_creator pl) (p_quote_mint pl)
      (p_creator_fee_bps pl) supply base q"
  from r4 obtain rates where rates: "?rates = Ok rates" by (cases ?rates) simp_all
  note r5 = r4 [unfolded rates and_then_simps]
  define bps where "bps = ((if hf_lp legs then af_lp_fee_bps rates else 0),
      (if hf_protocol legs then af_protocol_fee_bps rates else 0),
      (if hf_creator legs \<and> p_coin_creator pl \<noteq> default_key then af_creator_fee_bps rates else 0))"
  note r6 = r5 [folded bps_def]
  obtain net f0 f1 f2 where ex: "exact_in_fee_amounts a bps = Ok (net, f0, f1, f2)"
    using r6 by (cases "exact_in_fee_amounts a bps") auto
  note r7 = r6 [unfolded ex and_then_simps prod.case]
  let ?n = "ok_or (opt_filter (\<lambda>n. n > 0) (checked_sub a (0 + f0 + f1 + f2))) ZeroAmount"
  from r7 obtain n where n: "?n = Ok n" by (cases ?n) simp_all
  note r8 = r7 [unfolded n and_then_simps]
  let ?sw = "swap_exact_input (to_u128 n - 1) (to_u128 q) (to_u128 base)"
  from r8 obtain o' where sw: "?sw = Ok o'" by (cases ?sw) simp_all
  from r8 [unfolded sw and_then_simps] have o': "o' \<noteq> 0" "out = as_u64 o'"
    by (auto split: if_splits)
  have "unat o' < unat (to_u128 base)"
    using sw by (rule xin.never_drains) (use nz in simp_all)
  then have ol: "unat o' < unat base" by simp
  then have "unat out = unat o'"
    unfolding o'(2) using u64_bound [of base] by (intro unat_as_u64_small) (simp del: u64_bound)
  with o'(1) ol show ?thesis by (simp add: unat_gt_0)
qed

lemma pool_hop_sell_out:
  assumes r: "multi_hop_pool_hop e cfg fc pl base vault supply False a legs = Ok out"
  obtains rq where "real_quote_reserve pl vault = Ok rq" and "0 < unat out" and "out \<le> rq"
proof -
  note g = pool_hop_Ok_guards [OF r]
  let ?bad = "\<not> is_pump_pool e (p_base_mint pl) (p_creator pl) \<or> (hf_creator legs \<and> p_is_cashback_coin pl)
        \<or> p_is_mayhem_mode pl"
  have nb: "\<not> ?bad" using g by blast
  note r1 = r [unfolded multi_hop_pool_hop_def g(1) and_then_simps if_not_P [OF nb] if_False]
  then obtain rq where rq: "real_quote_reserve pl vault = Ok rq"
    by (cases "real_quote_reserve pl vault") simp_all
  note r2 = r1 [unfolded rq and_then_simps]
  then obtain q where q: "effective_quote_reserve pl vault = Ok q"
    by (cases "effective_quote_reserve pl vault") simp_all
  note r3 = r2 [unfolded q and_then_simps]
  then have nz: "\<not> (base = 0 \<or> q = 0)" by (auto split: if_splits)
  note r4 = r3 [unfolded if_not_P [OF nz] Let_def]
  let ?rates = "compute_amm_fee_bps e cfg fc (p_base_mint pl) (p_creator pl) (p_quote_mint pl)
      (p_creator_fee_bps pl) supply base q"
  from r4 obtain rates where rates: "?rates = Ok rates" by (cases ?rates) simp_all
  note r5 = r4 [unfolded rates and_then_simps]
  from r5 obtain gr where gr: "amm_sell_quote base q a = Ok gr"
    by (cases "amm_sell_quote base q a") simp_all
  define b0 where "b0 = (if hf_lp legs then af_lp_fee_bps rates else 0)"
  define oth where "oth = fee_amount gr (if hf_protocol legs then af_protocol_fee_bps rates else 0)
    + fee_amount gr (if hf_creator legs \<and> p_coin_creator pl \<noteq> default_key
        then af_creator_fee_bps rates else 0)"
  note r6 = r5 [unfolded gr and_then_simps, folded b0_def oth_def]
  let ?w = "ok_or (checked_sub gr (fee_amount gr b0)) FeesExceedOutput"
  from r6 obtain w where w: "?w = Ok w" by (cases ?w) simp_all
  note r7 = r6 [unfolded w and_then_simps]
  then have cov: "\<not> to_u128 rq < w" by (auto split: if_splits)
  note r8 = r7 [unfolded if_not_P [OF cov]]
  let ?o = "ok_or (checked_sub w oth) FeesExceedOutput"
  from r8 obtain o' where o': "?o = Ok o'" by (cases ?o) simp_all
  from r8 [unfolded o' and_then_simps] have oz: "o' \<noteq> 0" "out = as_u64 o'"
    by (auto split: if_splits)
  have "unat o' \<le> unat w" using o' by (auto simp: ok_or_Inr checked_sub_Some)
  moreover have "unat w \<le> unat rq" using cov by (simp add: word_less_nat_alt)
  ultimately have le: "unat o' \<le> unat rq" by linarith
  then have "unat out = unat o'"
    unfolding oz(2) using u64_bound [of rq] by (intro unat_as_u64_small) (simp del: u64_bound)
  with oz(1) le rq show thesis
    by (intro that [of rq]) (simp_all add: word_le_nat_alt unat_gt_0)
qed

end
