(* ===== verification/Sdk_Facts.thy ===== *)
theory Sdk_Facts
  imports Sdk_Quotes Amm_Facts
begin

text \<open>
  Facts about the offline quotes: the fee recipients drawn, the reserves estimated for a
  completed curve, routes as an inductive path relation, multi-hop quotes and the virtual
  reserves of a pump-quoted coin.
\<close>

section \<open>Fee recipients\<close>

lemma set_dedupe_sorted [simp]: "set (dedupe_sorted ks) = set ks"
  by (simp add: dedupe_sorted_def)

lemma dedupe_sorted_Nil [simp]: "dedupe_sorted ks = [] \<longleftrightarrow> ks = []"
  using set_dedupe_sorted [of ks] by (metis set_empty)

lemma pick_random_None [simp]: "pick_random_pubkey d ks = None \<longleftrightarrow> ks = []"
  by (simp add: pick_random_pubkey_def)

lemma pick_random_mem: "draw_ok d \<Longrightarrow> pick_random_pubkey d ks = Some k \<Longrightarrow> k \<in> set ks"
  by (auto simp: pick_random_pubkey_def draw_ok_def split: if_splits)

text \<open>The recipients a configuration lists.\<close>

definition listed_fee_recipients :: "global \<Rightarrow> bool \<Rightarrow> pubkey set" where
  "listed_fee_recipients glob is_mayhem =
     (if is_mayhem then insert (g_reserved_fee_recipient glob) (set (g_reserved_fee_recipients glob))
      else insert (g_fee_recipient glob) (set (g_fee_recipients glob))) - {default_key}"

lemma fee_recipient_None:
  "fee_recipient_from_pump_global d glob m = None \<longleftrightarrow> listed_fee_recipients glob m = {}"
  by (auto simp: fee_recipient_from_pump_global_def listed_fee_recipients_def Let_def
      filter_empty_conv)

lemma fee_recipient_listed:
  "draw_ok d \<Longrightarrow> fee_recipient_from_pump_global d glob m = Some k \<Longrightarrow>
     k \<in> listed_fee_recipients glob m"
  by (auto simp: fee_recipient_from_pump_global_def listed_fee_recipients_def Let_def
      dest!: pick_random_mem split: if_splits)

lemma buyback_recipient_None:
  "buyback_fee_recipient_from_pump_global d glob = None \<longleftrightarrow>
     set (g_buyback_fee_recipients glob) \<subseteq> {default_key}"
  by (auto simp: buyback_fee_recipient_from_pump_global_def filter_empty_conv)

lemma buyback_recipient_listed:
  "draw_ok d \<Longrightarrow> buyback_fee_recipient_from_pump_global d glob = Some k \<Longrightarrow>
     k \<in> set (g_buyback_fee_recipients glob) - {default_key}"
  by (auto simp: buyback_fee_recipient_from_pump_global_def dest!: pick_random_mem)

lemma amm_recipients_listed:
  "draw_ok d \<Longrightarrow> protocol_fee_recipient_from_amm_global d cfg = Some k \<Longrightarrow>
     k \<in> set (gc_protocol_fee_recipients cfg) - {default_key}"
  "draw_ok d \<Longrightarrow> buyback_fee_recipient_from_amm_global d cfg = Some k \<Longrightarrow>
     k \<in> set (gc_buyback_fee_recipients cfg) - {default_key}"
  by (auto simp: protocol_fee_recipient_from_amm_global_def
      buyback_fee_recipient_from_amm_global_def dest!: pick_random_mem)

lemma amm_recipients_None:
  "protocol_fee_recipient_from_amm_global d cfg = None \<longleftrightarrow>
     set (gc_protocol_fee_recipients cfg) \<subseteq> {default_key}"
  "buyback_fee_recipient_from_amm_global d cfg = None \<longleftrightarrow>
     set (gc_buyback_fee_recipients cfg) \<subseteq> {default_key}"
  by (auto simp: protocol_fee_recipient_from_amm_global_def
      buyback_fee_recipient_from_amm_global_def filter_empty_conv)

lemma pump_pair_Some:
  "pump_fee_recipients_pair d1 d2 glob m = Some (f, b) \<longleftrightarrow>
     fee_recipient_from_pump_global d1 glob m = Some f \<and>
     buyback_fee_recipient_from_pump_global d2 glob = Some b"
  by (simp add: pump_fee_recipients_pair_def split: option.splits)

lemma amm_pair_Some:
  "amm_fee_recipients_pair d1 d2 cfg = Some (f, b) \<longleftrightarrow>
     protocol_fee_recipient_from_amm_global d1 cfg = Some f \<and>
     buyback_fee_recipient_from_amm_global d2 cfg = Some b"
  by (simp add: amm_fee_recipients_pair_def split: option.splits)

section \<open>Estimated reserves\<close>

lemma estimated_reserves_Ok [res_simps]:
  "estimated_reserves e g bc = Ok (b, q) \<longleftrightarrow>
     unat b + unat (g_initial_real_token_reserves g) + unat (post_complete_base_out bc)
       = unat (bc_token_total_supply bc) \<and> b \<noteq> 0 \<and>
     unat (real_quote_reserves bc) + unat (post_complete_quote_in bc) < U64_LIMIT \<and>
     unat q + unat (if is_sol_like_quote_mint e (bc_quote_mint bc) then g_pool_migration_fee g else 0)
       = unat (real_quote_reserves bc) + unat (post_complete_quote_in bc) \<and> q \<noteq> 0"
  (is "?l \<longleftrightarrow> ?r")
proof -
  define fee where "fee = (if is_sol_like_quote_mint e (bc_quote_mint bc) then g_pool_migration_fee g else 0)"
  define B where "B = (case checked_sub (bc_token_total_supply bc) (g_initial_real_token_reserves g) of
      None \<Rightarrow> None | Some base \<Rightarrow> checked_sub base (post_complete_base_out bc))"
  define Q where "Q = (case checked_add (real_quote_reserves bc) (post_complete_quote_in bc) of
      None \<Rightarrow> None | Some raised \<Rightarrow> checked_sub raised fee)"
  have B: "B = Some b \<longleftrightarrow> unat b + unat (g_initial_real_token_reserves g)
      + unat (post_complete_base_out bc) = unat (bc_token_total_supply bc)" for b
  proof -
    have "B = Some b \<longleftrightarrow> (\<exists>x. checked_sub (bc_token_total_supply bc) (g_initial_real_token_reserves g)
        = Some x \<and> checked_sub x (post_complete_base_out bc) = Some b)"
      by (simp add: B_def split: option.splits)
    also have "\<dots> \<longleftrightarrow> unat (g_initial_real_token_reserves g) \<le> unat (bc_token_total_supply bc) \<and>
        unat (post_complete_base_out bc) \<le>
          unat (bc_token_total_supply bc) - unat (g_initial_real_token_reserves g) \<and>
        unat b = unat (bc_token_total_supply bc) - unat (g_initial_real_token_reserves g)
          - unat (post_complete_base_out bc)"
    proof -
      have "\<exists>x :: u64. unat x = unat (bc_token_total_supply bc) - unat (g_initial_real_token_reserves g)"
        using u64_bound [of "bc_token_total_supply bc"]
        by (intro ex_word) (simp del: u64_bound)
      then show ?thesis by (auto simp: checked_sub_Some)
    qed
    finally show ?thesis by auto
  qed
  have Q: "Q = Some q \<longleftrightarrow> unat (real_quote_reserves bc) + unat (post_complete_quote_in bc) < U64_LIMIT \<and>
      unat q + unat fee = unat (real_quote_reserves bc) + unat (post_complete_quote_in bc)" for q
  proof (cases "checked_add (real_quote_reserves bc) (post_complete_quote_in bc)")
    case None
    then have "Q = None" by (simp add: Q_def)
    with None show ?thesis by (simp add: checked_add_None)
  next
    case (Some x)
    then have x: "unat x = unat (real_quote_reserves bc) + unat (post_complete_quote_in bc)"
      by (simp add: checked_add_Some)
    have "Q = Some q \<longleftrightarrow> unat fee \<le> unat x \<and> unat q = unat x - unat fee"
      by (simp add: Q_def Some checked_sub_Some)
    with x u64_bound [of x] show ?thesis by (auto simp del: u64_bound)
  qed
  have "estimated_reserves e g bc = Ok (b, q) \<longleftrightarrow> B = Some b \<and> Q = Some q \<and> b \<noteq> 0 \<and> q \<noteq> 0"
    by (auto simp: estimated_reserves_def B_def [symmetric] Q_def [symmetric] fee_def [symmetric]
        Let_def and_then_Inr ok_or_Inr)
  then show ?thesis by (auto simp: B Q fee_def)
qed

section \<open>Routes\<close>

text \<open>
  A path of hops from one mint to another: a buy hop is entered by its quote mint and left by
  its base mint, a sell hop the other way (a hop entered by a mint that is both counts as a
  buy).
\<close>

inductive route_path :: "bool \<Rightarrow> pubkey \<Rightarrow> multi_hop_hop list \<Rightarrow> pubkey \<Rightarrow> bool" where
  stop: "route_path d m [] m"
| buy: "route_path True (mh_base_mint h) hs out \<Longrightarrow> route_path True (mh_quote_mint h) (h # hs) out"
| sell: "route_path False (mh_quote_mint h) hs out \<Longrightarrow> mh_base_mint h \<noteq> mh_quote_mint h \<Longrightarrow>
     route_path False (mh_base_mint h) (h # hs) out"

inductive_simps route_path_Nil: "route_path d m [] out"
inductive_simps route_path_Cons: "route_path d m (h # hs) out"

lemma route_loop_Some:
  "route_loop m (Some d) hops = Ok (d', out) \<longleftrightarrow> d' = Some d \<and> route_path d m hops out"
  by (induction hops arbitrary: m) (auto simp: route_path_Nil route_path_Cons Let_def)

lemma multi_hop_route_path:
  "multi_hop_route m hops = Ok (d, out) \<longleftrightarrow> hops \<noteq> [] \<and> route_path d m hops out"
proof (cases hops)
  case Nil
  then show ?thesis by (simp add: multi_hop_route_def)
next
  case (Cons h hs)
  have "multi_hop_route m hops = Ok (d, out) \<longleftrightarrow> route_loop m None hops = Ok (Some d, out)"
    by (auto simp: multi_hop_route_def and_then_Inr ok_or_Inr)
  also have "\<dots> \<longleftrightarrow> route_path d m hops out"
    by (auto simp: Cons route_path_Cons route_loop_Some Let_def)
  finally show ?thesis by (simp add: Cons)
qed

text \<open>The user's currency is the quote of the hop at one end, the coin the base of the hop at the
  other.\<close>

lemma route_path_ends:
  assumes "route_path d m hops out" and "hops \<noteq> []"
  shows "if d then mh_quote_mint (hd hops) = m \<and> mh_base_mint (last hops) = out
    else mh_base_mint (hd hops) = m \<and> mh_quote_mint (last hops) = out"
  using assms by induction (auto simp: route_path_Nil neq_Nil_conv)

lemma route_path_snoc:
  "route_path d m (hs @ [h]) out \<longleftrightarrow> (\<exists>x. route_path d m hs x \<and> route_path d x [h] out)"
  by (induction hs arbitrary: m) (auto simp: route_path_Nil route_path_Cons)

lemma route_path_reverse:
  assumes "\<forall>h\<in>set hops. mh_base_mint h \<noteq> mh_quote_mint h"
  shows "route_path True a hops b \<longleftrightarrow> route_path False b (rev hops) a"
  using assms
proof (induction hops arbitrary: a)
  case Nil
  then show ?case by (auto simp: route_path_Nil)
next
  case (Cons h hops)
  then show ?case by (auto simp: route_path_Nil route_path_Cons route_path_snoc)
qed

section \<open>Multi-hop quotes\<close>

text \<open>A hop the program trades on.\<close>

fun hop_tradable :: "'e pda_env_scheme \<Rightarrow> route_hop \<Rightarrow> bool" where
  "hop_tradable e (PoolHop pl _ _ _) \<longleftrightarrow>
     is_pump_pool e (p_base_mint pl) (p_creator pl) \<and> \<not> p_is_mayhem_mode pl"
| "hop_tradable e (CurveHop _ bc _ _ _ _) \<longleftrightarrow> \<not> complete bc \<and> \<not> bc_is_mayhem_mode bc"

text \<open>The coin of a hop pays its holders cashback.\<close>

fun hop_cashback :: "route_hop \<Rightarrow> bool" where
  "hop_cashback (PoolHop pl _ _ _) = p_is_cashback_coin pl"
| "hop_cashback (CurveHop _ bc _ _ _ _) = bc_is_cashback_coin bc"

lemma pool_hop_pos:
  assumes "multi_hop_pool_hop e cfg fc pl base vault supply is_buy a legs = Ok out"
  shows "0 < unat out"
proof (cases is_buy)
  case True
  with assms have "multi_hop_pool_hop e cfg fc pl base vault supply True a legs = Ok out" by simp
  then show ?thesis by (rule pool_hop_buy_out [THEN conjunct1])
next
  case False
  with assms have "multi_hop_pool_hop e cfg fc pl base vault supply False a legs = Ok out" by simp
  then show ?thesis by (rule pool_hop_sell_out)
qed

lemma curve_hop_pos:
  assumes "multi_hop_curve_hop e g cfg bc s ata user is_buy a flags = Ok out"
  shows "0 < unat out"
proof (cases is_buy)
  case True
  with assms have "multi_hop_curve_hop e g cfg bc s ata user True a flags = Ok out" by simp
  then show ?thesis by (rule hop_buy_pos [THEN conjunct1])
next
  case False
  with assms have "multi_hop_curve_hop e g cfg bc s ata user False a flags = Ok out" by simp
  then show ?thesis by (rule hop_sell_value)
qed

lemma quote_hops_Ok:
  assumes "quote_hops e g pfc cfg afc user is_buy n i hops a = Ok out" and "0 < unat a"
  shows "0 < unat out \<and> (\<forall>h\<in>set hops. hop_tradable e h) \<and>
    (\<forall>j<length hops. hop_cashback (hops ! j) \<longrightarrow> \<not> hf_creator (for_hop is_buy (i + j) n))"
  using assms
proof (induction hops arbitrary: i a)
  case Nil
  then show ?case by simp
next
  case (Cons h hops)
  let ?legs = "for_hop is_buy i n"
  let ?hop = "case h of
      PoolHop pl b v s \<Rightarrow> multi_hop_pool_hop e cfg afc pl b v s is_buy a ?legs
    | CurveHop _ bc _ _ s ata \<Rightarrow>
        multi_hop_curve_hop e g pfc bc s ata user is_buy a (curve_flags ?legs)"
  from Cons.prems(1) obtain a' where hop: "?hop = Ok a'"
    and rest: "quote_hops e g pfc cfg afc user is_buy n (i + 1) hops a' = Ok out"
    by (auto simp: Let_def and_then_Inr)
  have h: "0 < unat a' \<and> hop_tradable e h \<and> (hop_cashback h \<longrightarrow> \<not> hf_creator ?legs)"
  proof (cases h)
    case (PoolHop pl b v s)
    with hop have r: "multi_hop_pool_hop e cfg afc pl b v s is_buy a ?legs = Ok a'" by simp
    from pool_hop_pos [OF r] pool_hop_Ok_guards [OF r] PoolHop show ?thesis by auto
  next
    case (CurveHop m bc bt qt s ata)
    with hop have r: "multi_hop_curve_hop e g pfc bc s ata user is_buy a (curve_flags ?legs) = Ok a'"
      by simp
    from curve_hop_pos [OF r] hop_Ok_guards [OF r] CurveHop curve_flags_bits(2) [of ?legs]
    show ?thesis by auto
  qed
  from Cons.IH [OF rest] h have ih: "0 < unat out" "\<forall>h\<in>set hops. hop_tradable e h"
    "\<forall>j<length hops. hop_cashback (hops ! j) \<longrightarrow> \<not> hf_creator (for_hop is_buy (i + 1 + j) n)"
    by auto
  have "hop_cashback ((h # hops) ! j) \<longrightarrow> \<not> hf_creator (for_hop is_buy (i + j) n)"
    if "j < length (h # hops)" for j
    using that h ih(3) by (cases j) auto
  with h ih show ?case by auto
qed

section \<open>Quotes\<close>

lemma max_one_le: "0 < unat (a :: u64) \<Longrightarrow> max (sub_slippage a b) 1 \<le> a"
  using sub_slippage_le [of a b] by (simp add: max_def word_le_nat_alt)

lemma sol_in_quote:
  assumes "buy_quote_bonding_curve_sol_in e g cfg bc s a bps = Ok q"
  shows "q_input_amount_used q \<le> a" "q_max_input q = a" "q_min_out q \<le> q_amount q"
    "q_amount q \<le> real_token_reserves bc"
    "buy_token_amount_from_sol_amount e g cfg bc s a = Ok (q_amount q)"
proof -
  from assms obtain t u where t: "buy_token_amount_from_sol_amount e g cfg bc s a = Ok t"
    and u: "(if t > 0 \<and> t \<ge> real_token_reserves bc
        then buy_sol_amount_from_token_amount e g cfg bc s t else Ok a) = Ok u"
    and q: "q = \<lparr>q_amount = t, q_min_out = sub_slippage t bps, q_input_amount_used = u,
        q_max_input = a\<rparr>"
    by (auto simp: buy_quote_bonding_curve_sol_in_def and_then_Inr)
  from exact_out_of_exact_in [OF t] u have "u \<le> a" by (auto split: if_splits)
  then show "q_input_amount_used q \<le> a" by (simp add: q)
  from t obtain r where "buy_tokens_exact_in e g cfg bc s a = Ok r"
    and "unat t = min (unat r) (unat (real_token_reserves bc))" by (rule buy_token_amount_Ok)
  then have "t \<le> real_token_reserves bc" by (simp add: word_le_nat_alt)
  then show "q_amount q \<le> real_token_reserves bc" by (simp add: q)
  show "q_max_input q = a" "q_min_out q \<le> q_amount q"
    "buy_token_amount_from_sol_amount e g cfg bc s a = Ok (q_amount q)"
    by (simp_all add: q sub_slippage_le t)
qed

section \<open>Pump-quoted coins\<close>

text \<open>The seed reserves of a coin quoted in another pump coin, on the natural numbers: the cost
  \<open>target * real / unsold\<close> of the graduation raise is bought on the constant product
  \<open>base, quote\<close> and scaled back by \<open>unsold / real\<close>.\<close>

definition seed_for_raise :: "nat \<Rightarrow> nat \<Rightarrow> nat \<Rightarrow> nat \<Rightarrow> nat \<Rightarrow> nat" where
  "seed_for_raise target real unsold base quote =
     (let cost = target * real div unsold; raise = cost * base div (quote + cost)
      in raise * unsold div real)"

lemma pump_quote_Ok:
  assumes r: "pump_quote_initial_virtual_quote_reserves g qc curve qpool = Ok (derived, d)"
  shows "unat d = unat (depth curve) + 1" "d \<le> g_max_curve_depth g"
    "\<not> bc_is_mayhem_mode curve" "derived \<noteq> 0"
    "complete curve \<Longrightarrow> virtual_token_reserves curve = 0 \<and> qpool \<noteq> None"
proof -
  note r0 = r [unfolded pump_quote_initial_virtual_quote_reserves_def]
  from r0 obtain nd where nd: "ok_or (checked_add (depth curve) 1) MathOverflow = Ok nd"
    by (cases "ok_or (checked_add (depth curve) 1) MathOverflow") simp_all
  note r1 = r0 [unfolded nd and_then_simps]
  then have nle: "\<not> nd > g_max_curve_depth g" by (auto split: if_splits)
  note r2 = r1 [unfolded if_not_P [OF nle]]
  then show nm: "\<not> bc_is_mayhem_mode curve" by (auto split: if_splits)
  note r3 = r2 [unfolded if_not_P [OF nm] Let_def]
  then have dv: "d = nd" "derived \<noteq> 0" by (auto simp: and_then_Inr split: if_splits)
  then show "derived \<noteq> 0" by simp
  show "unat d = unat (depth curve) + 1" "d \<le> g_max_curve_depth g"
    using nd nle dv by (simp_all add: ok_or_Inr checked_add_Some)
  show "virtual_token_reserves curve = 0 \<and> qpool \<noteq> None" if c: "complete curve"
    using r3 c by (auto simp: and_then_Inr ok_or_Inr split: if_splits)
qed

end
