(* ===== verification/Sample_State.thy ===== *)
theory Sample_State
  imports Sdk_Quotes
begin

text \<open>
  Concrete accounts the witnesses evaluate the model on: the fresh SOL curve of the quote
  tests of \<open>bonding_curve.rs\<close> (30 SOL of virtual quote against 1073 million virtual tokens,
  fees 100 and 50 basis points), a migrated pool and its configuration.
\<close>

definition sample_fees :: fees where
  "sample_fees = \<lparr>lp_fee_bps = 20, protocol_fee_bps = 100, creator_fee_bps = 50\<rparr>"

definition sample_fee_config :: fee_config where
  "sample_fee_config = \<lparr>fc_bump = 255, fc_admin = 7, flat_fees = sample_fees,
     fee_tiers = [\<lparr>market_cap_lamports_threshold = 0, tier_fees = sample_fees\<rparr>],
     stable_fee_tiers = [], exotic_flat_fees = default_fees\<rparr>"

definition sample_global :: global where
  "sample_global = default_global\<lparr>g_initialized := True, g_fee_recipient := 11,
     g_initial_virtual_token_reserves := 1073000000000000,
     g_initial_virtual_sol_reserves := 30000000000,
     g_initial_real_token_reserves := 793100000000000,
     g_token_total_supply := 1000000000000000,
     g_fee_recipients := [12, 0, 13, 12, 0, 0, 0],
     g_buyback_fee_recipients := [21, 22, 0, 0, 0, 0, 0, 0],
     g_initial_virtual_quote_reserves := 2000000000,
     g_whitelisted_quote_mints := [USDC_MINT], g_max_curve_depth := 3, g_whitelist_pda := 99\<rparr>"

definition sample_curve :: bonding_curve where
  "sample_curve = default_bonding_curve\<lparr>virtual_token_reserves := 1073000000000000,
     virtual_quote_reserves := 30000000000, real_token_reserves := 793100000000000,
     bc_token_total_supply := 1000000000000000, bc_creator := 5\<rparr>"

definition sample_global_config :: global_config where
  "sample_global_config = default_global_config\<lparr>
     gc_protocol_fee_recipients := [31, 0, 32, 0, 0, 0, 0, 0],
     gc_buyback_fee_recipients := [41, 0, 0, 0, 0, 0, 0, 0]\<rparr>"

definition sample_pool :: pool where
  "sample_pool = default_pool\<lparr>p_base_mint := 8, p_quote_mint := NATIVE_MINT,
     p_creator := 605814335005781813025241542787157911726959411820757128006101511735856535736,
     p_coin_creator := 5,
     p_pool_base_token_account := 81, p_pool_quote_token_account := 82\<rparr>"

lemmas sample_defs =
  sample_fees_def sample_fee_config_def sample_global_def sample_curve_def
  sample_global_config_def sample_pool_def

section \<open>Conformance with the repository's tests\<close>

text \<open>Values asserted by the tests of \<open>bonding_curve.rs\<close>, evaluated on the model.\<close>

lemma test_exact_in_dust:
  "buy_token_amount_from_sol_amount sample_env default_global
     \<lparr>fc_bump = 0, fc_admin = 0,
      flat_fees = \<lparr>lp_fee_bps = 0, protocol_fee_bps = 5, creator_fee_bps = 0\<rparr>,
      fee_tiers = [\<lparr>market_cap_lamports_threshold = 0,
        tier_fees = \<lparr>lp_fee_bps = 0, protocol_fee_bps = 5, creator_fee_bps = 0\<rparr>\<rparr>],
      stable_fee_tiers = [],
      exotic_flat_fees = \<lparr>lp_fee_bps = 0, protocol_fee_bps = 5, creator_fee_bps = 0\<rparr>\<rparr>
     (default_bonding_curve\<lparr>virtual_token_reserves := 1073000000000000,
        virtual_quote_reserves := 30000000000, real_token_reserves := 1073000000000000\<rparr>)
     0 2002 = Ok 71497561"
  by code_simp

lemma test_exact_out:
  "buy_sol_amount_from_token_amount sample_env sample_global sample_fee_config sample_curve
     1000000000000000 800000000000000 = Ok (85005359057 + 850053591 + 425026796)"
  by code_simp

lemma test_v3_exact_out:
  "buy_v3_sol_amount_from_token_amount sample_env sample_global sample_fee_config sample_curve
     1000000000000000 1000000000000000 800000000000000 = Ok 89257114606"
  by code_simp

lemma test_v3_exact_in:
  "buy_v3_token_amount_from_sol_amount sample_env sample_global sample_fee_config sample_curve
     1000000000000000 1000000000000000 100000000000 = Ok (821485770786056, 100000000000)"
  by code_simp

end
