(* ===== verification/Quote_Properties.thy ===== *)
theory Quote_Properties
  imports Sdk_Facts Sample_State
begin

text \<open>
  The properties of the pricing code: fees, slippage, the curve and AMM quotes, multi-hop
  routes and the reserves of new and migrated coins. Each rests on the lemmas of the theory of
  its component; witnesses evaluate the code's model on the accounts of \<open>Sample_State\<close>.
\<close>

section \<open>Fees and slippage\<close>

text \<open>C9: The exact-in fee derivation computes its natural-number specification for every budget and
  every rates: no u128 intermediate overflows, no cast loses a bit, and it fails only with ZeroAmount, exactly
  when the rounding leaves no net.\<close>

theorem exact_in_refines:
  "(case exact_in_fee_amounts a (b0, b1, b2) of
      Inr (net, f0, f1, f2) \<Rightarrow>
        exact_in_spec (unat a) (unat b0) (unat b1) (unat b2) =
          Some (unat net, unat f0, unat f1, unat f2)
    | Inl f \<Rightarrow> f = Error ZeroAmount \<and>
        exact_in_spec (unat a) (unat b0) (unat b1) (unat b2) = None)"
  by (rule exact_in_fee_amounts_spec)

text \<open>What an exact-in buy charges stays within its budget, its net is positive and at most two
  units below the floor of the fee-free share, and less than one unit plus the rates is left unspent.\<close>

theorem exact_in_budget:
  assumes "exact_in_fee_amounts a (b0, b1, b2) = Ok (net, f0, f1, f2)"
  shows "0 < net \<and> unat net + unat f0 + unat f1 + unat f2 \<le> unat a \<and>
    (unat a - (unat net + unat f0 + unat f1 + unat f2)) * 10000
      < 10000 + unat b0 + unat b1 + unat b2 \<and>
    unat a * 10000 div (10000 + (unat b0 + unat b1 + unat b2)) \<le> unat net + 2"
  using exact_in_spec_budget [OF assms [unfolded exact_in_fee_amounts_Ok]]
  by (simp add: word_less_nat_alt raw_net_def)

lemma exact_in_budget_witness:
  "0 < (98522167 :: u64) \<and>
    unat (98522167 :: u64) + unat (985222 :: u64) + unat (492611 :: u64) + unat (0 :: u64)
      \<le> unat (100000000 :: u64) \<and>
    (unat (100000000 :: u64) - (unat (98522167 :: u64) + unat (985222 :: u64)
      + unat (492611 :: u64) + unat (0 :: u64))) * 10000
      < 10000 + unat (100 :: u64) + unat (50 :: u64) + unat (0 :: u64) \<and>
    unat (100000000 :: u64) * 10000 div (10000 + (unat (100 :: u64) + unat (50 :: u64)
      + unat (0 :: u64))) \<le> unat (98522167 :: u64) + 2"
  by (rule exact_in_budget) code_simp

text \<open>On a non-empty table exactly one tier applies to a market cap, the last one whose threshold it
  reaches or the first tier below them all, and its fees are the ones selected.\<close>

theorem fee_tier_selection:
  assumes "ts \<noteq> []"
  shows "\<exists>!k. applicable_tier ts m k \<and> calculate_fee_tier ts m = Some (tier_fees (ts ! k))"
  using calculate_fee_tier_applicable [OF assms, of m] applicable_tier_unique by blast

lemma fee_tier_selection_witness:
  "\<exists>!k. applicable_tier (fee_tiers sample_fee_config) 5 k \<and>
     calculate_fee_tier (fee_tiers sample_fee_config) 5
       = Some (tier_fees (fee_tiers sample_fee_config ! k))"
  by (rule fee_tier_selection) (simp add: sample_fee_config_def)



text \<open>The minimum-output bound takes exactly the slippage off and never exceeds the value; the
  maximum-input bound is exact only modulo 2^64.\<close>

theorem slippage_bounds_exact:
  "unat (sub_slippage v b) = unat v * (10000 - unat b) div 10000 \<and> sub_slippage v b \<le> v \<and>
   unat (add_slippage v b) = (unat v * (10000 + unat b) div 10000) mod 2 ^ 64"
  by (simp add: unat_sub_slippage unat_add_slippage sub_slippage_le)

text \<open>The documented saturation of the maximum-input bound does not happen: on a large value the
  bound wraps around and falls below the value it should bound from above.\<close>

theorem add_slippage_wraps:
  "\<exists>v b. add_slippage v b < v \<and> unat v * (10000 + unat b) div 10000 \<ge> 2 ^ 64"
proof -
  have "add_slippage 18446744073709551615 100 < 18446744073709551615"
    by code_simp
  then show ?thesis
    by (intro exI [of _ "18446744073709551615"] exI [of _ "100"]) simp
qed

section \<open>Bonding curve\<close>

text \<open>C1: The two buy quotes of the curve agree: asking for the tokens an exact-in quote promised is
  always priced, and costs at most the exact-in budget.\<close>

theorem exact_in_then_exact_out:
  assumes "buy_token_amount_from_sol_amount e g cfg bc s a = Ok t"
  shows "\<exists>c. buy_sol_amount_from_token_amount e g cfg bc s t = Ok c \<and> c \<le> a"
  using assms by (rule exact_out_of_exact_in)

lemma exact_in_then_exact_out_witness:
  "\<exists>c. buy_sol_amount_from_token_amount sample_env sample_global sample_fee_config sample_curve
     1000000000000000 70496095 = Ok c \<and> c \<le> 2002"
  by (rule exact_in_then_exact_out) code_simp

text \<open>C4: Spending the cost quoted for some tokens, as long as that cost is a u64, buys at most those
  tokens.\<close>

theorem exact_out_then_exact_in:
  assumes "buy_sol_amount_from_token_amount e g cfg bc s t = Ok c"
    and "t \<noteq> 0" and "t \<le> real_token_reserves bc"
    and "curve_fee_bps e g cfg bc s = Ok (p, cr)"
    and "capped_cost bc t + fee_nat (capped_cost bc t) (unat p)
      + fee_nat (capped_cost bc t) (unat cr) < 2 ^ 64"
    and "buy_token_amount_from_sol_amount e g cfg bc s c = Ok t'"
  shows "t' \<le> t"
proof -
  from assms(6) obtain r where r: "buy_tokens_exact_in e g cfg bc s c = Ok r"
    and t': "unat t' = min (unat r) (unat (real_token_reserves bc))"
    by (rule buy_token_amount_Ok)
  have "unat r \<le> unat t" using assms(1-5) r by (rule exact_in_of_exact_out)
  with t' show ?thesis by (simp add: word_le_nat_alt)
qed

lemma sample_rates:
  "curve_fee_bps sample_env sample_global sample_fee_config sample_curve 1000000000000000 =
     Ok (100, 50)"
  by code_simp

lemma sample_buy:
  "buy_sol_amount_from_token_amount sample_env sample_global sample_fee_config sample_curve
     1000000000000000 7000000000000 = Ok 199953097"
  "buy_quote sample_curve 7000000000000 = Ok 196998124"
  "buy_token_amount_from_sol_amount sample_env sample_global sample_fee_config sample_curve
     1000000000000000 199953097 = Ok 6999999970791"
  by code_simp+

lemma sample_fits:
  "capped_cost sample_curve 7000000000000 = 196998124"
  "fee_nat 196998124 100 = 1969982" "fee_nat 196998124 50 = 984991"
  by (simp_all add: capped_cost_def capped_def curve_cost_def sample_curve_def
      default_bonding_curve_def fee_nat_def cdiv_def)

lemma exact_out_then_exact_in_witness: "(6999999970791 :: u64) \<le> 7000000000000"
  by (rule exact_out_then_exact_in [OF sample_buy(1) _ _ sample_rates _ sample_buy(3)])
    (simp_all add: sample_fits, simp add: sample_curve_def)

text \<open>C2: No profit from a round trip. Take a buy of \<open>t\<close> tokens, no more than the curve's real
  reserve, priced at \<open>buy_quote\<close> before fees and with a fee-inclusive cost that fits a u64. Selling
  \<open>t\<close> tokens on any curve that has lost at most these tokens from its virtual token reserve, and
  whose virtual quote reserve has grown by at most the price before fees, pays at most the cost of
  the buy, whatever the fee schedules. The curve of the buy itself is such a curve.\<close>
theorem curve_round_trip_no_profit:
  assumes "buy_sol_amount_from_token_amount e g cfg bc s t = Ok c"
    and "buy_quote bc t = Ok k" and "t \<le> real_token_reserves bc"
    and "curve_fee_bps e g cfg bc s = Ok (p, cr)"
    and "unat k + fee_nat (unat k) (unat p) + fee_nat (unat k) (unat cr) < 2 ^ 64"
    and "unat (virtual_token_reserves bc) \<le> unat (virtual_token_reserves bc') + unat t"
    and "unat (virtual_quote_reserves bc') \<le> unat (virtual_quote_reserves bc) + unat k"
    and "sell_sol_amount_from_token_amount e' g' cfg' bc' s' t = Ok out"
  shows "out \<le> c"
  using assms by (rule no_profit_round_trip)

text \<open>The sample curve with 7 million tokens less and their price more.\<close>

definition sample_later_curve :: bonding_curve where
  "sample_later_curve = sample_curve\<lparr>virtual_token_reserves := 1066000000000000,
     virtual_quote_reserves := 30196998124\<rparr>"

lemma sample_sell_back:
  "sell_sol_amount_from_token_amount sample_env sample_global sample_fee_config
     sample_later_curve 1000000000000000 7000000000000 = Ok 194043150"
  by code_simp

lemma curve_round_trip_no_profit_witness: "(194043150 :: u64) \<le> 199953097"
  by (rule curve_round_trip_no_profit [OF sample_buy(1,2) _ sample_rates _ _ _ sample_sell_back])
    (simp_all add: sample_fits sample_later_curve_def, simp_all add: sample_curve_def)

text \<open>C3: On one curve and fee schedule, the v2 exact-out quote never charges less for more tokens, as
  long as the cost of the larger buy with its fees fits a u64.\<close>
theorem exact_out_cost_monotone:
  assumes "buy_sol_amount_from_token_amount e g cfg bc s t = Ok c"
    and "buy_sol_amount_from_token_amount e g cfg bc s t' = Ok c'" and "t \<le> t'"
    and "curve_fee_bps e g cfg bc s = Ok (p, cr)"
    and "capped_cost bc t' + fee_nat (capped_cost bc t') (unat p)
      + fee_nat (capped_cost bc t') (unat cr) < 2 ^ 64"
  shows "c \<le> c'"
  using assms by (rule buy_sol_mono)

lemma sample_small_buy:
  "buy_sol_amount_from_token_amount sample_env sample_global sample_fee_config sample_curve
     1000000000000000 6999999970791 = Ok 199953096"
  by code_simp

lemma exact_out_cost_monotone_witness: "(199953096 :: u64) \<le> 199953097"
  by (rule exact_out_cost_monotone [OF sample_small_buy sample_buy(1) _ sample_rates])
    (simp_all add: sample_fits)

text \<open>A curve sell pays exactly its constant-product gross less the two fees rounded up, and is
  refused with FeesExceedOutput exactly when the fees exceed the gross.\<close>

theorem sell_split:
  assumes "t \<noteq> 0" and "virtual_token_reserves bc \<noteq> 0"
    and "curve_fee_bps e g cfg bc s = Ok (p, cr)"
  shows "(case sell_sol_amount_from_token_amount e g cfg bc s t of
      Inr out \<Rightarrow> unat out + fee_nat (gross_out bc t) (unat p) + fee_nat (gross_out bc t) (unat cr)
        = gross_out bc t
    | Inl f \<Rightarrow> f = Error FeesExceedOutput \<and>
        gross_out bc t < fee_nat (gross_out bc t) (unat p) + fee_nat (gross_out bc t) (unat cr))"
proof -
  let ?g = "gross_out bc t"
  let ?f = "fee_nat ?g (unat p) + fee_nat ?g (unat cr)"
  have "?g < U64_LIMIT"
    using gross_out_le [of bc t] u64_bound [of "virtual_quote_reserves bc"] by (simp del: u64_bound)
  then have "(?g - ?f) mod U64_LIMIT = ?g - ?f" by (intro mod_less) simp
  then have "unat (word_of_nat (?g - ?f) :: u64) = ?g - ?f" by (simp add: unat_of_nat)
  then show ?thesis using sell_sol_value [OF assms] by (simp split: if_splits)
qed

lemma sell_split_witness:
  "(case sell_sol_amount_from_token_amount sample_env sample_global sample_fee_config sample_curve
      1000000000000000 7000000000000 of
      Inr out \<Rightarrow> unat out + fee_nat (gross_out sample_curve 7000000000000) (unat (100 :: u64))
          + fee_nat (gross_out sample_curve 7000000000000) (unat (50 :: u64))
        = gross_out sample_curve 7000000000000
    | Inl f \<Rightarrow> f = Error FeesExceedOutput \<and>
        gross_out sample_curve 7000000000000 <
          fee_nat (gross_out sample_curve 7000000000000) (unat (100 :: u64))
          + fee_nat (gross_out sample_curve 7000000000000) (unat (50 :: u64)))"
  by (rule sell_split [OF _ _ sample_rates]) (simp_all add: sample_curve_def)

text \<open>C16: The v2 exact-out cost is cast to u64: some buy is quoted for less than its true cost, which
  the v3 primitive buy_quote refuses with MathOverflow.\<close>

theorem buy_cost_truncates:
  "\<exists>g cfg bc t c. buy_sol_amount_from_token_amount sample_env g cfg bc 1 t = Ok c \<and>
     unat c < capped_cost bc t \<and> buy_quote bc t = Err MathOverflow"
proof -
  let ?bc = "sample_curve\<lparr>virtual_quote_reserves := 9223372036854775808,
    virtual_token_reserves := 10, real_token_reserves := 9\<rparr>"
  have "buy_sol_amount_from_token_amount sample_env sample_global sample_fee_config ?bc 1 9
      = Ok 10468527261830170544"
    by code_simp
  moreover have "buy_quote ?bc 9 = Err MathOverflow" by code_simp
  moreover have "capped_cost ?bc 9 = 83010348331692982273"
    by (simp add: capped_cost_def capped_def curve_cost_def)
  ultimately show ?thesis by fastforce
qed

text \<open>The market-cap check accepts exactly the curves whose market cap on the fixed supply lies
  within the slippage band of the target, and only when the band itself is representable.\<close>

theorem market_cap_band:
  "validate_market_cap vq vt target bps = Ok () \<longleftrightarrow>
     vt \<noteq> 0 \<and> unat target * unat bps < 2 ^ 128 \<and>
     unat target * unat bps div 10000 \<le> unat target \<and>
     unat target + unat target * unat bps div 10000 < 2 ^ 128 \<and>
     (let cap = 10 ^ 15 * unat vq div unat vt; delta = unat target * unat bps div 10000
      in unat target - delta \<le> cap \<and> cap \<le> unat target + delta)"
  by (rule validate_market_cap_Ok)

section \<open>The v3 buys\<close>

text \<open>C6: A v3 exact-in buy never charges more than its budget and never promises tokens that are
  neither in the curve nor in its token account; a mayhem curve never goes past its remaining supply.\<close>

theorem v3_exact_in_bounds:
  assumes "buy_v3_token_amount_from_sol_amount e g cfg bc s ata a = Ok (t, ch)"
  shows "ch \<le> a \<and> (t \<le> real_token_reserves bc \<or> (t < ata \<and> \<not> bc_is_mayhem_mode bc))"
  using buy_v3_token_bounds [OF assms] by simp

lemma v3_exact_in_bounds_witness:
  "(100000000000 :: u64) \<le> 100000000000 \<and>
    ((821485770786056 :: u64) \<le> real_token_reserves sample_curve \<or>
      ((821485770786056 :: u64) < 1000000000000000 \<and> \<not> bc_is_mayhem_mode sample_curve))"
  by (rule v3_exact_in_bounds [OF test_v3_exact_in])

text \<open>C7: Past the remaining supply of a curve not in mayhem mode the v3 exact-out cost is exact, with no cast: the fee-inclusive cost of
  the supply plus the fee-inclusive, rounded-up constant-product cost of the rest in the pool the migration
  creates, which is never emptied.\<close>

theorem v3_exact_out_cost:
  assumes "buy_v3_sol_amount_from_token_amount e g cfg bc s ata t = Ok cost"
    and "real_token_reserves bc < t" and "\<not> bc_is_mayhem_mode bc"
  shows "\<exists>p c net pb pq. curve_fee_bps e g cfg bc s = Ok (p, c) \<and>
    buy_quote bc (real_token_reserves bc) = Ok net \<and>
    pool_to_be g bc ata (is_sol_like_quote_mint e (bc_quote_mint bc)) (real_token_reserves bc) net
      = Ok (pb, pq) \<and>
    (let past = unat t - unat (real_token_reserves bc)
     in past < unat pb \<and>
        unat cost = two_fees (unat net) (unat p) (unat c)
          + two_fees (cdiv (unat pq * past) (unat pb - past)) (unat p) (unat c))"
  using assms by (rule buy_v3_past_supply) (auto simp: Let_def)

lemma v3_exact_out_cost_witness:
  "\<exists>p c net pb pq. curve_fee_bps sample_env sample_global sample_fee_config sample_curve
       1000000000000000 = Ok (p, c) \<and>
    buy_quote sample_curve (real_token_reserves sample_curve) = Ok net \<and>
    pool_to_be sample_global sample_curve 1000000000000000
      (is_sol_like_quote_mint sample_env (bc_quote_mint sample_curve))
      (real_token_reserves sample_curve) net = Ok (pb, pq) \<and>
    (let past = unat (800000000000000 :: u64) - unat (real_token_reserves sample_curve)
     in past < unat pb \<and>
        unat (89257114606 :: u64) = two_fees (unat net) (unat p) (unat c)
          + two_fees (cdiv (unat pq * past) (unat pb - past)) (unat p) (unat c))"
  by (rule v3_exact_out_cost [OF test_v3_exact_out])
    (simp_all add: sample_curve_def default_bonding_curve_def)

text \<open>C13: A curve hop of a multi-hop swap trades only on an open curve that is not in mayhem mode (and
  pays no cashback where the creator fee is charged), and always pays something.\<close>

theorem curve_hop_guards:
  assumes "multi_hop_curve_hop e g cfg bc s ata user is_buy a flags = Ok out"
  shows "0 < out \<and> \<not> complete bc \<and> \<not> bc_is_mayhem_mode bc \<and>
    (bc_is_cashback_coin bc \<longrightarrow> and flags HOP_FEE_CREATOR = 0) \<and>
    (is_buy \<longrightarrow> out \<le> real_token_reserves bc \<or> (out < ata \<and> user \<noteq> g_whitelist_pda g))"
proof -
  have "is_buy \<longrightarrow> out \<le> real_token_reserves bc \<or> (out < ata \<and> user \<noteq> g_whitelist_pda g)"
    using assms by (cases is_buy) (auto dest: hop_buy_pos)
  with curve_hop_pos [OF assms] hop_Ok_guards [OF assms] show ?thesis
    by (auto simp: word_less_nat_alt)
qed

lemma sample_curve_hop:
  "multi_hop_curve_hop sample_env sample_global sample_fee_config sample_curve 1000000000000000
     1000000000000000 3 True 1000000 3 = Ok 35236842366"
  by code_simp

lemma curve_hop_guards_witness: "0 < (35236842366 :: u64) \<and> \<not> complete sample_curve"
  using curve_hop_guards [OF sample_curve_hop] by blast

end
