(* ===== verification/Amm_Properties.thy ===== *)
theory Amm_Properties
  imports Sdk_Facts Sample_State
begin

text \<open>
  The properties of the AMM quotes, of multi-hop routes and of the reserves of new and
  migrated coins.
\<close>

section \<open>AMM quotes\<close>

text \<open>The reserve a pool prices against is the exact signed sum of the vault balance and the pool's
  virtual reserves whenever that sum is a u64, and any other sum is refused with MathOverflow.\<close>

theorem effective_reserve_exact:
  "(case effective_quote_reserve pl b of
      Inr r \<Rightarrow> int (unat r) = int (unat b) + sint (p_virtual_quote_reserves pl)
    | Inl f \<Rightarrow> f = Error MathOverflow \<and>
        (int (unat b) + sint (p_virtual_quote_reserves pl) < 0 \<or>
         2 ^ 64 \<le> int (unat b) + sint (p_virtual_quote_reserves pl)))"
proof (cases "effective_quote_reserve pl b")
  case (Inr r)
  then have "int (unat r) = int (unat b) + sint (p_virtual_quote_reserves pl)"
    by (simp only: effective_quote_reserve_Ok)
  with Inr show ?thesis by (simp only: sum.case)
next
  case (Inl f)
  let ?s = "int (unat b) + sint (p_virtual_quote_reserves pl)"
  have "?s < 0 \<or> 2 ^ 64 \<le> ?s"
  proof (rule ccontr)
    assume "\<not> ?thesis"
    then have "nat ?s < 2 ^ LENGTH(64)" "0 \<le> ?s" by auto
    then obtain r :: u64 where "int (unat r) = ?s"
      using ex_word [where ?'a = 64, of "nat ?s"] by (metis int_nat_eq)
    then have "effective_quote_reserve pl b = Ok r" by (simp add: effective_quote_reserve_Ok)
    with Inl show False by simp
  qed
  moreover from Inl have "f = Error MathOverflow"
    by (simp add: effective_quote_reserve_def ok_or_Inl)
  ultimately show ?thesis using Inl by simp
qed

text \<open>C11: The raw amount of an AMM exact-out buy is the least quote input that keeps the pool's constant
  product, reported modulo 2^64. If that least input fits a u64, the quoted total is it plus its
  three rounded-up fees modulo 2^64, hence exactly that sum if the sum fits as well.\<close>

theorem amm_exact_out_minimal:
  assumes "buy_base_input e ctx b = Ok res"
  shows "unat b < unat (cx_base_reserve ctx) \<and>
    (\<forall>x. raw_quote_in ctx b \<le> x \<longleftrightarrow>
      unat (cx_base_reserve ctx) * unat (cx_quote_reserve ctx) \<le>
        (unat (cx_base_reserve ctx) - unat b) * (unat (cx_quote_reserve ctx) + x)) \<and>
    unat (bbi_raw_quote_in res) = raw_quote_in ctx b mod 2 ^ 64 \<and>
    (raw_quote_in ctx b < 2 ^ 64 \<longrightarrow>
      (\<exists>bps. ctx_fee_bps e ctx = Ok bps \<and>
        unat (bbi_total_quote_in res) = (raw_quote_in ctx b +
          three_fees (raw_quote_in ctx b) (unat (af_lp_fee_bps bps))
            (unat (af_protocol_fee_bps bps)) (unat (ctx_creator_bps ctx bps))) mod 2 ^ 64))"
proof (intro conjI impI allI)
  show lt: "unat b < unat (cx_base_reserve ctx)" using assms by (rule buy_base_input_raw)
  then show "raw_quote_in ctx b \<le> x \<longleftrightarrow>
      unat (cx_base_reserve ctx) * unat (cx_quote_reserve ctx) \<le>
        (unat (cx_base_reserve ctx) - unat b) * (unat (cx_quote_reserve ctx) + x)" for x
    by (rule raw_quote_in_least)
  show "unat (bbi_raw_quote_in res) = raw_quote_in ctx b mod 2 ^ 64"
    using assms by (rule buy_base_input_raw)
  assume "raw_quote_in ctx b < 2 ^ 64"
  with assms show "\<exists>bps. ctx_fee_bps e ctx = Ok bps \<and>
      unat (bbi_total_quote_in res) = (raw_quote_in ctx b +
        three_fees (raw_quote_in ctx b) (unat (af_lp_fee_bps bps))
          (unat (af_protocol_fee_bps bps)) (unat (ctx_creator_bps ctx bps))) mod 2 ^ 64"
    by (rule buy_base_input_value) blast
qed

definition sample_ctx :: amm_context where
  "sample_ctx = \<lparr>cx_global_config = sample_global_config, cx_fee_config = sample_fee_config,
     cx_base_mint = 8, cx_pool_creator = p_creator sample_pool, cx_coin_creator = 5,
     cx_quote_mint = NATIVE_MINT, cx_creator_fee_bps = 0, cx_base_reserve = 206900000000000,
     cx_quote_reserve = 84000000000, cx_base_mint_supply = 1000000000000000,
     cx_real_quote_reserve = 84000000000\<rparr>"

lemma sample_amm_quotes:
  "buy_base_input sample_env sample_ctx 1000000000
     = Ok \<lparr>bbi_total_quote_in = 412898, bbi_raw_quote_in = 405996\<rparr>"
  "buy_quote_input sample_env sample_ctx 1000000
     = Ok \<lparr>bqi_base_amount_out = 2421888861, bqi_effective_quote = 983283\<rparr>"
  "sell_base_input sample_env sample_ctx 1000000000
     = Ok \<lparr>sbi_final_quote_out = 399089, sbi_raw_quote_out = 405991\<rparr>"
  by code_simp+

lemma sample_raw_in: "raw_quote_in sample_ctx 1000000000 = 405996"
  by (simp add: raw_quote_in_def sample_ctx_def cdiv_def)

lemma amm_exact_out_minimal_witness:
  "\<exists>bps. ctx_fee_bps sample_env sample_ctx = Ok bps \<and>
    unat (412898 :: u64) = (405996 + three_fees 405996 (unat (af_lp_fee_bps bps))
      (unat (af_protocol_fee_bps bps)) (unat (ctx_creator_bps sample_ctx bps))) mod 2 ^ 64"
  using amm_exact_out_minimal [OF sample_amm_quotes(1)] by (simp add: sample_raw_in)

text \<open>C10: The two AMM buy quotes agree: asking for the base an exact-in quote promised is always priced,
  costs at most the exact-in budget, and its raw amount is below the exact-in net.\<close>

theorem amm_exact_in_then_exact_out:
  assumes "buy_quote_input e ctx a = Ok res"
  shows "\<exists>res'. buy_base_input e ctx (bqi_base_amount_out res) = Ok res' \<and>
    bbi_total_quote_in res' \<le> a \<and> bbi_raw_quote_in res' < bqi_effective_quote res"
  using assms by (rule amm_exact_out_of_exact_in)

lemma amm_exact_in_then_exact_out_witness:
  "\<exists>res'. buy_base_input sample_env sample_ctx
      (bqi_base_amount_out \<lparr>bqi_base_amount_out = 2421888861, bqi_effective_quote = 983283\<rparr>)
      = Ok res' \<and>
    bbi_total_quote_in res' \<le> 1000000 \<and>
    bbi_raw_quote_in res'
      < bqi_effective_quote \<lparr>bqi_base_amount_out = 2421888861, bqi_effective_quote = 983283\<rparr>"
  by (rule amm_exact_in_then_exact_out [OF sample_amm_quotes(2)])

text \<open>C12: An AMM sell that is quoted pays its constant-product gross less the three fees, and the pool's
  liquidity covers everything that leaves the vault.\<close>

theorem amm_sell_covered:
  assumes "sell_base_input e ctx b = Ok res" and "ctx_fee_bps e ctx = Ok bps"
    and "check_trading_enabled (cx_global_config ctx) False = Ok ()"
    and "cx_base_reserve ctx \<noteq> 0" and "cx_quote_reserve ctx \<noteq> 0"
  shows "unat (sbi_raw_quote_out res) = raw_quote_out ctx b \<and>
    unat (sbi_final_quote_out res) + sell_fees ctx bps b = raw_quote_out ctx b \<and>
    raw_quote_out ctx b - fee_nat (raw_quote_out ctx b) (unat (af_lp_fee_bps bps))
      \<le> unat (cx_real_quote_reserve ctx)"
proof -
  have lt: "raw_quote_out ctx b < U64_LIMIT"
    using raw_quote_out_le [of ctx b] u64_bound [of "cx_quote_reserve ctx"]
    by (simp del: u64_bound)
  then have w: "unat (word_of_nat (raw_quote_out ctx b - n) :: u64) = raw_quote_out ctx b - n" for n
    by (simp add: unat_of_nat)
  from w [of 0] have w0: "unat (word_of_nat (raw_quote_out ctx b) :: u64) = raw_quote_out ctx b"
    by simp
  note v = assms(1) [unfolded sell_base_input_value [OF assms(3-5,2)]]
  then have ge: "\<not> raw_quote_out ctx b < sell_fees ctx bps b"
    and cov: "\<not> unat (cx_real_quote_reserve ctx) <
      raw_quote_out ctx b - fee_nat (raw_quote_out ctx b) (unat (af_lp_fee_bps bps))"
    by (auto split: if_splits)
  with v have "res = \<lparr>sbi_final_quote_out = word_of_nat (raw_quote_out ctx b - sell_fees ctx bps b),
      sbi_raw_quote_out = word_of_nat (raw_quote_out ctx b)\<rparr>" by simp
  then have f: "sbi_final_quote_out res = word_of_nat (raw_quote_out ctx b - sell_fees ctx bps b)"
    and r: "sbi_raw_quote_out res = word_of_nat (raw_quote_out ctx b)"
    by (simp_all only: sell_base_input_result.select_convs)
  have "unat (sbi_final_quote_out res) = raw_quote_out ctx b - sell_fees ctx bps b"
    unfolding f by (rule w)
  with ge cov show ?thesis unfolding r w0 by simp
qed

lemma sample_ctx_bps:
  "ctx_fee_bps sample_env sample_ctx =
     Ok \<lparr>af_lp_fee_bps = 20, af_protocol_fee_bps = 100, af_creator_fee_bps = 50\<rparr>"
  by code_simp

lemma amm_sell_covered_witness:
  "unat (sbi_raw_quote_out \<lparr>sbi_final_quote_out = 399089, sbi_raw_quote_out = 405991\<rparr>)
      = raw_quote_out sample_ctx 1000000000 \<and>
    unat (sbi_final_quote_out \<lparr>sbi_final_quote_out = 399089, sbi_raw_quote_out = 405991\<rparr>)
      + sell_fees sample_ctx \<lparr>af_lp_fee_bps = 20, af_protocol_fee_bps = 100,
          af_creator_fee_bps = 50\<rparr> 1000000000 = raw_quote_out sample_ctx 1000000000 \<and>
    raw_quote_out sample_ctx 1000000000 - fee_nat (raw_quote_out sample_ctx 1000000000)
        (unat (af_lp_fee_bps \<lparr>af_lp_fee_bps = 20, af_protocol_fee_bps = 100,
          af_creator_fee_bps = 50\<rparr>))
      \<le> unat (cx_real_quote_reserve sample_ctx)"
  by (rule amm_sell_covered [OF sample_amm_quotes(3) sample_ctx_bps])
    (simp_all add: sample_ctx_def check_trading_enabled_def sample_global_config_def
      default_global_config_def)

section \<open>Multi-hop\<close>

text \<open>C15: On every accepted route exactly one hop charges the protocol fee, and it is the one that
  trades the user's currency (the mint the route is quoted in) as its quote; exactly one charges the
  creator fee, the one whose base is the coin at the far end; the LP fee is charged on that hop and
  no other. A sell route charges them in the mirrored order of a buy route.\<close>

theorem hop_fees_once:
  assumes "multi_hop_route m hops = Ok (d, out)"
  shows "(\<exists>!i. i < length hops \<and> hf_protocol (for_hop d i (length hops))) \<and>
    (\<exists>!i. i < length hops \<and> hf_creator (for_hop d i (length hops))) \<and>
    (\<forall>i<length hops. (hf_lp (for_hop d i (length hops)) \<longleftrightarrow> hf_creator (for_hop d i (length hops))) \<and>
      (hf_protocol (for_hop d i (length hops)) \<longrightarrow> mh_quote_mint (hops ! i) = (if d then m else out)) \<and>
      (hf_creator (for_hop d i (length hops)) \<longrightarrow> mh_base_mint (hops ! i) = (if d then out else m)) \<and>
      for_hop False i (length hops) =
        for_hop True (length hops - 1 - i) (length hops))"
proof -
  define n where "n = length hops"
  have path: "hops \<noteq> []" "route_path d m hops out" using assms(1) by (simp_all add: multi_hop_route_path)
  then have n: "0 < n" by (simp add: n_def)
  have ends: "if d then mh_quote_mint (hops ! 0) = m \<and> mh_base_mint (hops ! (n - 1)) = out
      else mh_base_mint (hops ! 0) = m \<and> mh_quote_mint (hops ! (n - 1)) = out"
    using route_path_ends [OF path(2,1)]
    by (cases d) (simp_all add: n_def hd_conv_nth last_conv_nth path(1))
  have "\<exists>!i. i < n \<and> hf_protocol (for_hop d i n)"
    by (rule ex1I [of _ "if d then 0 else n - 1"])
      (use n in \<open>auto simp: for_hop_fields split: if_splits\<close>)
  moreover have "\<exists>!i. i < n \<and> hf_creator (for_hop d i n)"
    by (rule ex1I [of _ "if d then n - 1 else 0"])
      (use n in \<open>auto simp: for_hop_fields split: if_splits\<close>)
  moreover have "mh_quote_mint (hops ! i) = (if d then m else out)"
    if "i < n" "hf_protocol (for_hop d i n)" for i
  proof -
    have "i = (if d then 0 else n - 1)" using that by (cases d) (simp_all add: for_hop_fields)
    then show ?thesis using ends by (cases d) simp_all
  qed
  moreover have "mh_base_mint (hops ! i) = (if d then out else m)"
    if "i < n" "hf_creator (for_hop d i n)" for i
  proof -
    have "i = (if d then n - 1 else 0)" using that by (cases d) (simp_all add: for_hop_fields)
    then show ?thesis using ends by (cases d) simp_all
  qed
  moreover have "for_hop False i n = for_hop True (n - 1 - i) n" if "i < n" for i
    using that by (auto simp: for_hop_def Let_def)
  ultimately show ?thesis unfolding n_def [symmetric] by (simp add: for_hop_fields(3))
qed

text \<open>C8: multi_hop_route accepts exactly the non-empty hop lists that form a path in one direction from
  the input mint, and returns that direction and the path's end.\<close>

theorem route_is_path:
  "multi_hop_route m hops = Ok (d, out) \<longleftrightarrow> hops \<noteq> [] \<and> route_path d m hops out"
  by (rule multi_hop_route_path)

text \<open>A buy route read backwards is a sell route between the same mints, when no hop trades a mint
  against itself.\<close>

theorem route_reversal:
  assumes "\<forall>h\<in>set hops. mh_base_mint h \<noteq> mh_quote_mint h"
  shows "multi_hop_route a hops = Ok (True, b) \<longleftrightarrow> multi_hop_route b (rev hops) = Ok (False, a)"
  by (simp add: multi_hop_route_path route_path_reverse [OF assms])

definition sample_hops :: "multi_hop_hop list" where
  "sample_hops = [pool_hop sample_env sample_pool, curve_hop sample_env 77 8 1 2]"

lemma sample_hops_route: "multi_hop_route NATIVE_MINT sample_hops = Ok (True, 77)"
  by (simp add: multi_hop_route_path sample_hops_def route_path_Cons route_path_Nil pool_hop_def
      curve_hop_def sample_pool_def default_pool_def resolve_quote_mint_def Let_def NATIVE_MINT_def)

lemma sample_hops_length: "length sample_hops = 2"
  by (simp add: sample_hops_def)

lemma hop_fees_once_witness:
  "(\<exists>!i. i < (2::nat) \<and> hf_protocol (for_hop True i 2)) \<and>
    (\<exists>!i. i < (2::nat) \<and> hf_creator (for_hop True i 2)) \<and>
    hf_lp (for_hop True 1 2) = hf_creator (for_hop True 1 2) \<and>
    mh_quote_mint (sample_hops ! 0) = NATIVE_MINT \<and> mh_base_mint (sample_hops ! 1) = 77"
  using hop_fees_once [OF sample_hops_route, unfolded sample_hops_length]
  by (simp add: less_2_cases_iff for_hop_fields)

lemma route_reversal_witness:
  "multi_hop_route NATIVE_MINT sample_hops = Ok (True, 77) \<longleftrightarrow>
    multi_hop_route 77 (rev sample_hops) = Ok (False, NATIVE_MINT)"
  by (rule route_reversal)
    (simp add: sample_hops_def pool_hop_def curve_hop_def sample_pool_def default_pool_def
      resolve_quote_mint_def Let_def NATIVE_MINT_def)

text \<open>C5: A multi-hop quote promises a positive amount, a minimum output between 1 and that amount, and
  exists only on routes that form a path, whose every venue is tradable and whose creator-fee hop pays no
  cashback.\<close>

theorem multi_hop_quote_sound:
  assumes "quote_multi_hop_swap e g pfc cfg afc user m hops a bps = Ok q"
  shows "1 \<le> q_min_out q \<and> q_min_out q \<le> q_amount q \<and> q_input_amount_used q = a \<and>
    (\<forall>h\<in>set hops. hop_tradable e h) \<and>
    (\<exists>d out. route_path d m (map (route_hop_accounts e) hops) out \<and>
      (\<forall>j<length hops. hop_cashback (hops ! j) \<longrightarrow> \<not> hf_creator (for_hop d j (length hops))))"
proof -
  from assms have a: "a \<noteq> 0" by (auto simp: quote_multi_hop_swap_def split: if_splits)
  with assms obtain d out amt where r: "multi_hop_route m (map (route_hop_accounts e) hops) = Ok (d, out)"
    and h: "quote_hops e g pfc cfg afc user d (length hops) 0 hops a = Ok amt"
    and q: "q = \<lparr>q_amount = amt, q_min_out = max (sub_slippage amt bps) 1,
      q_input_amount_used = a, q_max_input = a\<rparr>"
    by (auto simp: quote_multi_hop_swap_def Let_def and_then_Inr)
  have "0 < unat a" using a by (simp add: unat_gt_0)
  note ok = quote_hops_Ok [OF h this, simplified add_0]
  have path: "route_path d m (map (route_hop_accounts e) hops) out"
    using r by (simp add: multi_hop_route_path)
  have "max (sub_slippage amt bps) 1 \<le> amt" using ok by (intro max_one_le) blast
  then have "q_min_out q \<le> q_amount q" by (simp only: q trade_quote.select_convs)
  moreover have "1 \<le> q_min_out q" by (simp add: q)
  ultimately show ?thesis using ok path q by auto
qed

lemma sample_multi_hop:
  "quote_multi_hop_swap sample_env sample_global sample_fee_config sample_global_config
     sample_fee_config 3 NATIVE_MINT
     [CurveHop 77 (sample_curve\<lparr>bc_quote_mint := NATIVE_MINT\<rparr>) 1 2 1000000000000000
        1000000000000000] 1000000 100
   = Ok \<lparr>q_amount = 35236842366, q_min_out = 34884473942, q_input_amount_used = 1000000,
         q_max_input = 1000000\<rparr>"
  by code_simp

lemma multi_hop_quote_sound_witness:
  "(1 :: u64) \<le> q_min_out \<lparr>q_amount = 35236842366, q_min_out = 34884473942,
      q_input_amount_used = 1000000, q_max_input = 1000000\<rparr>"
  by (rule multi_hop_quote_sound [OF sample_multi_hop, THEN conjunct1])

section \<open>Offline quotes\<close>

text \<open>What a curve exact-in quote says will be charged never exceeds its budget, its minimum output
  never exceeds its output, and it promises no more than the curve still holds.\<close>

theorem sol_in_quote_budget:
  assumes "buy_quote_bonding_curve_sol_in e g cfg bc s a bps = Ok q"
  shows "q_input_amount_used q \<le> q_max_input q \<and> q_max_input q = a \<and>
    q_min_out q \<le> q_amount q \<and> q_amount q \<le> real_token_reserves bc"
  using sol_in_quote [OF assms] by simp

lemma sample_sol_in:
  "buy_quote_bonding_curve_sol_in sample_env sample_global sample_fee_config sample_curve
     1000000000000000 100000000000 100
   = Ok \<lparr>q_amount = 793100000000000, q_min_out = 785169000000000,
         q_input_amount_used = 86280439444, q_max_input = 100000000000\<rparr>"
  by code_simp

lemma sol_in_quote_budget_witness:
  "q_input_amount_used \<lparr>q_amount = 793100000000000, q_min_out = 785169000000000,
         q_input_amount_used = 86280439444, q_max_input = 100000000000\<rparr>
     \<le> q_max_input \<lparr>q_amount = 793100000000000, q_min_out = 785169000000000,
         q_input_amount_used = 86280439444, q_max_input = 100000000000\<rparr>"
  by (rule sol_in_quote_budget [OF sample_sol_in, THEN conjunct1])

text \<open>The reserves estimated for a completed curve account for every token and every lamport: sold and
  post-completion supply plus base reserve is the total supply, and quote reserve plus the migration fee of a
  SOL-like curve is the raise; neither side is empty.\<close>

theorem estimated_reserves_conserve:
  "estimated_reserves e g bc = Ok (b, q) \<longleftrightarrow>
     unat b + unat (g_initial_real_token_reserves g) + unat (post_complete_base_out bc)
       = unat (bc_token_total_supply bc) \<and> b \<noteq> 0 \<and>
     unat (real_quote_reserves bc) + unat (post_complete_quote_in bc) < 2 ^ 64 \<and>
     unat q + unat (if is_sol_like_quote_mint e (bc_quote_mint bc) then g_pool_migration_fee g else 0)
       = unat (real_quote_reserves bc) + unat (post_complete_quote_in bc) \<and> q \<noteq> 0"
  by (rule estimated_reserves_Ok)

text \<open>A pump-quoted coin is seeded only one level deeper than its quote coin, within the configured
  depth, from a quote coin that is not in mayhem mode and, once complete, has migrated and comes with its
  pool; the seed is never zero.\<close>

theorem pump_quote_guards:
  assumes "pump_quote_initial_virtual_quote_reserves g qc curve qpool = Ok (derived, d)"
  shows "unat d = unat (depth curve) + 1 \<and> d \<le> g_max_curve_depth g \<and>
    \<not> bc_is_mayhem_mode curve \<and> derived \<noteq> 0 \<and>
    (complete curve \<longrightarrow> virtual_token_reserves curve = 0 \<and> qpool \<noteq> None)"
  using pump_quote_Ok [OF assms] by blast

lemma sample_pump_quote:
  "pump_quote_initial_virtual_quote_reserves sample_global None sample_curve None
     = Ok (279899999999307, 1)"
  by code_simp

lemma pump_quote_guards_witness:
  "unat (1 :: u8) = unat (depth sample_curve) + 1 \<and> 1 \<le> g_max_curve_depth sample_global \<and>
    \<not> bc_is_mayhem_mode sample_curve \<and> (279899999999307 :: u64) \<noteq> 0"
  using pump_quote_guards [OF sample_pump_quote] by blast

section \<open>Fee recipients\<close>

text \<open>For every outcome of the random draws, the pair of recipients of a curve trade is a listed,
  non-default fee recipient of the curve's mode and a listed, non-default buyback recipient, and a pair
  exists exactly when both lists have one.\<close>

theorem recipients_listed:
  assumes "draw_ok d1" and "draw_ok d2"
  shows "(case pump_fee_recipients_pair d1 d2 glob mayhem of
      Some (f, b) \<Rightarrow> f \<in> listed_fee_recipients glob mayhem \<and>
        b \<in> set (g_buyback_fee_recipients glob) - {default_key}
    | None \<Rightarrow> listed_fee_recipients glob mayhem = {} \<or>
        set (g_buyback_fee_recipients glob) \<subseteq> {default_key})"
proof (cases "pump_fee_recipients_pair d1 d2 glob mayhem")
  case None
  then have "fee_recipient_from_pump_global d1 glob mayhem = None \<or>
      buyback_fee_recipient_from_pump_global d2 glob = None"
    by (auto simp: pump_fee_recipients_pair_def split: option.splits)
  then show ?thesis using None by (auto simp: fee_recipient_None buyback_recipient_None)
next
  case (Some fb)
  obtain f b where fb: "fb = (f, b)" by (cases fb)
  with Some have "fee_recipient_from_pump_global d1 glob mayhem = Some f"
    "buyback_fee_recipient_from_pump_global d2 glob = Some b"
    by (simp_all add: pump_pair_Some)
  then show ?thesis
    using Some fb fee_recipient_listed [OF assms(1)] buyback_recipient_listed [OF assms(2)] by auto
qed

lemma recipients_listed_witness:
  "(case pump_fee_recipients_pair (\<lambda>n. n - 1) (\<lambda>n. 0) sample_global False of
      Some (f, b) \<Rightarrow> f \<in> listed_fee_recipients sample_global False \<and>
        b \<in> set (g_buyback_fee_recipients sample_global) - {default_key}
    | None \<Rightarrow> listed_fee_recipients sample_global False = {} \<or>
        set (g_buyback_fee_recipients sample_global) \<subseteq> {default_key})"
  by (rule recipients_listed) (simp_all add: draw_ok_def)

end
