(* ===== verification/Byte_Facts.thy ===== *)
theory Byte_Facts
  imports Pda
begin

text \<open>
  Little-endian integers, keys and the two-byte pool index read back from their bytes.
\<close>

primrec read_le :: "byte list \<Rightarrow> nat" where
  "read_le [] = 0"
| "read_le (b # bs) = unat b + 256 * read_le bs"

lemma unat_ucast_byte: "8 \<le> LENGTH('a::len) \<Longrightarrow> unat (ucast (k :: 'a word) :: byte) = unat k mod 256"
  by (simp add: unsigned_ucast_eq take_bit_eq_mod)

lemma unat_256:
  assumes "8 < LENGTH('a::len)"
  shows "unat (256 :: 'a word) = 256"
proof -
  have "(2::nat) ^ 9 \<le> 2 ^ LENGTH('a)" using assms by (intro power_increasing) simp_all
  then have "256 mod 2 ^ LENGTH('a) = (256 :: nat)" by simp
  then show ?thesis using unat_of_nat [of 256, where ?'a = 'a] by simp
qed

lemma read_le_bytes:
  assumes "8 < LENGTH('a::len)"
  shows "read_le (le_bytes n (k :: 'a word)) = unat k mod 256 ^ n"
proof (induction n arbitrary: k)
  case 0
  then show ?case by simp
next
  case (Suc n)
  have "unat (k div 256) = unat k div unat (256 :: 'a word)" by (rule unat_div)
  then have "unat (k div 256) = unat k div 256" by (simp only: unat_256 [OF assms])
  moreover have "8 \<le> LENGTH('a)" using assms by simp
  ultimately have "read_le (le_bytes (Suc n) k) =
      unat k mod 256 + 256 * (unat k div 256 mod 256 ^ n)"
    by (simp add: Suc unat_ucast_byte)
  also have "\<dots> = unat k mod (256 * 256 ^ n)" 
    using mod_mult2_eq [of "unat k" 256 "256 ^ n"] by linarith
  finally show ?case by simp
qed

lemma read_le_u64 [simp]: "read_le (le_bytes 8 (k :: u64)) = unat k"
  by (simp add: read_le_bytes)

lemma read_le_u16 [simp]: "read_le (le_bytes 2 (k :: u16)) = unat k"
  by (simp add: read_le_bytes)

lemma read_le_u256 [simp]: "read_le (le_bytes 32 (k :: pubkey)) = unat k"
proof -
  have "unat k < 2 ^ 256" using unsigned_less [of k, where ?'a = nat] by simp
  then have "unat k mod 256 ^ 32 = unat k" by (intro mod_less) simp
  moreover have "read_le (le_bytes 32 k) = unat k mod 256 ^ 32" by (rule read_le_bytes) simp
  ultimately show ?thesis by linarith
qed

definition key_at :: "nat \<Rightarrow> byte list \<Rightarrow> pubkey" where
  "key_at off bs = word_of_nat (read_le (rev (take 32 (drop off bs))))"

definition u16_at :: "nat \<Rightarrow> byte list \<Rightarrow> u16" where
  "u16_at off bs = word_of_nat (read_le (take 2 (drop off bs)))"

lemma key_of_bytes [simp]: "word_of_nat (read_le (rev (key_bytes k))) = k"
  by (simp add: key_bytes_def)

lemma u16_le_bytes_le: "u16_le_bytes w = le_bytes 2 w"
proof -
  have "drop_bit 8 w = w div 256" by (simp add: drop_bit_eq_div)
  then show ?thesis by (simp add: u16_le_bytes_def numeral_2_eq_2)
qed

lemma length_u16_le_bytes [simp]: "length (u16_le_bytes w) = 2"
  by (simp add: u16_le_bytes_def)

lemma u16_of_bytes [simp]: "word_of_nat (read_le (u16_le_bytes w)) = w"
  by (simp add: u16_le_bytes_le)

lemma last_key_bytes: "last (key_bytes k) = ucast k"
  using le_bytes.simps(2) [of 31 k] by (simp add: key_bytes_def last_rev)

lemma key_bytes_not_empty: "key_bytes k \<noteq> []"
  by (metis length_key_bytes list.size(3) zero_neq_numeral)

end
