(* ===== verification/Pda_Separation.thy ===== *)
theory Pda_Separation
  imports Byte_Facts
begin

text \<open>
  The derivations of \<open>Pda\<close> as one family indexed by \<open>pda_role\<close>. What the runtime hashes
  for an address is the program and the concatenation of the seeds (then the bump and a marker);
  the bytes of a role are read back into the role, so no two accounts of the protocol, or two
  mints, users or pools in the same role, are derived from the same bytes. The mayhem token vault,
  the canonical pool and the boost vault are instances of the roles here.
\<close>

datatype pda_role =
    AssociatedTokenRole pubkey pubkey pubkey
  | PumpGlobalRole
  | QuoteControlRole
  | BondingCurveRole pubkey
  | BondingCurveV2Role pubkey
  | CreatorVaultRole pubkey
  | PumpEventRole
  | MintAuthorityRole
  | PoolAuthorityRole pubkey
  | PumpGlobalVolumeRole
  | PumpUserVolumeRole pubkey
  | PumpFeeConfigRole
  | MetadataRole pubkey
  | SharingConfigRole pubkey
  | MayhemParamsRole
  | MayhemVaultRole
  | MayhemStateRole pubkey
  | AmmConfigRole
  | PoolRole u16 pubkey pubkey pubkey
  | LpMintRole pubkey
  | CoinCreatorVaultRole pubkey
  | AmmEventRole
  | AmmGlobalVolumeRole
  | AmmUserVolumeRole pubkey
  | PoolV2Role pubkey
  | AmmFeeConfigRole
  | BoostAuthorityRole pubkey
  | FeesEventRole
  | AgentConfigRole
  | AgentPaymentsRole pubkey
  | AgentEventRole

text \<open>The derivation of a role, its program and its seeds.\<close>

fun pda_address :: "'e pda_env_scheme \<Rightarrow> pda_role \<Rightarrow> pubkey \<times> u8" where
  "pda_address e (AssociatedTokenRole a b c) = associated_token e a b c"
| "pda_address e PumpGlobalRole = pump_global e"
| "pda_address e QuoteControlRole = pump_quote_control e"
| "pda_address e (BondingCurveRole a) = pump_bonding_curve e a"
| "pda_address e (BondingCurveV2Role a) = pump_bonding_curve_v2 e a"
| "pda_address e (CreatorVaultRole a) = pump_creator_vault e a"
| "pda_address e PumpEventRole = pump_event_authority e"
| "pda_address e MintAuthorityRole = pump_mint_authority e"
| "pda_address e (PoolAuthorityRole a) = pool_authority e a"
| "pda_address e PumpGlobalVolumeRole = pump_global_volume_accumulator e"
| "pda_address e (PumpUserVolumeRole a) = pump_user_volume_accumulator e a"
| "pda_address e PumpFeeConfigRole = pump_fee_config e"
| "pda_address e (MetadataRole a) = pump_metadata e a"
| "pda_address e (SharingConfigRole a) = pump_sharing_config e a"
| "pda_address e MayhemParamsRole = mayhem_global_params e"
| "pda_address e MayhemVaultRole = mayhem_sol_vault e"
| "pda_address e (MayhemStateRole a) = mayhem_state e a"
| "pda_address e AmmConfigRole = amm_global_config e"
| "pda_address e (PoolRole a b c d) = amm_pool e a b c d"
| "pda_address e (LpMintRole a) = amm_lp_mint e a"
| "pda_address e (CoinCreatorVaultRole a) = coin_creator_vault_authority e a"
| "pda_address e AmmEventRole = amm_event_authority e"
| "pda_address e AmmGlobalVolumeRole = amm_global_volume_accumulator e"
| "pda_address e (AmmUserVolumeRole a) = amm_user_volume_accumulator e a"
| "pda_address e (PoolV2Role a) = amm_pool_v2 e a"
| "pda_address e AmmFeeConfigRole = amm_fee_config e"
| "pda_address e (BoostAuthorityRole a) = boost_vault_authority e a"
| "pda_address e FeesEventRole = fees_event_authority e"
| "pda_address e AgentConfigRole = agent_global_config e"
| "pda_address e (AgentPaymentsRole a) = token_agent_payments e a"
| "pda_address e AgentEventRole = agent_event_authority e"

fun role_program :: "pda_role \<Rightarrow> pubkey" where
  "role_program (AssociatedTokenRole a b c) = SPL_ATA_PROGRAM_ID"
| "role_program PumpGlobalRole = PUMP_PROGRAM_ID"
| "role_program QuoteControlRole = PUMP_PROGRAM_ID"
| "role_program (BondingCurveRole a) = PUMP_PROGRAM_ID"
| "role_program (BondingCurveV2Role a) = PUMP_PROGRAM_ID"
| "role_program (CreatorVaultRole a) = PUMP_PROGRAM_ID"
| "role_program PumpEventRole = PUMP_PROGRAM_ID"
| "role_program MintAuthorityRole = PUMP_PROGRAM_ID"
| "role_program (PoolAuthorityRole a) = PUMP_PROGRAM_ID"
| "role_program PumpGlobalVolumeRole = PUMP_PROGRAM_ID"
| "role_program (PumpUserVolumeRole a) = PUMP_PROGRAM_ID"
| "role_program PumpFeeConfigRole = FEE_PROGRAM_ID"
| "role_program (MetadataRole a) = MPL_TOKEN_METADATA_PROGRAM_ID"
| "role_program (SharingConfigRole a) = FEE_PROGRAM_ID"
| "role_program MayhemParamsRole = MAYHEM_PROGRAM_ID"
| "role_program MayhemVaultRole = MAYHEM_PROGRAM_ID"
| "role_program (MayhemStateRole a) = MAYHEM_PROGRAM_ID"
| "role_program AmmConfigRole = PUMP_AMM_PROGRAM_ID"
| "role_program (PoolRole a b c d) = PUMP_AMM_PROGRAM_ID"
| "role_program (LpMintRole a) = PUMP_AMM_PROGRAM_ID"
| "role_program (CoinCreatorVaultRole a) = PUMP_AMM_PROGRAM_ID"
| "role_program AmmEventRole = PUMP_AMM_PROGRAM_ID"
| "role_program AmmGlobalVolumeRole = PUMP_AMM_PROGRAM_ID"
| "role_program (AmmUserVolumeRole a) = PUMP_AMM_PROGRAM_ID"
| "role_program (PoolV2Role a) = PUMP_AMM_PROGRAM_ID"
| "role_program AmmFeeConfigRole = FEE_PROGRAM_ID"
| "role_program (BoostAuthorityRole a) = PUMP_AMM_PROGRAM_ID"
| "role_program FeesEventRole = FEE_PROGRAM_ID"
| "role_program AgentConfigRole = AGENT_PAYMENTS_PROGRAM_ID"
| "role_program (AgentPaymentsRole a) = AGENT_PAYMENTS_PROGRAM_ID"
| "role_program AgentEventRole = AGENT_PAYMENTS_PROGRAM_ID"

fun role_seeds :: "pda_role \<Rightarrow> byte list list" where
  "role_seeds (AssociatedTokenRole a b c) = [key_bytes a, key_bytes b, key_bytes c]"
| "role_seeds PumpGlobalRole = [GLOBAL_SEED]"
| "role_seeds QuoteControlRole = [QUOTE_CONTROL_SEED]"
| "role_seeds (BondingCurveRole a) = [BONDING_CURVE_SEED, key_bytes a]"
| "role_seeds (BondingCurveV2Role a) = [BONDING_CURVE_V2_SEED, key_bytes a]"
| "role_seeds (CreatorVaultRole a) = [CREATOR_VAULT_SEED, key_bytes a]"
| "role_seeds PumpEventRole = [EVENT_AUTHORITY_SEED]"
| "role_seeds MintAuthorityRole = [MINT_AUTHORITY_SEED]"
| "role_seeds (PoolAuthorityRole a) = [POOL_AUTHORITY_SEED, key_bytes a]"
| "role_seeds PumpGlobalVolumeRole = [GLOBAL_VOLUME_ACCUMULATOR_SEED]"
| "role_seeds (PumpUserVolumeRole a) = [USER_VOLUME_ACCUMULATOR_SEED, key_bytes a]"
| "role_seeds PumpFeeConfigRole = [FEE_CONFIG_SEED, key_bytes PUMP_PROGRAM_ID]"
| "role_seeds (MetadataRole a) = [METADATA_SEED, key_bytes MPL_TOKEN_METADATA_PROGRAM_ID, key_bytes a]"
| "role_seeds (SharingConfigRole a) = [SHARING_CONFIG_SEED, key_bytes a]"
| "role_seeds MayhemParamsRole = [GLOBAL_PARAMS_SEED]"
| "role_seeds MayhemVaultRole = [SOL_VAULT_SEED]"
| "role_seeds (MayhemStateRole a) = [MAYHEM_STATE_SEED, key_bytes a]"
| "role_seeds AmmConfigRole = [AMM_GLOBAL_CONFIG_SEED]"
| "role_seeds (PoolRole a b c d) = [POOL_SEED, u16_le_bytes a, key_bytes b, key_bytes c, key_bytes d]"
| "role_seeds (LpMintRole a) = [POOL_LP_MINT_SEED, key_bytes a]"
| "role_seeds (CoinCreatorVaultRole a) = [AMM_CREATOR_VAULT_SEED, key_bytes a]"
| "role_seeds AmmEventRole = [EVENT_AUTHORITY_SEED]"
| "role_seeds AmmGlobalVolumeRole = [GLOBAL_VOLUME_ACCUMULATOR_SEED]"
| "role_seeds (AmmUserVolumeRole a) = [USER_VOLUME_ACCUMULATOR_SEED, key_bytes a]"
| "role_seeds (PoolV2Role a) = [POOL_V2_SEED, key_bytes a]"
| "role_seeds AmmFeeConfigRole = [FEE_CONFIG_SEED, key_bytes PUMP_AMM_PROGRAM_ID]"
| "role_seeds (BoostAuthorityRole a) = [BOOST_VAULT_AUTHORITY_SEED, key_bytes a]"
| "role_seeds FeesEventRole = [EVENT_AUTHORITY_SEED]"
| "role_seeds AgentConfigRole = [AGENT_GLOBAL_CONFIG_SEED]"
| "role_seeds (AgentPaymentsRole a) = [TOKEN_AGENT_PAYMENTS_SEED, key_bytes a]"
| "role_seeds AgentEventRole = [EVENT_AUTHORITY_SEED]"

text \<open>The role and its keys read back from the position in the list above and the bytes after
  the literal seed.\<close>

fun role_kind :: "pda_role \<Rightarrow> nat" where
  "role_kind (AssociatedTokenRole a b c) = 0"
| "role_kind PumpGlobalRole = 1"
| "role_kind QuoteControlRole = 2"
| "role_kind (BondingCurveRole a) = 3"
| "role_kind (BondingCurveV2Role a) = 4"
| "role_kind (CreatorVaultRole a) = 5"
| "role_kind PumpEventRole = 6"
| "role_kind MintAuthorityRole = 7"
| "role_kind (PoolAuthorityRole a) = 8"
| "role_kind PumpGlobalVolumeRole = 9"
| "role_kind (PumpUserVolumeRole a) = 10"
| "role_kind PumpFeeConfigRole = 11"
| "role_kind (MetadataRole a) = 12"
| "role_kind (SharingConfigRole a) = 13"
| "role_kind MayhemParamsRole = 14"
| "role_kind MayhemVaultRole = 15"
| "role_kind (MayhemStateRole a) = 16"
| "role_kind AmmConfigRole = 17"
| "role_kind (PoolRole a b c d) = 18"
| "role_kind (LpMintRole a) = 19"
| "role_kind (CoinCreatorVaultRole a) = 20"
| "role_kind AmmEventRole = 21"
| "role_kind AmmGlobalVolumeRole = 22"
| "role_kind (AmmUserVolumeRole a) = 23"
| "role_kind (PoolV2Role a) = 24"
| "role_kind AmmFeeConfigRole = 25"
| "role_kind (BoostAuthorityRole a) = 26"
| "role_kind FeesEventRole = 27"
| "role_kind AgentConfigRole = 28"
| "role_kind (AgentPaymentsRole a) = 29"
| "role_kind AgentEventRole = 30"

fun role_args :: "pda_role \<Rightarrow> byte list" where
  "role_args (AssociatedTokenRole a b c) = key_bytes a @ key_bytes b @ key_bytes c"
| "role_args PumpGlobalRole = []"
| "role_args QuoteControlRole = []"
| "role_args (BondingCurveRole a) = key_bytes a"
| "role_args (BondingCurveV2Role a) = key_bytes a"
| "role_args (CreatorVaultRole a) = key_bytes a"
| "role_args PumpEventRole = []"
| "role_args MintAuthorityRole = []"
| "role_args (PoolAuthorityRole a) = key_bytes a"
| "role_args PumpGlobalVolumeRole = []"
| "role_args (PumpUserVolumeRole a) = key_bytes a"
| "role_args PumpFeeConfigRole = key_bytes PUMP_PROGRAM_ID"
| "role_args (MetadataRole a) = key_bytes MPL_TOKEN_METADATA_PROGRAM_ID @ key_bytes a"
| "role_args (SharingConfigRole a) = key_bytes a"
| "role_args MayhemParamsRole = []"
| "role_args MayhemVaultRole = []"
| "role_args (MayhemStateRole a) = key_bytes a"
| "role_args AmmConfigRole = []"
| "role_args (PoolRole a b c d) = u16_le_bytes a @ key_bytes b @ key_bytes c @ key_bytes d"
| "role_args (LpMintRole a) = key_bytes a"
| "role_args (CoinCreatorVaultRole a) = key_bytes a"
| "role_args AmmEventRole = []"
| "role_args AmmGlobalVolumeRole = []"
| "role_args (AmmUserVolumeRole a) = key_bytes a"
| "role_args (PoolV2Role a) = key_bytes a"
| "role_args AmmFeeConfigRole = key_bytes PUMP_AMM_PROGRAM_ID"
| "role_args (BoostAuthorityRole a) = key_bytes a"
| "role_args FeesEventRole = []"
| "role_args AgentConfigRole = []"
| "role_args (AgentPaymentsRole a) = key_bytes a"
| "role_args AgentEventRole = []"

definition decode_role :: "nat \<Rightarrow> byte list \<Rightarrow> pda_role" where
  "decode_role k bs =
     (if k = 0 then AssociatedTokenRole (key_at 0 bs) (key_at 32 bs) (key_at 64 bs)
      else if k = 3 then BondingCurveRole (key_at 0 bs)
      else if k = 4 then BondingCurveV2Role (key_at 0 bs)
      else if k = 5 then CreatorVaultRole (key_at 0 bs)
      else if k = 8 then PoolAuthorityRole (key_at 0 bs)
      else if k = 10 then PumpUserVolumeRole (key_at 0 bs)
      else if k = 12 then MetadataRole (key_at 32 bs)
      else if k = 13 then SharingConfigRole (key_at 0 bs)
      else if k = 16 then MayhemStateRole (key_at 0 bs)
      else if k = 18 then PoolRole (u16_at 0 bs) (key_at 2 bs) (key_at 34 bs) (key_at 66 bs)
      else if k = 19 then LpMintRole (key_at 0 bs)
      else if k = 20 then CoinCreatorVaultRole (key_at 0 bs)
      else if k = 23 then AmmUserVolumeRole (key_at 0 bs)
      else if k = 24 then PoolV2Role (key_at 0 bs)
      else if k = 26 then BoostAuthorityRole (key_at 0 bs)
      else if k = 29 then AgentPaymentsRole (key_at 0 bs)
      else if k = 1 then PumpGlobalRole
      else if k = 2 then QuoteControlRole
      else if k = 6 then PumpEventRole
      else if k = 7 then MintAuthorityRole
      else if k = 9 then PumpGlobalVolumeRole
      else if k = 11 then PumpFeeConfigRole
      else if k = 14 then MayhemParamsRole
      else if k = 15 then MayhemVaultRole
      else if k = 17 then AmmConfigRole
      else if k = 21 then AmmEventRole
      else if k = 22 then AmmGlobalVolumeRole
      else if k = 25 then AmmFeeConfigRole
      else if k = 27 then FeesEventRole
      else if k = 28 then AgentConfigRole
      else AgentEventRole)"

section \<open>Separation\<close>

text \<open>The literal part of a role's bytes, and what tells roles apart: the program, the length of
  the bytes and, among the roles of 45 bytes, the first byte.\<close>

definition signature_of :: "pubkey \<times> byte list \<Rightarrow> pubkey \<times> nat \<times> byte" where
  "signature_of = (\<lambda>(prog, bytes).
     (prog, length bytes, if length bytes = 45 then hd bytes
     else if length bytes = 42 then last bytes else 0))"

abbreviation role_preimage :: "pda_role \<Rightarrow> pubkey \<times> byte list" where
  "role_preimage r \<equiv> (role_program r, concat (role_seeds r))"

lemma decode_role: "decode_role (role_kind r) (role_args r) = r"
  by (cases r) (simp_all add: decode_role_def key_at_def u16_at_def)

definition text_lengths :: "nat list" where
  "text_lengths =
     [0, 6, 13, 13, 16, 13, 17, 14, 14, 25, 23, 10, 8, 14, 13, 9, 12, 13, 4, 12,
      13, 17, 25, 23, 7, 10, 11, 17, 13, 20, 17]"

lemma role_args_suffix: "role_args r = drop (text_lengths ! role_kind r) (concat (role_seeds r))"
  by (cases r) (simp_all add: seed_defs bytes_of_string_def text_lengths_def)

lemma programs_distinct:
  "SPL_ATA_PROGRAM_ID \<noteq> PUMP_PROGRAM_ID"
  "SPL_ATA_PROGRAM_ID \<noteq> FEE_PROGRAM_ID"
  "SPL_ATA_PROGRAM_ID \<noteq> MPL_TOKEN_METADATA_PROGRAM_ID"
  "SPL_ATA_PROGRAM_ID \<noteq> MAYHEM_PROGRAM_ID"
  "SPL_ATA_PROGRAM_ID \<noteq> PUMP_AMM_PROGRAM_ID"
  "SPL_ATA_PROGRAM_ID \<noteq> AGENT_PAYMENTS_PROGRAM_ID"
  "PUMP_PROGRAM_ID \<noteq> SPL_ATA_PROGRAM_ID"
  "PUMP_PROGRAM_ID \<noteq> FEE_PROGRAM_ID"
  "PUMP_PROGRAM_ID \<noteq> MPL_TOKEN_METADATA_PROGRAM_ID"
  "PUMP_PROGRAM_ID \<noteq> MAYHEM_PROGRAM_ID"
  "PUMP_PROGRAM_ID \<noteq> PUMP_AMM_PROGRAM_ID"
  "PUMP_PROGRAM_ID \<noteq> AGENT_PAYMENTS_PROGRAM_ID"
  "FEE_PROGRAM_ID \<noteq> SPL_ATA_PROGRAM_ID"
  "FEE_PROGRAM_ID \<noteq> PUMP_PROGRAM_ID"
  "FEE_PROGRAM_ID \<noteq> MPL_TOKEN_METADATA_PROGRAM_ID"
  "FEE_PROGRAM_ID \<noteq> MAYHEM_PROGRAM_ID"
  "FEE_PROGRAM_ID \<noteq> PUMP_AMM_PROGRAM_ID"
  "FEE_PROGRAM_ID \<noteq> AGENT_PAYMENTS_PROGRAM_ID"
  "MPL_TOKEN_METADATA_PROGRAM_ID \<noteq> SPL_ATA_PROGRAM_ID"
  "MPL_TOKEN_METADATA_PROGRAM_ID \<noteq> PUMP_PROGRAM_ID"
  "MPL_TOKEN_METADATA_PROGRAM_ID \<noteq> FEE_PROGRAM_ID"
  "MPL_TOKEN_METADATA_PROGRAM_ID \<noteq> MAYHEM_PROGRAM_ID"
  "MPL_TOKEN_METADATA_PROGRAM_ID \<noteq> PUMP_AMM_PROGRAM_ID"
  "MPL_TOKEN_METADATA_PROGRAM_ID \<noteq> AGENT_PAYMENTS_PROGRAM_ID"
  "MAYHEM_PROGRAM_ID \<noteq> SPL_ATA_PROGRAM_ID"
  "MAYHEM_PROGRAM_ID \<noteq> PUMP_PROGRAM_ID"
  "MAYHEM_PROGRAM_ID \<noteq> FEE_PROGRAM_ID"
  "MAYHEM_PROGRAM_ID \<noteq> MPL_TOKEN_METADATA_PROGRAM_ID"
  "MAYHEM_PROGRAM_ID \<noteq> PUMP_AMM_PROGRAM_ID"
  "MAYHEM_PROGRAM_ID \<noteq> AGENT_PAYMENTS_PROGRAM_ID"
  "PUMP_AMM_PROGRAM_ID \<noteq> SPL_ATA_PROGRAM_ID"
  "PUMP_AMM_PROGRAM_ID \<noteq> PUMP_PROGRAM_ID"
  "PUMP_AMM_PROGRAM_ID \<noteq> FEE_PROGRAM_ID"
  "PUMP_AMM_PROGRAM_ID \<noteq> MPL_TOKEN_METADATA_PROGRAM_ID"
  "PUMP_AMM_PROGRAM_ID \<noteq> MAYHEM_PROGRAM_ID"
  "PUMP_AMM_PROGRAM_ID \<noteq> AGENT_PAYMENTS_PROGRAM_ID"
  "AGENT_PAYMENTS_PROGRAM_ID \<noteq> SPL_ATA_PROGRAM_ID"
  "AGENT_PAYMENTS_PROGRAM_ID \<noteq> PUMP_PROGRAM_ID"
  "AGENT_PAYMENTS_PROGRAM_ID \<noteq> FEE_PROGRAM_ID"
  "AGENT_PAYMENTS_PROGRAM_ID \<noteq> MPL_TOKEN_METADATA_PROGRAM_ID"
  "AGENT_PAYMENTS_PROGRAM_ID \<noteq> MAYHEM_PROGRAM_ID"
  "AGENT_PAYMENTS_PROGRAM_ID \<noteq> PUMP_AMM_PROGRAM_ID"
  by (simp_all add: key_constants program_id_defs)

definition signatures :: "(pubkey \<times> nat \<times> byte) list" where
  "signatures =
     [(SPL_ATA_PROGRAM_ID, 96, 0),
      (PUMP_PROGRAM_ID, 6, 0),
      (PUMP_PROGRAM_ID, 13, 0),
      (PUMP_PROGRAM_ID, 45, 98),
      (PUMP_PROGRAM_ID, 48, 0),
      (PUMP_PROGRAM_ID, 45, 99),
      (PUMP_PROGRAM_ID, 17, 0),
      (PUMP_PROGRAM_ID, 14, 0),
      (PUMP_PROGRAM_ID, 46, 0),
      (PUMP_PROGRAM_ID, 25, 0),
      (PUMP_PROGRAM_ID, 55, 0),
      (FEE_PROGRAM_ID, 42, 176),
      (MPL_TOKEN_METADATA_PROGRAM_ID, 72, 0),
      (FEE_PROGRAM_ID, 46, 0),
      (MAYHEM_PROGRAM_ID, 13, 0),
      (MAYHEM_PROGRAM_ID, 9, 0),
      (MAYHEM_PROGRAM_ID, 44, 0),
      (PUMP_AMM_PROGRAM_ID, 13, 0),
      (PUMP_AMM_PROGRAM_ID, 102, 0),
      (PUMP_AMM_PROGRAM_ID, 44, 0),
      (PUMP_AMM_PROGRAM_ID, 45, 99),
      (PUMP_AMM_PROGRAM_ID, 17, 0),
      (PUMP_AMM_PROGRAM_ID, 25, 0),
      (PUMP_AMM_PROGRAM_ID, 55, 0),
      (PUMP_AMM_PROGRAM_ID, 39, 0),
      (FEE_PROGRAM_ID, 42, 99),
      (PUMP_AMM_PROGRAM_ID, 43, 0),
      (FEE_PROGRAM_ID, 17, 0),
      (AGENT_PAYMENTS_PROGRAM_ID, 13, 0),
      (AGENT_PAYMENTS_PROGRAM_ID, 52, 0),
      (AGENT_PAYMENTS_PROGRAM_ID, 17, 0)]"

lemma signature_of_role: "signature_of (role_preimage r) = signatures ! role_kind r"
  by (cases r) (simp_all add: signature_of_def signatures_def seed_defs bytes_of_string_def
      last_key_bytes key_bytes_not_empty PUMP_PROGRAM_ID_def PUMP_AMM_PROGRAM_ID_def)

lemma role_kind_bound: "role_kind r < length signatures"
  by (cases r) (simp_all add: signatures_def)

lemma distinct_signatures: "distinct signatures"
  by (simp add: signatures_def programs_distinct)

lemma same_kind:
  assumes "role_preimage r = role_preimage r'"
  shows "role_kind r = role_kind r'"
proof -
  have "signatures ! role_kind r = signatures ! role_kind r'"
    using assms signature_of_role [of r] signature_of_role [of r'] by simp
  then show ?thesis
    by (simp add: nth_eq_iff_index_eq [OF distinct_signatures] role_kind_bound)
qed

lemma preimage_injective:
  assumes "role_preimage r = role_preimage r'"
  shows "r = r'"
proof -
  have k: "role_kind r = role_kind r'" using assms by (rule same_kind)
  have "role_args r = role_args r'"
    unfolding role_args_suffix k using assms by simp
  then have "decode_role (role_kind r) (role_args r) = decode_role (role_kind r') (role_args r')"
    by (simp add: k)
  then show ?thesis by (simp add: decode_role)
qed

text \<open>C20: Every address of the protocol is \<open>find_program_address\<close> of seeds the runtime accepts
  (fewer than sixteen, of at most 32 bytes each), and the bytes hashed for it, the program and the
  concatenated seeds, determine the derivation and its keys: no two of the SDK's accounts are
  derived from the same bytes.\<close>
theorem pda_separation:
  "pda_address e r = find_program_address e (role_seeds r) (role_program r) \<and>
   list_all (\<lambda>s. length s \<le> 32) (role_seeds r) \<and> length (role_seeds r) < 16 \<and>
   inj (\<lambda>r. (role_program r, concat (role_seeds r)))"
proof (intro conjI)
  show "pda_address e r = find_program_address e (role_seeds r) (role_program r)"
    by (cases r) (simp_all add: associated_token_def pump_global_def pump_quote_control_def
        pump_bonding_curve_def pump_bonding_curve_v2_def pump_creator_vault_def
        pump_event_authority_def pump_mint_authority_def pool_authority_def
        pump_global_volume_accumulator_def pump_user_volume_accumulator_def pump_fee_config_def
        pump_metadata_def pump_sharing_config_def mayhem_global_params_def mayhem_sol_vault_def
        mayhem_state_def amm_global_config_def amm_pool_def amm_lp_mint_def
        coin_creator_vault_authority_def amm_event_authority_def
        amm_global_volume_accumulator_def amm_user_volume_accumulator_def amm_pool_v2_def
        amm_fee_config_def boost_vault_authority_def fees_event_authority_def
        agent_global_config_def token_agent_payments_def agent_event_authority_def)
  show "list_all (\<lambda>s. length s \<le> 32) (role_seeds r)"
    by (cases r) (simp_all add: seed_defs bytes_of_string_def)
  show "length (role_seeds r) < 16" by (cases r) simp_all
  show "inj (\<lambda>r. (role_program r, concat (role_seeds r)))"
    by (rule injI) (rule preimage_injective)
qed

end
