(* ===== verification/Idl_Layout.thy ===== *)
theory Idl_Layout
  imports Pda
begin

text \<open>
  The instruction interfaces of the four IDLs (\<open>src/idls/*.json\<close>) the builders use: per
  instruction the ordered account slots with their flags, the discriminator and the names of the
  arguments in order. The client structs (\<open>client::accounts::X\<close>, \<open>client::args::X\<close>) are
  generated from these by \<open>declare_program!\<close> at build time; what the generated code is
  relied on to do is stated over these tables in \<open>Ix_Core\<close>.
\<close>

text \<open>An account slot: name, writable, signer.\<close>

type_synonym account_slot = "string \<times> bool \<times> bool"

abbreviation ro :: "string \<Rightarrow> account_slot" where "ro n \<equiv> (n, False, False)"
abbreviation mut :: "string \<Rightarrow> account_slot" where "mut n \<equiv> (n, True, False)"
abbreviation signer :: "string \<Rightarrow> account_slot" where "signer n \<equiv> (n, False, True)"
abbreviation mut_signer :: "string \<Rightarrow> account_slot" where "mut_signer n \<equiv> (n, True, True)"

text \<open>The generated structs, by program and instruction.\<close>

datatype idl_ix =
    PumpCreate | PumpBuy | PumpSell | PumpCreateV2 | PumpBuyV2 | PumpBuyExactQuoteInV2 |
    PumpSellV2 | PumpExtendAccount | PumpMigrateV2 | PumpClaimCashbackV2 |
    PumpCollectCreatorFeeV2 | PumpDistributeCreatorFeesV2 | PumpBuyV3 | PumpBuyExactQuoteInV3 |
    PumpSellV3 | PumpSweepCreatorFee | AgentAgentInitialize | AmmBuy | AmmSell |
    AmmCollectCoinCreatorFee | AmmBuyV2 | AmmBuyExactQuoteInV2 | AmmSellV2 |
    AmmSweepCreatorFee | AmmTransferCreatorFeesToPumpV2 | AmmMultiHopSwap |
    FeesUpdateFeeShares | FeesUpdateFeeSharesV2

section \<open>Account slots\<close>

definition layout_pump_create :: "account_slot list" where
  "layout_pump_create =
    [mut_signer ''mint'', ro ''mint_authority'', mut ''bonding_curve'',
     mut ''associated_bonding_curve'', ro ''global'', ro ''mpl_token_metadata'',
     mut ''metadata'', mut_signer ''user'', ro ''system_program'', ro ''token_program'',
     ro ''associated_token_program'', ro ''rent'', ro ''event_authority'', ro ''program'']"

definition layout_pump_buy :: "account_slot list" where
  "layout_pump_buy =
    [ro ''global'', mut ''fee_recipient'', ro ''mint'', mut ''bonding_curve'',
     mut ''associated_bonding_curve'', mut ''associated_user'', mut_signer ''user'',
     ro ''system_program'', ro ''token_program'', mut ''creator_vault'', ro ''event_authority'',
     ro ''program'', ro ''global_volume_accumulator'', mut ''user_volume_accumulator'',
     ro ''fee_config'', ro ''fee_program'']"

definition layout_pump_sell :: "account_slot list" where
  "layout_pump_sell =
    [ro ''global'', mut ''fee_recipient'', ro ''mint'', mut ''bonding_curve'',
     mut ''associated_bonding_curve'', mut ''associated_user'', mut_signer ''user'',
     ro ''system_program'', mut ''creator_vault'', ro ''token_program'', ro ''event_authority'',
     ro ''program'', ro ''fee_config'', ro ''fee_program'']"

definition layout_pump_create_v2 :: "account_slot list" where
  "layout_pump_create_v2 =
    [mut_signer ''mint'', ro ''mint_authority'', mut ''bonding_curve'',
     mut ''associated_bonding_curve'', ro ''global'', mut_signer ''user'',
     ro ''system_program'', ro ''token_program'', ro ''associated_token_program'',
     mut ''mayhem_program_id'', ro ''global_params'', mut ''sol_vault'', mut ''mayhem_state'',
     mut ''mayhem_token_vault'', ro ''event_authority'', ro ''program'']"

definition layout_pump_buy_v2 :: "account_slot list" where
  "layout_pump_buy_v2 =
    [ro ''global'', ro ''base_mint'', ro ''quote_mint'', ro ''base_token_program'',
     ro ''quote_token_program'', ro ''associated_token_program'', mut ''fee_recipient'',
     mut ''associated_quote_fee_recipient'', mut ''buyback_fee_recipient'',
     mut ''associated_quote_buyback_fee_recipient'', mut ''bonding_curve'',
     mut ''associated_base_bonding_curve'', mut ''associated_quote_bonding_curve'',
     mut_signer ''user'', mut ''associated_base_user'', mut ''associated_quote_user'',
     mut ''creator_vault'', mut ''associated_creator_vault'', ro ''sharing_config'',
     ro ''global_volume_accumulator'', mut ''user_volume_accumulator'',
     mut ''associated_user_volume_accumulator'', ro ''fee_config'', ro ''fee_program'',
     ro ''system_program'', ro ''event_authority'', ro ''program'']"

definition layout_pump_buy_exact_quote_in_v2 :: "account_slot list" where
  "layout_pump_buy_exact_quote_in_v2 =
    [ro ''global'', ro ''base_mint'', ro ''quote_mint'', ro ''base_token_program'',
     ro ''quote_token_program'', ro ''associated_token_program'', mut ''fee_recipient'',
     mut ''associated_quote_fee_recipient'', mut ''buyback_fee_recipient'',
     mut ''associated_quote_buyback_fee_recipient'', mut ''bonding_curve'',
     mut ''associated_base_bonding_curve'', mut ''associated_quote_bonding_curve'',
     mut_signer ''user'', mut ''associated_base_user'', mut ''associated_quote_user'',
     mut ''creator_vault'', mut ''associated_creator_vault'', ro ''sharing_config'',
     ro ''global_volume_accumulator'', mut ''user_volume_accumulator'',
     mut ''associated_user_volume_accumulator'', ro ''fee_config'', ro ''fee_program'',
     ro ''system_program'', ro ''event_authority'', ro ''program'']"

definition layout_pump_sell_v2 :: "account_slot list" where
  "layout_pump_sell_v2 =
    [ro ''global'', ro ''base_mint'', ro ''quote_mint'', ro ''base_token_program'',
     ro ''quote_token_program'', ro ''associated_token_program'', mut ''fee_recipient'',
     mut ''associated_quote_fee_recipient'', mut ''buyback_fee_recipient'',
     mut ''associated_quote_buyback_fee_recipient'', mut ''bonding_curve'',
     mut ''associated_base_bonding_curve'', mut ''associated_quote_bonding_curve'',
     mut_signer ''user'', mut ''associated_base_user'', mut ''associated_quote_user'',
     mut ''creator_vault'', mut ''associated_creator_vault'', ro ''sharing_config'',
     mut ''user_volume_accumulator'', mut ''associated_user_volume_accumulator'',
     ro ''fee_config'', ro ''fee_program'', ro ''system_program'', ro ''event_authority'',
     ro ''program'']"

definition layout_pump_extend_account :: "account_slot list" where
  "layout_pump_extend_account =
    [mut ''account'', mut_signer ''user'', ro ''system_program'', ro ''event_authority'',
     ro ''program'']"

definition layout_pump_migrate_v2 :: "account_slot list" where
  "layout_pump_migrate_v2 =
    [ro ''global'', mut ''withdraw_authority'', ro ''base_mint'', ro ''quote_mint'',
     mut ''bonding_curve'', mut ''associated_base_bonding_curve'',
     mut ''associated_quote_bonding_curve'', mut_signer ''user'', ro ''system_program'',
     ro ''pump_amm'', mut ''pool'', mut ''pool_authority'', mut ''pool_authority_mint_account'',
     mut ''pool_authority_quote_account'', ro ''amm_global_config'', mut ''lp_mint'',
     mut ''user_pool_token_account'', mut ''pool_base_token_account'',
     mut ''pool_quote_token_account'', ro ''base_token_program'', ro ''quote_token_program'',
     ro ''token_2022_program'', ro ''associated_token_program'',
     ro ''pump_amm_event_authority'', ro ''rent'', ro ''event_authority'', ro ''program'']"

definition layout_pump_claim_cashback_v2 :: "account_slot list" where
  "layout_pump_claim_cashback_v2 =
    [mut ''user'', mut ''user_volume_accumulator'', ro ''quote_mint'',
     ro ''quote_token_program'', ro ''associated_token_program'',
     mut ''associated_user_volume_accumulator'', mut ''associated_quote_user'',
     ro ''system_program'', ro ''event_authority'', ro ''program'']"

definition layout_pump_collect_creator_fee_v2 :: "account_slot list" where
  "layout_pump_collect_creator_fee_v2 =
    [mut ''creator'', mut ''creator_token_account'', mut ''creator_vault'',
     mut ''creator_vault_token_account'', ro ''quote_mint'', ro ''quote_token_program'',
     ro ''associated_token_program'', ro ''system_program'', ro ''event_authority'',
     ro ''program'']"

definition layout_pump_distribute_creator_fees_v2 :: "account_slot list" where
  "layout_pump_distribute_creator_fees_v2 =
    [mut_signer ''payer'', ro ''mint'', ro ''bonding_curve'', ro ''sharing_config'',
     mut ''creator_vault'', ro ''system_program'', ro ''event_authority'', ro ''program'',
     mut ''creator_vault_quote_token_account'', ro ''quote_mint'', ro ''quote_token_program'',
     ro ''associated_token_program'']"

definition layout_pump_buy_v3 :: "account_slot list" where
  "layout_pump_buy_v3 =
    [ro ''global'', ro ''base_mint'', ro ''quote_mint'', ro ''base_token_program'',
     ro ''quote_token_program'', mut ''bonding_curve'', mut ''associated_base_bonding_curve'',
     mut ''associated_quote_bonding_curve'', mut_signer ''user'', mut ''associated_base_user'',
     mut ''associated_quote_user'', mut ''user_volume_accumulator'', ro ''fee_config'',
     mut ''buyback_fee_recipient'', ro ''system_program'', ro ''event_authority'',
     ro ''program'']"

definition layout_pump_buy_exact_quote_in_v3 :: "account_slot list" where
  "layout_pump_buy_exact_quote_in_v3 =
    [ro ''global'', ro ''base_mint'', ro ''quote_mint'', ro ''base_token_program'',
     ro ''quote_token_program'', mut ''bonding_curve'', mut ''associated_base_bonding_curve'',
     mut ''associated_quote_bonding_curve'', mut_signer ''user'', mut ''associated_base_user'',
     mut ''associated_quote_user'', mut ''user_volume_accumulator'', ro ''fee_config'',
     mut ''buyback_fee_recipient'', ro ''system_program'', ro ''event_authority'',
     ro ''program'']"

definition layout_pump_sell_v3 :: "account_slot list" where
  "layout_pump_sell_v3 =
    [ro ''global'', ro ''base_mint'', ro ''quote_mint'', ro ''base_token_program'',
     ro ''quote_token_program'', mut ''bonding_curve'', mut ''associated_base_bonding_curve'',
     mut ''associated_quote_bonding_curve'', mut_signer ''user'', mut ''associated_base_user'',
     mut ''associated_quote_user'', mut ''user_volume_accumulator'', ro ''fee_config'',
     mut ''buyback_fee_recipient'', ro ''system_program'', ro ''event_authority'',
     ro ''program'']"

definition layout_pump_sweep_creator_fee :: "account_slot list" where
  "layout_pump_sweep_creator_fee =
    [mut_signer ''payer'', ro ''global'', ro ''base_mint'', ro ''quote_mint'',
     ro ''quote_token_program'', ro ''associated_token_program'', ro ''system_program'',
     mut ''bonding_curve'', mut ''associated_quote_bonding_curve'', mut ''recipient'',
     mut ''associated_quote_recipient'', ro ''event_authority'', ro ''program'']"

definition layout_agent_agent_initialize :: "account_slot list" where
  "layout_agent_agent_initialize =
    [mut_signer ''authority'', ro ''bonding_curve'', mut ''global_config'', ro ''mint'',
     mut ''token_agent_payments'', ro ''system_program'', ro ''event_authority'', ro ''program'']"

definition layout_amm_buy :: "account_slot list" where
  "layout_amm_buy =
    [mut ''pool'', mut_signer ''user'', ro ''global_config'', ro ''base_mint'',
     ro ''quote_mint'', mut ''user_base_token_account'', mut ''user_quote_token_account'',
     mut ''pool_base_token_account'', mut ''pool_quote_token_account'',
     ro ''protocol_fee_recipient'', mut ''protocol_fee_recipient_token_account'',
     ro ''base_token_program'', ro ''quote_token_program'', ro ''system_program'',
     ro ''associated_token_program'', ro ''event_authority'', ro ''program'',
     mut ''coin_creator_vault_ata'', ro ''coin_creator_vault_authority'',
     ro ''global_volume_accumulator'', mut ''user_volume_accumulator'', ro ''fee_config'',
     ro ''fee_program'']"

definition layout_amm_sell :: "account_slot list" where
  "layout_amm_sell =
    [mut ''pool'', mut_signer ''user'', ro ''global_config'', ro ''base_mint'',
     ro ''quote_mint'', mut ''user_base_token_account'', mut ''user_quote_token_account'',
     mut ''pool_base_token_account'', mut ''pool_quote_token_account'',
     ro ''protocol_fee_recipient'', mut ''protocol_fee_recipient_token_account'',
     ro ''base_token_program'', ro ''quote_token_program'', ro ''system_program'',
     ro ''associated_token_program'', ro ''event_authority'', ro ''program'',
     mut ''coin_creator_vault_ata'', ro ''coin_creator_vault_authority'', ro ''fee_config'',
     ro ''fee_program'']"

definition layout_amm_collect_coin_creator_fee :: "account_slot list" where
  "layout_amm_collect_coin_creator_fee =
    [ro ''quote_mint'', ro ''quote_token_program'', ro ''coin_creator'',
     ro ''coin_creator_vault_authority'', mut ''coin_creator_vault_ata'',
     mut ''coin_creator_token_account'', ro ''event_authority'', ro ''program'']"

definition layout_amm_buy_v2 :: "account_slot list" where
  "layout_amm_buy_v2 =
    [mut ''pool'', mut_signer ''user'', ro ''global_config'', ro ''base_mint'',
     ro ''quote_mint'', mut ''user_base_token_account'', mut ''user_quote_token_account'',
     mut ''pool_base_token_account'', mut ''pool_quote_token_account'',
     ro ''base_token_program'', ro ''quote_token_program'', ro ''system_program'',
     mut ''user_volume_accumulator'', ro ''fee_config'', mut ''buyback_fee_recipient'',
     ro ''event_authority'', ro ''program'']"

definition layout_amm_buy_exact_quote_in_v2 :: "account_slot list" where
  "layout_amm_buy_exact_quote_in_v2 =
    [mut ''pool'', mut_signer ''user'', ro ''global_config'', ro ''base_mint'',
     ro ''quote_mint'', mut ''user_base_token_account'', mut ''user_quote_token_account'',
     mut ''pool_base_token_account'', mut ''pool_quote_token_account'',
     ro ''base_token_program'', ro ''quote_token_program'', ro ''system_program'',
     mut ''user_volume_accumulator'', ro ''fee_config'', mut ''buyback_fee_recipient'',
     ro ''event_authority'', ro ''program'']"

definition layout_amm_sell_v2 :: "account_slot list" where
  "layout_amm_sell_v2 =
    [mut ''pool'', mut_signer ''user'', ro ''global_config'', ro ''base_mint'',
     ro ''quote_mint'', mut ''user_base_token_account'', mut ''user_quote_token_account'',
     mut ''pool_base_token_account'', mut ''pool_quote_token_account'',
     ro ''base_token_program'', ro ''quote_token_program'', ro ''system_program'',
     mut ''user_volume_accumulator'', ro ''fee_config'', mut ''buyback_fee_recipient'',
     ro ''event_authority'', ro ''program'']"

definition layout_amm_sweep_creator_fee :: "account_slot list" where
  "layout_amm_sweep_creator_fee =
    [mut_signer ''payer'', ro ''global_config'', mut ''pool'', ro ''quote_mint'',
     ro ''quote_token_program'', mut ''pool_quote_token_account'', ro ''recipient'',
     mut ''recipient_token_account'', ro ''system_program'', ro ''associated_token_program'',
     ro ''event_authority'', ro ''program'']"

definition layout_amm_transfer_creator_fees_to_pump_v2 :: "account_slot list" where
  "layout_amm_transfer_creator_fees_to_pump_v2 =
    [mut_signer ''payer'', ro ''quote_mint'', ro ''token_program'', ro ''system_program'',
     ro ''associated_token_program'', ro ''coin_creator'', mut ''coin_creator_vault_authority'',
     mut ''coin_creator_vault_ata'', mut ''pump_creator_vault'', mut ''pump_creator_vault_ata'',
     ro ''event_authority'', ro ''program'']"

definition layout_amm_multi_hop_swap :: "account_slot list" where
  "layout_amm_multi_hop_swap =
    [mut_signer ''user'', mut ''user_in_token_account'', mut ''user_out_token_account'',
     ro ''global_config'', ro ''fee_config'', mut ''user_volume_accumulator'',
     mut ''buyback_fee_recipient'', ro ''token_program'', ro ''token_2022_program'',
     ro ''system_program'', ro ''event_authority'', ro ''program'', ro ''pump_program'',
     ro ''pump_global'', ro ''pump_fee_config'', ro ''pump_event_authority'']"

definition layout_fees_update_fee_shares :: "account_slot list" where
  "layout_fees_update_fee_shares =
    [ro ''event_authority'', ro ''program'', signer ''authority'', ro ''global'', ro ''mint'',
     mut ''sharing_config'', ro ''bonding_curve'', mut ''pump_creator_vault'',
     ro ''system_program'', ro ''pump_program'', ro ''pump_event_authority'',
     ro ''pump_amm_program'', ro ''amm_event_authority'', ro ''wsol_mint'',
     ro ''token_program'', ro ''associated_token_program'',
     mut ''coin_creator_vault_authority'', mut ''coin_creator_vault_ata'']"

definition layout_fees_update_fee_shares_v2 :: "account_slot list" where
  "layout_fees_update_fee_shares_v2 =
    [ro ''event_authority'', ro ''program'', mut_signer ''authority'', ro ''global'',
     ro ''mint'', mut ''sharing_config'', ro ''bonding_curve'', mut ''pump_creator_vault'',
     mut ''pump_creator_vault_ata'', ro ''system_program'', ro ''pump_program'',
     ro ''pump_event_authority'', ro ''pump_amm_program'', ro ''amm_event_authority'',
     ro ''quote_mint'', ro ''token_program'', ro ''associated_token_program'',
     mut ''coin_creator_vault_authority'', mut ''coin_creator_vault_ata'']"

fun idl_accounts :: "idl_ix \<Rightarrow> account_slot list" where
  "idl_accounts PumpCreate = layout_pump_create"
| "idl_accounts PumpBuy = layout_pump_buy"
| "idl_accounts PumpSell = layout_pump_sell"
| "idl_accounts PumpCreateV2 = layout_pump_create_v2"
| "idl_accounts PumpBuyV2 = layout_pump_buy_v2"
| "idl_accounts PumpBuyExactQuoteInV2 = layout_pump_buy_exact_quote_in_v2"
| "idl_accounts PumpSellV2 = layout_pump_sell_v2"
| "idl_accounts PumpExtendAccount = layout_pump_extend_account"
| "idl_accounts PumpMigrateV2 = layout_pump_migrate_v2"
| "idl_accounts PumpClaimCashbackV2 = layout_pump_claim_cashback_v2"
| "idl_accounts PumpCollectCreatorFeeV2 = layout_pump_collect_creator_fee_v2"
| "idl_accounts PumpDistributeCreatorFeesV2 = layout_pump_distribute_creator_fees_v2"
| "idl_accounts PumpBuyV3 = layout_pump_buy_v3"
| "idl_accounts PumpBuyExactQuoteInV3 = layout_pump_buy_exact_quote_in_v3"
| "idl_accounts PumpSellV3 = layout_pump_sell_v3"
| "idl_accounts PumpSweepCreatorFee = layout_pump_sweep_creator_fee"
| "idl_accounts AgentAgentInitialize = layout_agent_agent_initialize"
| "idl_accounts AmmBuy = layout_amm_buy"
| "idl_accounts AmmSell = layout_amm_sell"
| "idl_accounts AmmCollectCoinCreatorFee = layout_amm_collect_coin_creator_fee"
| "idl_accounts AmmBuyV2 = layout_amm_buy_v2"
| "idl_accounts AmmBuyExactQuoteInV2 = layout_amm_buy_exact_quote_in_v2"
| "idl_accounts AmmSellV2 = layout_amm_sell_v2"
| "idl_accounts AmmSweepCreatorFee = layout_amm_sweep_creator_fee"
| "idl_accounts AmmTransferCreatorFeesToPumpV2 = layout_amm_transfer_creator_fees_to_pump_v2"
| "idl_accounts AmmMultiHopSwap = layout_amm_multi_hop_swap"
| "idl_accounts FeesUpdateFeeShares = layout_fees_update_fee_shares"
| "idl_accounts FeesUpdateFeeSharesV2 = layout_fees_update_fee_shares_v2"

section \<open>Discriminators and arguments\<close>

fun idl_discriminator :: "idl_ix \<Rightarrow> byte list" where
  "idl_discriminator PumpCreate = [24, 30, 200, 40, 5, 28, 7, 119]"
| "idl_discriminator PumpBuy = [102, 6, 61, 18, 1, 218, 235, 234]"
| "idl_discriminator PumpSell = [51, 230, 133, 164, 1, 127, 131, 173]"
| "idl_discriminator PumpCreateV2 = [214, 144, 76, 236, 95, 139, 49, 180]"
| "idl_discriminator PumpBuyV2 = [184, 23, 238, 97, 103, 197, 211, 61]"
| "idl_discriminator PumpBuyExactQuoteInV2 = [194, 171, 28, 70, 104, 77, 91, 47]"
| "idl_discriminator PumpSellV2 = [93, 246, 130, 60, 231, 233, 64, 178]"
| "idl_discriminator PumpExtendAccount = [234, 102, 194, 203, 150, 72, 62, 229]"
| "idl_discriminator PumpMigrateV2 = [187, 203, 18, 31, 206, 237, 254, 41]"
| "idl_discriminator PumpClaimCashbackV2 = [122, 243, 204, 65, 94, 116, 29, 55]"
| "idl_discriminator PumpCollectCreatorFeeV2 = [207, 17, 138, 242, 4, 34, 19, 56]"
| "idl_discriminator PumpDistributeCreatorFeesV2 = [255, 203, 19, 79, 244, 68, 8, 159]"
| "idl_discriminator PumpBuyV3 = [7, 5, 29, 196, 245, 23, 101, 80]"
| "idl_discriminator PumpBuyExactQuoteInV3 = [225, 247, 80, 30, 213, 179, 132, 136]"
| "idl_discriminator PumpSellV3 = [28, 146, 222, 119, 38, 196, 105, 213]"
| "idl_discriminator PumpSweepCreatorFee = [32, 246, 191, 52, 8, 201, 73, 186]"
| "idl_discriminator AgentAgentInitialize = [180, 248, 163, 8, 49, 94, 126, 96]"
| "idl_discriminator AmmBuy = [102, 6, 61, 18, 1, 218, 235, 234]"
| "idl_discriminator AmmSell = [51, 230, 133, 164, 1, 127, 131, 173]"
| "idl_discriminator AmmCollectCoinCreatorFee = [160, 57, 89, 42, 181, 139, 43, 66]"
| "idl_discriminator AmmBuyV2 = [184, 23, 238, 97, 103, 197, 211, 61]"
| "idl_discriminator AmmBuyExactQuoteInV2 = [194, 171, 28, 70, 104, 77, 91, 47]"
| "idl_discriminator AmmSellV2 = [93, 246, 130, 60, 231, 233, 64, 178]"
| "idl_discriminator AmmSweepCreatorFee = [32, 246, 191, 52, 8, 201, 73, 186]"
| "idl_discriminator AmmTransferCreatorFeesToPumpV2 = [1, 33, 78, 185, 33, 67, 44, 92]"
| "idl_discriminator AmmMultiHopSwap = [43, 100, 73, 19, 233, 246, 111, 148]"
| "idl_discriminator FeesUpdateFeeShares = [189, 13, 136, 99, 187, 164, 237, 35]"
| "idl_discriminator FeesUpdateFeeSharesV2 = [111, 251, 49, 6, 78, 78, 106, 18]"

fun idl_args :: "idl_ix \<Rightarrow> string list" where
  "idl_args PumpCreate = [''name'', ''symbol'', ''uri'', ''creator'']"
| "idl_args PumpBuy = [''amount'', ''max_sol_cost'', ''track_volume'', ''partial_fill'']"
| "idl_args PumpSell = [''amount'', ''min_sol_output'']"
| "idl_args PumpCreateV2 = [''name'', ''symbol'', ''uri'', ''creator'', ''is_mayhem_mode'', ''is_cashback_enabled'', ''creator_fee_bps'', ''is_holder_reward'']"
| "idl_args PumpBuyV2 = [''amount'', ''max_sol_cost'', ''partial_fill'']"
| "idl_args PumpBuyExactQuoteInV2 = [''spendable_quote_in'', ''min_tokens_out'', ''partial_fill'']"
| "idl_args PumpSellV2 = [''amount'', ''min_sol_output'']"
| "idl_args PumpExtendAccount = []"
| "idl_args PumpMigrateV2 = []"
| "idl_args PumpClaimCashbackV2 = []"
| "idl_args PumpCollectCreatorFeeV2 = []"
| "idl_args PumpDistributeCreatorFeesV2 = [''initialize_ata'']"
| "idl_args PumpBuyV3 = [''amount'', ''max_sol_cost'', ''partial_fill'']"
| "idl_args PumpBuyExactQuoteInV3 = [''spendable_quote_in'', ''min_tokens_out'', ''partial_fill'']"
| "idl_args PumpSellV3 = [''amount'', ''min_sol_output'']"
| "idl_args PumpSweepCreatorFee = []"
| "idl_args AgentAgentInitialize = [''_authority'', ''_buyback_bps'']"
| "idl_args AmmBuy = [''base_amount_out'', ''max_quote_amount_in'', ''track_volume'']"
| "idl_args AmmSell = [''base_amount_in'', ''min_quote_amount_out'']"
| "idl_args AmmCollectCoinCreatorFee = []"
| "idl_args AmmBuyV2 = [''base_amount_out'', ''max_quote_amount_in'']"
| "idl_args AmmBuyExactQuoteInV2 = [''spendable_quote_in'', ''min_base_amount_out'']"
| "idl_args AmmSellV2 = [''base_amount_in'', ''min_quote_amount_out'']"
| "idl_args AmmSweepCreatorFee = []"
| "idl_args AmmTransferCreatorFeesToPumpV2 = []"
| "idl_args AmmMultiHopSwap = [''amount_in'', ''min_amount_out'']"
| "idl_args FeesUpdateFeeShares = [''shareholders'']"
| "idl_args FeesUpdateFeeSharesV2 = [''shareholders'']"

lemmas layout_defs =
  layout_pump_create_def layout_pump_buy_def layout_pump_sell_def layout_pump_create_v2_def
  layout_pump_buy_v2_def layout_pump_buy_exact_quote_in_v2_def layout_pump_sell_v2_def
  layout_pump_extend_account_def layout_pump_migrate_v2_def layout_pump_claim_cashback_v2_def
  layout_pump_collect_creator_fee_v2_def layout_pump_distribute_creator_fees_v2_def
  layout_pump_buy_v3_def layout_pump_buy_exact_quote_in_v3_def layout_pump_sell_v3_def
  layout_pump_sweep_creator_fee_def layout_agent_agent_initialize_def layout_amm_buy_def
  layout_amm_sell_def layout_amm_collect_coin_creator_fee_def layout_amm_buy_v2_def
  layout_amm_buy_exact_quote_in_v2_def layout_amm_sell_v2_def layout_amm_sweep_creator_fee_def
  layout_amm_transfer_creator_fees_to_pump_v2_def layout_amm_multi_hop_swap_def
  layout_fees_update_fee_shares_def layout_fees_update_fee_shares_v2_def

end
