(* ===== verification/Ix_Core.thy ===== *)
theory Ix_Core
  imports Sdk_Quotes Idl_Layout
begin

text \<open>
  What every instruction builder shares: the \<open>Instruction\<close> and \<open>AccountMeta\<close> of Solana,
  the code the builders call that is not in the repository (fields of \<open>sdk_env\<close>), what they
  rely on of it (\<open>codegen_ok\<close>, \<open>token_ok\<close>), and \<open>src/src/token.rs\<close>.
\<close>

section \<open>Instructions\<close>

record account_meta =
  meta_key :: pubkey
  meta_is_signer :: bool
  meta_is_writable :: bool

text \<open>\<open>AccountMeta::new\<close> (writable) and \<open>AccountMeta::new_readonly\<close>.\<close>

definition new_meta :: "pubkey \<Rightarrow> bool \<Rightarrow> account_meta" where
  "new_meta k is_signer = \<lparr>meta_key = k, meta_is_signer = is_signer, meta_is_writable = True\<rparr>"

definition new_readonly :: "pubkey \<Rightarrow> bool \<Rightarrow> account_meta" where
  "new_readonly k is_signer = \<lparr>meta_key = k, meta_is_signer = is_signer, meta_is_writable = False\<rparr>"

record instruction =
  ix_program_id :: pubkey
  ix_accounts :: "account_meta list"
  ix_data :: "byte list"

text \<open>The argument values of the generated \<open>client::args\<close> structs; a \<open>String\<close> is its
  UTF-8 bytes.\<close>

datatype ix_arg =
    ArgU64 u64
  | ArgU16 u16
  | ArgBool bool
  | ArgKey pubkey
  | ArgString string
  | ArgOptionBool bool
  | ArgOptionU64 u64
  | ArgShareholders "(pubkey \<times> u16) list"

section \<open>External functions of the builders\<close>

text \<open>
  \<open>account_metas X fields\<close> is \<open>client::accounts::X{fields}.to_account_metas(None)\<close> and
  \<open>args_data X args\<close> is \<open>client::args::X{args}.data()\<close>, both generated from the IDL by
  \<open>declare_program!\<close>; \<open>create_associated_token_account_idempotent payer wallet mint program\<close>,
  \<open>system_instruction::transfer\<close>, and \<open>sync_native\<close> and \<open>close_account\<close> of SPL Token
  (whose \<open>Err\<close> is \<open>None\<close>) come from the Solana crates.
\<close>

record sdk_env = pda_env +
  account_metas :: "idl_ix \<Rightarrow> (string \<times> pubkey) list \<Rightarrow> account_meta list"
  args_data :: "idl_ix \<Rightarrow> (string \<times> ix_arg) list \<Rightarrow> byte list"
  create_ata_idempotent :: "pubkey \<Rightarrow> pubkey \<Rightarrow> pubkey \<Rightarrow> pubkey \<Rightarrow> instruction"
  system_transfer :: "pubkey \<Rightarrow> pubkey \<Rightarrow> u64 \<Rightarrow> instruction"
  sync_native :: "pubkey \<Rightarrow> pubkey \<Rightarrow> instruction option"
  close_account :: "pubkey \<Rightarrow> pubkey \<Rightarrow> pubkey \<Rightarrow> pubkey \<Rightarrow> pubkey list \<Rightarrow> instruction option"

text \<open>The metas of a struct literal under an IDL layout: the slots in the IDL's order, each with
  the key of the field of its name and the flags of the IDL.\<close>

definition field_key :: "(string \<times> pubkey) list \<Rightarrow> string \<Rightarrow> pubkey" where
  "field_key fs n = (case map_of fs n of Some k \<Rightarrow> k | None \<Rightarrow> default_key)"

definition metas_of_layout :: "account_slot list \<Rightarrow> (string \<times> pubkey) list \<Rightarrow> account_meta list" where
  "metas_of_layout slots fs =
     map (\<lambda>(n, w, s). \<lparr>meta_key = field_key fs n, meta_is_signer = s, meta_is_writable = w\<rparr>)
       slots"

text \<open>Borsh: integers little-endian at their width, a \<open>bool\<close> as a byte, strings and vectors
  after their \<open>u32\<close> length, structs as their fields in order.\<close>

fun borsh_arg :: "ix_arg \<Rightarrow> byte list" where
  "borsh_arg (ArgU64 v) = le_bytes 8 v"
| "borsh_arg (ArgU16 v) = le_bytes 2 v"
| "borsh_arg (ArgBool b) = [if b then 1 else 0]"
| "borsh_arg (ArgKey k) = key_bytes k"
| "borsh_arg (ArgString s) = le_bytes 4 (word_of_nat (length s) :: u32) @ bytes_of_string s"
| "borsh_arg (ArgOptionBool b) = [if b then 1 else 0]"
| "borsh_arg (ArgOptionU64 v) = le_bytes 8 v"
| "borsh_arg (ArgShareholders sh) = le_bytes 4 (word_of_nat (length sh) :: u32)
     @ concat (map (\<lambda>(k, bps). key_bytes k @ le_bytes 2 bps) sh)"

definition data_of_args :: "idl_ix \<Rightarrow> (string \<times> ix_arg) list \<Rightarrow> byte list" where
  "data_of_args ix args = idl_discriminator ix @
     concat (map (\<lambda>n. case map_of args n of Some v \<Rightarrow> borsh_arg v | None \<Rightarrow> []) (idl_args ix))"

text \<open>What the generated client is relied on to do: list the accounts and encode the arguments as
  the IDL says.\<close>

definition codegen_ok :: "'e sdk_env_scheme \<Rightarrow> bool" where
  "codegen_ok e \<longleftrightarrow>
     (\<forall>ix fs. account_metas e ix fs = metas_of_layout (idl_accounts ix) fs) \<and>
     (\<forall>ix args. args_data e ix args = data_of_args ix args)"

text \<open>What the SPL Token helpers are relied on to do: succeed for the SPL Token program id (they
  fail on an unknown program only).\<close>

definition token_ok :: "'e sdk_env_scheme \<Rightarrow> bool" where
  "token_ok e \<longleftrightarrow>
     (\<forall>ata. sync_native e SPL_TOKEN_PROGRAM_ID ata \<noteq> None) \<and>
     (\<forall>ata dest owner signers.
        close_account e SPL_TOKEN_PROGRAM_ID ata dest owner signers \<noteq> None)"

text \<open>The result of code that returns no error but may panic; \<open>Option::expect\<close> and
  \<open>Result::expect\<close>.\<close>

type_synonym 'a or_panic = "(unit, 'a) res"

definition expect :: "'a option \<Rightarrow> 'a or_panic" where
  "expect v = (case v of None \<Rightarrow> panic | Some x \<Rightarrow> Ok x)"

lemma expect_simps [simp]: "expect None = panic" "expect (Some x) = Ok x"
  by (simp_all add: expect_def)

text \<open>The closure \<open>ata\<close> of the builders: the address part of \<open>pda::associated_token\<close>.\<close>

definition ata_of :: "'e pda_env_scheme \<Rightarrow> pubkey \<Rightarrow> pubkey \<Rightarrow> pubkey \<Rightarrow> pubkey" where
  "ata_of e owner token_program mint = fst (associated_token e owner token_program mint)"

section \<open>token.rs\<close>

definition user_wsol_ata :: "'e pda_env_scheme \<Rightarrow> pubkey \<Rightarrow> pubkey" where
  "user_wsol_ata e user = fst (associated_token e user SPL_TOKEN_PROGRAM_ID NATIVE_MINT)"

definition wrap_sol_instructions ::
  "'e sdk_env_scheme \<Rightarrow> pubkey \<Rightarrow> u64 \<Rightarrow> instruction list or_panic" where
  "wrap_sol_instructions e user lamports =
     (let ata = user_wsol_ata e user
      in and_then (expect (sync_native e SPL_TOKEN_PROGRAM_ID ata)) (\<lambda>sync.
           Ok [system_transfer e user ata lamports, sync]))"

definition unwrap_sol_instruction ::
  "'e sdk_env_scheme \<Rightarrow> pubkey \<Rightarrow> instruction or_panic" where
  "unwrap_sol_instruction e user =
     (let ata = user_wsol_ata e user
      in expect (close_account e SPL_TOKEN_PROGRAM_ID ata user user []))"

section \<open>Facts\<close>

lemma codegen_metas: "codegen_ok e \<Longrightarrow> account_metas e ix fs = metas_of_layout (idl_accounts ix) fs"
  by (simp add: codegen_ok_def)

lemma codegen_data: "codegen_ok e \<Longrightarrow> args_data e ix args = data_of_args ix args"
  by (simp add: codegen_ok_def)

lemma metas_of_layout_simps [simp]:
  "metas_of_layout [] fs = []"
  "metas_of_layout ((n, w, s) # slots) fs =
     \<lparr>meta_key = field_key fs n, meta_is_signer = s, meta_is_writable = w\<rparr> #
     metas_of_layout slots fs"
  by (simp_all add: metas_of_layout_def)

lemma length_metas_of_layout [simp]: "length (metas_of_layout slots fs) = length slots"
  by (simp add: metas_of_layout_def)

lemma field_key_simps [simp]:
  "field_key ((n, k) # fs) m = (if n = m then k else field_key fs m)"
  by (simp add: field_key_def)

lemma meta_simps [simp]:
  "meta_key (new_meta k s) = k" "meta_is_signer (new_meta k s) = s"
  "meta_is_writable (new_meta k s)"
  "meta_key (new_readonly k s) = k" "meta_is_signer (new_readonly k s) = s"
  "\<not> meta_is_writable (new_readonly k s)"
  by (simp_all add: new_meta_def new_readonly_def)

lemma token_ok_wrap:
  assumes "token_ok e"
  obtains sync where "sync_native e SPL_TOKEN_PROGRAM_ID (user_wsol_ata e user) = Some sync"
    and "\<And>lamports. wrap_sol_instructions e user lamports =
           Ok [system_transfer e user (user_wsol_ata e user) lamports, sync]"
proof -
  obtain sync where s: "sync_native e SPL_TOKEN_PROGRAM_ID (user_wsol_ata e user) = Some sync"
    using assms unfolding token_ok_def by (metis not_None_eq)
  then show ?thesis by (intro that) (simp_all add: wrap_sol_instructions_def)
qed

lemma token_ok_unwrap:
  assumes "token_ok e"
  obtains close where "close_account e SPL_TOKEN_PROGRAM_ID (user_wsol_ata e user) user user [] =
      Some close"
    and "unwrap_sol_instruction e user = Ok close"
proof -
  obtain c where s: "close_account e SPL_TOKEN_PROGRAM_ID (user_wsol_ata e user) user user [] = Some c"
    using assms unfolding token_ok_def by (metis not_None_eq)
  then show ?thesis by (intro that) (simp_all add: unwrap_sol_instruction_def)
qed

text \<open>An environment that keeps both contracts, to evaluate the builders on.\<close>

definition sample_sdk_env :: sdk_env where
  "sample_sdk_env = \<lparr>
     token_2022_native_mint = token_2022_native_mint sample_env,
     find_program_address = find_program_address sample_env,
     account_metas = (\<lambda>ix. metas_of_layout (idl_accounts ix)),
     args_data = data_of_args,
     create_ata_idempotent = (\<lambda>payer wallet mint token_program.
       \<lparr>ix_program_id = SPL_ATA_PROGRAM_ID,
        ix_accounts = [new_meta payer True,
          new_meta (ata_of sample_env wallet token_program mint) False,
          new_readonly wallet False, new_readonly mint False,
          new_readonly SYSTEM_PROGRAM_ID False, new_readonly token_program False],
        ix_data = [1]\<rparr>),
     system_transfer = (\<lambda>from_key to_key lamports.
       \<lparr>ix_program_id = SYSTEM_PROGRAM_ID,
        ix_accounts = [new_meta from_key True, new_meta to_key False],
        ix_data = [2, 0, 0, 0] @ le_bytes 8 lamports\<rparr>),
     sync_native = (\<lambda>token_program ata.
       if token_program \<in> {SPL_TOKEN_PROGRAM_ID, SPL_TOKEN_2022_PROGRAM_ID}
       then Some \<lparr>ix_program_id = token_program, ix_accounts = [new_meta ata False],
                  ix_data = [17]\<rparr>
       else None),
     close_account = (\<lambda>token_program ata dest owner signers.
       if token_program \<in> {SPL_TOKEN_PROGRAM_ID, SPL_TOKEN_2022_PROGRAM_ID}
       then Some \<lparr>ix_program_id = token_program,
              ix_accounts = [new_meta ata False, new_meta dest False,
                new_readonly owner (signers = [])] @ map (\<lambda>s. new_readonly s True) signers,
              ix_data = [9]\<rparr>
       else None)\<rparr>"

lemma sample_codegen_ok: "codegen_ok sample_sdk_env"
  by (simp add: codegen_ok_def sample_sdk_env_def)

lemma sample_token_ok: "token_ok sample_sdk_env"
  by (simp add: token_ok_def sample_sdk_env_def)

end
