(* ===== verification/Pump_V3.thy ===== *)
theory Pump_V3
  imports Ix_Core
begin

text \<open>
  \<open>src/src/sdk/pump_v3.rs\<close>: the three pump v3 trades over one shared account set and the
  creator-fee sweep.
\<close>

record v3_trade =
  v3_base_mint :: pubkey
  v3_quote_mint :: pubkey
  v3_base_token_program :: pubkey
  v3_quote_token_program :: pubkey
  v3_user :: pubkey
  v3_buyback_fee_recipient :: pubkey

definition v3_new :: "pubkey \<Rightarrow> pubkey \<Rightarrow> pubkey \<Rightarrow> pubkey \<Rightarrow> pubkey \<Rightarrow> pubkey \<Rightarrow> v3_trade" where
  "v3_new base_mint quote_mint base_token_program quote_token_program user
       buyback_fee_recipient =
     \<lparr>v3_base_mint = base_mint,
      v3_quote_mint = resolve_quote_mint quote_mint,
      v3_base_token_program = base_token_program,
      v3_quote_token_program = quote_token_program,
      v3_user = user,
      v3_buyback_fee_recipient = buyback_fee_recipient\<rparr>"

definition is_token_quoted :: "v3_trade \<Rightarrow> bool" where
  "is_token_quoted t \<longleftrightarrow> v3_quote_mint t \<noteq> NATIVE_MINT"

definition v3_accounts :: "'e pda_env_scheme \<Rightarrow> v3_trade \<Rightarrow> (string \<times> pubkey) list" where
  "v3_accounts e t =
     (let bonding_curve = fst (pump_bonding_curve e (v3_base_mint t));
          ata = ata_of e
      in [(''global'', fst (pump_global e)),
          (''base_mint'', v3_base_mint t),
          (''quote_mint'', v3_quote_mint t),
          (''base_token_program'', v3_base_token_program t),
          (''quote_token_program'', v3_quote_token_program t),
          (''bonding_curve'', bonding_curve),
          (''associated_base_bonding_curve'',
             ata bonding_curve (v3_base_token_program t) (v3_base_mint t)),
          (''associated_quote_bonding_curve'',
             ata bonding_curve (v3_quote_token_program t) (v3_quote_mint t)),
          (''user'', v3_user t),
          (''associated_base_user'',
             ata (v3_user t) (v3_base_token_program t) (v3_base_mint t)),
          (''associated_quote_user'',
             ata (v3_user t) (v3_quote_token_program t) (v3_quote_mint t)),
          (''user_volume_accumulator'', fst (pump_user_volume_accumulator e (v3_user t))),
          (''fee_config'', fst (pump_fee_config e)),
          (''buyback_fee_recipient'',
             if is_token_quoted t
             then ata (v3_buyback_fee_recipient t) (v3_quote_token_program t) (v3_quote_mint t)
             else v3_buyback_fee_recipient t),
          (''system_program'', SYSTEM_PROGRAM_ID),
          (''event_authority'', fst (pump_event_authority e)),
          (''program'', PUMP_PROGRAM_ID)])"

definition v3_instruction :: "'e sdk_env_scheme \<Rightarrow> v3_trade \<Rightarrow> byte list \<Rightarrow> instruction" where
  "v3_instruction e t data =
     \<lparr>ix_program_id = PUMP_PROGRAM_ID,
      ix_accounts = account_metas e PumpBuyV3 (v3_accounts e t),
      ix_data = data\<rparr>"

definition with_user_atas ::
  "'e sdk_env_scheme \<Rightarrow> v3_trade \<Rightarrow> bool \<Rightarrow> instruction \<Rightarrow> instruction list" where
  "with_user_atas e t include_base trade =
     (if include_base
      then [create_ata_idempotent e (v3_user t) (v3_user t) (v3_base_mint t)
              (v3_base_token_program t)]
      else [])
     @ (if is_token_quoted t
        then [create_ata_idempotent e (v3_user t) (v3_user t) (v3_quote_mint t)
                (v3_quote_token_program t),
              create_ata_idempotent e (v3_user t) (v3_buyback_fee_recipient t) (v3_quote_mint t)
                (v3_quote_token_program t)]
        else [])
     @ [trade]"

definition buy_v3_data :: "'e sdk_env_scheme \<Rightarrow> u64 \<Rightarrow> u64 \<Rightarrow> byte list" where
  "buy_v3_data e amount max_quote_cost =
     args_data e PumpBuyV3
       [(''amount'', ArgU64 amount),
        (''max_sol_cost'', ArgU64 max_quote_cost),
        (''partial_fill'', ArgOptionBool True)]"

definition buy_exact_quote_in_v3_data :: "'e sdk_env_scheme \<Rightarrow> u64 \<Rightarrow> u64 \<Rightarrow> byte list" where
  "buy_exact_quote_in_v3_data e spendable_quote_in min_tokens_out =
     args_data e PumpBuyExactQuoteInV3
       [(''spendable_quote_in'', ArgU64 spendable_quote_in),
        (''min_tokens_out'', ArgU64 min_tokens_out),
        (''partial_fill'', ArgOptionBool True)]"

definition sell_v3_data :: "'e sdk_env_scheme \<Rightarrow> u64 \<Rightarrow> u64 \<Rightarrow> byte list" where
  "sell_v3_data e amount min_quote_out =
     args_data e PumpSellV3
       [(''amount'', ArgU64 amount),
        (''min_sol_output'', ArgU64 min_quote_out)]"

definition buy_v3_instruction ::
  "'e sdk_env_scheme \<Rightarrow> pubkey \<Rightarrow> pubkey \<Rightarrow> pubkey \<Rightarrow> pubkey \<Rightarrow> pubkey \<Rightarrow> pubkey \<Rightarrow> u64 \<Rightarrow> u64 \<Rightarrow>
     instruction" where
  "buy_v3_instruction e base_mint quote_mint base_token_program quote_token_program user
       buyback_fee_recipient amount max_quote_cost =
     v3_instruction e
       (v3_new base_mint quote_mint base_token_program quote_token_program user
          buyback_fee_recipient)
       (buy_v3_data e amount max_quote_cost)"

definition buy_exact_quote_in_v3_instruction ::
  "'e sdk_env_scheme \<Rightarrow> pubkey \<Rightarrow> pubkey \<Rightarrow> pubkey \<Rightarrow> pubkey \<Rightarrow> pubkey \<Rightarrow> pubkey \<Rightarrow> u64 \<Rightarrow> u64 \<Rightarrow>
     instruction" where
  "buy_exact_quote_in_v3_instruction e base_mint quote_mint base_token_program
       quote_token_program user buyback_fee_recipient spendable_quote_in min_tokens_out =
     v3_instruction e
       (v3_new base_mint quote_mint base_token_program quote_token_program user
          buyback_fee_recipient)
       (buy_exact_quote_in_v3_data e spendable_quote_in min_tokens_out)"

definition sell_v3_instruction ::
  "'e sdk_env_scheme \<Rightarrow> pubkey \<Rightarrow> pubkey \<Rightarrow> pubkey \<Rightarrow> pubkey \<Rightarrow> pubkey \<Rightarrow> pubkey \<Rightarrow> u64 \<Rightarrow> u64 \<Rightarrow>
     instruction" where
  "sell_v3_instruction e base_mint quote_mint base_token_program quote_token_program user
       buyback_fee_recipient amount min_quote_out =
     v3_instruction e
       (v3_new base_mint quote_mint base_token_program quote_token_program user
          buyback_fee_recipient)
       (sell_v3_data e amount min_quote_out)"

definition buy_v3_instructions ::
  "'e sdk_env_scheme \<Rightarrow> pubkey \<Rightarrow> pubkey \<Rightarrow> pubkey \<Rightarrow> pubkey \<Rightarrow> pubkey \<Rightarrow> pubkey \<Rightarrow> u64 \<Rightarrow> u64 \<Rightarrow>
     instruction list" where
  "buy_v3_instructions e base_mint quote_mint base_token_program quote_token_program user
       buyback_fee_recipient amount max_quote_cost =
     (let trade = v3_new base_mint quote_mint base_token_program quote_token_program user
            buyback_fee_recipient
      in with_user_atas e trade True
           (v3_instruction e trade (buy_v3_data e amount max_quote_cost)))"

definition buy_exact_quote_in_v3_instructions ::
  "'e sdk_env_scheme \<Rightarrow> pubkey \<Rightarrow> pubkey \<Rightarrow> pubkey \<Rightarrow> pubkey \<Rightarrow> pubkey \<Rightarrow> pubkey \<Rightarrow> u64 \<Rightarrow> u64 \<Rightarrow>
     instruction list" where
  "buy_exact_quote_in_v3_instructions e base_mint quote_mint base_token_program
       quote_token_program user buyback_fee_recipient spendable_quote_in min_tokens_out =
     (let trade = v3_new base_mint quote_mint base_token_program quote_token_program user
            buyback_fee_recipient
      in with_user_atas e trade True
           (v3_instruction e trade
              (buy_exact_quote_in_v3_data e spendable_quote_in min_tokens_out)))"

definition sell_v3_instructions ::
  "'e sdk_env_scheme \<Rightarrow> pubkey \<Rightarrow> pubkey \<Rightarrow> pubkey \<Rightarrow> pubkey \<Rightarrow> pubkey \<Rightarrow> pubkey \<Rightarrow> u64 \<Rightarrow> u64 \<Rightarrow>
     instruction list" where
  "sell_v3_instructions e base_mint quote_mint base_token_program quote_token_program user
       buyback_fee_recipient amount min_quote_out =
     (let trade = v3_new base_mint quote_mint base_token_program quote_token_program user
            buyback_fee_recipient
      in with_user_atas e trade False
           (v3_instruction e trade (sell_v3_data e amount min_quote_out)))"

definition sweep_creator_fee_instruction ::
  "'e sdk_env_scheme \<Rightarrow> pubkey \<Rightarrow> pubkey \<Rightarrow> pubkey \<Rightarrow> pubkey \<Rightarrow> pubkey \<Rightarrow> instruction" where
  "sweep_creator_fee_instruction e payer base_mint creator quote_mint quote_token_program =
     (let quote_mint = resolve_quote_mint quote_mint;
          bonding_curve = fst (pump_bonding_curve e base_mint);
          recipient = fst (pump_creator_vault e creator);
          accounts =
            [(''payer'', payer),
             (''global'', fst (pump_global e)),
             (''base_mint'', base_mint),
             (''quote_mint'', quote_mint),
             (''quote_token_program'', quote_token_program),
             (''associated_token_program'', SPL_ATA_PROGRAM_ID),
             (''system_program'', SYSTEM_PROGRAM_ID),
             (''bonding_curve'', bonding_curve),
             (''associated_quote_bonding_curve'',
                fst (associated_token e bonding_curve quote_token_program quote_mint)),
             (''recipient'', recipient),
             (''associated_quote_recipient'',
                fst (associated_token e recipient quote_token_program quote_mint)),
             (''event_authority'', fst (pump_event_authority e)),
             (''program'', PUMP_PROGRAM_ID)]
      in \<lparr>ix_program_id = PUMP_PROGRAM_ID,
          ix_accounts = account_metas e PumpSweepCreatorFee accounts,
          ix_data = args_data e PumpSweepCreatorFee []\<rparr>)"

end
