(* ===== verification/Pump_V2.thy ===== *)
theory Pump_V2
  imports Pump_V3
begin

text \<open>
  The instruction builders of \<open>src/src/sdk/pump_v2.rs\<close>: coin creation, the v2 trades with
  their token-account preludes, migration, cashback and creator fees. The two \<open>fastrand\<close>
  draws of \<open>pump_fee_recipients_pair\<close> are the arguments \<open>d1\<close> and \<open>d2\<close>.
\<close>

section \<open>The accounts of a v2 trade\<close>

record v2_trade_accounts =
  ta_quote_mint :: pubkey
  ta_base_token_program :: pubkey
  ta_bonding_curve :: pubkey
  ta_creator_vault :: pubkey
  ta_user_volume_accumulator :: pubkey
  ta_associated_quote_fee_recipient :: pubkey
  ta_associated_quote_buyback_fee_recipient :: pubkey
  ta_associated_base_bonding_curve :: pubkey
  ta_associated_quote_bonding_curve :: pubkey
  ta_associated_base_user :: pubkey
  ta_associated_quote_user :: pubkey
  ta_associated_creator_vault :: pubkey
  ta_associated_user_volume_accumulator :: pubkey

definition derive_v2_trade_accounts ::
  "'e pda_env_scheme \<Rightarrow> pubkey \<Rightarrow> pubkey \<Rightarrow> pubkey \<Rightarrow> pubkey \<Rightarrow> pubkey \<Rightarrow> pubkey \<Rightarrow> pubkey \<Rightarrow>
     v2_trade_accounts"
where
  "derive_v2_trade_accounts e base_mint quote_mint quote_token_program user creator fee_recipient
       buyback_fee_recipient =
     (let base_token_program = SPL_TOKEN_2022_PROGRAM_ID;
          quote_mint = (if quote_mint = default_key then NATIVE_MINT else quote_mint);
          bonding_curve = fst (pump_bonding_curve e base_mint);
          creator_vault = fst (pump_creator_vault e creator);
          user_volume_accumulator = fst (pump_user_volume_accumulator e user);
          ata = ata_of e
      in \<lparr>ta_quote_mint = quote_mint,
          ta_base_token_program = base_token_program,
          ta_bonding_curve = bonding_curve,
          ta_creator_vault = creator_vault,
          ta_user_volume_accumulator = user_volume_accumulator,
          ta_associated_quote_fee_recipient = ata fee_recipient quote_token_program quote_mint,
          ta_associated_quote_buyback_fee_recipient =
            ata buyback_fee_recipient quote_token_program quote_mint,
          ta_associated_base_bonding_curve = ata bonding_curve base_token_program base_mint,
          ta_associated_quote_bonding_curve = ata bonding_curve quote_token_program quote_mint,
          ta_associated_base_user = ata user base_token_program base_mint,
          ta_associated_quote_user = ata user quote_token_program quote_mint,
          ta_associated_creator_vault = ata creator_vault quote_token_program quote_mint,
          ta_associated_user_volume_accumulator =
            ata user_volume_accumulator quote_token_program quote_mint\<rparr>)"

section \<open>Creating a coin\<close>

definition create_v2_pump_quote_accounts ::
  "'e pda_env_scheme \<Rightarrow> pubkey \<Rightarrow> (pubkey \<times> pool) option \<Rightarrow> account_meta list" where
  "create_v2_pump_quote_accounts e quote_mint quote_pool =
     [new_readonly (fst (pump_bonding_curve e quote_mint)) False]
     @ (case quote_pool of
          None \<Rightarrow> []
        | Some (key, pl) \<Rightarrow>
            map (\<lambda>k. new_readonly k False)
              [key, p_pool_base_token_account pl, p_pool_quote_token_account pl])"

definition create_v2_instruction ::
  "'e sdk_env_scheme \<Rightarrow> pubkey \<Rightarrow> pubkey \<Rightarrow> string \<Rightarrow> string \<Rightarrow> string \<Rightarrow> pubkey \<Rightarrow> pubkey \<Rightarrow>
     pubkey \<Rightarrow> bool \<Rightarrow> bool \<Rightarrow> u64 \<Rightarrow> instruction"
where
  "create_v2_instruction e mint user nm symbol uri creator quote_mint quote_token_program
       mayhem_mode cashback creator_bps =
     (let token_program = SPL_TOKEN_2022_PROGRAM_ID;
          bonding_curve = fst (pump_bonding_curve e mint);
          accounts =
            [(''mint'', mint),
             (''mint_authority'', fst (pump_mint_authority e)),
             (''bonding_curve'', bonding_curve),
             (''associated_bonding_curve'',
                fst (associated_token e bonding_curve token_program mint)),
             (''global'', fst (pump_global e)),
             (''user'', user),
             (''system_program'', SYSTEM_PROGRAM_ID),
             (''token_program'', token_program),
             (''associated_token_program'', SPL_ATA_PROGRAM_ID),
             (''mayhem_program_id'', MAYHEM_PROGRAM_ID),
             (''global_params'', fst (mayhem_global_params e)),
             (''sol_vault'', fst (mayhem_sol_vault e)),
             (''mayhem_state'', fst (mayhem_state e mint)),
             (''mayhem_token_vault'', fst (mayhem_token_vault e mint)),
             (''event_authority'', fst (pump_event_authority e)),
             (''program'', PUMP_PROGRAM_ID)];
          args =
            [(''name'', ArgString nm),
             (''symbol'', ArgString symbol),
             (''uri'', ArgString uri),
             (''creator'', ArgKey creator),
             (''is_mayhem_mode'', ArgBool mayhem_mode),
             (''is_cashback_enabled'', ArgOptionBool cashback),
             (''creator_fee_bps'', ArgOptionU64 creator_bps),
             (''is_holder_reward'', ArgOptionBool False)];
          metas = account_metas e PumpCreateV2 accounts;
          resolved_quote_mint = (if quote_mint = default_key then NATIVE_MINT else quote_mint)
      in \<lparr>ix_program_id = PUMP_PROGRAM_ID,
          ix_accounts = metas
            @ (if resolved_quote_mint \<noteq> NATIVE_MINT
               then
                 let associated_quote_bonding_curve =
                       fst (associated_token e bonding_curve quote_token_program
                              resolved_quote_mint)
                 in [new_readonly resolved_quote_mint False,
                     new_meta associated_quote_bonding_curve False,
                     new_readonly quote_token_program False,
                     new_readonly (fst (pump_quote_control e)) False]
               else []),
          ix_data = args_data e PumpCreateV2 args\<rparr>)"

section \<open>Trades\<close>

definition buy_v2_instruction_with_recipients ::
  "'e sdk_env_scheme \<Rightarrow> pubkey \<Rightarrow> pubkey \<Rightarrow> pubkey \<Rightarrow> pubkey \<Rightarrow> pubkey \<Rightarrow> pubkey \<Rightarrow> pubkey \<Rightarrow>
     u64 \<Rightarrow> u64 \<Rightarrow> instruction"
where
  "buy_v2_instruction_with_recipients e base_mint quote_mint quote_token_program user creator
       fee_recipient buyback_fee_recipient amount max_sol_cost =
     (let a = derive_v2_trade_accounts e base_mint quote_mint quote_token_program user creator
            fee_recipient buyback_fee_recipient;
          accounts =
            [(''global'', fst (pump_global e)),
             (''base_mint'', base_mint),
             (''quote_mint'', ta_quote_mint a),
             (''base_token_program'', ta_base_token_program a),
             (''quote_token_program'', quote_token_program),
             (''associated_token_program'', SPL_ATA_PROGRAM_ID),
             (''fee_recipient'', fee_recipient),
             (''associated_quote_fee_recipient'', ta_associated_quote_fee_recipient a),
             (''buyback_fee_recipient'', buyback_fee_recipient),
             (''associated_quote_buyback_fee_recipient'',
                ta_associated_quote_buyback_fee_recipient a),
             (''bonding_curve'', ta_bonding_curve a),
             (''associated_base_bonding_curve'', ta_associated_base_bonding_curve a),
             (''associated_quote_bonding_curve'', ta_associated_quote_bonding_curve a),
             (''user'', user),
             (''associated_base_user'', ta_associated_base_user a),
             (''associated_quote_user'', ta_associated_quote_user a),
             (''creator_vault'', ta_creator_vault a),
             (''associated_creator_vault'', ta_associated_creator_vault a),
             (''sharing_config'', fst (pump_sharing_config e base_mint)),
             (''global_volume_accumulator'', fst (pump_global_volume_accumulator e)),
             (''user_volume_accumulator'', ta_user_volume_accumulator a),
             (''associated_user_volume_accumulator'', ta_associated_user_volume_accumulator a),
             (''fee_config'', fst (pump_fee_config e)),
             (''fee_program'', FEE_PROGRAM_ID),
             (''system_program'', SYSTEM_PROGRAM_ID),
             (''event_authority'', fst (pump_event_authority e)),
             (''program'', PUMP_PROGRAM_ID)];
          args =
            [(''amount'', ArgU64 amount),
             (''max_sol_cost'', ArgU64 max_sol_cost),
             (''partial_fill'', ArgOptionBool True)]
      in \<lparr>ix_program_id = PUMP_PROGRAM_ID,
          ix_accounts = account_metas e PumpBuyV2 accounts,
          ix_data = args_data e PumpBuyV2 args\<rparr>)"

definition buy_v2_instruction ::
  "'e sdk_env_scheme \<Rightarrow> (nat \<Rightarrow> nat) \<Rightarrow> (nat \<Rightarrow> nat) \<Rightarrow> global \<Rightarrow> bonding_curve \<Rightarrow> pubkey \<Rightarrow> pubkey \<Rightarrow>
     pubkey \<Rightarrow> u64 \<Rightarrow> u64 \<Rightarrow> instruction option"
where
  "buy_v2_instruction e d1 d2 glob bc base_mint quote_token_program user amount
       max_quote_tokens =
     (case pump_fee_recipients_pair d1 d2 glob (bc_is_mayhem_mode bc) of
        None \<Rightarrow> None
      | Some (fee_recipient, buyback_fee_recipient) \<Rightarrow>
          Some (buy_v2_instruction_with_recipients e base_mint (bc_quote_mint bc)
            quote_token_program user (bc_creator bc) fee_recipient buyback_fee_recipient amount
            max_quote_tokens))"

definition buy_exact_quote_in_v2_instruction_with_recipients ::
  "'e sdk_env_scheme \<Rightarrow> pubkey \<Rightarrow> pubkey \<Rightarrow> pubkey \<Rightarrow> pubkey \<Rightarrow> pubkey \<Rightarrow> pubkey \<Rightarrow> pubkey \<Rightarrow>
     u64 \<Rightarrow> u64 \<Rightarrow> instruction"
where
  "buy_exact_quote_in_v2_instruction_with_recipients e base_mint quote_mint quote_token_program
       user creator fee_recipient buyback_fee_recipient spendable_quote_in min_tokens_out =
     (let a = derive_v2_trade_accounts e base_mint quote_mint quote_token_program user creator
            fee_recipient buyback_fee_recipient;
          accounts =
            [(''global'', fst (pump_global e)),
             (''base_mint'', base_mint),
             (''quote_mint'', ta_quote_mint a),
             (''base_token_program'', ta_base_token_program a),
             (''quote_token_program'', quote_token_program),
             (''associated_token_program'', SPL_ATA_PROGRAM_ID),
             (''fee_recipient'', fee_recipient),
             (''associated_quote_fee_recipient'', ta_associated_quote_fee_recipient a),
             (''buyback_fee_recipient'', buyback_fee_recipient),
             (''associated_quote_buyback_fee_recipient'',
                ta_associated_quote_buyback_fee_recipient a),
             (''bonding_curve'', ta_bonding_curve a),
             (''associated_base_bonding_curve'', ta_associated_base_bonding_curve a),
             (''associated_quote_bonding_curve'', ta_associated_quote_bonding_curve a),
             (''user'', user),
             (''associated_base_user'', ta_associated_base_user a),
             (''associated_quote_user'', ta_associated_quote_user a),
             (''creator_vault'', ta_creator_vault a),
             (''associated_creator_vault'', ta_associated_creator_vault a),
             (''sharing_config'', fst (pump_sharing_config e base_mint)),
             (''global_volume_accumulator'', fst (pump_global_volume_accumulator e)),
             (''user_volume_accumulator'', ta_user_volume_accumulator a),
             (''associated_user_volume_accumulator'', ta_associated_user_volume_accumulator a),
             (''fee_config'', fst (pump_fee_config e)),
             (''fee_program'', FEE_PROGRAM_ID),
             (''system_program'', SYSTEM_PROGRAM_ID),
             (''event_authority'', fst (pump_event_authority e)),
             (''program'', PUMP_PROGRAM_ID)];
          args =
            [(''spendable_quote_in'', ArgU64 spendable_quote_in),
             (''min_tokens_out'', ArgU64 min_tokens_out),
             (''partial_fill'', ArgOptionBool True)]
      in \<lparr>ix_program_id = PUMP_PROGRAM_ID,
          ix_accounts = account_metas e PumpBuyExactQuoteInV2 accounts,
          ix_data = args_data e PumpBuyExactQuoteInV2 args\<rparr>)"

definition buy_exact_quote_in_v2_instruction ::
  "'e sdk_env_scheme \<Rightarrow> (nat \<Rightarrow> nat) \<Rightarrow> (nat \<Rightarrow> nat) \<Rightarrow> global \<Rightarrow> bonding_curve \<Rightarrow> pubkey \<Rightarrow> pubkey \<Rightarrow>
     pubkey \<Rightarrow> u64 \<Rightarrow> u64 \<Rightarrow> instruction option"
where
  "buy_exact_quote_in_v2_instruction e d1 d2 glob bc base_mint quote_token_program user
       spendable_quote_in min_tokens_out =
     (case pump_fee_recipients_pair d1 d2 glob (bc_is_mayhem_mode bc) of
        None \<Rightarrow> None
      | Some (fee_recipient, buyback_fee_recipient) \<Rightarrow>
          Some (buy_exact_quote_in_v2_instruction_with_recipients e base_mint (bc_quote_mint bc)
            quote_token_program user (bc_creator bc) fee_recipient buyback_fee_recipient
            spendable_quote_in min_tokens_out))"

definition sell_v2_instruction_with_recipients ::
  "'e sdk_env_scheme \<Rightarrow> pubkey \<Rightarrow> pubkey \<Rightarrow> pubkey \<Rightarrow> pubkey \<Rightarrow> pubkey \<Rightarrow> pubkey \<Rightarrow> pubkey \<Rightarrow>
     u64 \<Rightarrow> u64 \<Rightarrow> instruction"
where
  "sell_v2_instruction_with_recipients e base_mint quote_mint quote_token_program user creator
       fee_recipient buyback_fee_recipient amount min_sol_output =
     (let a = derive_v2_trade_accounts e base_mint quote_mint quote_token_program user creator
            fee_recipient buyback_fee_recipient;
          accounts =
            [(''global'', fst (pump_global e)),
             (''base_mint'', base_mint),
             (''quote_mint'', ta_quote_mint a),
             (''base_token_program'', ta_base_token_program a),
             (''quote_token_program'', quote_token_program),
             (''associated_token_program'', SPL_ATA_PROGRAM_ID),
             (''fee_recipient'', fee_recipient),
             (''associated_quote_fee_recipient'', ta_associated_quote_fee_recipient a),
             (''buyback_fee_recipient'', buyback_fee_recipient),
             (''associated_quote_buyback_fee_recipient'',
                ta_associated_quote_buyback_fee_recipient a),
             (''bonding_curve'', ta_bonding_curve a),
             (''associated_base_bonding_curve'', ta_associated_base_bonding_curve a),
             (''associated_quote_bonding_curve'', ta_associated_quote_bonding_curve a),
             (''user'', user),
             (''associated_base_user'', ta_associated_base_user a),
             (''associated_quote_user'', ta_associated_quote_user a),
             (''creator_vault'', ta_creator_vault a),
             (''associated_creator_vault'', ta_associated_creator_vault a),
             (''sharing_config'', fst (pump_sharing_config e base_mint)),
             (''user_volume_accumulator'', ta_user_volume_accumulator a),
             (''associated_user_volume_accumulator'', ta_associated_user_volume_accumulator a),
             (''fee_config'', fst (pump_fee_config e)),
             (''fee_program'', FEE_PROGRAM_ID),
             (''system_program'', SYSTEM_PROGRAM_ID),
             (''event_authority'', fst (pump_event_authority e)),
             (''program'', PUMP_PROGRAM_ID)];
          args =
            [(''amount'', ArgU64 amount),
             (''min_sol_output'', ArgU64 min_sol_output)]
      in \<lparr>ix_program_id = PUMP_PROGRAM_ID,
          ix_accounts = account_metas e PumpSellV2 accounts,
          ix_data = args_data e PumpSellV2 args\<rparr>)"

definition sell_v2_instruction ::
  "'e sdk_env_scheme \<Rightarrow> (nat \<Rightarrow> nat) \<Rightarrow> (nat \<Rightarrow> nat) \<Rightarrow> global \<Rightarrow> bonding_curve \<Rightarrow> pubkey \<Rightarrow> pubkey \<Rightarrow>
     pubkey \<Rightarrow> u64 \<Rightarrow> u64 \<Rightarrow> instruction option"
where
  "sell_v2_instruction e d1 d2 glob bc base_mint quote_token_program user amount
       min_sol_output =
     (case pump_fee_recipients_pair d1 d2 glob (bc_is_mayhem_mode bc) of
        None \<Rightarrow> None
      | Some (fee_recipient, buyback_fee_recipient) \<Rightarrow>
          Some (sell_v2_instruction_with_recipients e base_mint (bc_quote_mint bc)
            quote_token_program user (bc_creator bc) fee_recipient buyback_fee_recipient amount
            min_sol_output))"

section \<open>Token-account preludes\<close>

definition user_trade_atas ::
  "'e sdk_env_scheme \<Rightarrow> pubkey \<Rightarrow> pubkey \<Rightarrow> bonding_curve \<Rightarrow> pubkey \<Rightarrow> pubkey \<Rightarrow> bool \<Rightarrow>
     instruction list"
where
  "user_trade_atas e user base_mint bc base_token_program quote_token_program include_base =
     (if include_base
      then [create_ata_idempotent e user user base_mint base_token_program]
      else [])
     @ (let bonding_curve_has_non_sol_quote =
              (bc_quote_mint bc \<noteq> default_key \<and> bc_quote_mint bc \<noteq> NATIVE_MINT)
        in if bonding_curve_has_non_sol_quote
           then
             [create_ata_idempotent e user user (bc_quote_mint bc) quote_token_program,
              create_ata_idempotent e user (bc_creator bc) (bc_quote_mint bc) quote_token_program]
             @ (let bonding_curve_pda = fst (pump_bonding_curve e base_mint)
                in [create_ata_idempotent e user bonding_curve_pda (bc_quote_mint bc)
                      quote_token_program])
             @ (if bc_is_cashback_coin bc
                then
                  let user_volume_accumulator = fst (pump_user_volume_accumulator e user)
                  in [create_ata_idempotent e user user_volume_accumulator (bc_quote_mint bc)
                        quote_token_program]
                else [])
           else [])"

definition buy_v2_instructions ::
  "'e sdk_env_scheme \<Rightarrow> (nat \<Rightarrow> nat) \<Rightarrow> (nat \<Rightarrow> nat) \<Rightarrow> global \<Rightarrow> bonding_curve \<Rightarrow> pubkey \<Rightarrow> pubkey \<Rightarrow>
     pubkey \<Rightarrow> u64 \<Rightarrow> u64 \<Rightarrow> instruction list option"
where
  "buy_v2_instructions e d1 d2 glob bc base_mint quote_token_program user amount
       max_quote_tokens =
     (let base_token_program = SPL_TOKEN_2022_PROGRAM_ID
      in case pump_fee_recipients_pair d1 d2 glob (bc_is_mayhem_mode bc) of
           None \<Rightarrow> None
         | Some (fee_recipient, buyback_fee_recipient) \<Rightarrow>
             let quote_mint = bc_quote_mint bc;
                 creator = bc_creator bc;
                 instructions = user_trade_atas e user base_mint bc base_token_program
                   quote_token_program True
             in Some (instructions
                  @ [buy_v2_instruction_with_recipients e base_mint quote_mint
                       quote_token_program user creator fee_recipient buyback_fee_recipient
                       amount max_quote_tokens]))"

definition buy_exact_quote_in_v2_instructions ::
  "'e sdk_env_scheme \<Rightarrow> (nat \<Rightarrow> nat) \<Rightarrow> (nat \<Rightarrow> nat) \<Rightarrow> global \<Rightarrow> bonding_curve \<Rightarrow> pubkey \<Rightarrow> pubkey \<Rightarrow>
     pubkey \<Rightarrow> u64 \<Rightarrow> u64 \<Rightarrow> instruction list option"
where
  "buy_exact_quote_in_v2_instructions e d1 d2 glob bc base_mint quote_token_program user
       spendable_quote_in min_tokens_out =
     (let base_token_program = SPL_TOKEN_2022_PROGRAM_ID
      in case pump_fee_recipients_pair d1 d2 glob (bc_is_mayhem_mode bc) of
           None \<Rightarrow> None
         | Some (fee_recipient, buyback_fee_recipient) \<Rightarrow>
             let quote_mint = bc_quote_mint bc;
                 creator = bc_creator bc;
                 instructions = user_trade_atas e user base_mint bc base_token_program
                   quote_token_program True
             in Some (instructions
                  @ [buy_exact_quote_in_v2_instruction_with_recipients e base_mint quote_mint
                       quote_token_program user creator fee_recipient buyback_fee_recipient
                       spendable_quote_in min_tokens_out]))"

definition sell_v2_instructions ::
  "'e sdk_env_scheme \<Rightarrow> (nat \<Rightarrow> nat) \<Rightarrow> (nat \<Rightarrow> nat) \<Rightarrow> global \<Rightarrow> bonding_curve \<Rightarrow> pubkey \<Rightarrow> pubkey \<Rightarrow>
     pubkey \<Rightarrow> u64 \<Rightarrow> u64 \<Rightarrow> instruction list option"
where
  "sell_v2_instructions e d1 d2 glob bc base_mint quote_token_program user amount
       min_sol_output =
     (case pump_fee_recipients_pair d1 d2 glob (bc_is_mayhem_mode bc) of
        None \<Rightarrow> None
      | Some (fee_recipient, buyback_fee_recipient) \<Rightarrow>
          let quote_mint = bc_quote_mint bc;
              creator = bc_creator bc;
              instructions = user_trade_atas e user base_mint bc SPL_TOKEN_2022_PROGRAM_ID
                quote_token_program False
          in Some (instructions
               @ [sell_v2_instruction_with_recipients e base_mint quote_mint
                    quote_token_program user creator fee_recipient buyback_fee_recipient
                    amount min_sol_output]))"

end
