(* ===== verification/Pump_V2_Coin.thy ===== *)
theory Pump_V2_Coin
  imports Pump_V2
begin

text \<open>
  The rest of the builders of \<open>src/src/sdk/pump_v2.rs\<close>: a coin's creation with its first buy,
  agent initialization, account extension, migration, cashback and the creator fees.
\<close>

section \<open>Agents, account extension, migration\<close>

definition agent_initialize_instruction ::
  "'e sdk_env_scheme \<Rightarrow> pubkey \<Rightarrow> pubkey \<Rightarrow> pubkey \<Rightarrow> u16 \<Rightarrow> instruction" where
  "agent_initialize_instruction e mint user creator buyback_bps =
     (let accounts =
            [(''authority'', user),
             (''bonding_curve'', fst (pump_bonding_curve e mint)),
             (''global_config'', fst (agent_global_config e)),
             (''mint'', mint),
             (''token_agent_payments'', fst (token_agent_payments e mint)),
             (''system_program'', SYSTEM_PROGRAM_ID),
             (''event_authority'', fst (agent_event_authority e)),
             (''program'', AGENT_PAYMENTS_PROGRAM_ID)];
          args =
            [(''_authority'', ArgKey creator),
             (''_buyback_bps'', ArgU16 buyback_bps)];
          metas = account_metas e AgentAgentInitialize accounts
      in \<lparr>ix_program_id = AGENT_PAYMENTS_PROGRAM_ID,
          ix_accounts = metas @ [new_readonly (fst (pump_sharing_config e mint)) False],
          ix_data = args_data e AgentAgentInitialize args\<rparr>)"

definition extend_account_ix :: "'e sdk_env_scheme \<Rightarrow> pubkey \<Rightarrow> pubkey \<Rightarrow> instruction" where
  "extend_account_ix e mint user =
     (let accounts =
            [(''account'', fst (pump_bonding_curve e mint)),
             (''user'', user),
             (''system_program'', SYSTEM_PROGRAM_ID),
             (''event_authority'', fst (pump_event_authority e)),
             (''program'', PUMP_PROGRAM_ID)]
      in \<lparr>ix_program_id = PUMP_PROGRAM_ID,
          ix_accounts = account_metas e PumpExtendAccount accounts,
          ix_data = args_data e PumpExtendAccount []\<rparr>)"

text \<open>The \<open>assert_eq!\<close> on the number of named accounts is the \<open>panic\<close> branch.\<close>

definition MIGRATE_V2_NAMED_ACCOUNTS :: nat where "MIGRATE_V2_NAMED_ACCOUNTS = 27"

definition migrate_v2_instruction ::
  "'e sdk_env_scheme \<Rightarrow> pubkey \<Rightarrow> pubkey \<Rightarrow> pubkey \<Rightarrow> pubkey \<Rightarrow> pubkey \<Rightarrow> pubkey \<Rightarrow>
     instruction or_panic"
where
  "migrate_v2_instruction e base_mint quote_mint user withdraw_authority base_token_program
       quote_token_program =
     (let token_2022_program = SPL_TOKEN_2022_PROGRAM_ID;
          bonding_curve = fst (pump_bonding_curve e base_mint);
          pool_auth = fst (pool_authority e base_mint);
          pl = fst (amm_pool e 0 pool_auth base_mint quote_mint);
          lp_mint = fst (amm_lp_mint e pl);
          accounts =
            [(''global'', fst (pump_global e)),
             (''withdraw_authority'', withdraw_authority),
             (''base_mint'', base_mint),
             (''quote_mint'', quote_mint),
             (''bonding_curve'', bonding_curve),
             (''associated_base_bonding_curve'',
                fst (associated_token e bonding_curve base_token_program base_mint)),
             (''associated_quote_bonding_curve'',
                fst (associated_token e bonding_curve quote_token_program quote_mint)),
             (''user'', user),
             (''system_program'', SYSTEM_PROGRAM_ID),
             (''pump_amm'', PUMP_AMM_PROGRAM_ID),
             (''pool'', pl),
             (''pool_authority'', pool_auth),
             (''pool_authority_mint_account'',
                fst (associated_token e pool_auth base_token_program base_mint)),
             (''pool_authority_quote_account'',
                fst (associated_token e pool_auth quote_token_program quote_mint)),
             (''amm_global_config'', fst (amm_global_config e)),
             (''lp_mint'', lp_mint),
             (''user_pool_token_account'',
                fst (associated_token e pool_auth token_2022_program lp_mint)),
             (''pool_base_token_account'',
                fst (associated_token e pl base_token_program base_mint)),
             (''pool_quote_token_account'',
                fst (associated_token e pl quote_token_program quote_mint)),
             (''base_token_program'', base_token_program),
             (''quote_token_program'', quote_token_program),
             (''token_2022_program'', token_2022_program),
             (''associated_token_program'', SPL_ATA_PROGRAM_ID),
             (''pump_amm_event_authority'', fst (amm_event_authority e)),
             (''rent'', RENT_SYSVAR_ID),
             (''event_authority'', fst (pump_event_authority e)),
             (''program'', PUMP_PROGRAM_ID)];
          metas = account_metas e PumpMigrateV2 accounts
      in if length metas \<noteq> MIGRATE_V2_NAMED_ACCOUNTS then panic
         else Ok \<lparr>ix_program_id = PUMP_PROGRAM_ID,
           ix_accounts = metas
             @ [new_readonly (fst (boost_vault_authority e pl)) False,
                new_meta (fst (boost_vault e pl quote_mint quote_token_program)) False],
           ix_data = args_data e PumpMigrateV2 []\<rparr>)"

section \<open>Cashback and creator fees\<close>

definition claim_cashback_v2_instruction ::
  "'e sdk_env_scheme \<Rightarrow> pubkey \<Rightarrow> pubkey \<Rightarrow> pubkey \<Rightarrow> instruction" where
  "claim_cashback_v2_instruction e user quote_mint quote_token_program =
     (let resolved_quote_mint = (if quote_mint = default_key then NATIVE_MINT else quote_mint);
          user_volume_accumulator = fst (pump_user_volume_accumulator e user);
          associated_user_volume_accumulator =
            fst (associated_token e user_volume_accumulator quote_token_program
                   resolved_quote_mint);
          associated_quote_user =
            fst (associated_token e user quote_token_program resolved_quote_mint);
          accounts =
            [(''user'', user),
             (''user_volume_accumulator'', user_volume_accumulator),
             (''quote_mint'', resolved_quote_mint),
             (''quote_token_program'', quote_token_program),
             (''associated_token_program'', SPL_ATA_PROGRAM_ID),
             (''associated_user_volume_accumulator'', associated_user_volume_accumulator),
             (''associated_quote_user'', associated_quote_user),
             (''system_program'', SYSTEM_PROGRAM_ID),
             (''event_authority'', fst (pump_event_authority e)),
             (''program'', PUMP_PROGRAM_ID)]
      in \<lparr>ix_program_id = PUMP_PROGRAM_ID,
          ix_accounts = account_metas e PumpClaimCashbackV2 accounts,
          ix_data = args_data e PumpClaimCashbackV2 []\<rparr>)"

definition collect_creator_fee_v2_instruction ::
  "'e sdk_env_scheme \<Rightarrow> pubkey \<Rightarrow> pubkey \<Rightarrow> pubkey \<Rightarrow> instruction" where
  "collect_creator_fee_v2_instruction e creator quote_mint quote_token_program =
     (let resolved_quote_mint = (if quote_mint = default_key then NATIVE_MINT else quote_mint);
          creator_vault = fst (pump_creator_vault e creator);
          creator_token_account =
            fst (associated_token e creator quote_token_program resolved_quote_mint);
          creator_vault_token_account =
            fst (associated_token e creator_vault quote_token_program resolved_quote_mint);
          accounts =
            [(''creator'', creator),
             (''creator_token_account'', creator_token_account),
             (''creator_vault'', creator_vault),
             (''creator_vault_token_account'', creator_vault_token_account),
             (''quote_mint'', resolved_quote_mint),
             (''quote_token_program'', quote_token_program),
             (''associated_token_program'', SPL_ATA_PROGRAM_ID),
             (''system_program'', SYSTEM_PROGRAM_ID),
             (''event_authority'', fst (pump_event_authority e)),
             (''program'', PUMP_PROGRAM_ID)]
      in \<lparr>ix_program_id = PUMP_PROGRAM_ID,
          ix_accounts = account_metas e PumpCollectCreatorFeeV2 accounts,
          ix_data = args_data e PumpCollectCreatorFeeV2 []\<rparr>)"

definition collect_creator_fee_v2_instructions ::
  "'e sdk_env_scheme \<Rightarrow> pubkey \<Rightarrow> pubkey \<Rightarrow> pubkey \<Rightarrow> pubkey \<Rightarrow> bool \<Rightarrow> instruction list" where
  "collect_creator_fee_v2_instructions e payer creator quote_mint quote_token_program
       create_creator_ata =
     (let resolved_quote_mint = (if quote_mint = default_key then NATIVE_MINT else quote_mint)
      in (if create_creator_ata
          then [create_ata_idempotent e payer creator resolved_quote_mint quote_token_program]
          else [])
         @ [collect_creator_fee_v2_instruction e creator resolved_quote_mint
              quote_token_program])"

definition distribute_creator_fees_v2_instruction ::
  "'e sdk_env_scheme \<Rightarrow> pubkey \<Rightarrow> pubkey \<Rightarrow> pubkey \<Rightarrow> pubkey \<Rightarrow> pubkey \<Rightarrow> bool \<Rightarrow> pubkey list \<Rightarrow>
     instruction"
where
  "distribute_creator_fees_v2_instruction e payer mint creator quote_mint quote_token_program
       initialize_ata shareholders =
     (let resolved_quote_mint = (if quote_mint = default_key then NATIVE_MINT else quote_mint);
          bonding_curve = fst (pump_bonding_curve e mint);
          sharing_config = fst (pump_sharing_config e mint);
          creator_vault = fst (pump_creator_vault e creator);
          creator_vault_quote_token_account =
            fst (associated_token e creator_vault quote_token_program resolved_quote_mint);
          accounts =
            [(''payer'', payer),
             (''mint'', mint),
             (''bonding_curve'', bonding_curve),
             (''sharing_config'', sharing_config),
             (''creator_vault'', creator_vault),
             (''system_program'', SYSTEM_PROGRAM_ID),
             (''event_authority'', fst (pump_event_authority e)),
             (''program'', PUMP_PROGRAM_ID),
             (''creator_vault_quote_token_account'', creator_vault_quote_token_account),
             (''quote_mint'', resolved_quote_mint),
             (''quote_token_program'', quote_token_program),
             (''associated_token_program'', SPL_ATA_PROGRAM_ID)];
          metas = account_metas e PumpDistributeCreatorFeesV2 accounts
      in \<lparr>ix_program_id = PUMP_PROGRAM_ID,
          ix_accounts = metas
            @ map (\<lambda>sh. new_meta sh False) shareholders
            @ (if resolved_quote_mint \<noteq> NATIVE_MINT
               then map (\<lambda>sh.
                      let sh_ata =
                            fst (associated_token e sh quote_token_program resolved_quote_mint)
                      in new_meta sh_ata False) shareholders
               else []),
          ix_data = args_data e PumpDistributeCreatorFeesV2
            [(''initialize_ata'', ArgBool initialize_ata)]\<rparr>)"

definition distribute_creator_fees_v2_instructions ::
  "'e sdk_env_scheme \<Rightarrow> pubkey \<Rightarrow> pubkey \<Rightarrow> pubkey \<Rightarrow> pubkey \<Rightarrow> pubkey \<Rightarrow> bool \<Rightarrow> bool \<Rightarrow>
     pubkey list \<Rightarrow> instruction list"
where
  "distribute_creator_fees_v2_instructions e payer mint creator quote_mint quote_token_program
       initialize_ata create_creator_vault_ata shareholders =
     (let resolved_quote_mint = (if quote_mint = default_key then NATIVE_MINT else quote_mint)
      in [sweep_creator_fee_instruction e payer mint creator resolved_quote_mint
            quote_token_program]
         @ (if create_creator_vault_ata
            then
              let creator_vault = fst (pump_creator_vault e creator)
              in [create_ata_idempotent e payer creator_vault resolved_quote_mint
                    quote_token_program]
            else [])
         @ map (\<lambda>sh. create_ata_idempotent e payer sh resolved_quote_mint quote_token_program)
             shareholders
         @ [distribute_creator_fees_v2_instruction e payer mint creator resolved_quote_mint
              quote_token_program initialize_ata shareholders])"

section \<open>A coin and its first buy\<close>

text \<open>The literal \<open>BondingCurve::new(BondingCurveFromIdl { .., ..Default::default() })\<close> both
  creation paths build for the buy.\<close>

definition bonding_curve_preview ::
  "pubkey \<Rightarrow> bool \<Rightarrow> bool \<Rightarrow> pubkey \<Rightarrow> u64 \<Rightarrow> bonding_curve" where
  "bonding_curve_preview creator cashback mayhem_mode quote_mint creator_bps =
     default_bonding_curve\<lparr>
       bc_creator := creator,
       bc_is_cashback_coin := cashback,
       bc_is_mayhem_mode := mayhem_mode,
       bc_quote_mint := resolve_quote_mint quote_mint,
       bc_creator_fee_bps := creator_bps\<rparr>"

definition create_v2_and_buy_instruction ::
  "'e sdk_env_scheme \<Rightarrow> (nat \<Rightarrow> nat) \<Rightarrow> (nat \<Rightarrow> nat) \<Rightarrow> pubkey \<Rightarrow> pubkey \<Rightarrow> string \<Rightarrow> string \<Rightarrow>
     string \<Rightarrow> pubkey \<Rightarrow> pubkey \<Rightarrow> pubkey \<Rightarrow> bool \<Rightarrow> bool \<Rightarrow> u64 \<Rightarrow> u16 option \<Rightarrow> global \<Rightarrow> u64 \<Rightarrow>
     u64 \<Rightarrow> instruction list option"
where
  "create_v2_and_buy_instruction e d1 d2 mint user nm symbol uri creator quote_mint
       quote_token_program mayhem_mode cashback creator_bps tokenized_agent_buyback_bps glob
       amount max_quote_tokens =
     (let preview = bonding_curve_preview creator cashback mayhem_mode quote_mint creator_bps
      in case buy_v2_instructions e d1 d2 glob preview mint quote_token_program user amount
                max_quote_tokens of
           None \<Rightarrow> None
         | Some buys \<Rightarrow>
             Some ([create_v2_instruction e mint user nm symbol uri creator quote_mint
                      quote_token_program mayhem_mode cashback creator_bps]
                   @ buys
                   @ (case tokenized_agent_buyback_bps of
                        None \<Rightarrow> []
                      | Some buyback_bps \<Rightarrow>
                          [agent_initialize_instruction e mint user creator buyback_bps])))"

record create_coin_params =
  cp_mint :: pubkey
  cp_user :: pubkey
  cp_creator :: pubkey
  cp_name :: string
  cp_symbol :: string
  cp_uri :: string
  cp_mayhem_mode :: bool
  cp_cashback :: bool
  cp_quote_mint :: pubkey
  cp_quote_token_program :: pubkey
  cp_creator_fee_bps :: u64
  cp_global :: global
  cp_token_amount :: u64
  cp_max_quote_tokens :: u64
  cp_tokenized_agent_buyback_bps :: "u16 option"

definition create_coin_instructions ::
  "'e sdk_env_scheme \<Rightarrow> (nat \<Rightarrow> nat) \<Rightarrow> (nat \<Rightarrow> nat) \<Rightarrow> create_coin_params \<Rightarrow>
     instruction list option"
where
  "create_coin_instructions e d1 d2 params =
     (let preview = bonding_curve_preview (cp_creator params) (cp_cashback params)
            (cp_mayhem_mode params) (cp_quote_mint params) (cp_creator_fee_bps params);
          ixs = [create_v2_instruction e (cp_mint params) (cp_user params) (cp_name params)
                   (cp_symbol params) (cp_uri params) (cp_creator params)
                   (cp_quote_mint params) (cp_quote_token_program params)
                   (cp_mayhem_mode params) (cp_cashback params) (cp_creator_fee_bps params)]
      in case buy_v2_instructions e d1 d2 (cp_global params) preview (cp_mint params)
                (cp_quote_token_program params) (cp_user params) (cp_token_amount params)
                (cp_max_quote_tokens params) of
           None \<Rightarrow> None
         | Some buys \<Rightarrow>
             Some (ixs @ buys
                   @ (case cp_tokenized_agent_buyback_bps params of
                        None \<Rightarrow> []
                      | Some buyback_bps \<Rightarrow>
                          [agent_initialize_instruction e (cp_mint params) (cp_user params)
                             (cp_creator params) buyback_bps])))"

end
