(* ===== verification/Pump_Legacy.thy ===== *)
theory Pump_Legacy
  imports Ix_Core
begin

text \<open>
  \<open>src/src/sdk/pump_legacy.rs\<close> (the deprecated \<open>create\<close>, \<open>buy\<close> and \<open>sell\<close>) and
  \<open>src/src/sdk/pump_fees_ix.rs\<close> (\<open>update_fee_shares\<close> and its v2).
\<close>

section \<open>pump_legacy.rs\<close>

definition create_instruction ::
  "'e sdk_env_scheme \<Rightarrow> pubkey \<Rightarrow> pubkey \<Rightarrow> string \<Rightarrow> string \<Rightarrow> string \<Rightarrow> pubkey \<Rightarrow> instruction" where
  "create_instruction e mint user nm symbol uri creator =
     (let token_program = SPL_TOKEN_PROGRAM_ID;
          bonding_curve = fst (pump_bonding_curve e mint);
          accounts =
            [(''mint'', mint),
             (''mint_authority'', fst (pump_mint_authority e)),
             (''bonding_curve'', bonding_curve),
             (''associated_bonding_curve'',
                fst (associated_token e bonding_curve token_program mint)),
             (''global'', fst (pump_global e)),
             (''mpl_token_metadata'', MPL_TOKEN_METADATA_PROGRAM_ID),
             (''metadata'', fst (pump_metadata e mint)),
             (''user'', user),
             (''system_program'', SYSTEM_PROGRAM_ID),
             (''token_program'', token_program),
             (''associated_token_program'', SPL_ATA_PROGRAM_ID),
             (''rent'', RENT_SYSVAR_ID),
             (''event_authority'', fst (pump_event_authority e)),
             (''program'', PUMP_PROGRAM_ID)];
          args =
            [(''name'', ArgString nm),
             (''symbol'', ArgString symbol),
             (''uri'', ArgString uri),
             (''creator'', ArgKey creator)]
      in \<lparr>ix_program_id = PUMP_PROGRAM_ID,
          ix_accounts = account_metas e PumpCreate accounts,
          ix_data = args_data e PumpCreate args\<rparr>)"

definition buy_instruction ::
  "'e sdk_env_scheme \<Rightarrow> pubkey \<Rightarrow> pubkey \<Rightarrow> pubkey \<Rightarrow> pubkey \<Rightarrow> pubkey \<Rightarrow> u64 \<Rightarrow> u64 \<Rightarrow> pubkey \<Rightarrow>
     instruction" where
  "buy_instruction e mint user creator fee_recipient buyback_fee_recipient amount max_sol_cost
       token_program =
     (let bonding_curve = fst (pump_bonding_curve e mint);
          accounts =
            [(''global'', fst (pump_global e)),
             (''fee_recipient'', fee_recipient),
             (''mint'', mint),
             (''bonding_curve'', bonding_curve),
             (''associated_bonding_curve'',
                fst (associated_token e bonding_curve token_program mint)),
             (''associated_user'', fst (associated_token e user token_program mint)),
             (''user'', user),
             (''system_program'', SYSTEM_PROGRAM_ID),
             (''token_program'', token_program),
             (''creator_vault'', fst (pump_creator_vault e creator)),
             (''event_authority'', fst (pump_event_authority e)),
             (''program'', PUMP_PROGRAM_ID),
             (''global_volume_accumulator'', fst (pump_global_volume_accumulator e)),
             (''user_volume_accumulator'', fst (pump_user_volume_accumulator e user)),
             (''fee_config'', fst (pump_fee_config e)),
             (''fee_program'', FEE_PROGRAM_ID)];
          args =
            [(''amount'', ArgU64 amount),
             (''max_sol_cost'', ArgU64 max_sol_cost),
             (''track_volume'', ArgOptionBool True),
             (''partial_fill'', ArgOptionBool True)];
          metas = account_metas e PumpBuy accounts
      in \<lparr>ix_program_id = PUMP_PROGRAM_ID,
          ix_accounts = metas
            @ [new_readonly (fst (pump_bonding_curve_v2 e mint)) False]
            @ [new_meta buyback_fee_recipient False],
          ix_data = args_data e PumpBuy args\<rparr>)"

definition sell_instruction ::
  "'e sdk_env_scheme \<Rightarrow> pubkey \<Rightarrow> pubkey \<Rightarrow> pubkey \<Rightarrow> pubkey \<Rightarrow> pubkey \<Rightarrow> u64 \<Rightarrow> u64 \<Rightarrow> pubkey \<Rightarrow>
     bool \<Rightarrow> instruction" where
  "sell_instruction e mint user creator fee_recipient buyback_fee_recipient amount
       min_sol_output token_program is_cashback_coin =
     (let bonding_curve = fst (pump_bonding_curve e mint);
          accounts =
            [(''global'', fst (pump_global e)),
             (''fee_recipient'', fee_recipient),
             (''mint'', mint),
             (''bonding_curve'', bonding_curve),
             (''associated_bonding_curve'',
                fst (associated_token e bonding_curve token_program mint)),
             (''associated_user'', fst (associated_token e user token_program mint)),
             (''user'', user),
             (''system_program'', SYSTEM_PROGRAM_ID),
             (''creator_vault'', fst (pump_creator_vault e creator)),
             (''token_program'', token_program),
             (''event_authority'', fst (pump_event_authority e)),
             (''program'', PUMP_PROGRAM_ID),
             (''fee_config'', fst (pump_fee_config e)),
             (''fee_program'', FEE_PROGRAM_ID)];
          args =
            [(''amount'', ArgU64 amount),
             (''min_sol_output'', ArgU64 min_sol_output)];
          metas = account_metas e PumpSell accounts
      in \<lparr>ix_program_id = PUMP_PROGRAM_ID,
          ix_accounts = metas
            @ (if is_cashback_coin
               then [new_meta (fst (pump_user_volume_accumulator e user)) False]
               else [])
            @ [new_readonly (fst (pump_bonding_curve_v2 e mint)) False]
            @ [new_meta buyback_fee_recipient False],
          ix_data = args_data e PumpSell args\<rparr>)"

section \<open>pump_fees_ix.rs\<close>

record fee_shares_keys =
  fk_sharing_config :: pubkey
  fk_pump_creator_vault :: pubkey
  fk_coin_creator_vault_authority :: pubkey

definition new_fee_shares_keys :: "'e pda_env_scheme \<Rightarrow> pubkey \<Rightarrow> fee_shares_keys" where
  "new_fee_shares_keys e mint =
     (let sharing_config = fst (pump_sharing_config e mint)
      in \<lparr>fk_sharing_config = sharing_config,
          fk_pump_creator_vault = fst (pump_creator_vault e sharing_config),
          fk_coin_creator_vault_authority =
            fst (coin_creator_vault_authority e sharing_config)\<rparr>)"

definition push_pool_if_complete ::
  "'e pda_env_scheme \<Rightarrow> account_meta list \<Rightarrow> pubkey \<Rightarrow> bonding_curve \<Rightarrow> account_meta list" where
  "push_pool_if_complete e metas mint bc =
     (if complete bc
      then
        let quote_mint = resolve_quote_mint (bc_quote_mint bc)
        in metas @ [new_readonly (fst (canonical_pool e mint quote_mint)) False]
      else metas)"

definition update_fee_shares_instruction ::
  "'e sdk_env_scheme \<Rightarrow> pubkey \<Rightarrow> pubkey \<Rightarrow> bonding_curve \<Rightarrow> pubkey list \<Rightarrow>
     (pubkey \<times> u16) list \<Rightarrow> instruction"
where
  "update_fee_shares_instruction e authority mint bc current_shareholders shareholders =
     (let keys = new_fee_shares_keys e mint;
          accounts =
            [(''event_authority'', fst (fees_event_authority e)),
             (''program'', FEE_PROGRAM_ID),
             (''authority'', authority),
             (''global'', fst (pump_global e)),
             (''mint'', mint),
             (''sharing_config'', fk_sharing_config keys),
             (''bonding_curve'', fst (pump_bonding_curve e mint)),
             (''pump_creator_vault'', fk_pump_creator_vault keys),
             (''system_program'', SYSTEM_PROGRAM_ID),
             (''pump_program'', PUMP_PROGRAM_ID),
             (''pump_event_authority'', fst (pump_event_authority e)),
             (''pump_amm_program'', PUMP_AMM_PROGRAM_ID),
             (''amm_event_authority'', fst (amm_event_authority e)),
             (''wsol_mint'', NATIVE_MINT),
             (''token_program'', SPL_TOKEN_PROGRAM_ID),
             (''associated_token_program'', SPL_ATA_PROGRAM_ID),
             (''coin_creator_vault_authority'', fk_coin_creator_vault_authority keys),
             (''coin_creator_vault_ata'',
                fst (associated_token e (fk_coin_creator_vault_authority keys)
                       SPL_TOKEN_PROGRAM_ID NATIVE_MINT))];
          metas = account_metas e FeesUpdateFeeShares accounts
            @ map (\<lambda>sh. new_meta sh False) current_shareholders
      in \<lparr>ix_program_id = FEE_PROGRAM_ID,
          ix_accounts = push_pool_if_complete e metas mint bc,
          ix_data = args_data e FeesUpdateFeeShares
            [(''shareholders'', ArgShareholders shareholders)]\<rparr>)"

definition update_fee_shares_v2_instruction ::
  "'e sdk_env_scheme \<Rightarrow> pubkey \<Rightarrow> pubkey \<Rightarrow> bonding_curve \<Rightarrow> pubkey \<Rightarrow> pubkey list \<Rightarrow>
     (pubkey \<times> u16) list \<Rightarrow> instruction"
where
  "update_fee_shares_v2_instruction e authority mint bc quote_token_program
       current_shareholders shareholders =
     (let keys = new_fee_shares_keys e mint;
          quote_mint = resolve_quote_mint (bc_quote_mint bc);
          ata = (\<lambda>owner. fst (associated_token e owner quote_token_program quote_mint));
          accounts =
            [(''event_authority'', fst (fees_event_authority e)),
             (''program'', FEE_PROGRAM_ID),
             (''authority'', authority),
             (''global'', fst (pump_global e)),
             (''mint'', mint),
             (''sharing_config'', fk_sharing_config keys),
             (''bonding_curve'', fst (pump_bonding_curve e mint)),
             (''pump_creator_vault'', fk_pump_creator_vault keys),
             (''pump_creator_vault_ata'', ata (fk_pump_creator_vault keys)),
             (''system_program'', SYSTEM_PROGRAM_ID),
             (''pump_program'', PUMP_PROGRAM_ID),
             (''pump_event_authority'', fst (pump_event_authority e)),
             (''pump_amm_program'', PUMP_AMM_PROGRAM_ID),
             (''amm_event_authority'', fst (amm_event_authority e)),
             (''quote_mint'', quote_mint),
             (''token_program'', quote_token_program),
             (''associated_token_program'', SPL_ATA_PROGRAM_ID),
             (''coin_creator_vault_authority'', fk_coin_creator_vault_authority keys),
             (''coin_creator_vault_ata'', ata (fk_coin_creator_vault_authority keys))];
          metas = account_metas e FeesUpdateFeeSharesV2 accounts
            @ map (\<lambda>sh. new_meta sh False) current_shareholders
            @ (if quote_mint \<noteq> NATIVE_MINT
               then map (\<lambda>sh. new_meta (ata sh) False) current_shareholders
               else [])
      in \<lparr>ix_program_id = FEE_PROGRAM_ID,
          ix_accounts = push_pool_if_complete e metas mint bc,
          ix_data = args_data e FeesUpdateFeeSharesV2
            [(''shareholders'', ArgShareholders shareholders)]\<rparr>)"

end
