(* ===== verification/Pump_Amm_Ix.thy ===== *)
theory Pump_Amm_Ix
  imports Ix_Core
begin

text \<open>
  The builders of \<open>src/src/sdk/pump_amm_ix.rs\<close>: the pump-amm trades with their
  remaining accounts, the v2 trades over one account set, creator fees, and the multi-hop swap
  over the route groups of \<open>Sdk_Quotes\<close>.
\<close>

section \<open>The accounts of an AMM trade\<close>

record amm_trade_accounts =
  aa_coin_creator_vault_authority :: pubkey
  aa_user_volume_accumulator :: pubkey
  aa_user_base_token_account :: pubkey
  aa_user_quote_token_account :: pubkey
  aa_pool_base_token_account :: pubkey
  aa_pool_quote_token_account :: pubkey
  aa_protocol_fee_recipient_token_account :: pubkey
  aa_coin_creator_vault_ata :: pubkey

definition derive_amm_trade_accounts ::
  "'e pda_env_scheme \<Rightarrow> pubkey \<Rightarrow> pubkey \<Rightarrow> pubkey \<Rightarrow> pubkey \<Rightarrow> pubkey \<Rightarrow> pubkey \<Rightarrow> pubkey \<Rightarrow>
     pubkey \<Rightarrow> amm_trade_accounts"
where
  "derive_amm_trade_accounts e pl base_mint quote_mint base_token_program quote_token_program
       user coin_creator protocol_fee_recipient =
     (let vault_authority = fst (coin_creator_vault_authority e coin_creator);
          user_volume_accumulator = fst (amm_user_volume_accumulator e user);
          ata = ata_of e
      in \<lparr>aa_coin_creator_vault_authority = vault_authority,
          aa_user_volume_accumulator = user_volume_accumulator,
          aa_user_base_token_account = ata user base_token_program base_mint,
          aa_user_quote_token_account = ata user quote_token_program quote_mint,
          aa_pool_base_token_account = ata pl base_token_program base_mint,
          aa_pool_quote_token_account = ata pl quote_token_program quote_mint,
          aa_protocol_fee_recipient_token_account =
            ata protocol_fee_recipient quote_token_program quote_mint,
          aa_coin_creator_vault_ata = ata vault_authority quote_token_program quote_mint\<rparr>)"

section \<open>Trades\<close>

definition buy_amm_instruction_with_recipients ::
  "'e sdk_env_scheme \<Rightarrow> pubkey \<Rightarrow> pubkey \<Rightarrow> pubkey \<Rightarrow> pubkey \<Rightarrow> pubkey \<Rightarrow> pubkey \<Rightarrow> pubkey \<Rightarrow>
     pubkey \<Rightarrow> pubkey \<Rightarrow> bool \<Rightarrow> u64 \<Rightarrow> u64 \<Rightarrow> instruction"
where
  "buy_amm_instruction_with_recipients e pl base_mint quote_mint base_token_program
       quote_token_program user coin_creator protocol_fee_recipient buyback_fee_recipient
       is_cashback_coin base_amount_out max_quote_amount_in =
     (let a = derive_amm_trade_accounts e pl base_mint quote_mint base_token_program
            quote_token_program user coin_creator protocol_fee_recipient;
          accounts =
            [(''pool'', pl),
             (''user'', user),
             (''global_config'', fst (amm_global_config e)),
             (''base_mint'', base_mint),
             (''quote_mint'', quote_mint),
             (''user_base_token_account'', aa_user_base_token_account a),
             (''user_quote_token_account'', aa_user_quote_token_account a),
             (''pool_base_token_account'', aa_pool_base_token_account a),
             (''pool_quote_token_account'', aa_pool_quote_token_account a),
             (''protocol_fee_recipient'', protocol_fee_recipient),
             (''protocol_fee_recipient_token_account'',
                aa_protocol_fee_recipient_token_account a),
             (''base_token_program'', base_token_program),
             (''quote_token_program'', quote_token_program),
             (''system_program'', SYSTEM_PROGRAM_ID),
             (''associated_token_program'', SPL_ATA_PROGRAM_ID),
             (''event_authority'', fst (amm_event_authority e)),
             (''program'', PUMP_AMM_PROGRAM_ID),
             (''coin_creator_vault_ata'', aa_coin_creator_vault_ata a),
             (''coin_creator_vault_authority'', aa_coin_creator_vault_authority a),
             (''global_volume_accumulator'', fst (amm_global_volume_accumulator e)),
             (''user_volume_accumulator'', aa_user_volume_accumulator a),
             (''fee_config'', fst (amm_fee_config e)),
             (''fee_program'', FEE_PROGRAM_ID)];
          args =
            [(''base_amount_out'', ArgU64 base_amount_out),
             (''max_quote_amount_in'', ArgU64 max_quote_amount_in),
             (''track_volume'', ArgOptionBool True)];
          metas = account_metas e AmmBuy accounts
      in \<lparr>ix_program_id = PUMP_AMM_PROGRAM_ID,
          ix_accounts = metas
            @ (if is_cashback_coin
               then [new_meta (fst (associated_token e (aa_user_volume_accumulator a)
                       quote_token_program quote_mint)) False]
               else [])
            @ (if coin_creator \<noteq> default_key
               then [new_readonly (fst (amm_pool_v2 e base_mint)) False]
               else [])
            @ [new_meta buyback_fee_recipient False]
            @ [new_meta (fst (associated_token e buyback_fee_recipient quote_token_program
                 quote_mint)) False],
          ix_data = args_data e AmmBuy args\<rparr>)"

definition buy_amm_instruction ::
  "'e sdk_env_scheme \<Rightarrow> (nat \<Rightarrow> nat) \<Rightarrow> (nat \<Rightarrow> nat) \<Rightarrow> pubkey \<Rightarrow> global_config \<Rightarrow> pool \<Rightarrow> pubkey \<Rightarrow>
     pubkey \<Rightarrow> pubkey \<Rightarrow> u64 \<Rightarrow> u64 \<Rightarrow> instruction option"
where
  "buy_amm_instruction e d1 d2 pl amm_global pool_state base_token_program quote_token_program
       user base_amount_out max_quote_amount_in =
     (case amm_fee_recipients_pair d1 d2 amm_global of
        None \<Rightarrow> None
      | Some (protocol_fee_recipient, buyback_fee_recipient) \<Rightarrow>
          Some (buy_amm_instruction_with_recipients e pl (p_base_mint pool_state)
            (p_quote_mint pool_state) base_token_program quote_token_program user
            (p_coin_creator pool_state) protocol_fee_recipient buyback_fee_recipient
            (p_is_cashback_coin pool_state) base_amount_out max_quote_amount_in))"

definition buy_amm_instructions ::
  "'e sdk_env_scheme \<Rightarrow> (nat \<Rightarrow> nat) \<Rightarrow> (nat \<Rightarrow> nat) \<Rightarrow> pubkey \<Rightarrow> global_config \<Rightarrow> pool \<Rightarrow> pubkey \<Rightarrow>
     pubkey \<Rightarrow> pubkey \<Rightarrow> u64 \<Rightarrow> u64 \<Rightarrow> instruction list option"
where
  "buy_amm_instructions e d1 d2 pl amm_global pool_state base_token_program quote_token_program
       user base_amount_out max_quote_amount_in =
     (case buy_amm_instruction e d1 d2 pl amm_global pool_state base_token_program
             quote_token_program user base_amount_out max_quote_amount_in of
        None \<Rightarrow> None
      | Some buy \<Rightarrow>
          Some [create_ata_idempotent e user user (p_base_mint pool_state) base_token_program,
                buy])"

definition sell_amm_instruction_with_recipients ::
  "'e sdk_env_scheme \<Rightarrow> pubkey \<Rightarrow> pubkey \<Rightarrow> pubkey \<Rightarrow> pubkey \<Rightarrow> pubkey \<Rightarrow> pubkey \<Rightarrow> pubkey \<Rightarrow>
     pubkey \<Rightarrow> pubkey \<Rightarrow> bool \<Rightarrow> u64 \<Rightarrow> u64 \<Rightarrow> instruction"
where
  "sell_amm_instruction_with_recipients e pl base_mint quote_mint base_token_program
       quote_token_program user coin_creator protocol_fee_recipient buyback_fee_recipient
       is_cashback_coin base_amount_in min_quote_amount_out =
     (let a = derive_amm_trade_accounts e pl base_mint quote_mint base_token_program
            quote_token_program user coin_creator protocol_fee_recipient;
          accounts =
            [(''pool'', pl),
             (''user'', user),
             (''global_config'', fst (amm_global_config e)),
             (''base_mint'', base_mint),
             (''quote_mint'', quote_mint),
             (''user_base_token_account'', aa_user_base_token_account a),
             (''user_quote_token_account'', aa_user_quote_token_account a),
             (''pool_base_token_account'', aa_pool_base_token_account a),
             (''pool_quote_token_account'', aa_pool_quote_token_account a),
             (''protocol_fee_recipient'', protocol_fee_recipient),
             (''protocol_fee_recipient_token_account'',
                aa_protocol_fee_recipient_token_account a),
             (''base_token_program'', base_token_program),
             (''quote_token_program'', quote_token_program),
             (''system_program'', SYSTEM_PROGRAM_ID),
             (''associated_token_program'', SPL_ATA_PROGRAM_ID),
             (''event_authority'', fst (amm_event_authority e)),
             (''program'', PUMP_AMM_PROGRAM_ID),
             (''coin_creator_vault_ata'', aa_coin_creator_vault_ata a),
             (''coin_creator_vault_authority'', aa_coin_creator_vault_authority a),
             (''fee_config'', fst (amm_fee_config e)),
             (''fee_program'', FEE_PROGRAM_ID)];
          args =
            [(''base_amount_in'', ArgU64 base_amount_in),
             (''min_quote_amount_out'', ArgU64 min_quote_amount_out)];
          metas = account_metas e AmmSell accounts
      in \<lparr>ix_program_id = PUMP_AMM_PROGRAM_ID,
          ix_accounts = metas
            @ (if is_cashback_coin
               then [new_meta (fst (associated_token e (aa_user_volume_accumulator a)
                       quote_token_program quote_mint)) False,
                     new_meta (aa_user_volume_accumulator a) False]
               else [])
            @ (if coin_creator \<noteq> default_key
               then [new_readonly (fst (amm_pool_v2 e base_mint)) False]
               else [])
            @ [new_readonly buyback_fee_recipient False]
            @ [new_meta (fst (associated_token e buyback_fee_recipient quote_token_program
                 quote_mint)) False],
          ix_data = args_data e AmmSell args\<rparr>)"

definition sell_amm_instruction ::
  "'e sdk_env_scheme \<Rightarrow> (nat \<Rightarrow> nat) \<Rightarrow> (nat \<Rightarrow> nat) \<Rightarrow> pubkey \<Rightarrow> global_config \<Rightarrow> pool \<Rightarrow> pubkey \<Rightarrow>
     pubkey \<Rightarrow> pubkey \<Rightarrow> u64 \<Rightarrow> u64 \<Rightarrow> instruction option"
where
  "sell_amm_instruction e d1 d2 pl amm_global pool_state base_token_program quote_token_program
       user base_amount_in min_quote_amount_out =
     (case amm_fee_recipients_pair d1 d2 amm_global of
        None \<Rightarrow> None
      | Some (protocol_fee_recipient, buyback_fee_recipient) \<Rightarrow>
          Some (sell_amm_instruction_with_recipients e pl (p_base_mint pool_state)
            (p_quote_mint pool_state) base_token_program quote_token_program user
            (p_coin_creator pool_state) protocol_fee_recipient buyback_fee_recipient
            (p_is_cashback_coin pool_state) base_amount_in min_quote_amount_out))"

definition sell_amm_instructions ::
  "'e sdk_env_scheme \<Rightarrow> (nat \<Rightarrow> nat) \<Rightarrow> (nat \<Rightarrow> nat) \<Rightarrow> pubkey \<Rightarrow> global_config \<Rightarrow> pool \<Rightarrow> pubkey \<Rightarrow>
     pubkey \<Rightarrow> pubkey \<Rightarrow> u64 \<Rightarrow> u64 \<Rightarrow> instruction list option"
where
  "sell_amm_instructions e d1 d2 pl amm_global pool_state base_token_program quote_token_program
       user base_amount_in min_quote_amount_out =
     (case sell_amm_instruction e d1 d2 pl amm_global pool_state base_token_program
             quote_token_program user base_amount_in min_quote_amount_out of
        None \<Rightarrow> None
      | Some sell \<Rightarrow>
          Some [create_ata_idempotent e user user (p_quote_mint pool_state) quote_token_program,
                sell])"

section \<open>Creator fees\<close>

definition collect_coin_creator_fee_instruction ::
  "'e sdk_env_scheme \<Rightarrow> pubkey \<Rightarrow> pubkey \<Rightarrow> pubkey \<Rightarrow> instruction" where
  "collect_coin_creator_fee_instruction e coin_creator quote_mint quote_token_program =
     (let vault_authority = fst (coin_creator_vault_authority e coin_creator);
          coin_creator_vault_ata =
            fst (associated_token e vault_authority quote_token_program quote_mint);
          coin_creator_token_account =
            fst (associated_token e coin_creator quote_token_program quote_mint);
          accounts =
            [(''quote_mint'', quote_mint),
             (''quote_token_program'', quote_token_program),
             (''coin_creator'', coin_creator),
             (''coin_creator_vault_authority'', vault_authority),
             (''coin_creator_vault_ata'', coin_creator_vault_ata),
             (''coin_creator_token_account'', coin_creator_token_account),
             (''event_authority'', fst (amm_event_authority e)),
             (''program'', PUMP_AMM_PROGRAM_ID)]
      in \<lparr>ix_program_id = PUMP_AMM_PROGRAM_ID,
          ix_accounts = account_metas e AmmCollectCoinCreatorFee accounts,
          ix_data = args_data e AmmCollectCoinCreatorFee []\<rparr>)"

definition collect_coin_creator_fee_instructions ::
  "'e sdk_env_scheme \<Rightarrow> pubkey \<Rightarrow> pubkey \<Rightarrow> pubkey \<Rightarrow> pubkey \<Rightarrow> bool \<Rightarrow> instruction list" where
  "collect_coin_creator_fee_instructions e payer coin_creator quote_mint quote_token_program
       create_coin_creator_ata =
     (if create_coin_creator_ata
      then [create_ata_idempotent e payer coin_creator quote_mint quote_token_program]
      else [])
     @ [collect_coin_creator_fee_instruction e coin_creator quote_mint quote_token_program]"

definition sweep_pool_creator_fee_instruction ::
  "'e sdk_env_scheme \<Rightarrow> pubkey \<Rightarrow> pool \<Rightarrow> pubkey \<Rightarrow> instruction" where
  "sweep_pool_creator_fee_instruction e payer pool_state quote_token_program =
     (let pl = pool_address e pool_state;
          recipient = fst (coin_creator_vault_authority e (p_coin_creator pool_state));
          accounts =
            [(''payer'', payer),
             (''global_config'', fst (amm_global_config e)),
             (''pool'', pl),
             (''quote_mint'', p_quote_mint pool_state),
             (''quote_token_program'', quote_token_program),
             (''pool_quote_token_account'', p_pool_quote_token_account pool_state),
             (''recipient'', recipient),
             (''recipient_token_account'',
                fst (associated_token e recipient quote_token_program
                       (p_quote_mint pool_state))),
             (''system_program'', SYSTEM_PROGRAM_ID),
             (''associated_token_program'', SPL_ATA_PROGRAM_ID),
             (''event_authority'', fst (amm_event_authority e)),
             (''program'', PUMP_AMM_PROGRAM_ID)]
      in \<lparr>ix_program_id = PUMP_AMM_PROGRAM_ID,
          ix_accounts = account_metas e AmmSweepCreatorFee accounts,
          ix_data = args_data e AmmSweepCreatorFee []\<rparr>)"

definition transfer_creator_fees_to_pump_v2_instruction ::
  "'e sdk_env_scheme \<Rightarrow> pubkey \<Rightarrow> pubkey \<Rightarrow> pubkey \<Rightarrow> pubkey \<Rightarrow> instruction" where
  "transfer_creator_fees_to_pump_v2_instruction e payer coin_creator quote_mint token_program =
     (let vault_authority = fst (coin_creator_vault_authority e coin_creator);
          coin_creator_vault_ata =
            fst (associated_token e vault_authority token_program quote_mint);
          creator_vault = fst (pump_creator_vault e coin_creator);
          creator_vault_ata =
            fst (associated_token e creator_vault token_program quote_mint);
          accounts =
            [(''payer'', payer),
             (''quote_mint'', quote_mint),
             (''token_program'', token_program),
             (''system_program'', SYSTEM_PROGRAM_ID),
             (''associated_token_program'', SPL_ATA_PROGRAM_ID),
             (''coin_creator'', coin_creator),
             (''coin_creator_vault_authority'', vault_authority),
             (''coin_creator_vault_ata'', coin_creator_vault_ata),
             (''pump_creator_vault'', creator_vault),
             (''pump_creator_vault_ata'', creator_vault_ata),
             (''event_authority'', fst (amm_event_authority e)),
             (''program'', PUMP_AMM_PROGRAM_ID)]
      in \<lparr>ix_program_id = PUMP_AMM_PROGRAM_ID,
          ix_accounts = account_metas e AmmTransferCreatorFeesToPumpV2 accounts,
          ix_data = args_data e AmmTransferCreatorFeesToPumpV2 []\<rparr>)"

section \<open>v2 trades\<close>

definition amm_v2_instruction ::
  "'e sdk_env_scheme \<Rightarrow> pool \<Rightarrow> pubkey \<Rightarrow> pubkey \<Rightarrow> pubkey \<Rightarrow> pubkey \<Rightarrow> byte list \<Rightarrow> instruction"
where
  "amm_v2_instruction e pool_state base_token_program quote_token_program user
       buyback_fee_recipient data =
     (let ata = ata_of e;
          accounts =
            [(''pool'', pool_address e pool_state),
             (''user'', user),
             (''global_config'', fst (amm_global_config e)),
             (''base_mint'', p_base_mint pool_state),
             (''quote_mint'', p_quote_mint pool_state),
             (''user_base_token_account'',
                ata user base_token_program (p_base_mint pool_state)),
             (''user_quote_token_account'',
                ata user quote_token_program (p_quote_mint pool_state)),
             (''pool_base_token_account'', p_pool_base_token_account pool_state),
             (''pool_quote_token_account'', p_pool_quote_token_account pool_state),
             (''base_token_program'', base_token_program),
             (''quote_token_program'', quote_token_program),
             (''system_program'', SYSTEM_PROGRAM_ID),
             (''user_volume_accumulator'', fst (amm_user_volume_accumulator e user)),
             (''fee_config'', fst (amm_fee_config e)),
             (''buyback_fee_recipient'',
                ata buyback_fee_recipient quote_token_program (p_quote_mint pool_state)),
             (''event_authority'', fst (amm_event_authority e)),
             (''program'', PUMP_AMM_PROGRAM_ID)]
      in \<lparr>ix_program_id = PUMP_AMM_PROGRAM_ID,
          ix_accounts = account_metas e AmmBuyV2 accounts,
          ix_data = data\<rparr>)"

definition buy_amm_v2_instruction ::
  "'e sdk_env_scheme \<Rightarrow> pool \<Rightarrow> pubkey \<Rightarrow> pubkey \<Rightarrow> pubkey \<Rightarrow> pubkey \<Rightarrow> u64 \<Rightarrow> u64 \<Rightarrow> instruction"
where
  "buy_amm_v2_instruction e pool_state base_token_program quote_token_program user
       buyback_fee_recipient base_amount_out max_quote_amount_in =
     amm_v2_instruction e pool_state base_token_program quote_token_program user
       buyback_fee_recipient
       (args_data e AmmBuyV2
          [(''base_amount_out'', ArgU64 base_amount_out),
           (''max_quote_amount_in'', ArgU64 max_quote_amount_in)])"

definition buy_exact_quote_in_amm_v2_instruction ::
  "'e sdk_env_scheme \<Rightarrow> pool \<Rightarrow> pubkey \<Rightarrow> pubkey \<Rightarrow> pubkey \<Rightarrow> pubkey \<Rightarrow> u64 \<Rightarrow> u64 \<Rightarrow> instruction"
where
  "buy_exact_quote_in_amm_v2_instruction e pool_state base_token_program quote_token_program
       user buyback_fee_recipient spendable_quote_in min_base_amount_out =
     amm_v2_instruction e pool_state base_token_program quote_token_program user
       buyback_fee_recipient
       (args_data e AmmBuyExactQuoteInV2
          [(''spendable_quote_in'', ArgU64 spendable_quote_in),
           (''min_base_amount_out'', ArgU64 min_base_amount_out)])"

definition sell_amm_v2_instruction ::
  "'e sdk_env_scheme \<Rightarrow> pool \<Rightarrow> pubkey \<Rightarrow> pubkey \<Rightarrow> pubkey \<Rightarrow> pubkey \<Rightarrow> u64 \<Rightarrow> u64 \<Rightarrow> instruction"
where
  "sell_amm_v2_instruction e pool_state base_token_program quote_token_program user
       buyback_fee_recipient base_amount_in min_quote_amount_out =
     amm_v2_instruction e pool_state base_token_program quote_token_program user
       buyback_fee_recipient
       (args_data e AmmSellV2
          [(''base_amount_in'', ArgU64 base_amount_in),
           (''min_quote_amount_out'', ArgU64 min_quote_amount_out)])"

definition buy_amm_v2_instructions ::
  "'e sdk_env_scheme \<Rightarrow> pool \<Rightarrow> pubkey \<Rightarrow> pubkey \<Rightarrow> pubkey \<Rightarrow> pubkey \<Rightarrow> u64 \<Rightarrow> u64 \<Rightarrow>
     instruction list"
where
  "buy_amm_v2_instructions e pool_state base_token_program quote_token_program user
       buyback_fee_recipient base_amount_out max_quote_amount_in =
     [create_ata_idempotent e user user (p_base_mint pool_state) base_token_program,
      buy_amm_v2_instruction e pool_state base_token_program quote_token_program user
        buyback_fee_recipient base_amount_out max_quote_amount_in]"

definition sell_amm_v2_instructions ::
  "'e sdk_env_scheme \<Rightarrow> pool \<Rightarrow> pubkey \<Rightarrow> pubkey \<Rightarrow> pubkey \<Rightarrow> pubkey \<Rightarrow> u64 \<Rightarrow> u64 \<Rightarrow>
     instruction list"
where
  "sell_amm_v2_instructions e pool_state base_token_program quote_token_program user
       buyback_fee_recipient base_amount_in min_quote_amount_out =
     [create_ata_idempotent e user user (p_quote_mint pool_state) quote_token_program,
      sell_amm_v2_instruction e pool_state base_token_program quote_token_program user
        buyback_fee_recipient base_amount_in min_quote_amount_out]"

section \<open>The multi-hop swap\<close>

definition hop_metas :: "multi_hop_hop \<Rightarrow> account_meta list" where
  "hop_metas hop =
     [new_readonly (mh_base_mint hop) False,
      new_readonly (mh_quote_mint hop) False,
      new_meta (mh_venue hop) False,
      new_meta (mh_base_vault hop) False,
      new_meta (mh_quote_vault hop) False]"

definition multi_hop_swap_instruction ::
  "'e sdk_env_scheme \<Rightarrow> pubkey \<Rightarrow> pubkey \<Rightarrow> pubkey \<Rightarrow> pubkey \<Rightarrow> multi_hop_hop list \<Rightarrow> pubkey \<Rightarrow>
     u64 \<Rightarrow> u64 \<Rightarrow> instruction quote_result"
where
  "multi_hop_swap_instruction e user in_mint in_token_program out_token_program hops
       buyback_fee_recipient amount_in min_amount_out =
     (if amount_in = 0 \<or> min_amount_out = 0 then Err ZeroAmount
      else and_then (multi_hop_route in_mint hops) (\<lambda>(is_buy, out_mint).
        let (fee_mint, fee_token_program) =
              (if is_buy then (in_mint, in_token_program) else (out_mint, out_token_program));
            ata = ata_of e;
            metas = account_metas e AmmMultiHopSwap
              [(''user'', user),
               (''user_in_token_account'', ata user in_token_program in_mint),
               (''user_out_token_account'', ata user out_token_program out_mint),
               (''global_config'', fst (amm_global_config e)),
               (''fee_config'', fst (amm_fee_config e)),
               (''user_volume_accumulator'', fst (amm_user_volume_accumulator e user)),
               (''buyback_fee_recipient'',
                  ata buyback_fee_recipient fee_token_program fee_mint),
               (''token_program'', SPL_TOKEN_PROGRAM_ID),
               (''token_2022_program'', SPL_TOKEN_2022_PROGRAM_ID),
               (''system_program'', SYSTEM_PROGRAM_ID),
               (''event_authority'', fst (amm_event_authority e)),
               (''program'', PUMP_AMM_PROGRAM_ID),
               (''pump_program'', PUMP_PROGRAM_ID),
               (''pump_global'', fst (pump_global e)),
               (''pump_fee_config'', fst (pump_fee_config e)),
               (''pump_event_authority'', fst (pump_event_authority e))]
        in Ok \<lparr>ix_program_id = PUMP_AMM_PROGRAM_ID,
               ix_accounts = metas @ concat (map hop_metas hops),
               ix_data = args_data e AmmMultiHopSwap
                 [(''amount_in'', ArgU64 amount_in),
                  (''min_amount_out'', ArgU64 min_amount_out)]\<rparr>))"

text \<open>\<open>hops[0]\<close> is indexed only behind the two conditions before it; on an empty list it
  would be the \<open>panic\<close> branch.\<close>

definition multi_hop_swap_instructions ::
  "'e sdk_env_scheme \<Rightarrow> pubkey \<Rightarrow> pubkey \<Rightarrow> pubkey \<Rightarrow> pubkey \<Rightarrow> multi_hop_hop list \<Rightarrow> pubkey \<Rightarrow>
     u64 \<Rightarrow> u64 \<Rightarrow> instruction list quote_result"
where
  "multi_hop_swap_instructions e user in_mint in_token_program out_token_program hops
       buyback_fee_recipient amount_in min_amount_out =
     and_then (multi_hop_swap_instruction e user in_mint in_token_program out_token_program hops
         buyback_fee_recipient amount_in min_amount_out) (\<lambda>swap_ix.
     and_then (multi_hop_route in_mint hops) (\<lambda>(is_buy, out_mint).
       let (fee_mint, fee_token_program) =
             (if is_buy then (in_mint, in_token_program) else (out_mint, out_token_program))
       in and_then
            (if is_buy \<and> in_mint = NATIVE_MINT
             then (case hops of
                     [] \<Rightarrow> panic
                   | hop # _ \<Rightarrow> Ok (mh_venue hop = fst (pump_bonding_curve e (mh_base_mint hop))))
             else Ok False)
            (\<lambda>starts_on_sol_curve.
              Ok ([create_ata_idempotent e user buyback_fee_recipient fee_mint fee_token_program]
                @ (if starts_on_sol_curve
                   then [create_ata_idempotent e user user in_mint in_token_program]
                   else [])
                @ [create_ata_idempotent e user user out_mint out_token_program]
                @ [swap_ix]))))"

end
