(* ===== verification/Trade_Tx.thy ===== *)
theory Trade_Tx
  imports Pump_V2 Pump_Amm_Ix
begin

text \<open>
  \<open>src/src/sdk/trade_tx.rs\<close>: the full transaction of a buy or a sell on a known venue, and
  the one routed by \<open>BondingCurve.complete\<close>. The parameter structs are those of
  \<open>src/src/sdk/mod.rs\<close>. \<open>debug_assert_eq!\<close> compiles to nothing in a release build.
\<close>

datatype trade_venue =
    BondingCurveVenue global bonding_curve
  | AmmVenue pubkey global_config pool

record trade_tx_with_venue_params =
  tv_mint :: pubkey
  tv_base_token_program :: pubkey
  tv_quote_token_program :: pubkey
  tv_user :: pubkey
  tv_is_buy :: bool
  tv_venue :: trade_venue
  tv_base_amount :: u64
  tv_sol_amount_threshold :: u64

record pump_pool_ctx =
  pc_pool :: pubkey
  pc_amm_global :: global_config
  pc_pool_state :: pool

record trade_tx_params =
  tt_mint :: pubkey
  tt_base_token_program :: pubkey
  tt_quote_token_program :: pubkey
  tt_user :: pubkey
  tt_is_buy :: bool
  tt_base_amount :: u64
  tt_sol_amount_threshold :: u64
  tt_pump_global :: global
  tt_bonding_curve :: bonding_curve
  tt_pump_pool :: "pump_pool_ctx option"

text \<open>The result is \<open>Option<Vec<Instruction>>\<close>, under the panics of the wrap helpers.\<close>

definition trade_tx_instructions_with_venue ::
  "'e sdk_env_scheme \<Rightarrow> (nat \<Rightarrow> nat) \<Rightarrow> (nat \<Rightarrow> nat) \<Rightarrow> trade_tx_with_venue_params \<Rightarrow>
     instruction list option or_panic"
where
  "trade_tx_instructions_with_venue e d1 d2 params =
     (let mint = tv_mint params;
          base_token_program = tv_base_token_program params;
          quote_token_program = tv_quote_token_program params;
          user = tv_user params;
          is_buy = tv_is_buy params;
          base_amount = tv_base_amount params;
          sol_amount_threshold = tv_sol_amount_threshold params
      in case tv_venue params of
           BondingCurveVenue glob bc \<Rightarrow>
             if is_buy
             then Ok (buy_v2_instructions e d1 d2 glob bc mint quote_token_program user
                        base_amount sol_amount_threshold)
             else Ok (sell_v2_instructions e d1 d2 glob bc mint quote_token_program user
                        base_amount sol_amount_threshold)
         | AmmVenue pl amm_global pool_state \<Rightarrow>
             let base_mint = p_base_mint pool_state;
                 quote_mint = p_quote_mint pool_state
             in case amm_fee_recipients_pair d1 d2 amm_global of
                  None \<Rightarrow> Ok None
                | Some (protocol_fee_recipient, buyback_fee_recipient) \<Rightarrow>
                    let coin_creator = p_coin_creator pool_state;
                        is_cashback_coin = p_is_cashback_coin pool_state;
                        uses_native_quote = (quote_mint = NATIVE_MINT)
                    in and_then
                         (if is_buy
                          then
                            and_then (if uses_native_quote
                                      then wrap_sol_instructions e user sol_amount_threshold
                                      else Ok []) (\<lambda>wraps.
                            Ok ([create_ata_idempotent e user user base_mint base_token_program,
                                 create_ata_idempotent e user user quote_mint
                                   quote_token_program]
                              @ wraps
                              @ [buy_amm_instruction_with_recipients e pl base_mint quote_mint
                                   base_token_program quote_token_program user coin_creator
                                   protocol_fee_recipient buyback_fee_recipient
                                   is_cashback_coin base_amount sol_amount_threshold]))
                          else
                            Ok [create_ata_idempotent e user user quote_mint quote_token_program,
                                sell_amm_instruction_with_recipients e pl base_mint quote_mint
                                  base_token_program quote_token_program user coin_creator
                                  protocol_fee_recipient buyback_fee_recipient
                                  is_cashback_coin base_amount sol_amount_threshold])
                         (\<lambda>ixs.
                           and_then (if uses_native_quote
                                     then map_res (\<lambda>ix. [ix]) (unwrap_sol_instruction e user)
                                     else Ok []) (\<lambda>unwraps.
                           Ok (Some (ixs @ unwraps)))))"

definition trade_tx_instructions ::
  "'e sdk_env_scheme \<Rightarrow> (nat \<Rightarrow> nat) \<Rightarrow> (nat \<Rightarrow> nat) \<Rightarrow> trade_tx_params \<Rightarrow>
     instruction list option or_panic"
where
  "trade_tx_instructions e d1 d2 params =
     (let venue =
            (if complete (tt_bonding_curve params)
             then map_option (\<lambda>p. AmmVenue (pc_pool p) (pc_amm_global p) (pc_pool_state p))
                    (tt_pump_pool params)
             else Some (BondingCurveVenue (tt_pump_global params) (tt_bonding_curve params)))
      in case venue of
           None \<Rightarrow> Ok None
         | Some venue \<Rightarrow>
             trade_tx_instructions_with_venue e d1 d2
               \<lparr>tv_mint = tt_mint params,
                tv_base_token_program = tt_base_token_program params,
                tv_quote_token_program = tt_quote_token_program params,
                tv_user = tt_user params,
                tv_is_buy = tt_is_buy params,
                tv_venue = venue,
                tv_base_amount = tt_base_amount params,
                tv_sol_amount_threshold = tt_sol_amount_threshold params\<rparr>)"

end
