(* ===== verification/Ix_Facts.thy ===== *)
theory Ix_Facts
  imports Byte_Facts Pump_V2_Coin Pump_Legacy Trade_Tx
begin

text \<open>
  Lemmas the instruction properties share: account lists under the IDL contract (which slots
  sign, which keys a layout asks for), little-endian integers read back, and the shapes of the
  preludes.
\<close>

section \<open>Account lists\<close>

definition signing_slots :: "account_slot list \<Rightarrow> account_slot list" where
  "signing_slots = filter (\<lambda>(_, _, s). s)"

lemma filter_signers:
  "filter meta_is_signer (metas_of_layout slots fs) = metas_of_layout (signing_slots slots) fs"
  by (induction slots) (auto simp: signing_slots_def)

lemma metas_of_layout_append [simp]:
  "metas_of_layout (xs @ ys) fs = metas_of_layout xs fs @ metas_of_layout ys fs"
  by (simp add: metas_of_layout_def)

lemma metas_of_layout_cong:
  assumes "\<And>n w s. (n, w, s) \<in> set slots \<Longrightarrow> field_key fs n = field_key gs n"
  shows "metas_of_layout slots fs = metas_of_layout slots gs"
  using assms by (auto simp: metas_of_layout_def)

text \<open>The one signer of the trades.\<close>

lemma trade_signers:
  "signing_slots (idl_accounts PumpBuyV2) = [mut_signer ''user'']"
  "signing_slots (idl_accounts PumpBuyExactQuoteInV2) = [mut_signer ''user'']"
  "signing_slots (idl_accounts PumpSellV2) = [mut_signer ''user'']"
  "signing_slots (idl_accounts PumpBuyV3) = [mut_signer ''user'']"
  "signing_slots (idl_accounts AmmBuy) = [mut_signer ''user'']"
  "signing_slots (idl_accounts AmmSell) = [mut_signer ''user'']"
  "signing_slots (idl_accounts AmmBuyV2) = [mut_signer ''user'']"
  "signing_slots (idl_accounts AmmMultiHopSwap) = [mut_signer ''user'']"
  "signing_slots (idl_accounts PumpBuy) = [mut_signer ''user'']"
  "signing_slots (idl_accounts PumpSell) = [mut_signer ''user'']"
  by (simp_all add: signing_slots_def layout_defs)

lemma v3_layouts:
  "idl_accounts PumpBuyExactQuoteInV3 = idl_accounts PumpBuyV3"
  "idl_accounts PumpSellV3 = idl_accounts PumpBuyV3"
  "idl_accounts AmmBuyExactQuoteInV2 = idl_accounts AmmBuyV2"
  "idl_accounts AmmSellV2 = idl_accounts AmmBuyV2"
  "idl_accounts PumpBuyExactQuoteInV2 = idl_accounts PumpBuyV2"
  by (simp_all add: layout_defs)

lemma sell_v2_layout:
  "idl_accounts PumpSellV2 = take 19 (idl_accounts PumpBuyV2) @ drop 20 (idl_accounts PumpBuyV2)"
  by (simp add: layout_defs)

text \<open>A literal that lists its fields in the order of the layout gives the metas
  positionally.\<close>

definition slot_meta :: "account_slot \<Rightarrow> pubkey \<Rightarrow> account_meta" where
  "slot_meta slot k = \<lparr>meta_key = k, meta_is_signer = snd (snd slot),
     meta_is_writable = fst (snd slot)\<rparr>"

lemma field_key_nth:
  assumes "distinct (map fst fs)" and "i < length fs"
  shows "field_key fs (fst (fs ! i)) = snd (fs ! i)"
proof -
  have "(fst (fs ! i), snd (fs ! i)) \<in> set fs" using assms(2) by simp
  then have "map_of fs (fst (fs ! i)) = Some (snd (fs ! i))"
    using assms(1) by (simp add: map_of_is_SomeI)
  then show ?thesis by (simp add: field_key_def)
qed

lemma metas_positional:
  assumes d: "distinct (map fst slots)" and n: "map fst fs = map fst slots"
  shows "metas_of_layout slots fs = map2 slot_meta slots (map snd fs)"
proof (rule nth_equalityI)
  show "length (metas_of_layout slots fs) = length (map2 slot_meta slots (map snd fs))"
    using arg_cong [OF n, of length] by simp
next
  fix i assume "i < length (metas_of_layout slots fs)"
  then have i: "i < length slots" "i < length fs" using arg_cong [OF n, of length] by simp_all
  obtain m w s where sl: "slots ! i = (m, w, s)" by (cases "slots ! i")
  have "fst (fs ! i) = m" using arg_cong [OF n, of "\<lambda>xs. xs ! i"] i sl by simp
  moreover have "distinct (map fst fs)" using d n by simp
  ultimately have "field_key fs m = snd (fs ! i)" using field_key_nth i by metis
  then show "metas_of_layout slots fs ! i = map2 slot_meta slots (map snd fs) ! i"
    using i sl by (simp add: metas_of_layout_def slot_meta_def)
qed

lemma distinct_layouts:
  "distinct (map fst (idl_accounts PumpBuyV2))"
  "distinct (map fst (idl_accounts PumpSellV2))"
  "distinct (map fst (idl_accounts PumpBuyV3))"
  "distinct (map fst (idl_accounts PumpMigrateV2))"
  "distinct (map fst (idl_accounts AmmBuy))"
  "distinct (map fst (idl_accounts AmmSell))"
  "distinct (map fst (idl_accounts AmmBuyV2))"
  "distinct (map fst (idl_accounts AmmMultiHopSwap))"
  "distinct (map fst (idl_accounts PumpCreateV2))"
  by code_simp+

lemma sell_v2_metas:
  assumes "codegen_ok e"
  shows "ix_accounts (sell_v2_instruction_with_recipients e bm qm qtp u c f b x y) =
     take 19 (ix_accounts (buy_v2_instruction_with_recipients e bm qm qtp u c f b x' y')) @
     drop 20 (ix_accounts (buy_v2_instruction_with_recipients e bm qm qtp u c f b x' y'))"
  unfolding sell_v2_instruction_with_recipients_def buy_v2_instruction_with_recipients_def Let_def
    instruction.simps codegen_metas [OF assms]
  apply (subst metas_positional [OF distinct_layouts(2)], simp add: layout_defs)
  apply (subst (1 2) metas_positional [OF distinct_layouts(1)], simp add: layout_defs)
  by (simp add: layout_defs slot_meta_def)

section \<open>Instruction data\<close>

text \<open>The dispatch of a program on instruction data: the instruction whose discriminator the
  data starts with, and the two amounts that follow it in every trade.\<close>

definition trades_of :: "pubkey \<Rightarrow> idl_ix list" where
  "trades_of prog =
     (if prog = PUMP_PROGRAM_ID
      then [PumpBuyV2, PumpBuyExactQuoteInV2, PumpSellV2, PumpBuyV3, PumpBuyExactQuoteInV3,
            PumpSellV3, PumpBuy, PumpSell]
      else if prog = PUMP_AMM_PROGRAM_ID
      then [AmmBuy, AmmSell, AmmBuyV2, AmmBuyExactQuoteInV2, AmmSellV2, AmmMultiHopSwap]
      else [])"

definition dispatch_trade :: "instruction \<Rightarrow> (idl_ix \<times> nat \<times> nat) option" where
  "dispatch_trade ix =
     map_option (\<lambda>t. (t, read_le (take 8 (drop 8 (ix_data ix))),
                      read_le (take 8 (drop 16 (ix_data ix)))))
       (find (\<lambda>t. idl_discriminator t = take 8 (ix_data ix)) (trades_of (ix_program_id ix)))"

lemma length_discriminator [simp]: "length (idl_discriminator ix) = 8"
  by (cases ix) simp_all

lemma dispatch_tradeI:
  assumes d: "ix_data ix = idl_discriminator t @ le_bytes 8 (a :: u64) @ le_bytes 8 (b :: u64) @ tail"
    and f: "find (\<lambda>t'. idl_discriminator t' = idl_discriminator t) (trades_of (ix_program_id ix)) =
      Some t"
  shows "dispatch_trade ix = Some (t, unat a, unat b)"
proof -
  have l: "length (le_bytes 8 a) = 8" "length (le_bytes 8 b) = 8" by simp_all
  have "take 8 (ix_data ix) = idl_discriminator t"
    "take 8 (drop 8 (ix_data ix)) = le_bytes 8 a" "take 8 (drop 16 (ix_data ix)) = le_bytes 8 b"
    using l by (simp_all add: d)
  with f show ?thesis by (simp only: dispatch_trade_def) simp
qed

end
