(* ===== verification/Ix_Properties.thy ===== *)
theory Ix_Properties
  imports Ix_Facts Sample_State
begin

text \<open>
  Properties of the instruction builders: what every trade lists, signs and encodes, and how the
  builders are composed into transactions.
\<close>

lemma trade_ix_simps:
  assumes "codegen_ok e"
  shows "filter meta_is_signer (account_metas e ix fs) =
      metas_of_layout (signing_slots (idl_accounts ix)) fs"
    and "args_data e ix args = data_of_args ix args"
  by (simp_all add: codegen_metas [OF assms] codegen_data [OF assms] filter_signers)

definition user_signs :: "pubkey \<Rightarrow> account_meta list" where
  "user_signs u = [\<lparr>meta_key = u, meta_is_signer = True, meta_is_writable = True\<rparr>]"

lemma pump_trade_signers:
  assumes "codegen_ok e"
  shows "filter meta_is_signer (ix_accounts
      (buy_v2_instruction_with_recipients e bm qm qtp u c f b x y)) = user_signs u"
    and "filter meta_is_signer (ix_accounts
      (buy_exact_quote_in_v2_instruction_with_recipients e bm qm qtp u c f b x y)) = user_signs u"
    and "filter meta_is_signer (ix_accounts
      (sell_v2_instruction_with_recipients e bm qm qtp u c f b x y)) = user_signs u"
    and "filter meta_is_signer (ix_accounts (v3_instruction e t data)) = user_signs (v3_user t)"
  by (simp_all add: buy_v2_instruction_with_recipients_def
      buy_exact_quote_in_v2_instruction_with_recipients_def v3_instruction_def v3_accounts_def
      sell_v2_instruction_with_recipients_def Let_def trade_ix_simps [OF assms] trade_signers
      user_signs_def del: idl_accounts.simps)

lemma legacy_trade_signers:
  assumes "codegen_ok e"
  shows "filter meta_is_signer (ix_accounts (buy_instruction e m u c f b x y tp)) = user_signs u"
    and "filter meta_is_signer (ix_accounts (sell_instruction e m u c f b x y tp cb)) = user_signs u"
  by (simp_all add: buy_instruction_def sell_instruction_def Let_def trade_ix_simps [OF assms]
      trade_signers user_signs_def del: idl_accounts.simps)

lemma amm_trade_signers:
  assumes "codegen_ok e"
  shows "filter meta_is_signer (ix_accounts
      (buy_amm_instruction_with_recipients e pl bm qm btp qtp u c f b cb x y)) = user_signs u"
    and "filter meta_is_signer (ix_accounts
      (sell_amm_instruction_with_recipients e pl bm qm btp qtp u c f b cb x y)) = user_signs u"
    and "filter meta_is_signer (ix_accounts
      (amm_v2_instruction e ps btp qtp u b data)) = user_signs u"
  by (simp_all add: buy_amm_instruction_with_recipients_def amm_v2_instruction_def
      sell_amm_instruction_with_recipients_def Let_def trade_ix_simps [OF assms] trade_signers
      user_signs_def del: idl_accounts.simps)

text \<open>C23: In every trade the SDK builds, on the curve (legacy, v2, v3) and on the AMM (v1, v2), the user
  is the one account that signs: no other key of the instruction, remaining accounts included,
  is asked for a signature.\<close>
theorem trades_signed_by_user:
  assumes "codegen_ok e"
  shows "map (\<lambda>ix. filter meta_is_signer (ix_accounts ix))
     [buy_v2_instruction_with_recipients e bm qm qtp u c f b x y,
      buy_exact_quote_in_v2_instruction_with_recipients e bm qm qtp u c f b x y,
      sell_v2_instruction_with_recipients e bm qm qtp u c f b x y,
      buy_v3_instruction e bm qm btp qtp u b x y,
      buy_exact_quote_in_v3_instruction e bm qm btp qtp u b x y,
      sell_v3_instruction e bm qm btp qtp u b x y,
      buy_amm_instruction_with_recipients e pl bm qm btp qtp u c f b cb x y,
      sell_amm_instruction_with_recipients e pl bm qm btp qtp u c f b cb x y,
      buy_amm_v2_instruction e ps btp qtp u b x y,
      buy_exact_quote_in_amm_v2_instruction e ps btp qtp u b x y,
      sell_amm_v2_instruction e ps btp qtp u b x y,
      buy_instruction e bm u c f b x y btp,
      sell_instruction e bm u c f b x y btp cb] = replicate 13 (user_signs u)"
  by (simp add: pump_trade_signers [OF assms] amm_trade_signers [OF assms]
      legacy_trade_signers [OF assms] v3_new_def
      buy_v3_instruction_def buy_exact_quote_in_v3_instruction_def sell_v3_instruction_def
      buy_amm_v2_instruction_def buy_exact_quote_in_amm_v2_instruction_def
      sell_amm_v2_instruction_def numeral_eq_Suc)

theorem trades_signed_by_user_witness:
  "filter meta_is_signer (ix_accounts
     (sell_amm_instruction_with_recipients sample_sdk_env 70 8 NATIVE_MINT
        SPL_TOKEN_2022_PROGRAM_ID SPL_TOKEN_PROGRAM_ID 3 5 31 41 True 100 90)) = user_signs 3"
  using trades_signed_by_user [OF sample_codegen_ok, of 8 NATIVE_MINT SPL_TOKEN_PROGRAM_ID 3 5 31
      41 100 90 SPL_TOKEN_2022_PROGRAM_ID 70 True sample_pool] by (simp add: numeral_eq_Suc)

lemma v2_trade_data:
  assumes "codegen_ok e"
  shows "ix_data (buy_v2_instruction_with_recipients e bm qm qtp u c f b x y) =
      idl_discriminator PumpBuyV2 @ le_bytes 8 x @ le_bytes 8 y @ [1]"
    and "ix_data (buy_exact_quote_in_v2_instruction_with_recipients e bm qm qtp u c f b x y) =
      idl_discriminator PumpBuyExactQuoteInV2 @ le_bytes 8 x @ le_bytes 8 y @ [1]"
    and "ix_data (sell_v2_instruction_with_recipients e bm qm qtp u c f b x y) =
      idl_discriminator PumpSellV2 @ le_bytes 8 x @ le_bytes 8 y @ []"
  by (simp_all add: buy_v2_instruction_with_recipients_def
      buy_exact_quote_in_v2_instruction_with_recipients_def
      sell_v2_instruction_with_recipients_def Let_def trade_ix_simps [OF assms] data_of_args_def
      del: idl_accounts.simps)

lemma v3_trade_data:
  assumes "codegen_ok e"
  shows "buy_v3_data e x y = idl_discriminator PumpBuyV3 @ le_bytes 8 x @ le_bytes 8 y @ [1]"
    and "buy_exact_quote_in_v3_data e x y =
      idl_discriminator PumpBuyExactQuoteInV3 @ le_bytes 8 x @ le_bytes 8 y @ [1]"
    and "sell_v3_data e x y = idl_discriminator PumpSellV3 @ le_bytes 8 x @ le_bytes 8 y @ []"
  by (simp_all add: buy_v3_data_def buy_exact_quote_in_v3_data_def sell_v3_data_def
      trade_ix_simps [OF assms] data_of_args_def)

lemma legacy_trade_data:
  assumes "codegen_ok e"
  shows "ix_data (buy_instruction e bm u c f b x y tp) =
      idl_discriminator PumpBuy @ le_bytes 8 x @ le_bytes 8 y @ [1, 1]"
    and "ix_data (sell_instruction e bm u c f b x y tp cb) =
      idl_discriminator PumpSell @ le_bytes 8 x @ le_bytes 8 y @ []"
  by (simp_all add: buy_instruction_def sell_instruction_def Let_def trade_ix_simps [OF assms]
      data_of_args_def del: idl_accounts.simps)

lemma amm_trade_data:
  assumes "codegen_ok e"
  shows "ix_data (buy_amm_instruction_with_recipients e pl bm qm btp qtp u c f b cb x y) =
      idl_discriminator AmmBuy @ le_bytes 8 x @ le_bytes 8 y @ [1]"
    and "ix_data (sell_amm_instruction_with_recipients e pl bm qm btp qtp u c f b cb x y) =
      idl_discriminator AmmSell @ le_bytes 8 x @ le_bytes 8 y @ []"
    and "ix_data (buy_amm_v2_instruction e ps btp qtp u b x y) =
      idl_discriminator AmmBuyV2 @ le_bytes 8 x @ le_bytes 8 y @ []"
    and "ix_data (buy_exact_quote_in_amm_v2_instruction e ps btp qtp u b x y) =
      idl_discriminator AmmBuyExactQuoteInV2 @ le_bytes 8 x @ le_bytes 8 y @ []"
    and "ix_data (sell_amm_v2_instruction e ps btp qtp u b x y) =
      idl_discriminator AmmSellV2 @ le_bytes 8 x @ le_bytes 8 y @ []"
  by (simp_all add: buy_amm_instruction_with_recipients_def buy_amm_v2_instruction_def
      sell_amm_instruction_with_recipients_def buy_exact_quote_in_amm_v2_instruction_def
      sell_amm_v2_instruction_def amm_v2_instruction_def Let_def trade_ix_simps [OF assms]
      data_of_args_def del: idl_accounts.simps)

lemma trade_programs:
  "ix_program_id (buy_v2_instruction_with_recipients e bm qm qtp u c f b x y) = PUMP_PROGRAM_ID"
  "ix_program_id (buy_exact_quote_in_v2_instruction_with_recipients e bm qm qtp u c f b x y) =
     PUMP_PROGRAM_ID"
  "ix_program_id (sell_v2_instruction_with_recipients e bm qm qtp u c f b x y) = PUMP_PROGRAM_ID"
  "ix_program_id (v3_instruction e t data) = PUMP_PROGRAM_ID"
  "ix_program_id (buy_instruction e bm u c f b x y tp) = PUMP_PROGRAM_ID"
  "ix_program_id (sell_instruction e bm u c f b x y tp cb) = PUMP_PROGRAM_ID"
  "ix_program_id (buy_amm_instruction_with_recipients e pl bm qm btp qtp u c f b cb x y) =
     PUMP_AMM_PROGRAM_ID"
  "ix_program_id (sell_amm_instruction_with_recipients e pl bm qm btp qtp u c f b cb x y) =
     PUMP_AMM_PROGRAM_ID"
  "ix_program_id (amm_v2_instruction e ps btp qtp u b data) = PUMP_AMM_PROGRAM_ID"
  by (simp_all add: buy_v2_instruction_with_recipients_def v3_instruction_def
      buy_exact_quote_in_v2_instruction_with_recipients_def buy_instruction_def
      sell_v2_instruction_with_recipients_def sell_instruction_def amm_v2_instruction_def
      buy_amm_instruction_with_recipients_def sell_amm_instruction_with_recipients_def Let_def)

lemma amm_v2_programs:
  "ix_program_id (buy_amm_v2_instruction e ps btp qtp u b x y) = PUMP_AMM_PROGRAM_ID"
  "ix_program_id (buy_exact_quote_in_amm_v2_instruction e ps btp qtp u b x y) =
     PUMP_AMM_PROGRAM_ID"
  "ix_program_id (sell_amm_v2_instruction e ps btp qtp u b x y) = PUMP_AMM_PROGRAM_ID"
  by (simp_all add: buy_amm_v2_instruction_def buy_exact_quote_in_amm_v2_instruction_def
      sell_amm_v2_instruction_def trade_programs)

lemma find_image:
  "distinct (map f ts) \<Longrightarrow> t \<in> set ts \<Longrightarrow> find (\<lambda>t'. f t' = f t) ts = Some t"
  by (induction ts) (auto simp: image_iff)

lemma trades_of_simps:
  "trades_of PUMP_PROGRAM_ID =
     [PumpBuyV2, PumpBuyExactQuoteInV2, PumpSellV2, PumpBuyV3, PumpBuyExactQuoteInV3,
      PumpSellV3, PumpBuy, PumpSell]"
  "trades_of PUMP_AMM_PROGRAM_ID =
     [AmmBuy, AmmSell, AmmBuyV2, AmmBuyExactQuoteInV2, AmmSellV2, AmmMultiHopSwap]"
  by (simp_all add: trades_of_def key_constants)

lemma distinct_discriminators:
  "distinct (map idl_discriminator (trades_of PUMP_PROGRAM_ID))"
  "distinct (map idl_discriminator (trades_of PUMP_AMM_PROGRAM_ID))"
  unfolding trades_of_simps by code_simp+

lemmas find_trades = distinct_discriminators [THEN find_image]

lemma pump_dispatch:
  "ix_program_id ix = PUMP_PROGRAM_ID \<Longrightarrow> t \<in> set (trades_of PUMP_PROGRAM_ID) \<Longrightarrow>
     ix_data ix = idl_discriminator t @ le_bytes 8 (a :: u64) @ le_bytes 8 (b :: u64) @ tail \<Longrightarrow>
     dispatch_trade ix = Some (t, unat a, unat b)"
  by (rule dispatch_tradeI) (simp_all only: find_trades)

lemma amm_dispatch:
  "ix_program_id ix = PUMP_AMM_PROGRAM_ID \<Longrightarrow> t \<in> set (trades_of PUMP_AMM_PROGRAM_ID) \<Longrightarrow>
     ix_data ix = idl_discriminator t @ le_bytes 8 (a :: u64) @ le_bytes 8 (b :: u64) @ tail \<Longrightarrow>
     dispatch_trade ix = Some (t, unat a, unat b)"
  by (rule dispatch_tradeI) (simp_all only: find_trades)

lemma v3_instruction_data: "ix_data (v3_instruction e t data) = data"
  by (simp add: v3_instruction_def)

text \<open>C19: The program a trade is sent to reads back the trade and the two amounts it was built
  with: its discriminator selects that instruction among the trades of the program, and the two
  little-endian words after it are the amount and the slippage bound.\<close>
theorem trade_data_roundtrip:
  assumes "codegen_ok e"
  shows "map dispatch_trade
     [buy_v2_instruction_with_recipients e bm qm qtp u c f b x y,
      buy_exact_quote_in_v2_instruction_with_recipients e bm qm qtp u c f b x y,
      sell_v2_instruction_with_recipients e bm qm qtp u c f b x y,
      buy_v3_instruction e bm qm btp qtp u b x y,
      buy_exact_quote_in_v3_instruction e bm qm btp qtp u b x y,
      sell_v3_instruction e bm qm btp qtp u b x y,
      buy_instruction e bm u c f b x y btp,
      sell_instruction e bm u c f b x y btp cb,
      buy_amm_instruction_with_recipients e pl bm qm btp qtp u c f b cb x y,
      sell_amm_instruction_with_recipients e pl bm qm btp qtp u c f b cb x y,
      buy_amm_v2_instruction e ps btp qtp u b x y,
      buy_exact_quote_in_amm_v2_instruction e ps btp qtp u b x y,
      sell_amm_v2_instruction e ps btp qtp u b x y] =
     map (\<lambda>t. Some (t, unat x, unat y))
       [PumpBuyV2, PumpBuyExactQuoteInV2, PumpSellV2, PumpBuyV3, PumpBuyExactQuoteInV3,
        PumpSellV3, PumpBuy, PumpSell, AmmBuy, AmmSell, AmmBuyV2, AmmBuyExactQuoteInV2, AmmSellV2]"
proof -
  note pd = pump_dispatch [OF _ _ v2_trade_data(1) [OF assms]]
    pump_dispatch [OF _ _ v2_trade_data(2) [OF assms]]
    pump_dispatch [OF _ _ v2_trade_data(3) [OF assms]]
    pump_dispatch [OF _ _ trans [OF v3_instruction_data v3_trade_data(1) [OF assms]]]
    pump_dispatch [OF _ _ trans [OF v3_instruction_data v3_trade_data(2) [OF assms]]]
    pump_dispatch [OF _ _ trans [OF v3_instruction_data v3_trade_data(3) [OF assms]]]
    pump_dispatch [OF _ _ legacy_trade_data(1) [OF assms]]
    pump_dispatch [OF _ _ legacy_trade_data(2) [OF assms]]
  note ad = amm_dispatch [OF _ _ amm_trade_data(1) [OF assms]]
    amm_dispatch [OF _ _ amm_trade_data(2) [OF assms]]
    amm_dispatch [OF _ _ amm_trade_data(3) [OF assms]]
    amm_dispatch [OF _ _ amm_trade_data(4) [OF assms]]
    amm_dispatch [OF _ _ amm_trade_data(5) [OF assms]]
  show ?thesis
    by (simp add: pd ad trades_of_simps trade_programs amm_v2_programs buy_v3_instruction_def
        sell_v3_instruction_def buy_exact_quote_in_v3_instruction_def
        del: idl_discriminator.simps)
qed

theorem trade_data_roundtrip_witness:
  "dispatch_trade (buy_v2_instruction_with_recipients sample_sdk_env 8 0 SPL_TOKEN_PROGRAM_ID 3 5
     31 41 1000000 70000) = Some (PumpBuyV2, 1000000, 70000)"
  using trade_data_roundtrip [OF sample_codegen_ok, of 8 0 SPL_TOKEN_PROGRAM_ID 3 5 31 41 1000000
      70000 SPL_TOKEN_2022_PROGRAM_ID True 70 sample_pool] by simp

section \<open>Account sets\<close>

lemma v3_own_layout:
  assumes "codegen_ok e"
  shows "ix_accounts (v3_instruction e t data) =
      metas_of_layout (idl_accounts PumpBuyExactQuoteInV3) (v3_accounts e t)"
    and "ix_accounts (v3_instruction e t data) =
      metas_of_layout (idl_accounts PumpSellV3) (v3_accounts e t)"
  by (simp_all add: v3_instruction_def codegen_metas [OF assms] v3_layouts
      del: idl_accounts.simps)

lemma length_v3_layout: "length (idl_accounts PumpBuyV3) = 17"
  by (simp add: layout_defs)

text \<open>C25: The v3 trades are built from the \<open>BuyV3\<close> struct alone, and that is right: it lists
  the accounts exactly as the IDL entries of \<open>buy_exact_quote_in_v3\<close> and \<open>sell_v3\<close> do,
  17 of them, and slot 13 is the buyback wallet itself on a SOL curve and its quote token account
  on a token quote.\<close>
theorem v3_trades_follow_their_idl:
  assumes "codegen_ok e"
  shows "ix_accounts (buy_exact_quote_in_v3_instruction e bm qm btp qtp u b x y) =
      account_metas e PumpBuyExactQuoteInV3 (v3_accounts e (v3_new bm qm btp qtp u b)) \<and>
    ix_accounts (sell_v3_instruction e bm qm btp qtp u b x y) =
      account_metas e PumpSellV3 (v3_accounts e (v3_new bm qm btp qtp u b)) \<and>
    length (ix_accounts (buy_v3_instruction e bm qm btp qtp u b x y)) = 17 \<and>
    ix_accounts (buy_v3_instruction e bm qm btp qtp u b x y) ! 13 =
      \<lparr>meta_key = (if resolve_quote_mint qm = NATIVE_MINT then b
                   else ata_of e b qtp (resolve_quote_mint qm)),
       meta_is_signer = False, meta_is_writable = True\<rparr>"
proof -
  let ?t = "v3_new bm qm btp qtp u b"
  have "ix_accounts (v3_instruction e ?t (buy_v3_data e x y)) ! 13 =
      slot_meta (idl_accounts PumpBuyV3 ! 13) (snd (v3_accounts e ?t ! 13))"
    unfolding v3_instruction_def instruction.simps codegen_metas [OF assms]
    by (subst metas_positional [OF distinct_layouts(3)])
      (simp_all add: layout_defs v3_accounts_def Let_def)
  also have "\<dots> = \<lparr>meta_key = (if resolve_quote_mint qm = NATIVE_MINT then b
                   else ata_of e b qtp (resolve_quote_mint qm)),
       meta_is_signer = False, meta_is_writable = True\<rparr>"
    by (simp add: slot_meta_def layout_defs v3_accounts_def is_token_quoted_def v3_new_def
        Let_def)
  finally have slot: "ix_accounts (v3_instruction e ?t (buy_v3_data e x y)) ! 13 = \<dots>" .
  have len: "length (ix_accounts (v3_instruction e ?t (buy_v3_data e x y))) = 17"
    by (simp add: v3_own_layout(2) [OF assms] v3_layouts length_v3_layout del: idl_accounts.simps)
  show ?thesis
    unfolding buy_exact_quote_in_v3_instruction_def sell_v3_instruction_def
      buy_v3_instruction_def codegen_metas [OF assms]
    using v3_own_layout [OF assms] slot len by blast
qed

theorem v3_trades_follow_their_idl_witness:
  "ix_accounts (sell_v3_instruction sample_sdk_env 8 0 SPL_TOKEN_2022_PROGRAM_ID
       SPL_TOKEN_PROGRAM_ID 3 21 500 400) =
     account_metas sample_sdk_env PumpSellV3 (v3_accounts sample_sdk_env
       (v3_new 8 0 SPL_TOKEN_2022_PROGRAM_ID SPL_TOKEN_PROGRAM_ID 3 21))"
  by (rule v3_trades_follow_their_idl [OF sample_codegen_ok, THEN conjunct2, THEN conjunct1])

text \<open>\<open>sell_v2\<close> takes the account list of \<open>buy_v2\<close> without the global volume
  accumulator at slot 19, keys and flags alike, and \<open>buy_exact_quote_in_v2\<close> takes it as it
  is.\<close>
theorem v2_trades_share_accounts:
  assumes "codegen_ok e"
  shows "ix_accounts (sell_v2_instruction_with_recipients e bm qm qtp u c f b x y) =
      take 19 (ix_accounts (buy_v2_instruction_with_recipients e bm qm qtp u c f b x' y')) @
      drop 20 (ix_accounts (buy_v2_instruction_with_recipients e bm qm qtp u c f b x' y')) \<and>
    ix_accounts (buy_exact_quote_in_v2_instruction_with_recipients e bm qm qtp u c f b x y) =
      ix_accounts (buy_v2_instruction_with_recipients e bm qm qtp u c f b x' y')"
proof -
  have "ix_accounts (buy_exact_quote_in_v2_instruction_with_recipients e bm qm qtp u c f b x y) =
      ix_accounts (buy_v2_instruction_with_recipients e bm qm qtp u c f b x' y')"
    unfolding buy_exact_quote_in_v2_instruction_with_recipients_def
      buy_v2_instruction_with_recipients_def Let_def instruction.simps codegen_metas [OF assms]
      v3_layouts(5) by (rule refl)
  with sell_v2_metas [OF assms] show ?thesis by blast
qed

theorem v2_trades_share_accounts_witness:
  "ix_accounts (buy_exact_quote_in_v2_instruction_with_recipients sample_sdk_env 8 0
       SPL_TOKEN_PROGRAM_ID 3 5 12 21 70000 9) =
     ix_accounts (buy_v2_instruction_with_recipients sample_sdk_env 8 0
       SPL_TOKEN_PROGRAM_ID 3 5 12 21 1000 80000)"
  by (rule v2_trades_share_accounts [OF sample_codegen_ok, THEN conjunct2])



section \<open>Composed transactions\<close>

text \<open>Both ways to create a coin build the same transaction: \<open>create_v2\<close>, then the token
  accounts and the \<open>buy_v2\<close> of the first buy on the coin's preview curve, then
  \<open>agent_initialize\<close> if a buyback rate is given; they fail exactly when \<open>Global\<close> lists no
  recipients.\<close>
theorem create_coin_transaction:
  "create_coin_instructions e d1 d2 params =
     create_v2_and_buy_instruction e d1 d2 (cp_mint params) (cp_user params) (cp_name params)
       (cp_symbol params) (cp_uri params) (cp_creator params) (cp_quote_mint params)
       (cp_quote_token_program params) (cp_mayhem_mode params) (cp_cashback params)
       (cp_creator_fee_bps params) (cp_tokenized_agent_buyback_bps params) (cp_global params)
       (cp_token_amount params) (cp_max_quote_tokens params) \<and>
   create_coin_instructions e d1 d2 params =
     map_option (\<lambda>(fee_recipient, buyback_fee_recipient).
       let quote = resolve_quote_mint (cp_quote_mint params);
           preview = bonding_curve_preview (cp_creator params) (cp_cashback params)
             (cp_mayhem_mode params) (cp_quote_mint params) (cp_creator_fee_bps params)
       in [create_v2_instruction e (cp_mint params) (cp_user params) (cp_name params)
             (cp_symbol params) (cp_uri params) (cp_creator params) (cp_quote_mint params)
             (cp_quote_token_program params) (cp_mayhem_mode params) (cp_cashback params)
             (cp_creator_fee_bps params)]
          @ user_trade_atas e (cp_user params) (cp_mint params) preview
              SPL_TOKEN_2022_PROGRAM_ID (cp_quote_token_program params) True
          @ [buy_v2_instruction_with_recipients e (cp_mint params) quote
               (cp_quote_token_program params) (cp_user params) (cp_creator params)
               fee_recipient buyback_fee_recipient (cp_token_amount params)
               (cp_max_quote_tokens params)]
          @ map (agent_initialize_instruction e (cp_mint params) (cp_user params)
              (cp_creator params))
              (case cp_tokenized_agent_buyback_bps params of None \<Rightarrow> [] | Some bps \<Rightarrow> [bps]))
       (pump_fee_recipients_pair d1 d2 (cp_global params) (cp_mayhem_mode params))"
proof
  show "create_coin_instructions e d1 d2 params =
     create_v2_and_buy_instruction e d1 d2 (cp_mint params) (cp_user params) (cp_name params)
       (cp_symbol params) (cp_uri params) (cp_creator params) (cp_quote_mint params)
       (cp_quote_token_program params) (cp_mayhem_mode params) (cp_cashback params)
       (cp_creator_fee_bps params) (cp_tokenized_agent_buyback_bps params) (cp_global params)
       (cp_token_amount params) (cp_max_quote_tokens params)"
    by (simp add: create_coin_instructions_def create_v2_and_buy_instruction_def Let_def)
qed (auto simp: create_coin_instructions_def buy_v2_instructions_def bonding_curve_preview_def
      Let_def split: option.splits prod.splits)

text \<open>The accounts a v2 trade's prelude creates, as owner, mint and token program.\<close>

definition atas_of :: "'e sdk_env_scheme \<Rightarrow> pubkey \<Rightarrow> (pubkey \<times> pubkey \<times> pubkey) list \<Rightarrow>
    instruction list" where
  "atas_of e payer = map (\<lambda>(owner, mint, token_program).
     create_ata_idempotent e payer owner mint token_program)"

text \<open>The token accounts created before a v2 trade: the user's base account on a buy, and
  only on a token quote the quote accounts of the user, of the creator's wallet, of the curve and,
  for a cashback coin, of the user's volume accumulator; a SOL curve gets none of these.\<close>
lemma user_trade_atas_cases:
  "user_trade_atas e u bm bc btp qtp include_base =
     atas_of e u
       ((if include_base then [(u, bm, btp)] else []) @
        (if resolve_quote_mint (bc_quote_mint bc) = NATIVE_MINT then []
         else map (\<lambda>owner. (owner, bc_quote_mint bc, qtp))
           ([u, bc_creator bc, fst (pump_bonding_curve e bm)] @
            (if bc_is_cashback_coin bc then [fst (pump_user_volume_accumulator e u)] else []))))"
  by (simp add: user_trade_atas_def atas_of_def resolve_quote_mint_def)

text \<open>The documented creation of the creator vault's quote account does not happen: the account
  created is the creator wallet's, which the trade does not list.\<close>

definition token_quoted_curve :: bonding_curve where
  "token_quoted_curve = sample_curve\<lparr>bc_quote_mint := USDC_MINT, bc_creator := 5\<rparr>"

lemma sample_vault_and_curve:
  "fst (pump_creator_vault sample_sdk_env 5) = PUMP_PROGRAM_ID + 65536 * 45 + 5"
  "fst (pump_bonding_curve sample_sdk_env 8) = PUMP_PROGRAM_ID + 65536 * 45 + 8"
  by (simp_all add: pump_creator_vault_def pump_bonding_curve_def sample_sdk_env_def
      sample_env_def seed_defs bytes_of_string_def last_key_bytes)

lemma user_trade_atas_creator_wallet:
  "map (\<lambda>ix. meta_key (ix_accounts ix ! 2))
     (user_trade_atas sample_sdk_env 3 8 token_quoted_curve SPL_TOKEN_2022_PROGRAM_ID
        SPL_TOKEN_PROGRAM_ID True) =
     [3, 3, bc_creator token_quoted_curve, fst (pump_bonding_curve sample_sdk_env 8)] \<and>
   fst (pump_creator_vault sample_sdk_env (bc_creator token_quoted_curve)) \<notin>
     {3, bc_creator token_quoted_curve, fst (pump_bonding_curve sample_sdk_env 8)}"
proof -
  have c: "bc_creator token_quoted_curve = 5" "bc_quote_mint token_quoted_curve = USDC_MINT"
    "\<not> bc_is_cashback_coin token_quoted_curve"
    by (simp_all add: token_quoted_curve_def sample_curve_def default_bonding_curve_def)
  have w: "meta_key (ix_accounts (create_ata_idempotent sample_sdk_env p owner m tp) ! 2) = owner"
    for p owner m tp by (simp add: sample_sdk_env_def)
  show ?thesis
    unfolding user_trade_atas_def c sample_vault_and_curve
    by (simp add: w c PUMP_PROGRAM_ID_def sample_vault_and_curve)
qed

text \<open>C26: Distributing creator fees sweeps the curve's bucket first, into the very vault (and
  vault quote account) the distribution pays from, creates every shareholder's quote account it
  will list, and lists the shareholders in order followed, on a token quote only, by those
  accounts.\<close>
theorem distribute_sweeps_first:
  assumes "codegen_ok e"
  shows "let ixs = distribute_creator_fees_v2_instructions e payer m c qm qtp init vault_ata shs;
             sweep = hd ixs; dist = last ixs; q = resolve_quote_mint qm
    in sweep = sweep_creator_fee_instruction e payer m c q qtp \<and>
       meta_key (ix_accounts sweep ! 9) = meta_key (ix_accounts dist ! 4) \<and>
       meta_key (ix_accounts sweep ! 10) = meta_key (ix_accounts dist ! 8) \<and>
       (\<forall>sh\<in>set shs. create_ata_idempotent e payer sh q qtp \<in> set ixs) \<and>
       drop 12 (ix_accounts dist) =
         map (\<lambda>k. new_meta k False)
           (shs @ (if q = NATIVE_MINT then [] else map (\<lambda>sh. ata_of e sh qtp q) shs))"
proof -
  let ?q = "resolve_quote_mint qm"
  have q: "resolve_quote_mint ?q = ?q" by (simp add: resolve_quote_mint_def)
  have sweep: "meta_key (ix_accounts (sweep_creator_fee_instruction e payer m c ?q qtp) ! 9) =
      fst (pump_creator_vault e c)"
    "meta_key (ix_accounts (sweep_creator_fee_instruction e payer m c ?q qtp) ! 10) =
      fst (associated_token e (fst (pump_creator_vault e c)) qtp ?q)"
    by (simp_all add: sweep_creator_fee_instruction_def Let_def codegen_metas [OF assms] q
        layout_defs)
  have dist: "meta_key (ix_accounts (distribute_creator_fees_v2_instruction e payer m c ?q qtp
        init shs) ! 4) = fst (pump_creator_vault e c)"
    "meta_key (ix_accounts (distribute_creator_fees_v2_instruction e payer m c ?q qtp
        init shs) ! 8) = fst (associated_token e (fst (pump_creator_vault e c)) qtp ?q)"
    "drop 12 (ix_accounts (distribute_creator_fees_v2_instruction e payer m c ?q qtp init shs)) =
      map (\<lambda>k. new_meta k False)
        (shs @ (if ?q = NATIVE_MINT then [] else map (\<lambda>sh. ata_of e sh qtp ?q) shs))"
    using q by (simp_all add: distribute_creator_fees_v2_instruction_def Let_def
        codegen_metas [OF assms] layout_defs ata_of_def resolve_quote_mint_def)
  show ?thesis
    using sweep dist
    by (simp add: distribute_creator_fees_v2_instructions_def Let_def resolve_quote_mint_def)
qed

theorem distribute_sweeps_first_witness:
  "hd (distribute_creator_fees_v2_instructions sample_sdk_env 3 8 5 0 SPL_TOKEN_PROGRAM_ID True
      True [61, 62]) =
     sweep_creator_fee_instruction sample_sdk_env 3 8 5 NATIVE_MINT SPL_TOKEN_PROGRAM_ID"
  using distribute_sweeps_first [OF sample_codegen_ok, of 3 8 5 0 SPL_TOKEN_PROGRAM_ID True True
      "[61, 62]"]
  by (simp add: Let_def resolve_quote_mint_def)

end
