(* ===== verification/Tx_Properties.thy ===== *)
theory Tx_Properties
  imports Ix_Properties Sdk_Facts
begin

text \<open>
  Properties of the transactions that span components: the AMM trade with its SOL wrapping, the
  routing by \<open>complete\<close> that the quotes and the transactions share, and the multi-hop swap.
\<close>

section \<open>Trade transactions\<close>

lemma buy_amm_quote_account:
  assumes "codegen_ok e"
  shows "meta_key (ix_accounts (buy_amm_instruction_with_recipients e pl bm qm btp qtp u c f b cb
      x y) ! 6) = ata_of e u qtp qm"
  by (simp add: buy_amm_instruction_with_recipients_def derive_amm_trade_accounts_def Let_def
      codegen_metas [OF assms] layout_defs nth_append)

text \<open>C18: A buy on a SOL pool is the six instructions in order: the two token accounts, a transfer
  of exactly the slippage threshold to the user's wSOL account with its \<open>sync_native\<close>, the
  buy bounded by the same threshold, and the closing of the wSOL account. Under the SPL Token
  program the account wrapped into is the one the buy debits.\<close>
theorem amm_sol_buy_transaction:
  assumes ok: "codegen_ok e" "token_ok e"
    and venue: "tv_venue params = AmmVenue pl cfg ps" "tv_is_buy params"
    and sol: "p_quote_mint ps = NATIVE_MINT"
    and pair: "amm_fee_recipients_pair d1 d2 cfg = Some (f, b)"
  shows "\<exists>sync buy close. trade_tx_instructions_with_venue e d1 d2 params = Ok (Some
      [create_ata_idempotent e (tv_user params) (tv_user params) (p_base_mint ps)
         (tv_base_token_program params),
       create_ata_idempotent e (tv_user params) (tv_user params) NATIVE_MINT
         (tv_quote_token_program params),
       system_transfer e (tv_user params) (user_wsol_ata e (tv_user params))
         (tv_sol_amount_threshold params),
       sync, buy, close]) \<and>
     sync_native e SPL_TOKEN_PROGRAM_ID (user_wsol_ata e (tv_user params)) = Some sync \<and>
     dispatch_trade buy = Some (AmmBuy, unat (tv_base_amount params),
       unat (tv_sol_amount_threshold params)) \<and>
     close_account e SPL_TOKEN_PROGRAM_ID (user_wsol_ata e (tv_user params)) (tv_user params)
       (tv_user params) [] = Some close \<and>
     (tv_quote_token_program params = SPL_TOKEN_PROGRAM_ID \<longrightarrow>
        meta_key (ix_accounts buy ! 6) = user_wsol_ata e (tv_user params))"
proof -
  let ?u = "tv_user params"
  let ?buy = "buy_amm_instruction_with_recipients e pl (p_base_mint ps) NATIVE_MINT
    (tv_base_token_program params) (tv_quote_token_program params) ?u (p_coin_creator ps) f b
    (p_is_cashback_coin ps) (tv_base_amount params) (tv_sol_amount_threshold params)"
  obtain sync where sync: "sync_native e SPL_TOKEN_PROGRAM_ID (user_wsol_ata e ?u) = Some sync"
    using ok(2) unfolding token_ok_def by (metis not_None_eq)
  obtain close where close:
    "close_account e SPL_TOKEN_PROGRAM_ID (user_wsol_ata e ?u) ?u ?u [] = Some close"
    using ok(2) unfolding token_ok_def by (metis not_None_eq)
  have tx: "trade_tx_instructions_with_venue e d1 d2 params = Ok (Some
      [create_ata_idempotent e ?u ?u (p_base_mint ps) (tv_base_token_program params),
       create_ata_idempotent e ?u ?u NATIVE_MINT (tv_quote_token_program params),
       system_transfer e ?u (user_wsol_ata e ?u) (tv_sol_amount_threshold params),
       sync, ?buy, close])"
    by (simp add: trade_tx_instructions_with_venue_def Let_def venue sol pair sync close
        wrap_sol_instructions_def unwrap_sol_instruction_def)
  have "dispatch_trade ?buy = Some (AmmBuy, unat (tv_base_amount params),
      unat (tv_sol_amount_threshold params))"
    by (rule amm_dispatch [OF _ _ amm_trade_data(1) [OF ok(1)]])
      (simp_all add: trade_programs trades_of_simps)
  moreover have "tv_quote_token_program params = SPL_TOKEN_PROGRAM_ID \<longrightarrow>
      meta_key (ix_accounts ?buy ! 6) = user_wsol_ata e ?u"
    by (simp add: buy_amm_quote_account [OF ok(1)] user_wsol_ata_def ata_of_def)
  ultimately show ?thesis using tx sync close by blast
qed

text \<open>The trade a transaction is for, by venue and direction.\<close>

definition routed_trade :: "bool \<Rightarrow> bool \<Rightarrow> idl_ix" where
  "routed_trade on_amm is_buy =
     (if on_amm then (if is_buy then AmmBuy else AmmSell)
      else (if is_buy then PumpBuyV2 else PumpSellV2))"

lemma recipient_trade_dispatch:
  assumes "codegen_ok e"
  shows "dispatch_trade (buy_v2_instruction_with_recipients e bm qm qtp u c f b x y) =
      Some (PumpBuyV2, unat x, unat y)"
    and "dispatch_trade (sell_v2_instruction_with_recipients e bm qm qtp u c f b x y) =
      Some (PumpSellV2, unat x, unat y)"
    and "dispatch_trade (buy_amm_instruction_with_recipients e pl bm qm btp qtp u c f b cb x y) =
      Some (AmmBuy, unat x, unat y)"
    and "dispatch_trade (sell_amm_instruction_with_recipients e pl bm qm btp qtp u c f b cb x y) =
      Some (AmmSell, unat x, unat y)"
  by (rule pump_dispatch [OF _ _ v2_trade_data(1) [OF assms]];
        simp add: trade_programs trades_of_simps)
    (rule pump_dispatch [OF _ _ v2_trade_data(3) [OF assms]]
        amm_dispatch [OF _ _ amm_trade_data(1) [OF assms]]
        amm_dispatch [OF _ _ amm_trade_data(2) [OF assms]];
      simp add: trade_programs trades_of_simps)+

definition on_amm :: "trade_venue \<Rightarrow> bool" where
  "on_amm venue = (case venue of BondingCurveVenue _ _ \<Rightarrow> False | AmmVenue _ _ _ \<Rightarrow> True)"

definition venue_recipients ::
  "(nat \<Rightarrow> nat) \<Rightarrow> (nat \<Rightarrow> nat) \<Rightarrow> trade_venue \<Rightarrow> (pubkey \<times> pubkey) option" where
  "venue_recipients d1 d2 venue =
     (case venue of
        BondingCurveVenue glob bc \<Rightarrow> pump_fee_recipients_pair d1 d2 glob (bc_is_mayhem_mode bc)
      | AmmVenue _ cfg _ \<Rightarrow> amm_fee_recipients_pair d1 d2 cfg)"

text \<open>On any venue there is no transaction without recipients, and with them the transaction
  contains the routed trade.\<close>

lemma venue_transaction_none:
  "venue_recipients d1 d2 (tv_venue params) = None \<Longrightarrow>
     trade_tx_instructions_with_venue e d1 d2 params = Ok None"
  by (auto simp: venue_recipients_def trade_tx_instructions_with_venue_def Let_def
      buy_v2_instructions_def sell_v2_instructions_def split: trade_venue.split)

lemma venue_transaction_some:
  assumes ok: "codegen_ok e" "token_ok e"
    and r: "venue_recipients d1 d2 (tv_venue params) = Some pair"
  shows "\<exists>ixs. trade_tx_instructions_with_venue e d1 d2 params = Ok (Some ixs) \<and>
    (\<exists>ix\<in>set ixs. dispatch_trade ix = Some (routed_trade (on_amm (tv_venue params))
       (tv_is_buy params), unat (tv_base_amount params), unat (tv_sol_amount_threshold params)))"
proof -
  obtain f b where pair: "pair = (f, b)" by (cases pair)
  show ?thesis
  proof (cases "tv_venue params")
    case (BondingCurveVenue glob bc)
    with r pair show ?thesis
      by (simp add: venue_recipients_def trade_tx_instructions_with_venue_def Let_def on_amm_def
          buy_v2_instructions_def sell_v2_instructions_def routed_trade_def
          recipient_trade_dispatch [OF ok(1)])
  next
    case (AmmVenue pl cfg ps)
    let ?u = "tv_user params"
    obtain sync where sync: "sync_native e SPL_TOKEN_PROGRAM_ID (user_wsol_ata e ?u) = Some sync"
      using ok(2) unfolding token_ok_def by (metis not_None_eq)
    obtain close where close:
      "close_account e SPL_TOKEN_PROGRAM_ID (user_wsol_ata e ?u) ?u ?u [] = Some close"
      using ok(2) unfolding token_ok_def by (metis not_None_eq)
    from AmmVenue r pair show ?thesis
      by (simp add: venue_recipients_def trade_tx_instructions_with_venue_def Let_def on_amm_def
          routed_trade_def recipient_trade_dispatch [OF ok(1)] sync close
          wrap_sol_instructions_def unwrap_sol_instruction_def)
  qed
qed

definition routed_venue :: "trade_tx_params \<Rightarrow> trade_venue option" where
  "routed_venue params =
     (if complete (tt_bonding_curve params)
      then map_option (\<lambda>p. AmmVenue (pc_pool p) (pc_amm_global p) (pc_pool_state p))
             (tt_pump_pool params)
      else Some (BondingCurveVenue (tt_pump_global params) (tt_bonding_curve params)))"

text \<open>A quote and a transaction for the same trade: the same curve, configuration, direction and
  amount, and the same pool or none.\<close>

definition same_trade :: "trade_quote_params \<Rightarrow> trade_tx_params \<Rightarrow> bool" where
  "same_trade q params \<longleftrightarrow>
     tq_bonding_curve q = tt_bonding_curve params \<and> tq_pump_global q = tt_pump_global params \<and>
     tq_is_buy q = tt_is_buy params \<and> tq_base_amount q = tt_base_amount params \<and>
     map_option (\<lambda>p. (pq_amm_global p, pq_pool_state p)) (tq_pump_pool q) =
       map_option (\<lambda>p. (pc_amm_global p, pc_pool_state p)) (tt_pump_pool params)"

text \<open>The quote of a venue, given what only a quote needs: fee configurations, supply and reserves.\<close>

definition quotes_venue ::
  "'e pda_env_scheme \<Rightarrow> trade_quote_params \<Rightarrow> trade_venue \<Rightarrow> bool \<Rightarrow> u64 \<Rightarrow> bool" where
  "quotes_venue e q venue is_buy amount \<longleftrightarrow>
     (case venue of
        BondingCurveVenue glob bc \<Rightarrow> quote_trade e q =
          Some ((if is_buy then buy_quote_bonding_curve_token_out else sell_quote_bonding_curve)
            e glob (tq_pump_fee_config q) bc (tq_base_mint_supply q) amount (tq_slippage_bps q))
      | AmmVenue _ cfg ps \<Rightarrow> (\<exists>p. tq_pump_pool q = Some p \<and> quote_trade e q =
          Some ((if is_buy then buy_quote_amm_token_out else sell_quote_amm)
            e cfg (pq_amm_fee_config p) (PoolSource ps (pq_base_reserve p) (pq_quote_reserve p)
              (tq_base_mint_supply q)) amount (tq_slippage_bps q))))"

lemma quote_trade_routed:
  assumes "same_trade q params"
  shows "case routed_venue params of
      None \<Rightarrow> quote_trade e q = None
    | Some venue \<Rightarrow> quotes_venue e q venue (tt_is_buy params) (tt_base_amount params)"
  using assms
  by (cases "tq_pump_pool q"; cases "tt_pump_pool params")
    (auto simp: same_trade_def routed_venue_def quotes_venue_def quote_trade_def Let_def)

text \<open>C17: \<open>trade_tx_instructions\<close> and \<open>quote_trade\<close> route the same trade the same way. If the routed
  venue is missing its pool there is neither a quote nor a transaction. Otherwise the quote is the
  one of the routed venue (the curve's or the pool's) in the direction and at the amount of the
  transaction; the transaction is missing exactly when the venue's recipients are, and contains the
  trade of the routed program, direction, amount and threshold. The wrapping helpers never panic.\<close>
theorem trade_tx_routing:
  assumes ok: "codegen_ok e" "token_ok e"
    and same: "same_trade q params"
  shows "case routed_venue params of
      None \<Rightarrow> quote_trade e q = None \<and> trade_tx_instructions e d1 d2 params = Ok None
    | Some venue \<Rightarrow> quotes_venue e q venue (tt_is_buy params) (tt_base_amount params) \<and>
        (if venue_recipients d1 d2 venue = None
         then trade_tx_instructions e d1 d2 params = Ok None
         else \<exists>ixs. trade_tx_instructions e d1 d2 params = Ok (Some ixs) \<and>
           (\<exists>ix\<in>set ixs. dispatch_trade ix = Some
              (routed_trade (complete (tt_bonding_curve params)) (tt_is_buy params),
               unat (tt_base_amount params), unat (tt_sol_amount_threshold params))))"
proof (cases "routed_venue params")
  case None
  then have "trade_tx_instructions e d1 d2 params = Ok None"
    by (auto simp: routed_venue_def trade_tx_instructions_def Let_def split: if_splits)
  with None show ?thesis using quote_trade_routed [OF same, of e] by simp
next
  case (Some venue)
  let ?v = "\<lparr>tv_mint = tt_mint params, tv_base_token_program = tt_base_token_program params,
    tv_quote_token_program = tt_quote_token_program params, tv_user = tt_user params,
    tv_is_buy = tt_is_buy params, tv_venue = venue, tv_base_amount = tt_base_amount params,
    tv_sol_amount_threshold = tt_sol_amount_threshold params\<rparr>"
  have tx: "trade_tx_instructions e d1 d2 params = trade_tx_instructions_with_venue e d1 d2 ?v"
    using Some by (auto simp: trade_tx_instructions_def routed_venue_def Let_def split: if_splits)
  have amm: "on_amm venue = complete (tt_bonding_curve params)"
    using Some by (auto simp: routed_venue_def on_amm_def split: if_splits)
  have q: "quotes_venue e q venue (tt_is_buy params) (tt_base_amount params)"
    using Some quote_trade_routed [OF same, of e] by simp
  show ?thesis
    using Some q tx venue_transaction_none [of d1 d2 ?v e]
      venue_transaction_some [OF ok, of d1 d2 ?v] amm by auto
qed

definition sample_draw :: "nat \<Rightarrow> nat" where
  "sample_draw n = n - 1"

definition sample_pool_ctx :: pump_pool_ctx where
  "sample_pool_ctx = \<lparr>pc_pool = pool_address sample_env sample_pool,
     pc_amm_global = sample_global_config, pc_pool_state = sample_pool\<rparr>"

definition sample_tx_params :: "bool \<Rightarrow> bool \<Rightarrow> trade_tx_params" where
  "sample_tx_params is_complete is_buy = \<lparr>tt_mint = 8,
     tt_base_token_program = SPL_TOKEN_2022_PROGRAM_ID,
     tt_quote_token_program = SPL_TOKEN_PROGRAM_ID, tt_user = 3, tt_is_buy = is_buy,
     tt_base_amount = 1000000, tt_sol_amount_threshold = 50000, tt_pump_global = sample_global,
     tt_bonding_curve = sample_curve\<lparr>complete := is_complete\<rparr>,
     tt_pump_pool = Some sample_pool_ctx\<rparr>"

definition sample_quote_params :: "bool \<Rightarrow> bool \<Rightarrow> trade_quote_params" where
  "sample_quote_params is_complete is_buy = \<lparr>tq_is_buy = is_buy, tq_base_amount = 1000000,
     tq_slippage_bps = 100, tq_base_mint_supply = 1000000000000000,
     tq_pump_global = sample_global, tq_pump_fee_config = sample_fee_config,
     tq_bonding_curve = sample_curve\<lparr>complete := is_complete\<rparr>,
     tq_pump_pool = Some \<lparr>pq_amm_global = sample_global_config,
       pq_amm_fee_config = sample_fee_config, pq_pool_state = sample_pool,
       pq_base_reserve = 200000000000000, pq_quote_reserve = 85000000000\<rparr>\<rparr>"

definition sample_venue_params :: trade_tx_with_venue_params where
  "sample_venue_params = \<lparr>tv_mint = 8, tv_base_token_program = SPL_TOKEN_2022_PROGRAM_ID,
     tv_quote_token_program = SPL_TOKEN_PROGRAM_ID, tv_user = 3, tv_is_buy = True,
     tv_venue = AmmVenue 70 sample_global_config sample_pool, tv_base_amount = 1000000,
     tv_sol_amount_threshold = 50000\<rparr>"

lemma sample_amm_pair:
  "amm_fee_recipients_pair sample_draw sample_draw sample_global_config = Some (32, 41)"
  by code_simp

theorem amm_sol_buy_transaction_witness:
  "\<exists>ixs buy. trade_tx_instructions_with_venue sample_sdk_env sample_draw sample_draw
       sample_venue_params = Ok (Some ixs) \<and> length ixs = 6 \<and> ixs ! 4 = buy \<and>
     ixs ! 2 = system_transfer sample_sdk_env 3 (user_wsol_ata sample_sdk_env 3) 50000 \<and>
     dispatch_trade buy = Some (AmmBuy, 1000000, 50000)"
  using amm_sol_buy_transaction [OF sample_codegen_ok sample_token_ok, of sample_venue_params 70
      sample_global_config sample_pool, OF _ _ _ sample_amm_pair]
  by (auto simp: sample_venue_params_def sample_pool_def)

theorem trade_tx_routing_witness:
  "quote_trade sample_sdk_env (sample_quote_params True True) =
     Some (buy_quote_amm_token_out sample_sdk_env sample_global_config sample_fee_config
       (PoolSource sample_pool 200000000000000 85000000000 1000000000000000) 1000000 100) \<and>
   (\<exists>ixs. trade_tx_instructions sample_sdk_env sample_draw sample_draw
       (sample_tx_params True True) = Ok (Some ixs) \<and>
     (\<exists>ix\<in>set ixs. dispatch_trade ix = Some (AmmBuy, 1000000, 50000)))"
proof -
  have "routed_venue (sample_tx_params True True) =
      Some (AmmVenue (pool_address sample_env sample_pool) sample_global_config sample_pool)"
    by (simp add: routed_venue_def sample_tx_params_def sample_pool_ctx_def)
  moreover have "same_trade (sample_quote_params True True) (sample_tx_params True True)"
    by (simp add: same_trade_def sample_quote_params_def sample_tx_params_def sample_pool_ctx_def)
  ultimately show ?thesis
    using trade_tx_routing [OF sample_codegen_ok sample_token_ok,
        of "sample_quote_params True True" "sample_tx_params True True" sample_draw sample_draw]
    by (simp add: sample_quote_params_def sample_tx_params_def venue_recipients_def
        sample_amm_pair routed_trade_def quotes_venue_def)
qed

section \<open>The multi-hop swap\<close>

lemma concat_groups:
  assumes "\<And>x. length (f x) = k" and "i < length xs"
  shows "take k (drop (k * i) (concat (map f xs))) = f (xs ! i)"
  using assms(2)
proof (induction xs arbitrary: i)
  case Nil
  then show ?case by simp
next
  case (Cons x xs)
  then show ?case by (cases i) (simp_all add: assms(1))
qed

lemma length_hop_metas [simp]: "length (hop_metas hop) = 5"
  by (simp add: hop_metas_def)

lemma length_groups: "length (concat (map hop_metas hops)) = 5 * length hops"
  by (induction hops) simp_all

lemma hop_metas_unsigned: "filter meta_is_signer (concat (map hop_metas hops)) = []"
  by (induction hops) (simp_all add: hop_metas_def)

text \<open>The named accounts of the swap, by direction and end mint.\<close>

definition swap_fields ::
  "'e pda_env_scheme \<Rightarrow> pubkey \<Rightarrow> pubkey \<Rightarrow> pubkey \<Rightarrow> pubkey \<Rightarrow> pubkey \<Rightarrow> bool \<Rightarrow> pubkey \<Rightarrow>
     (string \<times> pubkey) list"
where
  "swap_fields e u im itp otp b is_buy out_mint =
     [(''user'', u),
      (''user_in_token_account'', ata_of e u itp im),
      (''user_out_token_account'', ata_of e u otp out_mint),
      (''global_config'', fst (amm_global_config e)),
      (''fee_config'', fst (amm_fee_config e)),
      (''user_volume_accumulator'', fst (amm_user_volume_accumulator e u)),
      (''buyback_fee_recipient'',
         if is_buy then ata_of e b itp im else ata_of e b otp out_mint),
      (''token_program'', SPL_TOKEN_PROGRAM_ID),
      (''token_2022_program'', SPL_TOKEN_2022_PROGRAM_ID),
      (''system_program'', SYSTEM_PROGRAM_ID),
      (''event_authority'', fst (amm_event_authority e)),
      (''program'', PUMP_AMM_PROGRAM_ID),
      (''pump_program'', PUMP_PROGRAM_ID),
      (''pump_global'', fst (pump_global e)),
      (''pump_fee_config'', fst (pump_fee_config e)),
      (''pump_event_authority'', fst (pump_event_authority e))]"

definition swap_of ::
  "'e sdk_env_scheme \<Rightarrow> pubkey \<Rightarrow> pubkey \<Rightarrow> pubkey \<Rightarrow> pubkey \<Rightarrow> multi_hop_hop list \<Rightarrow> pubkey \<Rightarrow>
     u64 \<Rightarrow> u64 \<Rightarrow> bool \<Rightarrow> pubkey \<Rightarrow> instruction"
where
  "swap_of e u im itp otp hops b x y is_buy out_mint =
     \<lparr>ix_program_id = PUMP_AMM_PROGRAM_ID,
      ix_accounts = account_metas e AmmMultiHopSwap (swap_fields e u im itp otp b is_buy out_mint)
        @ concat (map hop_metas hops),
      ix_data = args_data e AmmMultiHopSwap
        [(''amount_in'', ArgU64 x), (''min_amount_out'', ArgU64 y)]\<rparr>"

lemma multi_hop_swap_eq:
  "multi_hop_swap_instruction e u im itp otp hops b x y =
     (if x = 0 \<or> y = 0 then Err ZeroAmount
      else map_res (\<lambda>(is_buy, out_mint). swap_of e u im itp otp hops b x y is_buy out_mint)
             (multi_hop_route im hops))"
  by (cases "multi_hop_route im hops")
    (auto simp: multi_hop_swap_instruction_def swap_of_def swap_fields_def Let_def
      split: prod.splits)

lemma length_swap_named: "length (idl_accounts AmmMultiHopSwap) = 16"
  by (simp add: layout_defs)

lemma swap_of_accounts:
  assumes "codegen_ok e"
  shows "ix_accounts (swap_of e u im itp otp hops b x y is_buy out_mint) =
    metas_of_layout (idl_accounts AmmMultiHopSwap) (swap_fields e u im itp otp b is_buy out_mint)
      @ concat (map hop_metas hops)"
  by (simp add: swap_of_def codegen_metas [OF assms] del: idl_accounts.simps)

lemma swap_of_keys:
  assumes "codegen_ok e"
  shows "map meta_key (take 3 (ix_accounts (swap_of e u im itp otp hops b x y is_buy out_mint))) =
      [u, ata_of e u itp im, ata_of e u otp out_mint]"
    and "meta_key (ix_accounts (swap_of e u im itp otp hops b x y is_buy out_mint) ! 6) =
      (if is_buy then ata_of e b itp im else ata_of e b otp out_mint)"
proof -
  let ?named = "metas_of_layout (idl_accounts AmmMultiHopSwap)
    (swap_fields e u im itp otp b is_buy out_mint)"
  have "map meta_key (take 3 ?named) = [u, ata_of e u itp im, ata_of e u otp out_mint]"
    "meta_key (?named ! 6) = (if is_buy then ata_of e b itp im else ata_of e b otp out_mint)"
    by (simp_all add: layout_defs swap_fields_def)
  then show "map meta_key (take 3 (ix_accounts (swap_of e u im itp otp hops b x y is_buy out_mint)))
      = [u, ata_of e u itp im, ata_of e u otp out_mint]"
    "meta_key (ix_accounts (swap_of e u im itp otp hops b x y is_buy out_mint) ! 6) =
      (if is_buy then ata_of e b itp im else ata_of e b otp out_mint)"
    by (simp_all add: swap_of_accounts [OF assms] length_swap_named nth_append
        del: idl_accounts.simps)
qed

lemma swap_of_dispatch:
  assumes "codegen_ok e"
  shows "dispatch_trade (swap_of e u im itp otp hops b x y is_buy out_mint) =
    Some (AmmMultiHopSwap, unat x, unat y)"
  by (rule amm_dispatch [of _ _ _ _ "[]"])
    (simp_all add: swap_of_def trades_of_simps codegen_data [OF assms] data_of_args_def)

lemma swap_of_signers:
  assumes "codegen_ok e"
  shows "filter meta_is_signer (ix_accounts (swap_of e u im itp otp hops b x y is_buy out_mint)) =
    user_signs u"
  by (simp add: swap_of_accounts [OF assms] filter_signers trade_signers user_signs_def
      swap_fields_def hop_metas_unsigned del: idl_accounts.simps)

lemma swap_of_groups:
  assumes "codegen_ok e" and "i < length hops"
  shows "take 5 (drop (16 + 5 * i)
      (ix_accounts (swap_of e u im itp otp hops b x y is_buy out_mint))) = hop_metas (hops ! i)"
  unfolding swap_of_accounts [OF assms(1)]
  using length_swap_named concat_groups [of hop_metas 5, OF _ assms(2)] by simp

text \<open>C22: A multi-hop swap lists sixteen named accounts and then one group of five per hop, group
  \<open>i\<close> being the \<open>i\<close>-th hop's mints, venue and vaults; its in and out accounts are the
  user's for the ends of the route, the buyback account is in the user's currency (the input of
  a buy, the output of a sell), and only the user signs.\<close>
theorem multi_hop_swap_accounts:
  assumes ok: "codegen_ok e"
    and swap: "multi_hop_swap_instruction e u im itp otp hops b x y = Ok ix"
    and route: "multi_hop_route im hops = Ok (is_buy, out_mint)"
  shows "length (ix_accounts ix) = 16 + 5 * length hops \<and>
    map meta_key (take 3 (ix_accounts ix)) = [u, ata_of e u itp im, ata_of e u otp out_mint] \<and>
    meta_key (ix_accounts ix ! 6) = (if is_buy then ata_of e b itp im else ata_of e b otp out_mint) \<and>
    (\<forall>i<length hops. take 5 (drop (16 + 5 * i) (ix_accounts ix)) = hop_metas (hops ! i)) \<and>
    filter meta_is_signer (ix_accounts ix) = user_signs u \<and>
    dispatch_trade ix = Some (AmmMultiHopSwap, unat x, unat y)"
proof -
  have ix: "ix = swap_of e u im itp otp hops b x y is_buy out_mint"
    using swap route by (simp add: multi_hop_swap_eq split: if_splits)
  show ?thesis
    unfolding ix
    by (simp add: swap_of_keys [OF ok] swap_of_groups [OF ok] swap_of_signers [OF ok]
        swap_of_dispatch [OF ok] del: idl_accounts.simps)
      (simp add: swap_of_accounts [OF ok] length_swap_named length_groups del: idl_accounts.simps)
qed

definition sample_hop :: multi_hop_hop where
  "sample_hop = \<lparr>mh_base_mint = 8, mh_quote_mint = NATIVE_MINT, mh_venue = 70,
     mh_base_vault = 81, mh_quote_vault = 82\<rparr>"

theorem multi_hop_swap_accounts_witness:
  "\<exists>ix. multi_hop_swap_instruction sample_sdk_env 3 NATIVE_MINT SPL_TOKEN_PROGRAM_ID
       SPL_TOKEN_2022_PROGRAM_ID [sample_hop] 41 1000 900 = Ok ix \<and>
     length (ix_accounts ix) = 21 \<and> dispatch_trade ix = Some (AmmMultiHopSwap, 1000, 900)"
proof -
  have r: "multi_hop_route NATIVE_MINT [sample_hop] = Ok (True, 8)"
    by (simp add: multi_hop_route_def sample_hop_def)
  obtain ix where ix: "multi_hop_swap_instruction sample_sdk_env 3 NATIVE_MINT
      SPL_TOKEN_PROGRAM_ID SPL_TOKEN_2022_PROGRAM_ID [sample_hop] 41 1000 900 = Ok ix"
    by (simp add: multi_hop_swap_eq r)
  show ?thesis
    using multi_hop_swap_accounts [OF sample_codegen_ok ix r] ix by simp
qed

lemma route_loop_no_panic: "route_loop mint d hops \<noteq> panic"
proof (induction hops arbitrary: mint d)
  case Nil
  then show ?case by simp
next
  case (Cons hop hops)
  then show ?case by (auto simp: Let_def)
qed

lemma multi_hop_route_no_panic: "multi_hop_route im hops \<noteq> panic"
proof (cases "route_loop im None hops")
  case (Inl f)
  then show ?thesis using route_loop_no_panic [of im None hops] by (simp add: multi_hop_route_def)
next
  case (Inr r)
  then show ?thesis by (cases r; cases "fst r") (simp_all add: multi_hop_route_def)
qed

lemma route_not_empty: "multi_hop_route im hops = Ok r \<Longrightarrow> hops \<noteq> []"
  by (auto simp: multi_hop_route_def)

lemma multi_hop_instructions_eq:
  "multi_hop_swap_instructions e u im itp otp hops b x y =
     (if x = 0 \<or> y = 0 then Err ZeroAmount
      else map_res (\<lambda>(is_buy, out_mint).
        atas_of e u
          ([(b, if is_buy then im else out_mint, if is_buy then itp else otp)] @
           (if is_buy \<and> im = NATIVE_MINT \<and>
               mh_venue (hd hops) = fst (pump_bonding_curve e (mh_base_mint (hd hops)))
            then [(u, im, itp)] else []) @
           [(u, out_mint, otp)]) @
        [swap_of e u im itp otp hops b x y is_buy out_mint])
        (multi_hop_route im hops))"
proof (cases "multi_hop_route im hops")
  case (Inl f)
  then show ?thesis
    by (simp add: multi_hop_swap_instructions_def multi_hop_swap_eq)
next
  case (Inr r)
  obtain is_buy out_mint where r: "r = (is_buy, out_mint)" by (cases r)
  obtain hop hops' where h: "hops = hop # hops'"
    using route_not_empty [OF Inr] by (cases hops) auto
  show ?thesis
    using Inr unfolding r h
    by (simp add: multi_hop_swap_instructions_def multi_hop_swap_eq atas_of_def Let_def)
qed

text \<open>C21: The multi-hop transaction, on every input: zero amounts are refused first, then what the
  route check refuses; otherwise it creates the buyback recipient's account in the user's
  currency, the user's wSOL account exactly when a buy starts on a SOL bonding curve, the user's
  output account, and ends in the swap. Indexing the first hop never panics.\<close>
theorem multi_hop_transaction:
  "multi_hop_swap_instructions e u im itp otp hops b x y =
     (if x = 0 \<or> y = 0 then Err ZeroAmount
      else map_res (\<lambda>(is_buy, out_mint).
        atas_of e u
          ([(b, if is_buy then im else out_mint, if is_buy then itp else otp)] @
           (if is_buy \<and> im = NATIVE_MINT \<and>
               mh_venue (hd hops) = fst (pump_bonding_curve e (mh_base_mint (hd hops)))
            then [(u, im, itp)] else []) @
           [(u, out_mint, otp)]) @
        [swap_of e u im itp otp hops b x y is_buy out_mint])
        (multi_hop_route im hops)) \<and>
   multi_hop_swap_instructions e u im itp otp hops b x y \<noteq> panic"
  using multi_hop_route_no_panic [of im hops]
  by (auto simp: multi_hop_instructions_eq map_res_def split: sum.split)

end
