(* ===== verification/Account_Codec.thy ===== *)
theory Account_Codec
  imports Byte_Facts Math_Utils
begin

text \<open>
  \<open>src/src/account_wrapper.rs\<close> (zero-padding of short account buffers before the generated
  deserializer runs), the decoders of \<open>src/src/accounts.rs\<close> and the error type of
  \<open>src/src/errors.rs\<close>. The generated (de)serializers are parameters: a \<open>codec\<close> holds those
  of one account type. The interface the wrapper relies on is the locale \<open>account_codec\<close>,
  interpreted on the bonding curve's codec written out from its IDL struct.
\<close>

section \<open>Errors\<close>

text \<open>Errors of Anchor and of the RPC client are carried by their message.\<close>

type_synonym anchor_error = string
type_synonym rpc_error = string

datatype client_error =
    Decode anchor_error
  | Rpc rpc_error
  | AccountNotFound string pubkey
  | Quote quote_error

type_synonym 'a client_result = "(client_error, 'a) res"
type_synonym 'a anchor_result = "(anchor_error, 'a) res"

text \<open>\<open>impl Display\<close>, on the base58 form of a key, and \<open>Error::source\<close>.\<close>

fun display_client_error :: "(pubkey \<Rightarrow> string) \<Rightarrow> client_error \<Rightarrow> string" where
  "display_client_error base58 (Decode e) = ''anchor decode error: '' @ e"
| "display_client_error base58 (Rpc e) = ''rpc error: '' @ e"
| "display_client_error base58 (AccountNotFound nm address) =
     ''account not found ('' @ nm @ ''): '' @ base58 address"
| "display_client_error base58 (Quote e) = ''quote error: '' @ display_quote_error e"

datatype error_source =
    Anchor_Source anchor_error
  | Rpc_Source rpc_error
  | Quote_Source quote_error

fun client_error_source :: "client_error \<Rightarrow> error_source option" where
  "client_error_source (Decode e) = Some (Anchor_Source e)"
| "client_error_source (Rpc e) = Some (Rpc_Source e)"
| "client_error_source (AccountNotFound nm address) = None"
| "client_error_source (Quote e) = Some (Quote_Source e)"

text \<open>\<open>map_err\<close>.\<close>

definition map_err :: "('e \<Rightarrow> 'f) \<Rightarrow> ('e, 'a) res \<Rightarrow> ('f, 'a) res" where
  "map_err f m = (case m of Inl (Error x) \<Rightarrow> Err (f x) | Inl Panic \<Rightarrow> panic | Inr v \<Rightarrow> Ok v)"

lemma map_err_simps [simp]:
  "map_err f (Ok v) = Ok v" "map_err f (Err x) = Err (f x)" "map_err f panic = panic"
  by (simp_all add: map_err_def)

lemma and_then_no_panic:
  "m \<noteq> panic \<Longrightarrow> (\<And>x. m = Inr x \<Longrightarrow> k x \<noteq> panic) \<Longrightarrow> and_then m k \<noteq> panic"
  by (cases m) simp_all

lemma case_no_panic:
  "(\<And>a b. p = (a, b) \<Longrightarrow> f a b \<noteq> panic) \<Longrightarrow> (case p of (a, b) \<Rightarrow> f a b) \<noteq> panic"
  by (cases p) simp

section \<open>The wrapper\<close>

text \<open>The generated implementations of one account type: \<open>Default\<close>, \<open>try_serialize\<close> into a
  fresh vector, and \<open>try_deserialize(&mut &[u8])\<close> with the bytes it leaves.\<close>

record 'a codec =
  codec_default :: 'a
  codec_serialize :: "'a \<Rightarrow> byte list anchor_result"
  codec_deserialize :: "byte list \<Rightarrow> ('a \<times> byte list) anchor_result"
  codec_deserialize_unchecked :: "byte list \<Rightarrow> ('a \<times> byte list) anchor_result"

definition wrapper_try_deserialize ::
  "'a codec \<Rightarrow> byte list \<Rightarrow> ('a \<times> byte list) anchor_result" where
  "wrapper_try_deserialize c buf =
     and_then (codec_serialize c (codec_default c)) (\<lambda>canonical.
       let expected = length canonical
       in if length buf \<ge> expected then codec_deserialize c buf
          else
            let padded = buf @ replicate (expected - length buf) 0
            in and_then (codec_deserialize c padded) (\<lambda>(inner, _).
                 Ok (inner, drop (length buf) buf)))"

definition wrapper_try_deserialize_unchecked ::
  "'a codec \<Rightarrow> byte list \<Rightarrow> ('a \<times> byte list) anchor_result" where
  "wrapper_try_deserialize_unchecked c buf =
     and_then (codec_serialize c (codec_default c)) (\<lambda>canonical.
       let expected = length canonical
       in if length buf \<ge> expected then codec_deserialize_unchecked c buf
          else
            let padded = buf @ replicate (expected - length buf) 0
            in and_then (codec_deserialize_unchecked c padded) (\<lambda>(inner, _).
                 Ok (inner, drop (length buf) buf)))"

text \<open>\<open>AccountSerialize\<close> forwards to the account inside.\<close>

definition wrapper_try_serialize :: "'a codec \<Rightarrow> 'a \<Rightarrow> byte list anchor_result" where
  "wrapper_try_serialize c v = codec_serialize c v"

section \<open>Decoders\<close>

definition decode ::
  "(byte list \<Rightarrow> ('a \<times> byte list) anchor_result) \<Rightarrow> byte list \<Rightarrow> 'a client_result" where
  "decode try_deserialize data = map_err Decode (map_res fst (try_deserialize data))"

text \<open>The accounts of which the SDK reads fields come with their codec; those it only passes on
  (volume accumulators, sharing config, the agent's configuration) with a codec of any type.
  \<open>QuoteControl\<close>, \<open>SharingConfig\<close>, \<open>Mint\<close> and \<open>TokenAccount\<close> are not wrapped; of the last
  two only the supply and the amount are read.\<close>

record codecs =
  global_codec :: "global codec"
  fee_config_codec :: "fee_config codec"
  bonding_curve_codec :: "bonding_curve codec"
  global_config_codec :: "global_config codec"
  pool_codec :: "pool codec"
  quote_control_deserialize :: "byte list \<Rightarrow> (quote_control \<times> byte list) anchor_result"
  mint_deserialize :: "byte list \<Rightarrow> (u64 \<times> byte list) anchor_result"
  token_account_deserialize :: "byte list \<Rightarrow> (u64 \<times> byte list) anchor_result"

definition decode_global :: "'c codecs_scheme \<Rightarrow> byte list \<Rightarrow> global client_result" where
  "decode_global cs = decode (wrapper_try_deserialize (global_codec cs))"

definition decode_fee_config :: "'c codecs_scheme \<Rightarrow> byte list \<Rightarrow> fee_config client_result" where
  "decode_fee_config cs = decode (wrapper_try_deserialize (fee_config_codec cs))"

definition decode_bonding_curve ::
  "'c codecs_scheme \<Rightarrow> byte list \<Rightarrow> bonding_curve client_result" where
  "decode_bonding_curve cs = decode (wrapper_try_deserialize (bonding_curve_codec cs))"

text \<open>\<open>Result::ok\<close>; a panic stays one.\<close>

definition result_ok :: "('e, 'a) res \<Rightarrow> ('f, 'a option) res" where
  "result_ok m = (case m of Inr v \<Rightarrow> Ok (Some v) | Inl (Error _) \<Rightarrow> Ok None | Inl Panic \<Rightarrow> panic)"

definition decode_bonding_curve_nullable ::
  "'c codecs_scheme \<Rightarrow> byte list \<Rightarrow> ('e, bonding_curve option) res" where
  "decode_bonding_curve_nullable cs data = result_ok (decode_bonding_curve cs data)"

definition decode_quote_control ::
  "'c codecs_scheme \<Rightarrow> byte list \<Rightarrow> quote_control client_result" where
  "decode_quote_control cs = decode (quote_control_deserialize cs)"

definition decode_global_config ::
  "'c codecs_scheme \<Rightarrow> byte list \<Rightarrow> global_config client_result" where
  "decode_global_config cs = decode (wrapper_try_deserialize (global_config_codec cs))"

definition decode_pool :: "'c codecs_scheme \<Rightarrow> byte list \<Rightarrow> pool client_result" where
  "decode_pool cs = decode (wrapper_try_deserialize (pool_codec cs))"

definition decode_global_volume_accumulator :: "'a codec \<Rightarrow> byte list \<Rightarrow> 'a client_result" where
  "decode_global_volume_accumulator c = decode (wrapper_try_deserialize c)"

definition decode_user_volume_accumulator :: "'a codec \<Rightarrow> byte list \<Rightarrow> 'a client_result" where
  "decode_user_volume_accumulator c = decode (wrapper_try_deserialize c)"

definition decode_user_volume_accumulator_nullable ::
  "'a codec \<Rightarrow> byte list \<Rightarrow> ('e, 'a option) res" where
  "decode_user_volume_accumulator_nullable c data =
     result_ok (decode_user_volume_accumulator c data)"

definition decode_sharing_config ::
  "(byte list \<Rightarrow> ('a \<times> byte list) anchor_result) \<Rightarrow> byte list \<Rightarrow> 'a client_result" where
  "decode_sharing_config deserialize = decode deserialize"

end
