(* ===== verification/Rpc_Client.thy ===== *)
theory Rpc_Client
  imports Account_Codec
begin

text \<open>
  The fetching half of \<open>AsyncPumpClient\<close> (\<open>src/src/async_client.rs\<close>). The cluster behind the
  RPC connection is a state of any type that every call may change: an operation of the client
  takes it and returns its result with the next one. The calls of \<open>RpcClient\<close> are the fields of
  \<open>rpc\<close>; the commitment they are made at is part of them.
\<close>

section \<open>The RPC connection\<close>

record account =
  ac_lamports :: u64
  ac_data :: "byte list"
  ac_owner :: pubkey
  ac_executable :: bool
  ac_rent_epoch :: u64

type_synonym ('s, 'a) rpc_call = "'s \<Rightarrow> (rpc_error, 'a) res \<times> 's"

record 's rpc =
  rpc_get_account :: "pubkey \<Rightarrow> ('s, account option) rpc_call"
  rpc_get_multiple :: "pubkey list \<Rightarrow> ('s, account option list) rpc_call"
  rpc_min_rent :: "nat \<Rightarrow> ('s, u64) rpc_call"

text \<open>An operation with errors \<open>'e\<close>, of the client those of \<open>client_error\<close>; \<open>io\<close> is a
  computation without effect, \<open>io_bind\<close> is \<open>?\<close> followed by the rest, \<open>io_call\<close> is
  \<open>.await.map_err(PumpClientError::from)\<close>.\<close>

type_synonym ('s, 'e, 'a) io = "'s \<Rightarrow> ('e, 'a) res \<times> 's"
type_synonym ('s, 'a) client_io = "('s, client_error, 'a) io"

definition io :: "('e, 'a) res \<Rightarrow> ('s, 'e, 'a) io" where
  "io r = (\<lambda>s. (r, s))"

definition io_bind ::
  "('s, 'e, 'a) io \<Rightarrow> ('a \<Rightarrow> ('s, 'e, 'b) io) \<Rightarrow> ('s, 'e, 'b) io" where
  "io_bind m k = (\<lambda>s. case m s of (Inl f, s') \<Rightarrow> (Inl f, s') | (Inr x, s') \<Rightarrow> k x s')"

definition io_call :: "('s, 'a) rpc_call \<Rightarrow> ('s, 'a) client_io" where
  "io_call c = (\<lambda>s. case c s of (r, s') \<Rightarrow> (map_err Rpc r, s'))"

lemma io_bind_io [simp]:
  "io_bind (io (Inr x)) k = k x"
  "io_bind (io (Inl f)) k = io (Inl f)"
  by (simp_all add: io_bind_def io_def)

text \<open>\<open>From<QuoteError>\<close>.\<close>

definition quote_err :: "'a quote_result \<Rightarrow> 'a client_result" where
  "quote_err = map_err Quote"

section \<open>Compute budget\<close>

record compute_budget =
  cb_units :: "u32 option"
  cb_micro_lamports_per_unit :: "u64 option"

text \<open>The two constructors of \<open>ComputeBudgetInstruction\<close> are arguments.\<close>

definition prepend_into ::
  "(u32 \<Rightarrow> 'i) \<Rightarrow> (u64 \<Rightarrow> 'i) \<Rightarrow> compute_budget \<Rightarrow> 'i list \<Rightarrow> 'i list" where
  "prepend_into set_limit set_price cb ixs =
     (let out = [];
          out = (case cb_units cb of None \<Rightarrow> out | Some units \<Rightarrow> out @ [set_limit units]);
          out = (case cb_micro_lamports_per_unit cb of
                   None \<Rightarrow> out | Some price \<Rightarrow> out @ [set_price price])
      in out @ ixs)"

text \<open>\<open>Transaction::new_signed_with_payer\<close> is the argument \<open>sign\<close>.\<close>

definition build_transaction_with_blockhash ::
  "(u32 \<Rightarrow> 'i) \<Rightarrow> (u64 \<Rightarrow> 'i) \<Rightarrow> ('i list \<Rightarrow> pubkey \<Rightarrow> 'signers \<Rightarrow> 'hash \<Rightarrow> 'tx) \<Rightarrow>
     'i list \<Rightarrow> pubkey \<Rightarrow> 'signers \<Rightarrow> 'hash \<Rightarrow> compute_budget option \<Rightarrow> 'tx"
where
  "build_transaction_with_blockhash set_limit set_price sign ixs payer signers recent_blockhash cb =
     (let full_ixs = (case cb of None \<Rightarrow> ixs | Some cb \<Rightarrow> prepend_into set_limit set_price cb ixs)
      in sign full_ixs payer signers recent_blockhash)"

definition latest_blockhash :: "('s, 'hash) rpc_call \<Rightarrow> ('s, 'hash) client_io" where
  "latest_blockhash get_latest_blockhash = io_call get_latest_blockhash"

definition build_transaction ::
  "(u32 \<Rightarrow> 'i) \<Rightarrow> (u64 \<Rightarrow> 'i) \<Rightarrow> ('i list \<Rightarrow> pubkey \<Rightarrow> 'signers \<Rightarrow> 'hash \<Rightarrow> 'tx) \<Rightarrow>
     ('s, 'hash) rpc_call \<Rightarrow> 'i list \<Rightarrow> pubkey \<Rightarrow> 'signers \<Rightarrow> compute_budget option \<Rightarrow>
     ('s, 'tx) client_io"
where
  "build_transaction set_limit set_price sign get_latest_blockhash ixs payer signers cb =
     io_bind (latest_blockhash get_latest_blockhash) (\<lambda>recent_blockhash.
       io (Ok (build_transaction_with_blockhash set_limit set_price sign ixs payer signers
                 recent_blockhash cb)))"

text \<open>The calls of \<open>RpcClient\<close> that take a transaction are arguments, and so is the field
  \<open>value\<close> of a simulation's response.\<close>

definition simulate_transaction ::
  "('tx \<Rightarrow> ('s, 'response) rpc_call) \<Rightarrow> ('response \<Rightarrow> 'result) \<Rightarrow> 'tx \<Rightarrow> ('s, 'result) client_io" where
  "simulate_transaction rpc_simulate response_value tx =
     io_bind (io_call (rpc_simulate tx)) (\<lambda>response. io (Ok (response_value response)))"

definition send_transaction ::
  "('tx \<Rightarrow> ('s, 'signature) rpc_call) \<Rightarrow> 'tx \<Rightarrow> ('s, 'signature) client_io" where
  "send_transaction rpc_send tx = io_call (rpc_send tx)"

definition send_and_confirm_transaction ::
  "('tx \<Rightarrow> ('s, 'signature) rpc_call) \<Rightarrow> 'tx \<Rightarrow> ('s, 'signature) client_io" where
  "send_and_confirm_transaction rpc_send_and_confirm tx = io_call (rpc_send_and_confirm tx)"

section \<open>Account access\<close>

definition get_many :: "'s rpc \<Rightarrow> pubkey list \<Rightarrow> ('s, account option list) client_io" where
  "get_many r keys = io_call (rpc_get_multiple r keys)"

definition get_account :: "'s rpc \<Rightarrow> pubkey \<Rightarrow> string \<Rightarrow> ('s, account) client_io" where
  "get_account r address nm =
     io_bind (io_call (rpc_get_account r address)) (\<lambda>value.
       io (ok_or value (AccountNotFound nm address)))"

text \<open>\<open>accounts[i]\<close> and \<open>keys[i]\<close> panic out of range; the argument of \<open>ok_or\<close> is evaluated
  in either case.\<close>

definition required ::
  "account option list \<Rightarrow> pubkey list \<Rightarrow> nat \<Rightarrow> string \<Rightarrow> account client_result" where
  "required accounts keys i nm =
     (if i < length accounts \<and> i < length keys
      then ok_or (accounts ! i) (AccountNotFound nm (keys ! i))
      else panic)"

definition token_amount :: "'c codecs_scheme \<Rightarrow> account \<Rightarrow> u64 client_result" where
  "token_amount cs ac = decode (token_account_deserialize cs) (ac_data ac)"

definition mint_info :: "'c codecs_scheme \<Rightarrow> account \<Rightarrow> (u64 \<times> pubkey) client_result" where
  "mint_info cs ac =
     and_then (decode (mint_deserialize cs) (ac_data ac)) (\<lambda>supply. Ok (supply, ac_owner ac))"

section \<open>Single accounts\<close>

definition fetch_global ::
  "'e pda_env_scheme \<Rightarrow> 'c codecs_scheme \<Rightarrow> 's rpc \<Rightarrow> ('s, global) client_io" where
  "fetch_global e cs r =
     io_bind (get_account r (fst (pump_global e)) ''global'')
       (\<lambda>ac. io (decode_global cs (ac_data ac)))"

definition fetch_fee_config ::
  "'e pda_env_scheme \<Rightarrow> 'c codecs_scheme \<Rightarrow> 's rpc \<Rightarrow> ('s, fee_config) client_io" where
  "fetch_fee_config e cs r =
     io_bind (get_account r (fst (pump_fee_config e)) ''fee_config'')
       (\<lambda>ac. io (decode_fee_config cs (ac_data ac)))"

definition fetch_quote_control ::
  "'e pda_env_scheme \<Rightarrow> 'c codecs_scheme \<Rightarrow> 's rpc \<Rightarrow> ('s, quote_control) client_io" where
  "fetch_quote_control e cs r =
     io_bind (get_account r (fst (pump_quote_control e)) ''quote_control'')
       (\<lambda>ac. io (decode_quote_control cs (ac_data ac)))"

definition fetch_bonding_curve ::
  "'e pda_env_scheme \<Rightarrow> 'c codecs_scheme \<Rightarrow> 's rpc \<Rightarrow> pubkey \<Rightarrow> ('s, bonding_curve) client_io" where
  "fetch_bonding_curve e cs r mint =
     io_bind (get_account r (fst (pump_bonding_curve e mint)) ''bonding_curve'')
       (\<lambda>ac. io (decode_bonding_curve cs (ac_data ac)))"

definition fetch_global_volume_accumulator ::
  "'e pda_env_scheme \<Rightarrow> 'a codec \<Rightarrow> 's rpc \<Rightarrow> ('s, 'a) client_io" where
  "fetch_global_volume_accumulator e c r =
     io_bind (get_account r (fst (pump_global_volume_accumulator e)) ''global_volume_accumulator'')
       (\<lambda>ac. io (decode_global_volume_accumulator c (ac_data ac)))"

definition fetch_user_volume_accumulator ::
  "'e pda_env_scheme \<Rightarrow> 'a codec \<Rightarrow> 's rpc \<Rightarrow> pubkey \<Rightarrow> ('s, 'a option) client_io" where
  "fetch_user_volume_accumulator e c r user =
     io_bind (io_call (rpc_get_account r (fst (pump_user_volume_accumulator e user))))
       (\<lambda>value. case value of
            Some ac \<Rightarrow> io (decode_user_volume_accumulator_nullable c (ac_data ac))
          | None \<Rightarrow> io (Ok None))"

definition fetch_pool :: "'c codecs_scheme \<Rightarrow> 's rpc \<Rightarrow> pubkey \<Rightarrow> ('s, pool) client_io" where
  "fetch_pool cs r pool_key =
     io_bind (get_account r pool_key ''pool'') (\<lambda>ac. io (decode_pool cs (ac_data ac)))"

definition fetch_amm_global_config ::
  "'e pda_env_scheme \<Rightarrow> 'c codecs_scheme \<Rightarrow> 's rpc \<Rightarrow> ('s, global_config) client_io" where
  "fetch_amm_global_config e cs r =
     io_bind (get_account r (fst (amm_global_config e)) ''amm_global_config'')
       (\<lambda>ac. io (decode_global_config cs (ac_data ac)))"

definition fetch_amm_fee_config ::
  "'e pda_env_scheme \<Rightarrow> 'c codecs_scheme \<Rightarrow> 's rpc \<Rightarrow> ('s, fee_config) client_io" where
  "fetch_amm_fee_config e cs r =
     io_bind (get_account r (fst (amm_fee_config e)) ''amm_fee_config'')
       (\<lambda>ac. io (decode_fee_config cs (ac_data ac)))"

definition fetch_mint ::
  "'c codecs_scheme \<Rightarrow> 's rpc \<Rightarrow> pubkey \<Rightarrow> ('s, u64 \<times> pubkey) client_io" where
  "fetch_mint cs r mint =
     io_bind (get_account r mint ''mint'') (\<lambda>ac. io (mint_info cs ac))"

text \<open>The subtraction is guarded by the comparison before it.\<close>

definition get_creator_vault_balance ::
  "'e pda_env_scheme \<Rightarrow> 's rpc \<Rightarrow> pubkey \<Rightarrow> ('s, u64) client_io" where
  "get_creator_vault_balance e r creator =
     (let creator_vault = fst (pump_creator_vault e creator)
      in io_bind (io_call (rpc_get_account r creator_vault)) (\<lambda>value. case value of
           None \<Rightarrow> io (Ok 0)
         | Some ac \<Rightarrow>
             io_bind (io_call (rpc_min_rent r (length (ac_data ac)))) (\<lambda>rent_exempt.
               io (Ok (if ac_lamports ac \<le> rent_exempt then 0
                       else ac_lamports ac - rent_exempt)))))"

section \<open>Trade snapshots\<close>

record buy_state =
  bs_bonding_curve_account :: account
  bs_bonding_curve :: bonding_curve
  bs_associated_user_account :: "account option"

record sell_state =
  ss_bonding_curve_account :: account
  ss_bonding_curve :: bonding_curve

text \<open>\<open>Iterator::next\<close> then \<open>Option::flatten\<close>.\<close>

fun next_flatten :: "'a option list \<Rightarrow> 'a option \<times> 'a option list" where
  "next_flatten [] = (None, [])"
| "next_flatten (x # xs) = (x, xs)"

definition fetch_bonding_curve_with_user_token_account ::
  "'e pda_env_scheme \<Rightarrow> 'c codecs_scheme \<Rightarrow> 's rpc \<Rightarrow> pubkey \<Rightarrow> pubkey \<Rightarrow> pubkey \<Rightarrow>
     ('s, account \<times> bonding_curve \<times> account option) client_io"
where
  "fetch_bonding_curve_with_user_token_account e cs r mint user token_program =
     (let bonding_curve_address = fst (pump_bonding_curve e mint);
          associated_user = fst (associated_token e user token_program mint)
      in io_bind (get_many r [bonding_curve_address, associated_user]) (\<lambda>accounts.
         let (value, accounts) = next_flatten accounts
         in io_bind (io (ok_or value (AccountNotFound ''bonding_curve'' bonding_curve_address)))
              (\<lambda>bonding_curve_account.
            let (associated_user_account, accounts) = next_flatten accounts
            in io_bind (io (decode_bonding_curve cs (ac_data bonding_curve_account)))
                 (\<lambda>bc. io (Ok (bonding_curve_account, bc, associated_user_account))))))"

definition fetch_buy_state ::
  "'e pda_env_scheme \<Rightarrow> 'c codecs_scheme \<Rightarrow> 's rpc \<Rightarrow> pubkey \<Rightarrow> pubkey \<Rightarrow> pubkey \<Rightarrow>
     ('s, buy_state) client_io"
where
  "fetch_buy_state e cs r mint user token_program =
     io_bind (fetch_bonding_curve_with_user_token_account e cs r mint user token_program)
       (\<lambda>(bonding_curve_account, bc, associated_user_account).
         io (Ok \<lparr>bs_bonding_curve_account = bonding_curve_account, bs_bonding_curve = bc,
                 bs_associated_user_account = associated_user_account\<rparr>))"

definition fetch_sell_state ::
  "'e pda_env_scheme \<Rightarrow> 'c codecs_scheme \<Rightarrow> 's rpc \<Rightarrow> pubkey \<Rightarrow> pubkey \<Rightarrow> pubkey \<Rightarrow>
     ('s, sell_state) client_io"
where
  "fetch_sell_state e cs r mint user token_program =
     io_bind (fetch_bonding_curve_with_user_token_account e cs r mint user token_program)
       (\<lambda>(bonding_curve_account, bc, associated_user_account).
         io (if associated_user_account = None
             then Err (AccountNotFound ''associated_user''
                         (fst (associated_token e user token_program mint)))
             else Ok \<lparr>ss_bonding_curve_account = bonding_curve_account, ss_bonding_curve = bc\<rparr>))"

end
