(* ===== verification/Client_Trades.thy ===== *)
theory Client_Trades
  imports Rpc_Client Pump_V3 Pump_V2_Coin
begin

text \<open>
  The parts of \<open>src/src/async_client.rs\<close> that quote and build one curve trade, or the inputs of
  \<open>create_v2\<close> for a coin quoted in a pump coin: the batched fetches, then the quotes and
  builders of \<open>PumpSdk\<close> on what was fetched. \<open>draw\<close> is the draw of the buyback recipient.
\<close>

section \<open>Curve trades\<close>

record curve_quote_state =
  cq_global :: global
  cq_fee_config :: fee_config
  cq_bonding_curve :: bonding_curve
  cq_mint :: pubkey
  cq_mint_supply :: u64
  cq_base_token_program :: pubkey
  cq_quote_mint :: pubkey
  cq_quote_token_program :: pubkey
  cq_base_ata_amount :: u64
  cq_buyback_fee_recipient :: pubkey

text \<open>\<open>accounts[i].as_ref().map_or(Ok(0), token_amount)\<close>.\<close>

definition amount_or_zero ::
  "'c codecs_scheme \<Rightarrow> account option list \<Rightarrow> nat \<Rightarrow> u64 client_result" where
  "amount_or_zero cs accounts i =
     (if i < length accounts
      then (case accounts ! i of None \<Rightarrow> Ok 0 | Some ac \<Rightarrow> token_amount cs ac)
      else panic)"

definition fetch_curve_quote_state ::
  "'e pda_env_scheme \<Rightarrow> 'c codecs_scheme \<Rightarrow> 's rpc \<Rightarrow> (nat \<Rightarrow> nat) \<Rightarrow> pubkey \<Rightarrow>
     ('s, curve_quote_state) client_io"
where
  "fetch_curve_quote_state e cs r draw mint =
     (let keys = [fst (pump_global e), fst (pump_fee_config e), fst (pump_bonding_curve e mint), mint]
      in io_bind (get_many r keys) (\<lambda>accounts.
         io_bind (io (required accounts keys 2 ''bonding_curve'')) (\<lambda>curve_account.
         io_bind (io (decode_bonding_curve cs (ac_data curve_account))) (\<lambda>bc.
         io_bind (io (required accounts keys 3 ''mint'')) (\<lambda>mint_account.
         io_bind (io (mint_info cs mint_account)) (\<lambda>(mint_supply, base_token_program).
         let quote_mint = resolve_quote_mint (bc_quote_mint bc);
             base_ata = fst (associated_token e (keys ! 2) base_token_program mint);
             second = [quote_mint, base_ata]
         in io_bind (get_many r second) (\<lambda>more.
         io_bind (io (required more second 0 ''quote_mint'')) (\<lambda>quote_account.
         let quote_token_program = ac_owner quote_account
         in io_bind (io (amount_or_zero cs more 1)) (\<lambda>base_ata_amount.
         io_bind (io (required accounts keys 0 ''global'')) (\<lambda>global_account.
         io_bind (io (decode_global cs (ac_data global_account))) (\<lambda>glob.
         io_bind (io (ok_or (buyback_fee_recipient_from_pump_global draw glob)
                        (AccountNotFound ''buyback_fee_recipient'' (keys ! 0))))
           (\<lambda>buyback_fee_recipient.
         io_bind (io (required accounts keys 1 ''fee_config'')) (\<lambda>fee_account.
         io_bind (io (decode_fee_config cs (ac_data fee_account))) (\<lambda>fc.
           io (Ok \<lparr>cq_global = glob, cq_fee_config = fc, cq_bonding_curve = bc, cq_mint = mint,
             cq_mint_supply = mint_supply, cq_base_token_program = base_token_program,
             cq_quote_mint = quote_mint, cq_quote_token_program = quote_token_program,
             cq_base_ata_amount = base_ata_amount,
             cq_buyback_fee_recipient = buyback_fee_recipient\<rparr>)))))))))))))))"

definition build_buy_v3 ::
  "'e sdk_env_scheme \<Rightarrow> 'c codecs_scheme \<Rightarrow> 's rpc \<Rightarrow> (nat \<Rightarrow> nat) \<Rightarrow> pubkey \<Rightarrow> pubkey \<Rightarrow> u64 \<Rightarrow>
     u16 \<Rightarrow> ('s, trade_quote \<times> instruction list) client_io"
where
  "build_buy_v3 e cs r draw user mint amount slippage_bps =
     io_bind (fetch_curve_quote_state e cs r draw mint) (\<lambda>q.
     io_bind (io (quote_err (buy_quote_bonding_curve_v3_token_out e (cq_global q) (cq_fee_config q)
         (cq_bonding_curve q) (cq_mint_supply q) (cq_base_ata_amount q) amount slippage_bps)))
       (\<lambda>quote.
     let ixs = buy_v3_instructions e (cq_mint q) (cq_quote_mint q) (cq_base_token_program q)
           (cq_quote_token_program q) user (cq_buyback_fee_recipient q) amount (q_max_input quote)
     in io (Ok (quote, ixs))))"

definition build_buy_exact_quote_in_v3 ::
  "'e sdk_env_scheme \<Rightarrow> 'c codecs_scheme \<Rightarrow> 's rpc \<Rightarrow> (nat \<Rightarrow> nat) \<Rightarrow> pubkey \<Rightarrow> pubkey \<Rightarrow> u64 \<Rightarrow>
     u16 \<Rightarrow> ('s, trade_quote \<times> instruction list) client_io"
where
  "build_buy_exact_quote_in_v3 e cs r draw user mint spendable_quote_in slippage_bps =
     io_bind (fetch_curve_quote_state e cs r draw mint) (\<lambda>q.
     io_bind (io (quote_err (buy_quote_bonding_curve_v3_sol_in e (cq_global q) (cq_fee_config q)
         (cq_bonding_curve q) (cq_mint_supply q) (cq_base_ata_amount q) spendable_quote_in
         slippage_bps)))
       (\<lambda>quote.
     let ixs = buy_exact_quote_in_v3_instructions e (cq_mint q) (cq_quote_mint q)
           (cq_base_token_program q) (cq_quote_token_program q) user (cq_buyback_fee_recipient q)
           spendable_quote_in (q_min_out quote)
     in io (Ok (quote, ixs))))"

definition build_sell_v3 ::
  "'e sdk_env_scheme \<Rightarrow> 'c codecs_scheme \<Rightarrow> 's rpc \<Rightarrow> (nat \<Rightarrow> nat) \<Rightarrow> pubkey \<Rightarrow> pubkey \<Rightarrow> u64 \<Rightarrow>
     u16 \<Rightarrow> ('s, trade_quote \<times> instruction list) client_io"
where
  "build_sell_v3 e cs r draw user mint amount slippage_bps =
     io_bind (fetch_curve_quote_state e cs r draw mint) (\<lambda>q.
     io_bind (io (quote_err (sell_quote_bonding_curve e (cq_global q) (cq_fee_config q)
         (cq_bonding_curve q) (cq_mint_supply q) amount slippage_bps)))
       (\<lambda>quote.
     let ixs = sell_v3_instructions e (cq_mint q) (cq_quote_mint q) (cq_base_token_program q)
           (cq_quote_token_program q) user (cq_buyback_fee_recipient q) amount (q_min_out quote)
     in io (Ok (quote, ixs))))"

section \<open>Creating a coin quoted in a pump coin\<close>

record pump_quote_create =
  pqc_virtual_quote_reserves :: u64
  pqc_depth :: u8
  pqc_quote_token_program :: pubkey
  pqc_remaining_accounts :: "account_meta list"

text \<open>\<open>Vec::pop\<close> then \<open>Option::flatten\<close>; \<open>.map(f).transpose()\<close>.\<close>

definition pop_flatten :: "'a option list \<Rightarrow> 'a option" where
  "pop_flatten xs = (if xs = [] then None else last xs)"

definition map_transpose :: "('a \<Rightarrow> ('e, 'b) res) \<Rightarrow> 'a option \<Rightarrow> ('e, 'b option) res" where
  "map_transpose f x = (case x of None \<Rightarrow> Ok None | Some v \<Rightarrow> map_res Some (f v))"

definition fetch_pump_quote_create ::
  "'e pda_env_scheme \<Rightarrow> 'c codecs_scheme \<Rightarrow> 's rpc \<Rightarrow> pubkey \<Rightarrow> ('s, pump_quote_create) client_io"
where
  "fetch_pump_quote_create e cs r quote_mint =
     (let keys = [fst (pump_global e), fst (pump_quote_control e),
                  fst (pump_bonding_curve e quote_mint), quote_mint]
      in io_bind (get_many r keys) (\<lambda>accounts.
         io_bind (io (required accounts keys 0 ''global'')) (\<lambda>ac0.
         io_bind (io (decode_global cs (ac_data ac0))) (\<lambda>glob.
         io_bind (io (required accounts keys 1 ''quote_control'')) (\<lambda>ac1.
         io_bind (io (decode_quote_control cs (ac_data ac1))) (\<lambda>qc.
         io_bind (io (required accounts keys 2 ''bonding_curve'')) (\<lambda>ac2.
         io_bind (io (decode_bonding_curve cs (ac_data ac2))) (\<lambda>quote_curve.
         io_bind (io (required accounts keys 3 ''quote_mint'')) (\<lambda>ac3.
         io_bind (io (mint_info cs ac3)) (\<lambda>(_, quote_token_program).
         let pool_key = fst (canonical_pool e quote_mint
               (resolve_quote_mint (bc_quote_mint quote_curve)))
         in io_bind
              (if complete quote_curve
               then io_bind (get_many r [pool_key]) (\<lambda>accounts.
                      io (map_transpose (\<lambda>a. decode_pool cs (ac_data a)) (pop_flatten accounts)))
               else io (Ok None)) (\<lambda>pl_opt.
            io_bind
              (case pl_opt of
                 None \<Rightarrow> io (Ok None)
               | Some pl \<Rightarrow>
                   let keys = [p_pool_base_token_account pl, p_pool_quote_token_account pl]
                   in io_bind (get_many r keys) (\<lambda>accounts.
                      io_bind (io (required accounts keys 0 ''pool_base_token_account'')) (\<lambda>b.
                      io_bind (io (token_amount cs b)) (\<lambda>base.
                      io_bind (io (required accounts keys 1 ''pool_quote_token_account'')) (\<lambda>q.
                      io_bind (io (token_amount cs q)) (\<lambda>quote. io (Ok (Some (base, quote)))))))))
              (\<lambda>vaults.
            io_bind (io (quote_err (pump_quote_initial_virtual_quote_reserves glob (Some qc)
                quote_curve
                (case (pl_opt, vaults) of (Some pl, Some (b, q)) \<Rightarrow> Some (pl, b, q) | _ \<Rightarrow> None))))
              (\<lambda>(virtual_reserves, new_depth).
              io (Ok \<lparr>pqc_virtual_quote_reserves = virtual_reserves, pqc_depth = new_depth,
                pqc_quote_token_program = quote_token_program,
                pqc_remaining_accounts = create_v2_pump_quote_accounts e quote_mint
                  (map_option (\<lambda>pl. (pool_key, pl)) pl_opt)\<rparr>))))))))))))))"

end
