(* ===== verification/Client_Routes.thy ===== *)
theory Client_Routes
  imports Rpc_Client Pump_Amm_Ix
begin

text \<open>
  The multi-hop half of \<open>src/src/async_client.rs\<close>: discovering a route along the quote chain of
  the curves, fetching the state of its venues in two batches, quoting it and building the swap.
\<close>

section \<open>Routes\<close>

datatype route_venue =
    PoolVenue pubkey
  | CurveVenue pubkey

record multi_hop_route_plan =
  mr_in_mint :: pubkey
  mr_out_mint :: pubkey
  mr_venues :: "route_venue list"

definition plan_path :: "multi_hop_route_plan \<Rightarrow> bool \<Rightarrow> pubkey \<times> route_venue list" where
  "plan_path route is_buy =
     (if is_buy then (mr_in_mint route, mr_venues route)
      else (mr_out_mint route, rev (mr_venues route)))"

section \<open>Discovery\<close>

definition MAX_HOPS :: nat where "MAX_HOPS = 8"

text \<open>The body of the loop of \<open>discover_route\<close> past the fetch: the venue a curve becomes.\<close>

definition venue_of_curve :: "'e pda_env_scheme \<Rightarrow> pubkey \<Rightarrow> bonding_curve \<Rightarrow> route_venue" where
  "venue_of_curve e mint curve =
     (if complete curve
      then PoolVenue (fst (canonical_pool e mint (resolve_quote_mint (bc_quote_mint curve))))
      else CurveVenue mint)"

function discover_loop ::
  "'e pda_env_scheme \<Rightarrow> 'c codecs_scheme \<Rightarrow> 's rpc \<Rightarrow> pubkey option \<Rightarrow> route_venue list \<Rightarrow> pubkey \<Rightarrow>
     's \<Rightarrow> (route_venue list \<times> pubkey) client_result \<times> 's"
where
  "discover_loop e cs r stop_at venues mint s =
     (if Some mint = stop_at \<or> length venues \<ge> MAX_HOPS then (Ok (venues, mint), s)
      else (case io_call (rpc_get_account r (fst (pump_bonding_curve e mint))) s of
          (Inl f, s') \<Rightarrow> (Inl f, s')
        | (Inr value, s') \<Rightarrow>
            (case opt_filter (\<lambda>ac. ac_owner ac = PUMP_PROGRAM_ID) value of
               None \<Rightarrow> (Ok (venues, mint), s')
             | Some ac \<Rightarrow>
                 (case decode_bonding_curve cs (ac_data ac) of
                    Inl f \<Rightarrow> (Inl f, s')
                  | Inr curve \<Rightarrow>
                      discover_loop e cs r stop_at (venues @ [venue_of_curve e mint curve])
                        (resolve_quote_mint (bc_quote_mint curve)) s'))))"
  by pat_completeness auto

termination
  by (relation "measure (\<lambda>(e, cs, r, stop_at, venues, mint, s). MAX_HOPS - length venues)") auto

declare discover_loop.simps [simp del]

definition discover_route ::
  "'e pda_env_scheme \<Rightarrow> 'c codecs_scheme \<Rightarrow> 's rpc \<Rightarrow> pubkey \<Rightarrow> pubkey option \<Rightarrow>
     ('s, multi_hop_route_plan) client_io"
where
  "discover_route e cs r out_mint stop_at =
     io_bind (discover_loop e cs r stop_at [] out_mint) (\<lambda>(venues, mint).
       if venues = []
       then io (Err (AccountNotFound ''bonding_curve'' (fst (pump_bonding_curve e out_mint))))
       else io (Ok \<lparr>mr_in_mint = mint, mr_out_mint = out_mint, mr_venues = rev venues\<rparr>))"

section \<open>The state of a route\<close>

datatype venue_state =
    PoolState pool
  | CurveState pubkey bonding_curve u64 pubkey

fun venue_mints :: "venue_state \<Rightarrow> pubkey \<times> pubkey" where
  "venue_mints (PoolState pl) = (p_base_mint pl, p_quote_mint pl)"
| "venue_mints (CurveState mint curve _ _) = (mint, resolve_quote_mint (bc_quote_mint curve))"

datatype hop_state =
    HopPool pool u64 u64 u64
  | HopCurve pubkey bonding_curve pubkey pubkey u64 u64

fun as_route_hop :: "hop_state \<Rightarrow> route_hop" where
  "as_route_hop (HopPool pl base_reserve quote_vault_balance base_mint_supply) =
     PoolHop pl base_reserve quote_vault_balance base_mint_supply"
| "as_route_hop (HopCurve mint curve base_tp quote_tp mint_supply base_ata_amount) =
     CurveHop mint curve base_tp quote_tp mint_supply base_ata_amount"

record multi_hop_quote_state =
  mq_in_mint :: pubkey
  mq_in_token_program :: pubkey
  mq_out_mint :: pubkey
  mq_out_token_program :: pubkey
  mq_buyback_fee_recipient :: pubkey
  mq_global :: global
  mq_pump_fee_config :: fee_config
  mq_global_config :: global_config
  mq_amm_fee_config :: fee_config
  mq_hops :: "hop_state list"

definition route_hops :: "multi_hop_quote_state \<Rightarrow> route_hop list" where
  "route_hops q = map as_route_hop (mq_hops q)"

definition multi_hop_state_quote ::
  "'e pda_env_scheme \<Rightarrow> multi_hop_quote_state \<Rightarrow> pubkey \<Rightarrow> u64 \<Rightarrow> u16 \<Rightarrow> trade_quote quote_result" where
  "multi_hop_state_quote e q user amount_in slippage_bps =
     quote_multi_hop_swap e (mq_global q) (mq_pump_fee_config q) (mq_global_config q)
       (mq_amm_fee_config q) user (mq_in_mint q) (route_hops q) amount_in slippage_bps"

definition multi_hop_state_instructions ::
  "'e sdk_env_scheme \<Rightarrow> multi_hop_quote_state \<Rightarrow> pubkey \<Rightarrow> u64 \<Rightarrow> u64 \<Rightarrow>
     instruction list quote_result" where
  "multi_hop_state_instructions e q user amount_in min_amount_out =
     (let hops = map (route_hop_accounts e) (route_hops q)
      in multi_hop_swap_instructions e user (mq_in_mint q) (mq_in_token_program q)
           (mq_out_token_program q) hops (mq_buyback_fee_recipient q) amount_in min_amount_out)"

subsection \<open>Round 1: configs, venues and curve base mints\<close>

fun venue_keys :: "'e pda_env_scheme \<Rightarrow> route_venue \<Rightarrow> pubkey list" where
  "venue_keys e (PoolVenue pl) = [pl]"
| "venue_keys e (CurveVenue mint) = [fst (pump_bonding_curve e mint), mint]"

definition config_keys :: "'e pda_env_scheme \<Rightarrow> pubkey list" where
  "config_keys e = [fst (pump_global e), fst (pump_fee_config e), fst (amm_global_config e),
     fst (amm_fee_config e)]"

text \<open>The loop over the venues that decodes them: the closure \<open>need\<close>, the running index and the
  token programs found so far.\<close>

type_synonym token_programs = "pubkey \<rightharpoonup> pubkey"

fun read_venues ::
  "'c codecs_scheme \<Rightarrow> (nat \<Rightarrow> string \<Rightarrow> account client_result) \<Rightarrow> nat \<Rightarrow> token_programs \<Rightarrow>
     route_venue list \<Rightarrow> (venue_state list \<times> token_programs) client_result"
where
  "read_venues cs need i tps [] = Ok ([], tps)"
| "read_venues cs need i tps (PoolVenue _ # venues) =
     and_then (need i ''pool'') (\<lambda>ac.
     and_then (decode_pool cs (ac_data ac)) (\<lambda>pl.
     and_then (read_venues cs need (i + 1) tps venues) (\<lambda>(states, tps).
       Ok (PoolState pl # states, tps))))"
| "read_venues cs need i tps (CurveVenue mint # venues) =
     and_then (need i ''bonding_curve'') (\<lambda>ac.
     and_then (decode_bonding_curve cs (ac_data ac)) (\<lambda>curve.
     and_then (need (i + 1) ''mint'') (\<lambda>mint_account.
     and_then (mint_info cs mint_account) (\<lambda>(supply, base_token_program).
     and_then (read_venues cs need (i + 2) (tps(mint \<mapsto> base_token_program)) venues)
       (\<lambda>(states, tps).
       Ok (CurveState mint curve supply base_token_program # states, tps))))))"

definition mint_hop :: "venue_state \<Rightarrow> multi_hop_hop" where
  "mint_hop st = (case venue_mints st of (base_mint, quote_mint) \<Rightarrow>
     \<lparr>mh_base_mint = base_mint, mh_quote_mint = quote_mint, mh_venue = default_key,
      mh_base_vault = default_key, mh_quote_vault = default_key\<rparr>)"

subsection \<open>Round 2: vaults, token accounts and mints\<close>

fun state_keys :: "'e pda_env_scheme \<Rightarrow> venue_state \<Rightarrow> pubkey list" where
  "state_keys e (PoolState pl) = [p_pool_base_token_account pl, p_pool_quote_token_account pl,
     p_base_mint pl, p_quote_mint pl]"
| "state_keys e (CurveState mint curve _ base_token_program) =
     (let venue = fst (pump_bonding_curve e mint)
      in [fst (associated_token e venue base_token_program mint),
          resolve_quote_mint (bc_quote_mint curve)])"

fun read_hops ::
  "'c codecs_scheme \<Rightarrow> (nat \<Rightarrow> string \<Rightarrow> account client_result) \<Rightarrow> nat \<Rightarrow> token_programs \<Rightarrow>
     venue_state list \<Rightarrow> (hop_state list \<times> token_programs) client_result"
where
  "read_hops cs need i tps [] = Ok ([], tps)"
| "read_hops cs need i tps (PoolState pl # states) =
     and_then (need (i + 2) ''base_mint'') (\<lambda>base_mint_account.
     and_then (mint_info cs base_mint_account) (\<lambda>(base_mint_supply, base_token_program).
     let tps = tps(p_base_mint pl \<mapsto> base_token_program)
     in and_then (need (i + 3) ''quote_mint'') (\<lambda>quote_mint_account.
     let tps = tps(p_quote_mint pl \<mapsto> ac_owner quote_mint_account)
     in and_then (need i ''pool_base_token_account'') (\<lambda>base_vault.
     and_then (token_amount cs base_vault) (\<lambda>base_reserve.
     and_then (need (i + 1) ''pool_quote_token_account'') (\<lambda>quote_vault.
     and_then (token_amount cs quote_vault) (\<lambda>quote_vault_balance.
     and_then (read_hops cs need (i + 4) tps states) (\<lambda>(hops, tps).
       Ok (HopPool pl base_reserve quote_vault_balance base_mint_supply # hops, tps)))))))))"
| "read_hops cs need i tps (CurveState mint curve mint_supply base_token_program # states) =
     and_then (need (i + 1) ''quote_mint'') (\<lambda>quote_mint_account.
     let quote_token_program = ac_owner quote_mint_account;
         tps = tps(resolve_quote_mint (bc_quote_mint curve) \<mapsto> quote_token_program)
     in and_then (need i ''associated_bonding_curve'') (\<lambda>ata.
     and_then (token_amount cs ata) (\<lambda>base_ata_amount.
     and_then (read_hops cs need (i + 2) tps states) (\<lambda>(hops, tps).
       Ok (HopCurve mint curve base_token_program quote_token_program mint_supply base_ata_amount
             # hops, tps)))))"

subsection \<open>The fetch\<close>

definition token_program_of :: "token_programs \<Rightarrow> pubkey \<Rightarrow> pubkey client_result" where
  "token_program_of tps mint = ok_or (tps mint) (AccountNotFound ''mint'' mint)"

text \<open>The venue of the protocol leg, \<open>venues[if is_buy { 0 } else { venues.len() - 1 }]\<close>, and
  its configuration.\<close>

definition protocol_leg_config ::
  "'e pda_env_scheme \<Rightarrow> (nat \<Rightarrow> nat) \<Rightarrow> global \<Rightarrow> global_config \<Rightarrow> route_venue list \<Rightarrow> bool \<Rightarrow>
     (pubkey option \<times> pubkey) client_result"
where
  "protocol_leg_config e draw glob cfg venues is_buy =
     (if venues = [] then panic
      else Ok (case venues ! (if is_buy then 0 else length venues - 1) of
          PoolVenue _ \<Rightarrow> (buyback_fee_recipient_from_amm_global draw cfg, fst (amm_global_config e))
        | CurveVenue _ \<Rightarrow> (buyback_fee_recipient_from_pump_global draw glob, fst (pump_global e))))"

definition fetch_multi_hop_quote_state ::
  "'e pda_env_scheme \<Rightarrow> 'c codecs_scheme \<Rightarrow> 's rpc \<Rightarrow> (nat \<Rightarrow> nat) \<Rightarrow> pubkey \<Rightarrow> route_venue list \<Rightarrow>
     ('s, multi_hop_quote_state) client_io"
where
  "fetch_multi_hop_quote_state e cs r draw in_mint venues =
     (let keys = config_keys e @ concat (map (venue_keys e) venues)
      in io_bind (get_many r keys) (\<lambda>accounts.
         let need = required accounts keys
         in io_bind (io (need 0 ''global'')) (\<lambda>ac0.
         io_bind (io (decode_global cs (ac_data ac0))) (\<lambda>glob.
         io_bind (io (need 1 ''fee_config'')) (\<lambda>ac1.
         io_bind (io (decode_fee_config cs (ac_data ac1))) (\<lambda>pump_fc.
         io_bind (io (need 2 ''amm_global_config'')) (\<lambda>ac2.
         io_bind (io (decode_global_config cs (ac_data ac2))) (\<lambda>cfg.
         io_bind (io (need 3 ''amm_fee_config'')) (\<lambda>ac3.
         io_bind (io (decode_fee_config cs (ac_data ac3))) (\<lambda>amm_fc.
         io_bind (io (read_venues cs need 4 Map.empty venues)) (\<lambda>(states, tps).
         let route = map mint_hop states
         in io_bind (io (quote_err (multi_hop_route in_mint route))) (\<lambda>(is_buy, out_mint).
         let keys = concat (map (state_keys e) states)
         in io_bind (get_many r keys) (\<lambda>accounts.
         io_bind (io (read_hops cs (required accounts keys) 0 tps states)) (\<lambda>(hops, tps).
         io_bind (io (protocol_leg_config e draw glob cfg venues is_buy)) (\<lambda>(recipient, config).
         io_bind (io (token_program_of tps in_mint)) (\<lambda>in_token_program.
         io_bind (io (token_program_of tps out_mint)) (\<lambda>out_token_program.
         io_bind (io (ok_or recipient (AccountNotFound ''buyback_fee_recipient'' config)))
           (\<lambda>buyback_fee_recipient.
           io (Ok \<lparr>mq_in_mint = in_mint, mq_in_token_program = in_token_program,
             mq_out_mint = out_mint, mq_out_token_program = out_token_program,
             mq_buyback_fee_recipient = buyback_fee_recipient, mq_global = glob,
             mq_pump_fee_config = pump_fc, mq_global_config = cfg, mq_amm_fee_config = amm_fc,
             mq_hops = hops\<rparr>)))))))))))))))))))"

section \<open>Building the swap\<close>

definition build_multi_hop_swap_for_route ::
  "'e sdk_env_scheme \<Rightarrow> 'c codecs_scheme \<Rightarrow> 's rpc \<Rightarrow> (nat \<Rightarrow> nat) \<Rightarrow> pubkey \<Rightarrow>
     multi_hop_route_plan \<Rightarrow> bool \<Rightarrow> u64 \<Rightarrow> u16 \<Rightarrow> ('s, trade_quote \<times> instruction list) client_io"
where
  "build_multi_hop_swap_for_route e cs r draw user route is_buy amount_in slippage_bps =
     (let (in_mint, venues) = plan_path route is_buy
      in io_bind (fetch_multi_hop_quote_state e cs r draw in_mint venues) (\<lambda>q.
         io_bind (io (quote_err (multi_hop_state_quote e q user amount_in slippage_bps))) (\<lambda>quote.
         io_bind (io (quote_err
             (multi_hop_state_instructions e q user amount_in (q_min_out quote)))) (\<lambda>ixs.
           io (Ok (quote, ixs))))))"

definition build_multi_hop_swap ::
  "'e sdk_env_scheme \<Rightarrow> 'c codecs_scheme \<Rightarrow> 's rpc \<Rightarrow> (nat \<Rightarrow> nat) \<Rightarrow> pubkey \<Rightarrow> pubkey \<Rightarrow> bool \<Rightarrow>
     u64 \<Rightarrow> u16 \<Rightarrow> ('s, trade_quote \<times> instruction list) client_io"
where
  "build_multi_hop_swap e cs r draw user out_mint is_buy amount_in slippage_bps =
     io_bind (discover_route e cs r out_mint None) (\<lambda>route.
       build_multi_hop_swap_for_route e cs r draw user route is_buy amount_in slippage_bps)"

definition build_multi_hop_swap_from ::
  "'e sdk_env_scheme \<Rightarrow> 'c codecs_scheme \<Rightarrow> 's rpc \<Rightarrow> (nat \<Rightarrow> nat) \<Rightarrow> pubkey \<Rightarrow> pubkey \<Rightarrow> pubkey \<Rightarrow>
     bool \<Rightarrow> u64 \<Rightarrow> u16 \<Rightarrow> ('s, trade_quote \<times> instruction list) client_io"
where
  "build_multi_hop_swap_from e cs r draw user in_mint out_mint is_buy amount_in slippage_bps =
     io_bind (discover_route e cs r out_mint (Some in_mint)) (\<lambda>route.
       if mr_in_mint route \<noteq> in_mint then io (Err (Quote MultiHopDiscontinuousPath))
       else build_multi_hop_swap_for_route e cs r draw user route is_buy amount_in slippage_bps)"

end
