(* ===== verification/Curve_Codec.thy ===== *)
theory Curve_Codec
  imports Account_Codec
begin

text \<open>
  What the wrapper needs of a generated codec, as the locale \<open>account_codec\<close>, and the codec of
  \<open>BondingCurve\<close> written out from its IDL struct (discriminator, then the Borsh encodings of the
  fields in order), on which the locale is interpreted.
\<close>

section \<open>The interface\<close>

locale account_codec =
  fixes ser :: "'a \<Rightarrow> byte list"
    and deser :: "byte list \<Rightarrow> ('a \<times> byte list) anchor_result"
    and unguarded :: "byte list \<Rightarrow> ('a \<times> byte list) anchor_result"
    and dflt :: 'a
  assumes deser_ser: "deser (ser v @ rest) = Ok (v, rest)"
    and deser_unchecked: "deser bs = Ok r \<Longrightarrow> unguarded bs = Ok r"
    and ser_length: "length (ser v) = length (ser dflt)"
begin

definition codec_of :: "'a codec" where
  "codec_of = \<lparr>codec_default = dflt, codec_serialize = (\<lambda>v. Ok (ser v)),
     codec_deserialize = deser, codec_deserialize_unchecked = unguarded\<rparr>"

lemma deser_exact: "deser (ser v) = Ok (v, [])"
  using deser_ser [of v "[]"] by (simp only: append_Nil2)

lemma wrapper_full: "wrapper_try_deserialize codec_of (ser v @ rest) = Ok (v, rest)"
  by (simp add: wrapper_try_deserialize_def codec_of_def deser_ser ser_length [of v])

lemma wrapper_short:
  assumes "ser v = short @ replicate k 0"
  shows "wrapper_try_deserialize codec_of short = Ok (v, [])"
proof (cases k)
  case 0
  with assms wrapper_full [of v "[]"] show ?thesis by simp
next
  case (Suc n)
  have len: "length short + k = length (ser dflt)"
    using arg_cong [OF assms, of length] ser_length [of v] by simp
  then have "short @ replicate (length (ser dflt) - length short) 0 = ser v"
    using assms by (simp flip: len)
  with Suc len show ?thesis
    by (simp add: wrapper_try_deserialize_def codec_of_def deser_exact)
qed

lemma decode_full: "decode (wrapper_try_deserialize codec_of) (ser v @ rest) = Ok v"
  by (simp add: decode_def wrapper_full)

lemma decode_short:
  "ser v = short @ replicate k 0 \<Longrightarrow> decode (wrapper_try_deserialize codec_of) short = Ok v"
  by (simp add: decode_def wrapper_short)

text \<open>What the checked wrapper reads, the unchecked one reads.\<close>

lemma wrapper_unchecked:
  "wrapper_try_deserialize codec_of bs = Ok r \<Longrightarrow>
     wrapper_try_deserialize_unchecked codec_of bs = Ok r"
  by (auto simp: wrapper_try_deserialize_def wrapper_try_deserialize_unchecked_def codec_of_def
      Let_def and_then_Inr deser_unchecked split: if_splits)

end

section \<open>Borsh fields\<close>

text \<open>A field reader takes a value off the front; reading past the end and a \<open>bool\<close> other than
  0 and 1 are errors.\<close>

definition read_u64 :: "byte list \<Rightarrow> (u64 \<times> byte list) anchor_result" where
  "read_u64 bs = (if length bs < 8 then Err ''AccountDidNotDeserialize''
     else Ok (word_of_nat (read_le (take 8 bs)), drop 8 bs))"

definition read_u8 :: "byte list \<Rightarrow> (u8 \<times> byte list) anchor_result" where
  "read_u8 bs = (case bs of [] \<Rightarrow> Err ''AccountDidNotDeserialize'' | b # bs \<Rightarrow> Ok (b, bs))"

definition read_bool :: "byte list \<Rightarrow> (bool \<times> byte list) anchor_result" where
  "read_bool bs = (case bs of [] \<Rightarrow> Err ''AccountDidNotDeserialize''
     | b # bs \<Rightarrow> if b = 0 then Ok (False, bs) else if b = 1 then Ok (True, bs)
                else Err ''AccountDidNotDeserialize'')"

definition read_key :: "byte list \<Rightarrow> (pubkey \<times> byte list) anchor_result" where
  "read_key bs = (if length bs < 32 then Err ''AccountDidNotDeserialize''
     else Ok (word_of_nat (read_le (rev (take 32 bs))), drop 32 bs))"

definition bool_byte :: "bool \<Rightarrow> byte list" where
  "bool_byte b = [if b then 1 else 0]"

lemma read_u64_le [simp]: "read_u64 (le_bytes 8 x @ bs) = Ok (x, bs)"
  by (simp add: read_u64_def)

lemma read_u8_here [simp]: "read_u8 (b # bs) = Ok (b, bs)"
  by (simp add: read_u8_def)

lemma read_bool_byte [simp]: "read_bool (bool_byte b @ bs) = Ok (b, bs)"
  by (simp add: read_bool_def bool_byte_def)

lemma read_key_bytes [simp]: "read_key (key_bytes k @ bs) = Ok (k, bs)"
  by (simp add: read_key_def)

lemma length_bool_byte [simp]: "length (bool_byte b) = 1"
  by (simp add: bool_byte_def)

section \<open>The bonding curve\<close>

definition BONDING_CURVE_DISCRIMINATOR :: "byte list" where
  "BONDING_CURVE_DISCRIMINATOR = [23, 183, 248, 55, 96, 216, 172, 96]"

definition curve_bytes :: "bonding_curve \<Rightarrow> byte list" where
  "curve_bytes c = BONDING_CURVE_DISCRIMINATOR @
     le_bytes 8 (virtual_token_reserves c) @ le_bytes 8 (virtual_quote_reserves c) @
     le_bytes 8 (real_token_reserves c) @ le_bytes 8 (real_quote_reserves c) @
     le_bytes 8 (bc_token_total_supply c) @ bool_byte (complete c) @
     key_bytes (bc_creator c) @ bool_byte (bc_is_mayhem_mode c) @
     bool_byte (bc_is_cashback_coin c) @ key_bytes (bc_quote_mint c) @
     le_bytes 8 (bc_creator_fee_bps c) @ bool_byte (bc_can_edit_creator_fee c) @
     bool_byte (bc_is_holder_reward c) @ le_bytes 8 (bc_creator_fee c) @
     le_bytes 8 (bc_protocol_fees c) @ [depth c] @
     le_bytes 8 (bc_initial_virtual_quote_reserves c) @ le_bytes 8 (post_complete_base_out c) @
     le_bytes 8 (post_complete_quote_in c)"

definition read_curve_fields :: "byte list \<Rightarrow> (bonding_curve \<times> byte list) anchor_result" where
  "read_curve_fields bs =
     (and_then (read_u64 bs) (\<lambda>(vt, bs). and_then (read_u64 bs) (\<lambda>(vq, bs).
      and_then (read_u64 bs) (\<lambda>(rt, bs). and_then (read_u64 bs) (\<lambda>(rq, bs).
      and_then (read_u64 bs) (\<lambda>(supply, bs). and_then (read_bool bs) (\<lambda>(done, bs).
      and_then (read_key bs) (\<lambda>(creator, bs). and_then (read_bool bs) (\<lambda>(mayhem, bs).
      and_then (read_bool bs) (\<lambda>(cashback, bs). and_then (read_key bs) (\<lambda>(quote, bs).
      and_then (read_u64 bs) (\<lambda>(bps, bs). and_then (read_bool bs) (\<lambda>(can_edit, bs).
      and_then (read_bool bs) (\<lambda>(holder, bs). and_then (read_u64 bs) (\<lambda>(cfee, bs).
      and_then (read_u64 bs) (\<lambda>(pfees, bs). and_then (read_u8 bs) (\<lambda>(dpth, bs).
      and_then (read_u64 bs) (\<lambda>(ivq, bs). and_then (read_u64 bs) (\<lambda>(pbase, bs).
      and_then (read_u64 bs) (\<lambda>(pquote, bs).
        Ok (\<lparr>virtual_token_reserves = vt, virtual_quote_reserves = vq,
           real_token_reserves = rt, real_quote_reserves = rq, bc_token_total_supply = supply,
           complete = done, bc_creator = creator, bc_is_mayhem_mode = mayhem,
           bc_is_cashback_coin = cashback, bc_quote_mint = quote, bc_creator_fee_bps = bps,
           bc_can_edit_creator_fee = can_edit, bc_is_holder_reward = holder,
           bc_creator_fee = cfee, bc_protocol_fees = pfees, depth = dpth,
           bc_initial_virtual_quote_reserves = ivq, post_complete_base_out = pbase,
           post_complete_quote_in = pquote\<rparr>, bs)))))))))))))))))))))"

text \<open>\<open>try_deserialize\<close> compares the discriminator, \<open>try_deserialize_unchecked\<close> skips it.\<close>

definition read_curve_unchecked :: "byte list \<Rightarrow> (bonding_curve \<times> byte list) anchor_result" where
  "read_curve_unchecked bs = read_curve_fields (drop 8 bs)"

definition read_curve :: "byte list \<Rightarrow> (bonding_curve \<times> byte list) anchor_result" where
  "read_curve bs =
     (if take 8 bs \<noteq> BONDING_CURVE_DISCRIMINATOR then Err ''AccountDiscriminatorMismatch''
      else read_curve_unchecked bs)"

lemma read_curve_skips: "read_curve bs = Ok r \<Longrightarrow> read_curve_unchecked bs = Ok r"
  by (simp add: read_curve_def split: if_splits)

lemmas read_curve_defs = read_curve_def read_curve_unchecked_def read_curve_fields_def

lemma length_curve_bytes: "length (curve_bytes c) = 166"
  by (simp add: curve_bytes_def BONDING_CURVE_DISCRIMINATOR_def)

lemma read_curve_bytes: "read_curve (curve_bytes c @ rest) = Ok (c, rest)"
proof -
  have "take 8 (curve_bytes c @ rest) = BONDING_CURVE_DISCRIMINATOR"
    by (simp add: curve_bytes_def BONDING_CURVE_DISCRIMINATOR_def)
  moreover have "drop 8 BONDING_CURVE_DISCRIMINATOR = []" "length BONDING_CURVE_DISCRIMINATOR = 8"
    by (simp_all add: BONDING_CURVE_DISCRIMINATOR_def)
  ultimately show ?thesis
    by (simp add: read_curve_defs) (simp add: curve_bytes_def)
qed

interpretation bonding_curve: account_codec curve_bytes read_curve read_curve_unchecked
    default_bonding_curve
  by unfold_locales
    (simp_all add: read_curve_bytes length_curve_bytes read_curve_skips)

text \<open>The same codec, executable.\<close>

definition curve_codec :: "bonding_curve codec" where
  "curve_codec = \<lparr>codec_default = default_bonding_curve,
     codec_serialize = (\<lambda>c. Ok (curve_bytes c)), codec_deserialize = read_curve,
     codec_deserialize_unchecked = read_curve_unchecked\<rparr>"

lemma curve_codec_of: "curve_codec = bonding_curve.codec_of"
  by (simp add: curve_codec_def bonding_curve.codec_of_def)

lemma reads_no_panic:
  "read_u64 bs \<noteq> panic" "read_u8 bs \<noteq> panic" "read_bool bs \<noteq> panic" "read_key bs \<noteq> panic"
  by (simp_all add: read_u64_def read_u8_def read_bool_def read_key_def split: list.split)

lemma read_curve_no_panic: "read_curve bs \<noteq> panic"
  unfolding read_curve_defs
  by (split if_split) (intro conjI impI and_then_no_panic case_no_panic reads_no_panic; simp)

end
