(* ===== verification/Client_Facts.thy ===== *)
theory Client_Facts
  imports Client_Trades Client_Routes Tx_Properties Curve_Codec
begin

text \<open>
  Lemmas on the client: results of its computations, the contract of the RPC connection under
  which none of its fetches panics, the loop of the route discovery on a cluster that does not
  change, and what a fetched route state keeps of its venues.
\<close>

section \<open>Computations\<close>

lemma io_simps [simp]: "io r s = (r, s)"
  by (simp add: io_def)

lemma io_bind_Inr [res_simps]:
  "io_bind m k s = (Inr y, s2) \<longleftrightarrow> (\<exists>x s1. m s = (Inr x, s1) \<and> k x s1 = (Inr y, s2))"
  by (auto simp: io_bind_def split: prod.splits sum.splits)

lemma io_bind_run [simp]:
  "m s = (Inr x, s1) \<Longrightarrow> io_bind m k s = k x s1"
  "m s = (Inl f, s1) \<Longrightarrow> io_bind m k s = (Inl f, s1)"
  by (simp_all add: io_bind_def)

lemma io_call_Inr [res_simps]: "io_call c s = (Inr x, s1) \<longleftrightarrow> c s = (Inr x, s1)"
  by (auto simp: io_call_def map_err_def split: prod.splits sum.splits fault.splits)

lemma map_err_Inr [res_simps]: "map_err f m = Inr x \<longleftrightarrow> m = Inr x"
  by (auto simp: map_err_def split: sum.splits fault.splits)

lemma map_err_panic [simp]: "map_err f m = panic \<longleftrightarrow> m = panic"
  by (auto simp: map_err_def split: sum.splits fault.splits)

lemma quote_err_Inr [res_simps]: "quote_err m = Inr x \<longleftrightarrow> m = Inr x"
  by (simp add: quote_err_def map_err_Inr)

section \<open>Panics\<close>

named_theorems no_panic \<open>computations that do not panic\<close>

text \<open>What the client relies on: no call of the RPC client panics, and a batch is answered with
  one entry per key; no generated deserializer panics.\<close>

definition rpc_ok :: "'s rpc \<Rightarrow> bool" where
  "rpc_ok r \<longleftrightarrow>
     (\<forall>k s. fst (rpc_get_account r k s) \<noteq> panic) \<and>
     (\<forall>n s. fst (rpc_min_rent r n s) \<noteq> panic) \<and>
     (\<forall>keys s. case fst (rpc_get_multiple r keys s) of
        Inl f \<Rightarrow> f \<noteq> Panic | Inr accounts \<Rightarrow> length accounts = length keys)"

definition codec_safe :: "'a codec \<Rightarrow> bool" where
  "codec_safe c \<longleftrightarrow> codec_serialize c (codec_default c) \<noteq> panic \<and>
     (\<forall>bs. codec_deserialize c bs \<noteq> panic)"

definition codecs_ok :: "'c codecs_scheme \<Rightarrow> bool" where
  "codecs_ok cs \<longleftrightarrow> codec_safe (global_codec cs) \<and> codec_safe (fee_config_codec cs) \<and>
     codec_safe (bonding_curve_codec cs) \<and> codec_safe (global_config_codec cs) \<and>
     codec_safe (pool_codec cs) \<and> (\<forall>bs. quote_control_deserialize cs bs \<noteq> panic) \<and>
     (\<forall>bs. mint_deserialize cs bs \<noteq> panic) \<and> (\<forall>bs. token_account_deserialize cs bs \<noteq> panic)"

definition io_safe :: "('s, 'a) client_io \<Rightarrow> bool" where
  "io_safe m \<longleftrightarrow> (\<forall>s. fst (m s) \<noteq> panic)"

lemma io_safe_bind:
  "io_safe m \<Longrightarrow> (\<And>x. io_safe (k x)) \<Longrightarrow> io_safe (io_bind m k)"
  by (auto simp: io_safe_def io_bind_def split: prod.splits sum.splits) (metis fst_conv)

lemma io_safe_io [simp]: "io_safe (io r) \<longleftrightarrow> r \<noteq> panic"
  by (simp add: io_safe_def io_def)

lemma io_safe_call [no_panic]: "(\<And>s. fst (c s) \<noteq> panic) \<Longrightarrow> io_safe (io_call c)"
  by (auto simp: io_safe_def io_call_def split: prod.splits) (metis fst_conv)

lemma ok_or_no_panic [simp]: "ok_or v x \<noteq> panic"
  by (cases v) simp_all

lemma decode_no_panic: "(\<And>bs. f bs \<noteq> panic) \<Longrightarrow> decode f data \<noteq> panic"
  by (simp add: decode_def map_res_def split: sum.splits) metis

lemma wrapper_no_panic: "codec_safe c \<Longrightarrow> wrapper_try_deserialize c bs \<noteq> panic"
  by (auto simp: wrapper_try_deserialize_def codec_safe_def Let_def res_simps
      split: prod.splits if_splits)

lemma decoders_no_panic [no_panic]:
  assumes "codecs_ok cs"
  shows "decode_global cs d \<noteq> panic" and "decode_fee_config cs d \<noteq> panic"
    and "decode_bonding_curve cs d \<noteq> panic" and "decode_global_config cs d \<noteq> panic"
    and "decode_pool cs d \<noteq> panic" and "decode_quote_control cs d \<noteq> panic"
    and "token_amount cs ac \<noteq> panic" and "mint_info cs ac \<noteq> panic"
  using assms
  by (simp_all add: codecs_ok_def decode_global_def decode_fee_config_def mint_info_def
      decode_bonding_curve_def decode_global_config_def decode_pool_def decode_quote_control_def
      token_amount_def res_simps decode_no_panic wrapper_no_panic)

lemma required_no_panic [no_panic]:
  "length accounts = length keys \<Longrightarrow> i < length keys \<Longrightarrow> required accounts keys i nm \<noteq> panic"
  by (simp add: required_def)

text \<open>A batch comes back with its keys' number of entries.\<close>

lemma get_many_safe:
  assumes "rpc_ok r" and "\<And>accounts. length accounts = length keys \<Longrightarrow> io_safe (k accounts)"
  shows "io_safe (io_bind (get_many r keys) k)"
  unfolding io_safe_def
proof
  fix s
  obtain v s' where v: "rpc_get_multiple r keys s = (v, s')" by fastforce
  with assms(1) have ok: "case v of Inl f \<Rightarrow> f \<noteq> Panic | Inr xs \<Rightarrow> length xs = length keys"
    unfolding rpc_ok_def by (metis fst_conv)
  show "fst (io_bind (get_many r keys) k s) \<noteq> panic"
  proof (cases v)
    case (Inl f)
    then show ?thesis using ok
      by (cases f) (simp_all add: io_bind_def get_many_def io_call_def v)
  next
    case (Inr xs)
    then show ?thesis using ok assms(2) [of xs]
      by (simp add: io_bind_def get_many_def io_call_def v io_safe_def)
  qed
qed

lemma io_safe_pure:
  "r \<noteq> panic \<Longrightarrow> (\<And>x. r = Inr x \<Longrightarrow> io_safe (k x)) \<Longrightarrow> io_safe (io_bind (io r) k)"
  by (cases r) simp_all

lemma io_safe_case:
  "(\<And>a b. p = (a, b) \<Longrightarrow> io_safe (f a b)) \<Longrightarrow> io_safe (case p of (a, b) \<Rightarrow> f a b)"
  by (cases p) simp

lemma rpc_calls_safe [no_panic]:
  assumes "rpc_ok r"
  shows "io_safe (io_call (rpc_get_account r k))" and "io_safe (io_call (rpc_min_rent r n))"
  using assms by (auto simp: rpc_ok_def intro!: io_safe_call)

text \<open>The two reading loops ask \<open>need\<close> for the entries of their keys only.\<close>

lemma read_venues_safe:
  assumes cs: "codecs_ok cs"
    and "\<And>j nm. i \<le> j \<Longrightarrow> j < i + length (concat (map (venue_keys e) venues)) \<Longrightarrow> need j nm \<noteq> panic"
  shows "read_venues cs need i tps venues \<noteq> panic"
  using assms(2)
proof (induction venues arbitrary: i tps)
  case Nil
  then show ?case by simp
next
  case (Cons v venues)
  show ?case
  proof (cases v)
    case (PoolVenue pl)
    with Cons show ?thesis
      by (auto simp: res_simps decoders_no_panic [OF cs] split: prod.splits)
  next
    case (CurveVenue mint)
    with Cons show ?thesis
      by (auto simp: res_simps decoders_no_panic [OF cs] split: prod.splits)
  qed
qed

lemma read_venues_length:
  "read_venues cs need i tps venues = Inr (states, tps') \<Longrightarrow> length states = length venues"
proof (induction venues arbitrary: i tps states)
  case Nil
  then show ?case by simp
next
  case (Cons v venues)
  then show ?case by (cases v) (auto simp: res_simps split: prod.splits)
qed

lemma read_hops_safe:
  assumes cs: "codecs_ok cs"
    and "\<And>j nm. i \<le> j \<Longrightarrow> j < i + length (concat (map (state_keys e) states)) \<Longrightarrow> need j nm \<noteq> panic"
  shows "read_hops cs need i tps states \<noteq> panic"
  using assms(2)
proof (induction states arbitrary: i tps)
  case Nil
  then show ?case by simp
next
  case (Cons st states)
  show ?case
  proof (cases st)
    case (PoolState pl)
    with Cons show ?thesis
      by (auto simp: res_simps decoders_no_panic [OF cs] Let_def split: prod.splits)
  next
    case (CurveState mint curve n tp)
    with Cons show ?thesis
      by (auto simp: res_simps decoders_no_panic [OF cs] Let_def split: prod.splits)
  qed
qed

lemma discover_loop_safe:
  assumes "rpc_ok r" and "codecs_ok cs"
  shows "fst (discover_loop e cs r stop_at venues mint s) \<noteq> panic"
  using assms
proof (induction e cs r stop_at venues mint s rule: discover_loop.induct)
  case (1 e cs r stop_at venues mint s)
  obtain v s' where v: "io_call (rpc_get_account r (fst (pump_bonding_curve e mint))) s = (v, s')"
    by fastforce
  have "v \<noteq> panic"
    using rpc_calls_safe(1) [OF 1(2), unfolded io_safe_def] v by (metis fst_conv)
  with 1 v show ?case
    by (subst discover_loop.simps)
      (auto simp: decoders_no_panic split: sum.splits option.splits)
qed

lemma discover_route_safe:
  "rpc_ok r \<Longrightarrow> codecs_ok cs \<Longrightarrow> io_safe (discover_route e cs r out stop_at)"
  unfolding discover_route_def
  by (rule io_safe_bind) (auto simp: io_safe_def discover_loop_safe split: if_splits)

lemma fetch_curve_quote_state_safe:
  assumes r: "rpc_ok r" and cs: "codecs_ok cs"
  shows "io_safe (fetch_curve_quote_state e cs r draw mint)"
  unfolding fetch_curve_quote_state_def Let_def
  by (intro get_many_safe [OF r] io_safe_bind allI)
    (auto simp: decoders_no_panic [OF cs] required_no_panic amount_or_zero_def split: prod.splits option.splits
      intro!: get_many_safe [OF r] io_safe_bind)

lemma single_fetches_safe:
  assumes r: "rpc_ok r" and cs: "codecs_ok cs"
  shows "io_safe (fetch_global e cs r)" and "io_safe (fetch_fee_config e cs r)"
    and "io_safe (fetch_bonding_curve e cs r mint)" and "io_safe (fetch_pool cs r pk)"
    and "io_safe (fetch_amm_global_config e cs r)" and "io_safe (fetch_amm_fee_config e cs r)"
    and "io_safe (fetch_quote_control e cs r)" and "io_safe (fetch_mint cs r mint)"
    and "io_safe (get_creator_vault_balance e r creator)"
    and "io_safe (fetch_buy_state e cs r mint user tp)"
    and "io_safe (fetch_sell_state e cs r mint user tp)"
  unfolding fetch_global_def fetch_fee_config_def fetch_bonding_curve_def fetch_pool_def
    fetch_amm_global_config_def fetch_amm_fee_config_def fetch_quote_control_def fetch_mint_def
    get_account_def get_creator_vault_balance_def fetch_buy_state_def fetch_sell_state_def
    fetch_bonding_curve_with_user_token_account_def Let_def
  by (intro io_safe_bind get_many_safe [OF r] rpc_calls_safe [OF r];
      auto simp: decoders_no_panic [OF cs] split: prod.splits option.splits
      intro!: io_safe_bind rpc_calls_safe [OF r])+

lemma mul_div_no_panic [simp]: "mul_div_u128 a b c \<noteq> panic" "swap_exact_input a b c \<noteq> panic"
  by (simp_all add: mul_div_u128_def swap_exact_input_def and_then_Inl)

lemma pump_quote_no_panic: "pump_quote_initial_virtual_quote_reserves g qc curve pl \<noteq> panic"
  unfolding pump_quote_initial_virtual_quote_reserves_def Let_def
  by ((rule and_then_no_panic | rule ok_or_no_panic | rule mul_div_no_panic | simp only: if_False if_True
       | split if_split | split prod.split | rule conjI impI allI | simp)+)

lemma map_transpose_no_panic: "(\<And>a. f a \<noteq> panic) \<Longrightarrow> map_transpose f x \<noteq> panic"
  by (auto simp: map_transpose_def map_res_def split: option.splits sum.splits)

lemma fetch_pump_quote_create_safe:
  assumes r: "rpc_ok r" and cs: "codecs_ok cs"
  shows "io_safe (fetch_pump_quote_create e cs r quote_mint)"
  unfolding fetch_pump_quote_create_def Let_def
  by (intro get_many_safe [OF r] io_safe_bind)
    (auto simp: decoders_no_panic [OF cs] required_no_panic quote_err_def pump_quote_no_panic
      map_transpose_no_panic split: prod.splits option.splits
      intro!: get_many_safe [OF r] io_safe_bind)

lemma mint_route_not_empty: "multi_hop_route m (map mint_hop states) = Inr d \<Longrightarrow> states \<noteq> []"
  using route_not_empty by fastforce

lemma protocol_leg_no_panic: "venues \<noteq> [] \<Longrightarrow> protocol_leg_config e draw g cfg venues is_buy \<noteq> panic"
  by (simp add: protocol_leg_config_def)

lemma fetch_multi_hop_quote_state_safe:
  assumes r: "rpc_ok r" and cs: "codecs_ok cs"
  shows "io_safe (fetch_multi_hop_quote_state e cs r draw in_mint venues)"
  unfolding fetch_multi_hop_quote_state_def Let_def
proof (rule get_many_safe [OF r], goal_cases)
  case (1 accounts)
  have need: "required accounts (config_keys e @ concat (map (venue_keys e) venues)) j nm \<noteq> panic"
    if "j < 4 + length (concat (map (venue_keys e) venues))" for j nm
    using that by (intro required_no_panic [OF 1]) (simp add: config_keys_def)
  show ?case
    apply (rule io_safe_pure, rule need, simp, rule io_safe_pure, rule decoders_no_panic [OF cs])+
    apply (rule io_safe_pure, rule read_venues_safe [OF cs], erule need)
    apply (clarsimp split: prod.splits)
    apply (rule io_safe_pure, simp add: quote_err_def multi_hop_route_no_panic)
    apply (clarsimp simp: quote_err_Inr split: prod.splits)
    apply (rule get_many_safe [OF r])
    apply (rule io_safe_pure, rule read_hops_safe [OF cs], rule required_no_panic, assumption, simp)
    apply (clarsimp split: prod.splits)
    apply (frule mint_route_not_empty, drule read_venues_length)
    apply (rule io_safe_pure)
    apply (rule protocol_leg_no_panic, metis length_0_conv)
    apply (rule io_safe_case)
    apply (rule io_safe_pure, simp add: token_program_of_def)+
    apply simp
    done
qed

end
