(* ===== verification/Route_Discovery.thy ===== *)
theory Route_Discovery
  imports Client_Facts
begin

text \<open>
  What \<open>discover_route\<close> computes. On a cluster whose accounts do not change it follows the chain
  of quote mints from the output mint (the relation \<open>quote_chain\<close>); on any cluster it fetches at
  most \<open>MAX_HOPS\<close> accounts (counted by \<open>logged\<close>). Then the routes it returns are paths, in the
  direction asked for, through the venues fetched for them.
\<close>

section \<open>A step of the loop\<close>

text \<open>What a fetch gives: an error, no pump curve, or a curve.\<close>

definition fetched_curve ::
  "'c codecs_scheme \<Rightarrow> account option client_result \<Rightarrow> bonding_curve option client_result" where
  "fetched_curve cs w = and_then w (\<lambda>got.
     case opt_filter (\<lambda>ac. ac_owner ac = PUMP_PROGRAM_ID) got of
       None \<Rightarrow> Ok None
     | Some ac \<Rightarrow> map_res Some (decode_bonding_curve cs (ac_data ac)))"

lemma discover_loop_step:
  assumes "io_call (rpc_get_account r (fst (pump_bonding_curve e m))) s = (w, s1)"
  shows "discover_loop e cs r stop_at venues m s =
    (if Some m = stop_at \<or> length venues \<ge> MAX_HOPS then (Ok (venues, m), s)
     else (case fetched_curve cs w of
         Inl f \<Rightarrow> (Inl f, s1)
       | Inr None \<Rightarrow> (Ok (venues, m), s1)
       | Inr (Some c) \<Rightarrow> discover_loop e cs r stop_at (venues @ [venue_of_curve e m c])
           (resolve_quote_mint (bc_quote_mint c)) s1))"
  by (subst discover_loop.simps)
    (auto simp: assms fetched_curve_def map_res_def split: sum.splits option.splits)

section \<open>A cluster that does not change\<close>

text \<open>\<open>serves r L\<close>: single fetches answer from the accounts \<open>L\<close>.\<close>

definition serves :: "'s rpc \<Rightarrow> (pubkey \<Rightarrow> account option) \<Rightarrow> bool" where
  "serves r L \<longleftrightarrow> (\<forall>k s. fst (rpc_get_account r k s) = Ok (L k))"

text \<open>The pump curve of a mint: an account at its curve address counts only if the pump program
  owns it.\<close>

definition curve_at ::
  "'e pda_env_scheme \<Rightarrow> 'c codecs_scheme \<Rightarrow> (pubkey \<Rightarrow> account option) \<Rightarrow> pubkey \<Rightarrow>
     bonding_curve client_result option"
where
  "curve_at e cs L mint =
     map_option (\<lambda>ac. decode_bonding_curve cs (ac_data ac))
       (opt_filter (\<lambda>ac. ac_owner ac = PUMP_PROGRAM_ID) (L (fst (pump_bonding_curve e mint))))"

lemma fetched_curve_at:
  "fetched_curve cs (Ok (L (fst (pump_bonding_curve e m)))) =
     (case curve_at e cs L m of None \<Rightarrow> Ok None | Some d \<Rightarrow> map_res Some d)"
  by (simp add: fetched_curve_def curve_at_def split: option.split)

inductive quote_chain ::
  "'e pda_env_scheme \<Rightarrow> 'c codecs_scheme \<Rightarrow> (pubkey \<Rightarrow> account option) \<Rightarrow> pubkey \<Rightarrow>
     (pubkey \<times> bonding_curve) list \<Rightarrow> pubkey \<Rightarrow> bool"
  for e cs L
where
  stop: "quote_chain e cs L m [] m"
| hop: "curve_at e cs L m = Some (Ok c) \<Longrightarrow>
     quote_chain e cs L (resolve_quote_mint (bc_quote_mint c)) ch root \<Longrightarrow>
     quote_chain e cs L m ((m, c) # ch) root"

inductive_simps quote_chain_Nil: "quote_chain e cs L m [] root"
inductive_simps quote_chain_Cons: "quote_chain e cs L m ((x, c) # ch) root"

definition chain_venues :: "'e pda_env_scheme \<Rightarrow> (pubkey \<times> bonding_curve) list \<Rightarrow> route_venue list" where
  "chain_venues e ch = map (\<lambda>(m, c). venue_of_curve e m c) ch"

lemma chain_venues_simps [simp]:
  "chain_venues e [] = []"
  "chain_venues e ((m, c) # ch) = venue_of_curve e m c # chain_venues e ch"
  "length (chain_venues e ch) = length ch"
  by (simp_all add: chain_venues_def)

text \<open>Where the discovery stops: before \<open>stop_at\<close>, and at the first of \<open>stop_at\<close>, a mint without
  a pump curve and the bound.\<close>

definition chain_stops ::
  "'e pda_env_scheme \<Rightarrow> 'c codecs_scheme \<Rightarrow> (pubkey \<Rightarrow> account option) \<Rightarrow> pubkey option \<Rightarrow>
     (pubkey \<times> bonding_curve) list \<Rightarrow> pubkey \<Rightarrow> nat \<Rightarrow> bool"
where
  "chain_stops e cs L stop_at ch root n \<longleftrightarrow>
     stop_at \<notin> (Some \<circ> fst) ` set ch \<and> n \<le> MAX_HOPS \<and>
     (stop_at = Some root \<or> curve_at e cs L root = None \<or> n = MAX_HOPS)"

lemma discover_loop_chain:
  assumes L: "serves r L" and "length venues \<le> MAX_HOPS"
  shows "fst (discover_loop e cs r stop_at venues m s) = Ok (vs, root) \<longleftrightarrow>
    (\<exists>ch. quote_chain e cs L m ch root \<and> vs = venues @ chain_venues e ch \<and>
       chain_stops e cs L stop_at ch root (length venues + length ch))"
  using assms(2)
proof (induction "MAX_HOPS - length venues" arbitrary: venues m s rule: less_induct)
  case less
  let ?rhs = "\<lambda>ch. quote_chain e cs L m ch root \<and> vs = venues @ chain_venues e ch \<and>
    chain_stops e cs L stop_at ch root (length venues + length ch)"
  have split: "(\<exists>ch. ?rhs ch) \<longleftrightarrow> ?rhs [] \<or> (\<exists>x c ch. ?rhs ((x, c) # ch))"
    by (metis list.exhaust surj_pair)
  obtain s1 where "rpc_get_account r (fst (pump_bonding_curve e m)) s =
      (Ok (L (fst (pump_bonding_curve e m))), s1)"
    using L unfolding serves_def by (metis prod.collapse)
  then have "io_call (rpc_get_account r (fst (pump_bonding_curve e m))) s =
      (Ok (L (fst (pump_bonding_curve e m))), s1)"
    by (simp add: io_call_def)
  note step = discover_loop_step [OF this, unfolded fetched_curve_at, of cs stop_at venues]
  show ?case
  proof (cases "Some m = stop_at \<or> length venues \<ge> MAX_HOPS \<or> (\<forall>c. curve_at e cs L m \<noteq> Some (Ok c))")
    case True
    then show ?thesis
      unfolding split step using less.prems
      by (auto simp: quote_chain_Nil quote_chain_Cons chain_stops_def map_res_def
          split: option.splits sum.splits)
  next
    case False
    then obtain c where at: "curve_at e cs L m = Some (Ok c)" and ns: "stop_at \<noteq> Some m"
      and short: "length venues < MAX_HOPS" by auto
    let ?vs = "venues @ [venue_of_curve e m c]"
    have "fst (discover_loop e cs r stop_at ?vs (resolve_quote_mint (bc_quote_mint c)) s1) =
        Ok (vs, root) \<longleftrightarrow> (\<exists>ch. ?rhs ((m, c) # ch))"
      using less.hyps [of ?vs "resolve_quote_mint (bc_quote_mint c)" s1] short
      by (simp add: quote_chain_Cons at ns chain_stops_def conj_commute conj_left_commute)
    moreover have "\<not> ?rhs []" using ns short by (auto simp: quote_chain_Nil chain_stops_def at)
    moreover have "?rhs ((x, d) # ch) \<Longrightarrow> x = m \<and> d = c" for x d ch
      by (simp add: quote_chain_Cons at)
    moreover have "discover_loop e cs r stop_at venues m s =
        discover_loop e cs r stop_at ?vs (resolve_quote_mint (bc_quote_mint c)) s1"
      using short ns by (auto simp: step at map_res_def)
    ultimately show ?thesis unfolding split by metis
  qed
qed

text \<open>\<open>discover_route\<close>, on every output mint and \<open>stop_at\<close>.\<close>

lemma discover_route_run:
  "fst (discover_route e cs r out stop_at s) =
     and_then (fst (discover_loop e cs r stop_at [] out s)) (\<lambda>(venues, mint).
       if venues = []
       then Err (AccountNotFound ''bonding_curve'' (fst (pump_bonding_curve e out)))
       else Ok \<lparr>mr_in_mint = mint, mr_out_mint = out, mr_venues = rev venues\<rparr>)"
  by (simp add: discover_route_def io_bind_def and_then_def split: prod.split sum.split)

lemma discover_route_chain:
  assumes "serves r L"
  shows "fst (discover_route e cs r out stop_at s) = Ok route \<longleftrightarrow>
    (\<exists>ch root. quote_chain e cs L out ch root \<and> ch \<noteq> [] \<and>
       chain_stops e cs L stop_at ch root (length ch) \<and>
       route = \<lparr>mr_in_mint = root, mr_out_mint = out, mr_venues = rev (chain_venues e ch)\<rparr>)"
proof -
  let ?loop = "fst (discover_loop e cs r stop_at [] out s)"
  let ?route = "\<lambda>vs root. \<lparr>mr_in_mint = root, mr_out_mint = out, mr_venues = rev vs\<rparr>"
  have empty: "chain_venues e ch = [] \<longleftrightarrow> ch = []" for ch
    by (metis chain_venues_simps(1,3) length_0_conv)
  have loop: "?loop = Ok (vs, root) \<longleftrightarrow> (\<exists>ch. quote_chain e cs L out ch root \<and>
      vs = chain_venues e ch \<and> chain_stops e cs L stop_at ch root (length ch))" for vs root
    using discover_loop_chain [OF assms, of "[]" e cs stop_at out s vs root] by simp
  have "fst (discover_route e cs r out stop_at s) = Ok route \<longleftrightarrow>
      (\<exists>vs root. ?loop = Ok (vs, root) \<and> vs \<noteq> [] \<and> route = ?route vs root)"
    by (cases ?loop) (auto simp: discover_route_run split: prod.splits if_splits)
  then show ?thesis unfolding loop using empty by blast
qed

section \<open>The number of fetches\<close>

text \<open>The connection with a log of the single fetches made through it.\<close>

definition logged :: "'s rpc \<Rightarrow> ('s \<times> pubkey list) rpc" where
  "logged r = \<lparr>
     rpc_get_account = (\<lambda>k (s, log).
       case rpc_get_account r k s of (v, s') \<Rightarrow> (v, (s', log @ [k]))),
     rpc_get_multiple = (\<lambda>keys (s, log).
       case rpc_get_multiple r keys s of (v, s') \<Rightarrow> (v, (s', log))),
     rpc_min_rent = (\<lambda>n (s, log). case rpc_min_rent r n s of (v, s') \<Rightarrow> (v, (s', log)))\<rparr>"

lemma discover_loop_fetches:
  assumes "discover_loop e cs (logged r) stop_at venues m (s, log) = (v, (s', log'))"
    and "length venues \<le> MAX_HOPS"
  shows "\<exists>ms. log' = log @ map (\<lambda>x. fst (pump_bonding_curve e x)) ms \<and>
     length venues + length ms \<le> MAX_HOPS \<and>
     (case v of Inl f \<Rightarrow> True | Inr (vs, root) \<Rightarrow>
        length vs \<le> length venues + length ms \<and> length venues + length ms \<le> Suc (length vs))"
  using assms
proof (induction "MAX_HOPS - length venues" arbitrary: venues m s log rule: less_induct)
  case less
  let ?a = "\<lambda>x. fst (pump_bonding_curve e x)"
  obtain w s1 where "rpc_get_account r (?a m) s = (w, s1)" by fastforce
  then have "io_call (rpc_get_account (logged r) (?a m)) (s, log) =
      (map_err Rpc w, (s1, log @ [?a m]))"
    by (simp add: io_call_def logged_def)
  note step = less.prems(1) [unfolded discover_loop_step [OF this]]
  show ?case
  proof (cases "Some m = stop_at \<or> length venues \<ge> MAX_HOPS")
    case True
    with step have "v = Ok (venues, m)" "log' = log" by auto
    then show ?thesis using less.prems(2) by (intro exI [of _ "[]"]) simp
  next
    case False
    note step = step [unfolded if_not_P [OF False]]
    show ?thesis
    proof (cases "\<exists>c. fetched_curve cs (map_err Rpc w) = Ok (Some c)")
      case True
      then obtain c where c: "fetched_curve cs (map_err Rpc w) = Ok (Some c)" by blast
      let ?vs = "venues @ [venue_of_curve e m c]"
      have run: "discover_loop e cs (logged r) stop_at ?vs (resolve_quote_mint (bc_quote_mint c))
          (s1, log @ [?a m]) = (v, (s', log'))"
        using step by (simp add: c)
      have "MAX_HOPS - length ?vs < MAX_HOPS - length venues" "length ?vs \<le> MAX_HOPS"
        using False by auto
      from less.hyps [OF this(1) run this(2)] obtain ms where "log' = (log @ [?a m]) @ map ?a ms"
        "length ?vs + length ms \<le> MAX_HOPS"
        "case v of Inl f \<Rightarrow> True | Inr (vs, root) \<Rightarrow> length vs \<le> length ?vs + length ms \<and>
           length ?vs + length ms \<le> Suc (length vs)"
        by blast
      then show ?thesis by (intro exI [of _ "m # ms"]) (auto split: sum.splits)
    next
      case nocurve: False
      then have "log' = log @ [?a m]" "case v of Inl f \<Rightarrow> True | Inr (vs, root) \<Rightarrow> vs = venues"
        using step by (auto split: sum.splits option.splits)
      then show ?thesis using False by (intro exI [of _ "[m]"]) (auto split: sum.splits)
    qed
  qed
qed

end
