(* ===== verification/Route_State.thy ===== *)
theory Route_State
  imports Route_Discovery
begin

text \<open>
  What a fetched route state keeps: its route is the one that was checked before the second batch,
  and on a cluster that does not change its hops are the venues of the route. For a discovered
  route this fixes the direction of the swap and the two mints it trades.
\<close>

section \<open>Mints decide a route\<close>

definition hop_mints :: "multi_hop_hop \<Rightarrow> pubkey \<times> pubkey" where
  "hop_mints h = (mh_base_mint h, mh_quote_mint h)"

lemma route_loop_mints:
  "map hop_mints hs = map hop_mints hs' \<Longrightarrow> route_loop m d hs = route_loop m d hs'"
proof (induction hs arbitrary: hs' m d)
  case Nil
  then show ?case by simp
next
  case (Cons h hs)
  then obtain h' hs2 where hs': "hs' = h' # hs2" "hop_mints h = hop_mints h'"
    "map hop_mints hs = map hop_mints hs2" by (cases hs') auto
  then have "route_loop m' d' hs = route_loop m' d' hs2" for m' d' using Cons.IH by blast
  with hs'(2) show ?case by (simp add: hs'(1) hop_mints_def Let_def)
qed

lemma multi_hop_route_mints:
  "map hop_mints hs = map hop_mints hs' \<Longrightarrow> multi_hop_route m hs = multi_hop_route m hs'"
  unfolding multi_hop_route_def by (drule route_loop_mints [of _ _ m None]) simp

lemma mint_hop_mints [simp]: "hop_mints (mint_hop st) = venue_mints st"
  by (cases st) (simp_all add: hop_mints_def mint_hop_def)

lemma read_hops_mints:
  "read_hops cs need i tps states = Inr (hops, tps') \<Longrightarrow>
     map (hop_mints \<circ> route_hop_accounts e \<circ> as_route_hop) hops = map venue_mints states"
proof (induction states arbitrary: i tps hops)
  case Nil
  then show ?case by simp
next
  case (Cons st states)
  then show ?case
    by (cases st) (auto simp: res_simps Let_def hop_mints_def pool_hop_def curve_hop_def
        split: prod.splits)
qed

section \<open>A fetched state\<close>

text \<open>The two batches and the two loops behind a successful fetch.\<close>

lemma fetch_route_state:
  assumes "fetch_multi_hop_quote_state e cs r draw in_mint venues s = (Inr q, s')"
  obtains accounts s1 states tps is_buy
  where "rpc_get_multiple r (config_keys e @ concat (map (venue_keys e) venues)) s =
      (Inr accounts, s1)"
    and "read_venues cs (required accounts (config_keys e @ concat (map (venue_keys e) venues)))
      4 Map.empty venues = Inr (states, tps)"
    and "multi_hop_route in_mint (map mint_hop states) = Inr (is_buy, mq_out_mint q)"
    and "map (hop_mints \<circ> route_hop_accounts e) (route_hops q) = map venue_mints states"
    and "mq_in_mint q = in_mint"
proof -
  show ?thesis
    using assms unfolding fetch_multi_hop_quote_state_def Let_def get_many_def
    by (auto simp: io_bind_Inr io_call_Inr quote_err_Inr route_hops_def read_hops_mints
        intro!: that split: prod.splits)
qed

section \<open>Discovered routes\<close>

text \<open>A cluster that does not change answers batches from the same accounts.\<close>

definition serves_batches :: "'s rpc \<Rightarrow> (pubkey \<Rightarrow> account option) \<Rightarrow> bool" where
  "serves_batches r L \<longleftrightarrow> (\<forall>keys s. fst (rpc_get_multiple r keys s) = Ok (map L keys))"

lemma required_served:
  "required (map L keys) keys i nm = Inr ac \<Longrightarrow> L (keys ! i) = Some ac"
  by (auto simp: required_def ok_or_Inr split: if_splits)

text \<open>The state a venue is read into, by the accounts of the cluster.\<close>

inductive venue_read ::
  "'e pda_env_scheme \<Rightarrow> 'c codecs_scheme \<Rightarrow> (pubkey \<Rightarrow> account option) \<Rightarrow> route_venue \<Rightarrow>
     venue_state \<Rightarrow> bool"
  for e cs L
where
  pool: "L k = Some ac \<Longrightarrow> decode_pool cs (ac_data ac) = Ok pl \<Longrightarrow>
     venue_read e cs L (PoolVenue k) (PoolState pl)"
| curve: "L (fst (pump_bonding_curve e m)) = Some ac \<Longrightarrow>
     decode_bonding_curve cs (ac_data ac) = Ok c \<Longrightarrow>
     venue_read e cs L (CurveVenue m) (CurveState m c n tp)"

inductive_cases venue_read_PoolE: "venue_read e cs L (PoolVenue k) st"
inductive_cases venue_read_CurveE: "venue_read e cs L (CurveVenue m) st"

lemma read_venues_served:
  assumes "read_venues cs (required (map L keys) keys) (length pre) tps venues = Inr (states, tps')"
    and "keys = pre @ concat (map (venue_keys e) venues)"
  shows "list_all2 (venue_read e cs L) venues states"
  using assms
proof (induction venues arbitrary: pre tps states)
  case Nil
  then show ?case by simp
next
  case (Cons v venues)
  show ?case
  proof (cases v)
    case (PoolVenue k)
    from Cons.prems obtain ac pl sts where
      need: "required (map L keys) keys (length pre) ''pool'' = Inr ac"
      and pl: "decode_pool cs (ac_data ac) = Inr pl" and states: "states = PoolState pl # sts"
      and rest: "read_venues cs (required (map L keys) keys) (length (pre @ [k])) tps venues =
        Inr (sts, tps')"
      by (auto simp: PoolVenue res_simps split: prod.splits)
    have "L k = Some ac" using required_served [OF need] Cons.prems(2) by (simp add: PoolVenue)
    then show ?thesis
      using Cons.IH [OF rest] Cons.prems(2) pl by (simp add: PoolVenue states venue_read.pool)
  next
    case (CurveVenue m)
    let ?k = "fst (pump_bonding_curve e m)"
    from Cons.prems obtain ac c n tp tps2 sts where
      need: "required (map L keys) keys (length pre) ''bonding_curve'' = Inr ac"
      and c: "decode_bonding_curve cs (ac_data ac) = Inr c"
      and states: "states = CurveState m c n tp # sts"
      and rest: "read_venues cs (required (map L keys) keys) (length (pre @ [?k, m])) tps2 venues =
        Inr (sts, tps')"
      by (auto simp: CurveVenue res_simps split: prod.splits)
    have "L ?k = Some ac" using required_served [OF need] Cons.prems(2) by (simp add: CurveVenue)
    then show ?thesis
      using Cons.IH [OF rest] Cons.prems(2) c by (simp add: CurveVenue states venue_read.curve)
  qed
qed

text \<open>What pump-amm keeps of a canonical pool: its account holds the pool of the two mints its
  address is derived from.\<close>

definition pools_ok ::
  "'e pda_env_scheme \<Rightarrow> 'c codecs_scheme \<Rightarrow> (pubkey \<Rightarrow> account option) \<Rightarrow> bool" where
  "pools_ok e cs L \<longleftrightarrow> (\<forall>m q ac pl. L (fst (canonical_pool e m q)) = Some ac \<longrightarrow>
     decode_pool cs (ac_data ac) = Ok pl \<longrightarrow> p_base_mint pl = m \<and> p_quote_mint pl = q)"

definition curve_mints :: "pubkey \<times> bonding_curve \<Rightarrow> pubkey \<times> pubkey" where
  "curve_mints = (\<lambda>(m, c). (m, resolve_quote_mint (bc_quote_mint c)))"

lemma venue_read_mints:
  assumes "pools_ok e cs L" and at: "curve_at e cs L m = Some (Ok c)"
    and "venue_read e cs L (venue_of_curve e m c) st"
  shows "venue_mints st = curve_mints (m, c)"
proof (cases "complete c")
  case True
  with assms show ?thesis
    by (auto simp: venue_of_curve_def pools_ok_def curve_mints_def elim!: venue_read_PoolE)
next
  case False
  with assms show ?thesis
    by (auto simp: venue_of_curve_def curve_mints_def curve_at_def opt_filter_def
        elim!: venue_read_CurveE split: option.splits if_splits)
qed

lemma chain_mints:
  assumes "pools_ok e cs L" and "quote_chain e cs L m ch root"
    and "list_all2 (venue_read e cs L) (chain_venues e ch) states"
  shows "map venue_mints states = map curve_mints ch"
  using assms(2,3)
proof (induction arbitrary: states)
  case (stop m)
  then show ?case by simp
next
  case (hop m c ch root)
  then show ?case
    using venue_read_mints [OF assms(1)] by (auto simp: list_all2_Cons1)
qed

lemma chain_route:
  assumes "quote_chain e cs L m ch root" and "map hop_mints hs = map curve_mints ch"
    and "\<And>x c. (x, c) \<in> set ch \<Longrightarrow> x \<noteq> resolve_quote_mint (bc_quote_mint c)"
  shows "route_path False m hs root"
  using assms
proof (induction arbitrary: hs)
  case (stop m)
  then show ?case by (simp add: route_path_Nil)
next
  case (hop m c ch root)
  then show ?case
    by (auto simp: Cons_eq_map_conv map_eq_Cons_conv route_path_Cons hop_mints_def curve_mints_def)
qed

lemma chain_route_buy:
  assumes "quote_chain e cs L m ch root" and "map hop_mints hs = map curve_mints (rev ch)"
  shows "route_path True root hs m"
  using assms
proof (induction arbitrary: hs)
  case (stop m)
  then show ?case by (simp add: route_path_Nil)
next
  case (hop m c ch root)
  from hop.prems obtain hs2 h where hs: "hs = hs2 @ [h]"
    and "map hop_mints hs2 = map curve_mints (rev ch)" and h: "hop_mints h = curve_mints (m, c)"
    by (auto simp: map_eq_append_conv)
  then have "route_path True root hs2 (resolve_quote_mint (bc_quote_mint c))"
    using hop.IH by blast
  then show ?case
    using h by (auto simp: hs route_path_snoc route_path_Cons route_path_Nil hop_mints_def
        curve_mints_def)
qed

lemma chain_curve_at: "quote_chain e cs L m ch root \<Longrightarrow> (x, c) \<in> set ch \<Longrightarrow> curve_at e cs L x = Some (Ok c)"
  by (induction rule: quote_chain.induct) auto

lemma length_config_keys: "length (config_keys e) = 4"
  by (simp add: config_keys_def)

lemma discovered_direction:
  assumes L: "serves r L" "serves_batches r L" "pools_ok e cs L"
    and route: "fst (discover_route e cs r out stop_at s) = Ok route"
    and fetch: "fetch_multi_hop_quote_state e cs r draw (fst (plan_path route is_buy))
      (snd (plan_path route is_buy)) s2 = (Ok q, s3)"
    and self: "is_buy \<or> (\<forall>m c. curve_at e cs L m = Some (Ok c) \<longrightarrow> m \<noteq> resolve_quote_mint (bc_quote_mint c))"
  shows "multi_hop_route (mq_in_mint q) (map (route_hop_accounts e) (route_hops q)) =
      Ok (is_buy, mq_out_mint q)"
    and "mq_in_mint q = (if is_buy then mr_in_mint route else out)"
    and "mq_out_mint q = (if is_buy then out else mr_in_mint route)"
proof -
  obtain ch root where ch: "quote_chain e cs L out ch root" "ch \<noteq> []"
    and plan: "route = \<lparr>mr_in_mint = root, mr_out_mint = out, mr_venues = rev (chain_venues e ch)\<rparr>"
    using route unfolding discover_route_chain [OF L(1)] by blast
  let ?venues = "snd (plan_path route is_buy)"
  let ?keys = "config_keys e @ concat (map (venue_keys e) ?venues)"
  from fetch obtain accounts s1 states tps d where
    many: "rpc_get_multiple r ?keys s2 = (Inr accounts, s1)"
    and read: "read_venues cs (required accounts ?keys) 4 Map.empty ?venues = Inr (states, tps)"
    and check: "multi_hop_route (fst (plan_path route is_buy)) (map mint_hop states) =
      Inr (d, mq_out_mint q)"
    and mints: "map (hop_mints \<circ> route_hop_accounts e) (route_hops q) = map venue_mints states"
    and in_mint: "mq_in_mint q = fst (plan_path route is_buy)"
    by (rule fetch_route_state)
  have "accounts = map L ?keys"
    using L(2) many unfolding serves_batches_def by (metis fst_conv sum.inject(2))
  with read have "read_venues cs (required (map L ?keys) ?keys) (length (config_keys e)) Map.empty
      ?venues = Inr (states, tps)"
    by (simp only: length_config_keys)
  then have served: "list_all2 (venue_read e cs L) ?venues states"
    by (rule read_venues_served) (rule refl)
  have hops: "map hop_mints (map mint_hop states) = map venue_mints states"
    by (simp add: comp_def)
  have path: "route_path is_buy (if is_buy then root else out) (map mint_hop states)
      (if is_buy then out else root)"
  proof (cases is_buy)
    case True
    then have "list_all2 (venue_read e cs L) (chain_venues e ch) (rev states)"
      using served by (simp add: plan plan_path_def list_all2_rev1)
    then have "map venue_mints states = map curve_mints (rev ch)"
      using chain_mints [OF L(3) ch(1)] by (metis rev_map rev_rev_ident)
    with hops have "map hop_mints (map mint_hop states) = map curve_mints (rev ch)" by (rule trans)
    with True show ?thesis using chain_route_buy [OF ch(1)] by simp
  next
    case False
    then have "map venue_mints states = map curve_mints ch"
      using served chain_mints [OF L(3) ch(1)] by (simp add: plan plan_path_def)
    with hops have "map hop_mints (map mint_hop states) = map curve_mints ch" by (rule trans)
    moreover have "x \<noteq> resolve_quote_mint (bc_quote_mint c)" if "(x, c) \<in> set ch" for x c
      using self False chain_curve_at [OF ch(1) that] by blast
    ultimately have "route_path False out (map mint_hop states) root"
      by (rule chain_route [OF ch(1)])
    with False show ?thesis by simp
  qed
  have ends: "fst (plan_path route is_buy) = (if is_buy then root else out)"
    by (simp add: plan plan_path_def)
  have "map mint_hop states \<noteq> []" using check mint_route_not_empty by blast
  with path have "multi_hop_route (if is_buy then root else out) (map mint_hop states) =
      Ok (is_buy, if is_buy then out else root)"
    by (intro multi_hop_route_path [THEN iffD2] conjI)
  with check have q: "d = is_buy \<and> mq_out_mint q = (if is_buy then out else root)"
    by (auto simp: ends)
  show "mq_in_mint q = (if is_buy then mr_in_mint route else out)"
    "mq_out_mint q = (if is_buy then out else mr_in_mint route)"
    using q in_mint by (simp_all add: plan plan_path_def)
  have "multi_hop_route m (map (route_hop_accounts e) (route_hops q)) =
      multi_hop_route m (map mint_hop states)" for m
    by (rule multi_hop_route_mints) (simp add: mints [unfolded comp_def] comp_def)
  then show "multi_hop_route (mq_in_mint q) (map (route_hop_accounts e) (route_hops q)) =
      Ok (is_buy, mq_out_mint q)"
    using check q in_mint by simp
qed

end
