(* ===== verification/Sample_Cluster.thy ===== *)
theory Sample_Cluster
  imports Route_State Sample_State
begin

text \<open>
  A cluster to evaluate the client on: it never changes and holds the sample curve as the curve of
  mint 77, with accounts of the SPL Token program everywhere else. The curve is decoded by its
  codec; no account decodes as a pool, and the other deserializers return the sample accounts.
\<close>

definition const_codec :: "'a \<Rightarrow> 'a codec" where
  "const_codec v = \<lparr>codec_default = v, codec_serialize = (\<lambda>_. Ok []),
     codec_deserialize = (\<lambda>bs. Ok (v, bs)), codec_deserialize_unchecked = (\<lambda>bs. Ok (v, bs))\<rparr>"

definition sample_codecs :: codecs where
  "sample_codecs = \<lparr>global_codec = const_codec sample_global,
     fee_config_codec = const_codec sample_fee_config,
     bonding_curve_codec = curve_codec,
     global_config_codec = const_codec sample_global_config, 
     pool_codec = (const_codec sample_pool)\<lparr>codec_deserialize :=
       (\<lambda>_. Err ''AccountDiscriminatorMismatch'')\<rparr>,
     quote_control_deserialize = (\<lambda>bs. Ok (\<lparr>qc_admin = 1, qc_reserves_admin = 1,
       qc_reserved = [], qc_mints = []\<rparr>, bs)),
     mint_deserialize = (\<lambda>bs. Ok (1000000000000000, bs)),
     token_account_deserialize = (\<lambda>bs. Ok (1000000000000000, bs))\<rparr>"

definition still_rpc :: "(pubkey \<Rightarrow> account option) \<Rightarrow> unit rpc" where
  "still_rpc L = \<lparr>rpc_get_account = (\<lambda>k s. (Ok (L k), s)),
     rpc_get_multiple = (\<lambda>keys s. (Ok (map L keys), s)),
     rpc_min_rent = (\<lambda>n s. (Ok (6960 * (128 + word_of_nat n)), s))\<rparr>"

definition sample_accounts :: "pubkey \<Rightarrow> account option" where
  "sample_accounts k =
     (if k = fst (pump_bonding_curve sample_sdk_env 77)
      then Some \<lparr>ac_lamports = 1, ac_data = curve_bytes sample_curve,
                  ac_owner = PUMP_PROGRAM_ID, ac_executable = False, ac_rent_epoch = 0\<rparr>
      else Some \<lparr>ac_lamports = 1, ac_data = [], ac_owner = SPL_TOKEN_PROGRAM_ID,
                  ac_executable = False, ac_rent_epoch = 0\<rparr>)"

definition sample_rpc :: "unit rpc" where
  "sample_rpc = still_rpc sample_accounts"

lemma still_serves: "serves (still_rpc L) L" "serves_batches (still_rpc L) L"
  by (simp_all add: serves_def serves_batches_def still_rpc_def)

lemma still_rpc_ok: "rpc_ok (still_rpc L)"
  by (simp add: rpc_ok_def still_rpc_def)

lemma sample_codecs_ok: "codecs_ok sample_codecs"
  by (simp add: codecs_ok_def sample_codecs_def codec_safe_def const_codec_def curve_codec_def
      read_curve_no_panic)

lemma sample_addresses:
  "fst (pump_bonding_curve sample_sdk_env NATIVE_MINT) \<noteq> fst (pump_bonding_curve sample_sdk_env 77)"
  by (simp add: pump_bonding_curve_def sample_sdk_env_def sample_env_def last_key_bytes
      NATIVE_MINT_def)

lemma sample_curve_at:
  "curve_at sample_sdk_env sample_codecs sample_accounts 77 = Some (Ok sample_curve)"
  "curve_at sample_sdk_env sample_codecs sample_accounts NATIVE_MINT = None"
  using bonding_curve.decode_full [of sample_curve "[]"] sample_addresses
  by (simp_all add: curve_at_def sample_accounts_def opt_filter_def sample_codecs_def
      decode_bonding_curve_def curve_codec_of SPL_TOKEN_PROGRAM_ID_def PUMP_PROGRAM_ID_def)

lemma sample_chain:
  "quote_chain sample_sdk_env sample_codecs sample_accounts 77 [(77, sample_curve)] NATIVE_MINT"
  using sample_curve_at(1)
  by (simp add: quote_chain_Cons quote_chain_Nil sample_curve_def default_bonding_curve_def
      resolve_quote_mint_def)

lemma sample_curve_fields:
  "resolve_quote_mint (bc_quote_mint sample_curve) = NATIVE_MINT" "\<not> complete sample_curve"
  by (simp_all add: sample_curve_def default_bonding_curve_def resolve_quote_mint_def)

lemma sample_fetch:
  "io_call (rpc_get_account sample_rpc k) s = (Ok (sample_accounts k), s)"
  by (simp add: io_call_def sample_rpc_def still_rpc_def)

lemma sample_discovery:
  "discover_route sample_sdk_env sample_codecs sample_rpc 77 None () =
     (Ok \<lparr>mr_in_mint = NATIVE_MINT, mr_out_mint = 77, mr_venues = [CurveVenue 77]\<rparr>, ())"
proof -
  note step = discover_loop_step [OF sample_fetch, unfolded fetched_curve_at]
  have "discover_loop sample_sdk_env sample_codecs sample_rpc None [] 77 () =
      (Ok ([CurveVenue 77], NATIVE_MINT), ())"
    by (simp add: sample_curve_fields step [where m = 77] step [where m = NATIVE_MINT] sample_curve_at MAX_HOPS_def map_res_def
        venue_of_curve_def)
  then show ?thesis by (simp add: discover_route_def)
qed

text \<open>The accounts served and what the codecs read from them.\<close>

definition sample_account :: "pubkey \<Rightarrow> account" where
  "sample_account k = the (sample_accounts k)"

lemma sample_accounts_Some: "sample_accounts k = Some (sample_account k)"
  by (simp add: sample_account_def sample_accounts_def)

lemma sample_decoders [simp]:
  "decode_global sample_codecs d = Ok sample_global"
  "decode_fee_config sample_codecs d = Ok sample_fee_config"
  "decode_global_config sample_codecs d = Ok sample_global_config"
  "mint_info sample_codecs ac = Ok (1000000000000000, ac_owner ac)"
  "token_amount sample_codecs ac = Ok 1000000000000000"
  by (simp_all add: decode_global_def decode_fee_config_def decode_global_config_def
      mint_info_def token_amount_def decode_def wrapper_try_deserialize_def
      sample_codecs_def const_codec_def map_res_def)

lemma sample_decode_curve [simp]:
  "decode_bonding_curve sample_codecs
     (ac_data (sample_account (fst (pump_bonding_curve sample_sdk_env 77)))) = Ok sample_curve"
  using bonding_curve.decode_full [of sample_curve "[]"]
  by (simp add: sample_account_def sample_accounts_def sample_codecs_def decode_bonding_curve_def
      curve_codec_of)

lemma sample_batch: "get_many sample_rpc keys s = (Ok (map sample_accounts keys), s)"
  by (simp add: get_many_def io_call_def sample_rpc_def still_rpc_def)

definition sample_route_state :: multi_hop_quote_state where
  "sample_route_state = \<lparr>mq_in_mint = NATIVE_MINT,
     mq_in_token_program = ac_owner (sample_account NATIVE_MINT), mq_out_mint = 77,
     mq_out_token_program = ac_owner (sample_account 77), mq_buyback_fee_recipient = 22,
     mq_global = sample_global, mq_pump_fee_config = sample_fee_config,
     mq_global_config = sample_global_config, mq_amm_fee_config = sample_fee_config,
     mq_hops = [HopCurve 77 sample_curve (ac_owner (sample_account 77))
       (ac_owner (sample_account NATIVE_MINT)) 1000000000000000 1000000000000000]\<rparr>"

lemma mint_77: "(77 :: pubkey) \<noteq> NATIVE_MINT" "NATIVE_MINT \<noteq> 77"
  by (simp_all add: NATIVE_MINT_def)

lemma sample_recipient: "buyback_fee_recipient_from_pump_global sample_draw sample_global = Some 22"
  by code_simp

lemma sample_route_fetched:
  "fetch_multi_hop_quote_state sample_sdk_env sample_codecs sample_rpc sample_draw NATIVE_MINT
     [CurveVenue 77] () = (Ok sample_route_state, ())"
  by (simp add: fetch_multi_hop_quote_state_def Let_def sample_batch required_def sample_accounts_Some
      config_keys_def sample_curve_fields quote_err_def multi_hop_route_def mint_hop_def
      protocol_leg_config_def token_program_of_def sample_recipient sample_route_state_def mint_77)

lemma sample_route_quote:
  "multi_hop_state_quote sample_sdk_env sample_route_state 3 1000000 100 =
     Ok \<lparr>q_amount = 35236842366, q_min_out = 34884473942, q_input_amount_used = 1000000,
         q_max_input = 1000000\<rparr>"
proof -
  have "quote_hops sample_sdk_env sample_global sample_fee_config sample_global_config
      sample_fee_config 3 True 1 0
      [CurveHop 77 sample_curve tp tp' 1000000000000000 1000000000000000] 1000000 =
    Ok 35236842366" for tp tp'
    by code_simp
  moreover have "max (sub_slippage (35236842366 :: u64) 100) 1 = 34884473942" by code_simp
  moreover have "multi_hop_route NATIVE_MINT [curve_hop sample_sdk_env 77 (bc_quote_mint sample_curve)
      tp tp'] = Ok (True, 77)" for tp tp'
    by (simp add: multi_hop_route_def curve_hop_def Let_def sample_curve_fields)
  ultimately show ?thesis
    by (simp add: multi_hop_state_quote_def sample_route_state_def route_hops_def
        quote_multi_hop_swap_def)
qed

lemma sample_pools_ok: "pools_ok e sample_codecs L"
  by (simp add: pools_ok_def decode_pool_def decode_def map_res_def wrapper_try_deserialize_def
      sample_codecs_def const_codec_def)

end
