(* ===== verification/Client_Properties.thy ===== *)
theory Client_Properties
  imports Sample_Cluster
begin

text \<open>
  Properties of the client: decoding of short accounts, panics of the fetches, route discovery and
  the transactions built from what was fetched.
\<close>

section \<open>Short accounts\<close>

text \<open>The fields a curve account of the first layout holds; the later ones are zero.\<close>

definition first_layout :: "bonding_curve \<Rightarrow> bonding_curve" where
  "first_layout c = default_bonding_curve\<lparr>
     virtual_token_reserves := virtual_token_reserves c,
     virtual_quote_reserves := virtual_quote_reserves c,
     real_token_reserves := real_token_reserves c,
     real_quote_reserves := real_quote_reserves c,
     bc_token_total_supply := bc_token_total_supply c, complete := complete c,
     bc_creator := bc_creator c, bc_is_mayhem_mode := bc_is_mayhem_mode c\<rparr>"

lemma curve_bytes_first_layout:
  "curve_bytes (first_layout c) = take 82 (curve_bytes c) @ replicate 84 0"
  by (simp add: curve_bytes_def first_layout_def default_bonding_curve_def bool_byte_def
      BONDING_CURVE_DISCRIMINATOR_def key_bytes_def numeral_nat)

text \<open>C35: Decoding a curve account gives back the curve whatever bytes follow it, and decoding the
  first 82 bytes of one (the layout before the quote mint was added) gives its eight old fields
  with every newer field zero: no cashback, quote mint default (SOL), no creator-fee override.\<close>
theorem curve_account_decoding:
  assumes "bonding_curve_codec cs = bonding_curve.codec_of"
  shows "decode_bonding_curve cs (curve_bytes c @ rest) = Ok c \<and>
    decode_bonding_curve cs (take 82 (curve_bytes c)) = Ok (first_layout c)"
  using bonding_curve.decode_full [of c rest]
    bonding_curve.decode_short [OF curve_bytes_first_layout, of c]
  by (simp add: decode_bonding_curve_def assms)

theorem curve_account_decoding_witness:
  "decode_bonding_curve sample_codecs (take 82 (curve_bytes sample_curve)) =
     Ok (first_layout sample_curve)"
  using curve_account_decoding [of sample_codecs sample_curve "[]"]
  by (simp add: sample_codecs_def curve_codec_of)

section \<open>Panics\<close>

text \<open>C34: If the RPC client answers a batch with one entry per key, and neither it nor a generated
  deserializer panics, then none of the seven fetches that index a batch, choose a venue or subtract
  panics, whatever the cluster holds: not the indexing of the batches, not the choice of the
  protocol leg's venue, not the subtraction of the rent.\<close>
theorem fetches_never_panic:
  assumes "rpc_ok r" and "codecs_ok cs"
  shows "fst (fetch_curve_quote_state e cs r draw mint s) \<noteq> panic \<and>
    fst (fetch_pump_quote_create e cs r mint s) \<noteq> panic \<and>
    fst (discover_route e cs r mint stop_at s) \<noteq> panic \<and>
    fst (fetch_multi_hop_quote_state e cs r draw mint venues s) \<noteq> panic \<and>
    fst (fetch_buy_state e cs r mint user tp s) \<noteq> panic \<and>
    fst (fetch_sell_state e cs r mint user tp s) \<noteq> panic \<and>
    fst (get_creator_vault_balance e r creator s) \<noteq> panic"
  using fetch_curve_quote_state_safe [OF assms, of e draw mint]
    fetch_pump_quote_create_safe [OF assms, of e mint]
    discover_route_safe [OF assms, of e mint stop_at]
    fetch_multi_hop_quote_state_safe [OF assms, of e draw mint venues]
    single_fetches_safe(9) [OF assms, of e creator]
    single_fetches_safe(10,11) [OF assms, of e mint user tp]
  by (simp add: io_safe_def)

theorem fetches_never_panic_witness:
  "fst (fetch_multi_hop_quote_state sample_sdk_env sample_codecs (still_rpc (\<lambda>_. None)) sample_draw
     NATIVE_MINT [] ()) \<noteq> panic"
  using fetches_never_panic [OF still_rpc_ok sample_codecs_ok] by blast

section \<open>Route discovery\<close>

text \<open>C31: On a cluster that does not change, \<open>discover_route\<close> returns a route exactly when the
  output mint starts a non-empty chain of pump-owned, decodable curves, each the curve of the
  previous one's quote mint, of at most eight mints none of which is \<open>stop_at\<close>, that ends at
  \<open>stop_at\<close>, at a mint without a pump curve or at the bound. The route is then the chain read
  backwards: a completed curve is its canonical pool, an open one itself.\<close>
theorem discover_route_follows_quotes:
  assumes "serves r L"
  shows "fst (discover_route e cs r out stop_at s) = Ok route \<longleftrightarrow>
    (\<exists>ch root. quote_chain e cs L out ch root \<and> ch \<noteq> [] \<and>
       chain_stops e cs L stop_at ch root (length ch) \<and>
       route = \<lparr>mr_in_mint = root, mr_out_mint = out, mr_venues = rev (chain_venues e ch)\<rparr>)"
  by (rule discover_route_chain [OF assms])

theorem discover_route_follows_quotes_witness:
  "fst (discover_route sample_sdk_env sample_codecs sample_rpc 77 None ()) =
     Ok \<lparr>mr_in_mint = NATIVE_MINT, mr_out_mint = 77, mr_venues = [CurveVenue 77]\<rparr>"
proof -
  have "chain_stops sample_sdk_env sample_codecs sample_accounts None [(77, sample_curve)]
      NATIVE_MINT 1"
    by (simp add: chain_stops_def sample_curve_at MAX_HOPS_def)
  moreover have "rev (chain_venues sample_sdk_env [(77, sample_curve)]) = [CurveVenue 77]"
    by (simp add: venue_of_curve_def sample_curve_fields)
  ultimately show ?thesis
    unfolding sample_rpc_def discover_route_follows_quotes [OF still_serves(1)]
    using sample_chain by (intro exI [of _ "[(77, sample_curve)]"] exI [of _ NATIVE_MINT]) simp
qed

text \<open>C32: Whatever the cluster answers, also when accounts change between the calls or the quotes
  form a cycle, \<open>discover_route\<close> ends after at most eight single fetches, all of curve
  addresses, and a returned route has between one and eight venues, one per fetch but possibly a
  last one that found no curve.\<close>
theorem discover_route_ends:
  "\<exists>ms. snd (snd (discover_route e cs (logged r) out stop_at (s, []))) =
        map (\<lambda>m. fst (pump_bonding_curve e m)) ms \<and> length ms \<le> 8 \<and>
     (case fst (discover_route e cs (logged r) out stop_at (s, [])) of
        Inl f \<Rightarrow> True
      | Inr route \<Rightarrow> 1 \<le> length (mr_venues route) \<and> length (mr_venues route) \<le> length ms \<and>
          length ms \<le> Suc (length (mr_venues route)))"
proof -
  obtain v s' log' where run: "discover_loop e cs (logged r) stop_at [] out (s, []) = (v, (s', log'))"
    by (metis surj_pair)
  show ?thesis
    using discover_loop_fetches [OF run] run
    by (auto simp: discover_route_def io_bind_def MAX_HOPS_def Suc_le_eq
        split: sum.splits prod.splits if_splits)
qed

section \<open>Building the swap\<close>

lemma quote_multi_hop_parts:
  assumes "multi_hop_state_quote e q user amt bps = Ok t"
  obtains is_buy out where "amt \<noteq> 0" "1 \<le> q_min_out t"
    "multi_hop_route (mq_in_mint q) (map (route_hop_accounts e) (route_hops q)) = Ok (is_buy, out)"
  using assms
  by (auto simp: multi_hop_state_quote_def quote_multi_hop_swap_def Let_def and_then_Inr
      split: if_splits)

lemma swap_build:
  assumes fetch: "fetch_multi_hop_quote_state e cs r draw (fst (plan_path route is_buy))
      (snd (plan_path route is_buy)) s = (Ok q, s1)"
    and quote: "multi_hop_state_quote e q user amt bps = Ok t"
    and route: "multi_hop_route (mq_in_mint q) (map (route_hop_accounts e) (route_hops q)) =
      Ok (d, out)"
  shows "\<exists>atas. build_multi_hop_swap_for_route e cs r draw user route is_buy amt bps s =
    (Ok (t, atas @ [swap_of e user (mq_in_mint q) (mq_in_token_program q)
       (mq_out_token_program q) (map (route_hop_accounts e) (route_hops q))
       (mq_buyback_fee_recipient q) amt (q_min_out t) d out]), s1)"
proof -
  have "amt \<noteq> 0" "1 \<le> q_min_out t" using quote_multi_hop_parts [OF quote] by blast+
  then have "q_min_out t \<noteq> 0" by auto
  with \<open>amt \<noteq> 0\<close> show ?thesis
    by (simp add: build_multi_hop_swap_for_route_def case_prod_beta fetch quote quote_err_def
        multi_hop_state_instructions_def multi_hop_instructions_eq route Let_def)
qed

text \<open>C33: Once a route's state is fetched and quoted, building its swap succeeds: the result is that
  quote with instructions that end in a \<open>multi_hop_swap\<close> of the amount quoted for, bounded below
  by the quote's positive minimum and signed by the user only.\<close>
theorem swap_builds_once_quoted:
  assumes ok: "codegen_ok e"
    and fetch: "fetch_multi_hop_quote_state e cs r draw (fst (plan_path route is_buy))
      (snd (plan_path route is_buy)) s = (Ok q, s1)"
    and quote: "multi_hop_state_quote e q user amt bps = Ok t"
  shows "\<exists>atas swap. build_multi_hop_swap_for_route e cs r draw user route is_buy amt bps s =
      (Ok (t, atas @ [swap]), s1) \<and>
    dispatch_trade swap = Some (AmmMultiHopSwap, unat amt, unat (q_min_out t)) \<and>
    1 \<le> q_min_out t \<and> filter meta_is_signer (ix_accounts swap) = user_signs user"
proof -
  obtain d out where parts: "1 \<le> q_min_out t"
    "multi_hop_route (mq_in_mint q) (map (route_hop_accounts e) (route_hops q)) = Ok (d, out)"
    using quote_multi_hop_parts [OF quote] by blast
  obtain atas where "build_multi_hop_swap_for_route e cs r draw user route is_buy amt bps s =
    (Ok (t, atas @ [swap_of e user (mq_in_mint q) (mq_in_token_program q)
       (mq_out_token_program q) (map (route_hop_accounts e) (route_hops q))
       (mq_buyback_fee_recipient q) amt (q_min_out t) d out]), s1)"
    using swap_build [OF fetch quote parts(2)] by blast
  with parts(1) show ?thesis
    by (intro exI conjI) (assumption | rule swap_of_dispatch [OF ok] swap_of_signers [OF ok])+
qed

lemma sample_plan:
  "plan_path \<lparr>mr_in_mint = NATIVE_MINT, mr_out_mint = 77, mr_venues = [CurveVenue 77]\<rparr> True =
     (NATIVE_MINT, [CurveVenue 77])"
  by (simp add: plan_path_def)

theorem swap_builds_once_quoted_witness:
  "\<exists>t ixs. fst (build_multi_hop_swap_for_route sample_sdk_env sample_codecs sample_rpc sample_draw 3
     \<lparr>mr_in_mint = NATIVE_MINT, mr_out_mint = 77, mr_venues = [CurveVenue 77]\<rparr> True 1000000 100 ())
     = Ok (t, ixs) \<and> dispatch_trade (last ixs) = Some (AmmMultiHopSwap, 1000000, 34884473942)"
proof -
  have "fetch_multi_hop_quote_state sample_sdk_env sample_codecs sample_rpc sample_draw
      (fst (plan_path \<lparr>mr_in_mint = NATIVE_MINT, mr_out_mint = 77, mr_venues = [CurveVenue 77]\<rparr> True))
      (snd (plan_path \<lparr>mr_in_mint = NATIVE_MINT, mr_out_mint = 77, mr_venues = [CurveVenue 77]\<rparr> True))
      () = (Ok sample_route_state, ())"
    by (simp add: sample_plan sample_route_fetched)
  from swap_builds_once_quoted [OF sample_codegen_ok this sample_route_quote]
  show ?thesis by fastforce
qed

text \<open>C27: On a cluster that does not change, where canonical pools hold the pools of their mints, a
  swap built on a discovered route trades the ends of that route in the direction asked for: its
  data are the amount and the quote's minimum, its in and out accounts are the user's accounts
  for the root currency and the output mint (exchanged for a sell), and the buyback account is one
  for the root currency. A sell relies on no curve being quoted in its own mint.\<close>
theorem built_swap_trades_route:
  assumes ok: "codegen_ok e" and L: "serves r L" "serves_batches r L" "pools_ok e cs L"
    and route: "fst (discover_route e cs r out stop_at s) = Ok route"
    and self: "is_buy \<or> (\<forall>m c. curve_at e cs L m = Some (Ok c) \<longrightarrow>
      m \<noteq> resolve_quote_mint (bc_quote_mint c))"
    and build: "build_multi_hop_swap_for_route e cs r draw user route is_buy amt bps s2 =
      (Ok (t, ixs), s3)"
  shows "dispatch_trade (last ixs) = Some (AmmMultiHopSwap, unat amt, unat (q_min_out t)) \<and>
    (\<exists>itp otp b. map meta_key (take 3 (ix_accounts (last ixs))) =
        [user, ata_of e user itp (if is_buy then mr_in_mint route else out),
         ata_of e user otp (if is_buy then out else mr_in_mint route)] \<and>
      meta_key (ix_accounts (last ixs) ! 6) =
        ata_of e b (if is_buy then itp else otp) (mr_in_mint route))"
proof -
  from build obtain q s1 where
    fetch: "fetch_multi_hop_quote_state e cs r draw (fst (plan_path route is_buy))
      (snd (plan_path route is_buy)) s2 = (Ok q, s1)"
    and quote: "multi_hop_state_quote e q user amt bps = Ok t"
    by (auto simp: build_multi_hop_swap_for_route_def case_prod_beta io_bind_Inr quote_err_Inr)
  note dir = discovered_direction [OF L route fetch self]
  obtain atas where "ixs = atas @ [swap_of e user (mq_in_mint q) (mq_in_token_program q)
       (mq_out_token_program q) (map (route_hop_accounts e) (route_hops q))
       (mq_buyback_fee_recipient q) amt (q_min_out t) is_buy (mq_out_mint q)]"
    using swap_build [OF fetch quote dir(1)] build by auto
  then show ?thesis
    using dir(2,3)
    by (simp add: swap_of_keys [OF ok] swap_of_dispatch [OF ok] del: idl_accounts.simps) blast
qed

theorem built_swap_trades_route_witness:
  "\<exists>t ixs itp otp. fst (build_multi_hop_swap_for_route sample_sdk_env sample_codecs sample_rpc
       sample_draw 3 \<lparr>mr_in_mint = NATIVE_MINT, mr_out_mint = 77, mr_venues = [CurveVenue 77]\<rparr>
       True 1000000 100 ()) = Ok (t, ixs) \<and>
     map meta_key (take 3 (ix_accounts (last ixs))) =
       [3, ata_of sample_sdk_env 3 itp NATIVE_MINT, ata_of sample_sdk_env 3 otp 77]"
proof -
  let ?route = "\<lparr>mr_in_mint = NATIVE_MINT, mr_out_mint = 77, mr_venues = [CurveVenue 77]\<rparr>"
  have fetch: "fetch_multi_hop_quote_state sample_sdk_env sample_codecs sample_rpc sample_draw
      (fst (plan_path ?route True)) (snd (plan_path ?route True)) () = (Ok sample_route_state, ())"
    by (simp add: sample_plan sample_route_fetched)
  obtain d out where "multi_hop_route (mq_in_mint sample_route_state)
      (map (route_hop_accounts sample_sdk_env) (route_hops sample_route_state)) = Ok (d, out)"
    using quote_multi_hop_parts [OF sample_route_quote] by blast
  from swap_build [OF fetch sample_route_quote this] obtain t ixs where
    build: "build_multi_hop_swap_for_route sample_sdk_env sample_codecs sample_rpc sample_draw 3
      ?route True 1000000 100 () = (Ok (t, ixs), ())" by blast
  have "fst (discover_route sample_sdk_env sample_codecs sample_rpc 77 None ()) = Ok ?route"
    by (simp add: sample_discovery)
  from built_swap_trades_route [OF sample_codegen_ok still_serves [of sample_accounts, folded sample_rpc_def]
      sample_pools_ok this _ build] build
  show ?thesis by fastforce
qed

section \<open>Curve trades\<close>

lemma last_user_atas [simp]: "last (with_user_atas e trade include_base ix) = ix"
  by (simp add: with_user_atas_def)

lemma v3_dispatch:
  assumes "codegen_ok e"
  shows "dispatch_trade (v3_instruction e trade (buy_v3_data e x y)) = Some (PumpBuyV3, unat x, unat y)"
    and "dispatch_trade (v3_instruction e trade (buy_exact_quote_in_v3_data e x y)) =
      Some (PumpBuyExactQuoteInV3, unat x, unat y)"
    and "dispatch_trade (v3_instruction e trade (sell_v3_data e x y)) = Some (PumpSellV3, unat x, unat y)"
  using pump_dispatch [OF trade_programs(4) _ trans [OF v3_instruction_data v3_trade_data(1) [OF assms]]]
    pump_dispatch [OF trade_programs(4) _ trans [OF v3_instruction_data v3_trade_data(2) [OF assms]]]
    pump_dispatch [OF trade_programs(4) _ trans [OF v3_instruction_data v3_trade_data(3) [OF assms]]]
  by (simp_all add: trades_of_simps)

text \<open>A builder's result, when there is one, ends in the given trade of the amount at a bound of its
  quote, signed by the user only.\<close>

definition builds_trade ::
  "idl_ix \<Rightarrow> (trade_quote \<Rightarrow> u64) \<Rightarrow> pubkey \<Rightarrow> u64 \<Rightarrow> (trade_quote \<times> instruction list) client_result \<Rightarrow>
     bool"
where
  "builds_trade kind bound user amt m = (case m of Inl _ \<Rightarrow> True | Inr (t, ixs) \<Rightarrow>
     dispatch_trade (last ixs) = Some (kind, unat amt, unat (bound t)) \<and>
     filter meta_is_signer (ix_accounts (last ixs)) = user_signs user)"

lemma builds_trade_bind:
  "(\<And>x s'. builds_trade kind bound user amt (fst (k x s'))) \<Longrightarrow>
     builds_trade kind bound user amt (fst (io_bind m k s))"
proof (cases "m s")
  case (Pair w s')
  assume k: "\<And>x s'. builds_trade kind bound user amt (fst (k x s'))"
  show ?thesis
    by (cases w) (simp_all add: io_bind_def Pair k, simp add: builds_trade_def)
qed

text \<open>C36: Whatever is fetched, the transactions of the three curve-trade builders end in the trade at
  the bound of the quote returned with them: a \<open>buy_v3\<close> of the asked amount for at most the
  quoted maximum, a \<open>buy_exact_quote_in_v3\<close> of the asked budget and a \<open>sell_v3\<close> of the asked
  amount for at least the quoted minimum, each signed by the user only.\<close>
theorem v3_builds_trade_quoted:
  assumes ok: "codegen_ok e"
  shows "builds_trade PumpBuyV3 q_max_input user amt
      (fst (build_buy_v3 e cs r draw user mint amt bps s)) \<and>
    builds_trade PumpBuyExactQuoteInV3 q_min_out user amt
      (fst (build_buy_exact_quote_in_v3 e cs r draw user mint amt bps s)) \<and>
    builds_trade PumpSellV3 q_min_out user amt
      (fst (build_sell_v3 e cs r draw user mint amt bps s))"
  unfolding build_buy_v3_def build_buy_exact_quote_in_v3_def build_sell_v3_def
  by (intro conjI builds_trade_bind)
    (simp_all add: builds_trade_def Let_def buy_v3_instructions_def v3_new_def
      buy_exact_quote_in_v3_instructions_def sell_v3_instructions_def v3_dispatch [OF ok]
      pump_trade_signers(4) [OF ok])

lemma sample_buy_v3:
  "\<exists>t ixs. fst (build_buy_v3 sample_sdk_env sample_codecs sample_rpc sample_draw 3 77 1000000 100 ()) =
     Ok (t, ixs)"
proof -
  have "\<exists>t. buy_quote_bonding_curve_v3_token_out sample_sdk_env sample_global sample_fee_config
      sample_curve 1000000000000000 1000000000000000 1000000 100 = Ok t"
  proof -
    have "isl (buy_quote_bonding_curve_v3_token_out sample_sdk_env sample_global sample_fee_config
        sample_curve 1000000000000000 1000000000000000 1000000 100) = False"
      by code_simp
    then show ?thesis by (auto simp: isl_def) (metis sum.exhaust)
  qed
  then show ?thesis
    by (auto simp: build_buy_v3_def fetch_curve_quote_state_def Let_def sample_batch required_def
        sample_accounts_Some sample_recipient amount_or_zero_def quote_err_def)
qed

theorem v3_builds_trade_quoted_witness:
  "\<exists>t ixs. fst (build_buy_v3 sample_sdk_env sample_codecs sample_rpc sample_draw 3 77 1000000 100 ()) =
      Ok (t, ixs) \<and>
    dispatch_trade (last ixs) = Some (PumpBuyV3, 1000000, unat (q_max_input t))"
  using sample_buy_v3 v3_builds_trade_quoted [OF sample_codegen_ok, where ?cs = sample_codecs and
      ?r = sample_rpc and ?draw = sample_draw and ?user = 3 and ?mint = 77 and ?amt = 1000000 and
      ?bps = 100 and ?s = "()"]
  by (auto simp: builds_trade_def)

section \<open>An empty curve\<close>

text \<open>An account of the discriminator alone decodes as the curve of all zeros, on which a v3 quote
  divides by its token reserves.\<close>

lemma discriminator_decodes:
  assumes "bonding_curve_codec cs = bonding_curve.codec_of"
  shows "decode_bonding_curve cs BONDING_CURVE_DISCRIMINATOR = Ok default_bonding_curve"
proof -
  have "curve_bytes default_bonding_curve = BONDING_CURVE_DISCRIMINATOR @ replicate 158 0"
    by (simp add: curve_bytes_def default_bonding_curve_def bool_byte_def key_bytes_def numeral_nat)
  then show ?thesis
    by (simp add: decode_bonding_curve_def assms bonding_curve.decode_short)
qed

lemma empty_curve_panics:
  "buy_v3_sol_amount_from_token_amount sample_sdk_env sample_global sample_fee_config
     default_bonding_curve 1000000000000000 0 1000000 = panic"
  "multi_hop_curve_hop sample_sdk_env sample_global sample_fee_config default_bonding_curve
     1000000000000000 0 3 True 1000000 3 = panic"
  by code_simp+

lemma empty_curve_v2:
  "buy_sol_amount_from_token_amount sample_sdk_env sample_global sample_fee_config
     default_bonding_curve 1000000000000000 1000000 = Ok 0"
  "buy_token_amount_from_sol_amount sample_sdk_env sample_global sample_fee_config
     default_bonding_curve 1000000000000000 1000000 = Ok 0"
  by code_simp+

end
