(* ===== verification/Snapshot_Env.thy ===== *)
theory Snapshot_Env
  imports Ix_Core Rpc_Client
begin

text \<open>
  The command line, the networks and the list of accounts of the snapshot tool
  \<open>src/src/bin/clone_devnet_accounts/main.rs\<close>, with the fixture mints of
  \<open>src/tests/common/fixtures.rs\<close> it copies, and the state its operations run on. Strings are
  lists of code points below 256. Printing is left out.
\<close>

section \<open>Errors and state\<close>

text \<open>\<open>Box<dyn Error>\<close>: the errors that reach \<open>main\<close>, by where they come from. The errors of
  libraries are their messages.\<close>

datatype tool_error =
    InvalidInput string
  | Tool_Client client_error
  | Tool_Rpc rpc_error
  | Tool_Anchor anchor_error
  | Tool_Lib string

type_synonym 'a tool_result = "(tool_error, 'a) res"

text \<open>\<open>out: HashMap<Pubkey, Account>\<close>, whose iteration order no operation of the tool depends on,
  beside the cluster.\<close>

type_synonym snapshot = "pubkey \<Rightarrow> account option"
type_synonym ('s, 'a) tool = "('s \<times> snapshot, tool_error, 'a) io"

definition tool_call :: "('s, 'a) rpc_call \<Rightarrow> ('s, 'a) tool" where
  "tool_call c = (\<lambda>(s, out). case c s of (r, s') \<Rightarrow> (map_err Tool_Rpc r, (s', out)))"

text \<open>\<open>get\<close> (and \<open>get_mut\<close>, whose writes are inserts at the same key), \<open>insert\<close> and
  \<open>remove\<close>.\<close>

definition out_get :: "pubkey \<Rightarrow> ('s, account option) tool" where
  "out_get k = (\<lambda>(s, out). (Ok (out k), (s, out)))"

definition out_insert :: "pubkey \<Rightarrow> account \<Rightarrow> ('s, unit) tool" where
  "out_insert k ac = (\<lambda>(s, out). (Ok (), (s, out(k \<mapsto> ac))))"

definition out_remove :: "pubkey \<Rightarrow> ('s, account option) tool" where
  "out_remove k = (\<lambda>(s, out). (Ok (out k), (s, out(k := None))))"

definition out_expect :: "('s, 'a option) tool \<Rightarrow> ('s, 'a) tool" where
  "out_expect m = io_bind m (\<lambda>v. io (case v of None \<Rightarrow> panic | Some x \<Rightarrow> Ok x))"

definition io_when :: "bool \<Rightarrow> ('s, 'e, unit) io \<Rightarrow> ('s, 'e, unit) io" where
  "io_when b m = (if b then m else io (Ok ()))"

primrec io_each :: "('a \<Rightarrow> ('s, 'e, unit) io) \<Rightarrow> 'a list \<Rightarrow> ('s, 'e, unit) io" where
  "io_each f [] = io (Ok ())"
| "io_each f (x # xs) = io_bind (f x) (\<lambda>_. io_each f xs)"

section \<open>Networks and command line\<close>

datatype network = Devnet | Mainnet

text \<open>\<open>char::is_whitespace\<close> and \<open>to_ascii_lowercase\<close> on code points below 256.\<close>

definition is_whitespace :: "char \<Rightarrow> bool" where
  "is_whitespace c = (let n = of_char c :: nat in 9 \<le> n \<and> n \<le> 13 \<or> n \<in> {32, 133, 160})"

definition trim :: "string \<Rightarrow> string" where
  "trim s = rev (dropWhile is_whitespace (rev (dropWhile is_whitespace s)))"

definition ascii_lower :: "char \<Rightarrow> char" where
  "ascii_lower c = (let n = of_char c :: nat in if 65 \<le> n \<and> n \<le> 90 then char_of (n + 32) else c)"

definition network_parse :: "string \<Rightarrow> (string, network) res" where
  "network_parse s =
     (let other = map ascii_lower (trim s)
      in if other = ''mainnet'' \<or> other = ''mainnet-beta'' then Ok Mainnet
         else if other = ''devnet'' then Ok Devnet
         else Err (''network must be devnet or mainnet (or mainnet-beta), got `'' @ other @ ''`''))"

text \<open>\<open>std::env::var\<close> is a function: the environment after \<open>.env\<close> has been loaded.\<close>

type_synonym env_vars = "string \<Rightarrow> string option"

definition unwrap_or :: "'a option \<Rightarrow> 'a \<Rightarrow> 'a" where
  "unwrap_or v d = (case v of None \<Rightarrow> d | Some x \<Rightarrow> x)"

definition network_from_env :: "env_vars \<Rightarrow> ('e, network) res" where
  "network_from_env env =
     (case network_parse (unwrap_or (env ''PUMP_NETWORK'') ''devnet'') of
        Inr n \<Rightarrow> Ok n | Inl _ \<Rightarrow> panic)"

fun default_rpc :: "network \<Rightarrow> string" where
  "default_rpc Devnet = ''https://api.devnet.solana.com''"
| "default_rpc Mainnet = ''https://api.mainnet-beta.solana.com''"

record cli =
  cli_network :: "network option"
  cli_rpc_url :: "string option"

text \<open>\<open>None\<close> is \<open>exit(0)\<close> after the usage text. The arguments are those after the program's
  name.\<close>

fun parse_args ::
  "network option \<Rightarrow> string option \<Rightarrow> string option \<Rightarrow> string list \<Rightarrow> (string, cli option) res" where
  "parse_args network rpc_flag positional [] =
     (if rpc_flag \<noteq> None \<and> positional \<noteq> None
      then Err ''use either --rpc-url or one positional RPC URL, not both''
      else Ok (Some \<lparr>cli_network = network,
                     cli_rpc_url = (case rpc_flag of None \<Rightarrow> positional | Some v \<Rightarrow> Some v)\<rparr>))"
| "parse_args network rpc_flag positional (arg # args) =
     (if arg = ''-h'' \<or> arg = ''--help'' then Ok None
      else if arg = ''-n'' \<or> arg = ''--network'' then
        (case args of [] \<Rightarrow> Err ''--network requires a value (devnet or mainnet)''
         | v # args' \<Rightarrow> and_then (network_parse v) (\<lambda>n.
             parse_args (Some n) rpc_flag positional args'))
      else if arg = ''-r'' \<or> arg = ''--rpc-url'' then
        (case args of [] \<Rightarrow> Err ''--rpc-url requires a URL''
         | v # args' \<Rightarrow> parse_args network (Some v) positional args')
      else if take 1 arg = ''-'' then Err (''unknown option `'' @ arg @ ''` (try --help)'')
      else if positional \<noteq> None then Err (''unexpected extra argument `'' @ arg @ ''`'')
      else parse_args network rpc_flag (Some arg) args)"

definition parse_cli :: "string list \<Rightarrow> (string, cli option) res" where
  "parse_cli args = parse_args None None None args"

section \<open>Accounts to copy\<close>

text \<open>Keys of the Raydium pool and of its OpenBook market, and the two mints of \<open>fixed_pdas\<close>.\<close>

\<comment> \<open>\<open>58oQChx4yWmvKdwLLZzBi4ChoCc2fqCUWBkwMihLYQo2\<close>\<close>
definition RAYDIUM_POOL :: pubkey where
  "RAYDIUM_POOL =
     0x3d6e472e67a46ea6b4bd0bab9dfd35e2b4c72f1d6d59c2eab95c942573ad22f1"

\<comment> \<open>\<open>5Q544fKrFoe6tsEbD7S8EmxGTJYAKtTVhAW5Q5pge4j1\<close>\<close>
definition RAYDIUM_AMM_AUTHORITY :: pubkey where
  "RAYDIUM_AMM_AUTHORITY =
     0x4157b0580f31c5fce44a62582dbcf9d78ee75943a084a393b350368d22899308"

\<comment> \<open>\<open>HRk9CMrpq7Jn9sh7mzxE8CChHG8dneX9p475QKz4Fsfc\<close>\<close>
definition RAYDIUM_OPEN_ORDERS :: pubkey where
  "RAYDIUM_OPEN_ORDERS =
     0xf411b5d45e8c66bb2cf71b6f45f5ac00ca5737f1a76205c77b0afef885eae5c7"

\<comment> \<open>\<open>CZza3Ej4Mc58MnxWA385itCC9jCo3L1D7zc3LKy1bZMR\<close>\<close>
definition RAYDIUM_TARGET_ORDERS :: pubkey where
  "RAYDIUM_TARGET_ORDERS =
     0xabe43c7c1e21eaa6f97c8bd355e21bd1279674756c1c8e106c6e712ba116d970"

\<comment> \<open>\<open>DQyrAcCrDXQ7NeoqGgDCZwBvWDcYmFCjSb9JtteuvPpz\<close>\<close>
definition RAYDIUM_WSOL_VAULT :: pubkey where
  "RAYDIUM_WSOL_VAULT =
     0xb870e12dd379891561d2e9fa8f26431834eb736f2f24fc2a2a4dff1fd5dca4df"

\<comment> \<open>\<open>HLmqeL62xR1QoZ1HKKbXRrdN1p3phKpxRMb2VVopvBBz\<close>\<close>
definition RAYDIUM_USDC_VAULT :: pubkey where
  "RAYDIUM_USDC_VAULT =
     0xf2cbb9b760eddb185706303063ad33d7b57296ea02d4e0335e31ceafa4cc42dd"

\<comment> \<open>\<open>8BnEgHoWFysVcuFFX7QztDmzuH8r5ZFvyP3sYwn1XTh6\<close>\<close>
definition RAYDIUM_MARKET :: pubkey where
  "RAYDIUM_MARKET =
     0x6ac4c3cefa9f19bf54c8dc0f5e4d1ceee5327d26482b29d2b13cbaa43447218d"

\<comment> \<open>\<open>CTz5UMLQm2SRWHzQnU62Pi4yJqbNGjgRBHqqp6oDHfF7\<close>\<close>
definition RAYDIUM_MARKET_AUTHORITY :: pubkey where
  "RAYDIUM_MARKET_AUTHORITY =
     0xaa5a31cb020bb002985ca929908171940fe635cb76e99ce4fb8805428bb8254a"

\<comment> \<open>\<open>CKxTHwM9fPMRRvZmFnFoqKNd9pQR21c5Aq9bh5h9oghX\<close>\<close>
definition RAYDIUM_MARKET_BASE_VAULT :: pubkey where
  "RAYDIUM_MARKET_BASE_VAULT =
     0xa84bb6466246781d7a9adab8588ba86b2acce51358c844f5444e40640875fd5a"

\<comment> \<open>\<open>6A5NHCj1yF6urc9wZNe6Bcjj4LVszQNj5DwAWG97yzMu\<close>\<close>
definition RAYDIUM_MARKET_QUOTE_VAULT :: pubkey where
  "RAYDIUM_MARKET_QUOTE_VAULT =
     0x4c9d997d2ec43bdc0d236269cfb0d08391afd103fd8fbd63453ff58b6e23a920"

\<comment> \<open>\<open>5jWUncPNBMZJ3sTHKmMLszypVkoRK6bfEQMQUHweeQnh\<close>\<close>
definition RAYDIUM_MARKET_BIDS :: pubkey where
  "RAYDIUM_MARKET_BIDS =
     0x46527949e0a7a659f8aadc86bc53cc7c42469a17765a9bad62b1b05bc868b5ee"

\<comment> \<open>\<open>EaXdHx7x3mdGA38j5RSmKYSXMzAFzzUXCLNBEDXDn1d5\<close>\<close>
definition RAYDIUM_MARKET_ASKS :: pubkey where
  "RAYDIUM_MARKET_ASKS =
     0xc9beb9b16d18a8273976ef89b7fde84aec9baaca0db173db8fda4ae0de478a34"

\<comment> \<open>\<open>SRMuApVNdxXokk5GT7XD5cUUgXMBCoAz2LHeuAoKWRt\<close>\<close>
definition SRM_MINT :: pubkey where
  "SRM_MINT =
     0x068310861a98327d0550574d84418aa6e10c3352ddaa7fd7f58152cceeb23887"

\<comment> \<open>\<open>MSRMcoVyrFxnSgo5uXwone5SKcGhT1KEJMFEkMEWf9L\<close>\<close>
definition MSRM_MINT :: pubkey where
  "MSRM_MINT =
     0x053c5bcbd26752137629a8d38480323e3b48142d2e35687362d3d5de7c663d53"

text \<open>\<open>(label, address, required, fetch_from_mainnet)\<close>.\<close>

definition fixed_pdas :: "'e pda_env_scheme \<Rightarrow> (string \<times> pubkey \<times> bool \<times> bool) list" where
  "fixed_pdas e = [
     (''pump:global'', fst (pump_global e), True, False),
     (''pump:event_authority'', fst (pump_event_authority e), False, False),
     (''pump:mint_authority'', fst (pump_mint_authority e), False, False),
     (''pump:global_volume_accumulator'', fst (pump_global_volume_accumulator e), True, False),
     (''pump:fee_config'', fst (pump_fee_config e), True, False),
     (''pump:quote_control'', fst (pump_quote_control e), False, False),
     (''pump_amm:global_config'', fst (amm_global_config e), False, False),
     (''pump_amm:event_authority'', fst (amm_event_authority e), False, False),
     (''pump_amm:global_volume_accumulator'', fst (amm_global_volume_accumulator e), False, False),
     (''pump_amm:fee_config'', fst (amm_fee_config e), True, False),
     (''pump_agent_payments:global_config'', fst (agent_global_config e), False, False),
     (''mayhem:global_params'', fst (mayhem_global_params e), True, False),
     (''mayhem:sol_vault'', fst (mayhem_sol_vault e), True, False),
     (''alt:devnet'', DEVNET_ALT, True, False),
     (''alt:mainnet'', MAINNET_ALT, True, True),
     (''raydium_amm_v4:sol_usdc:pool'', RAYDIUM_POOL, True, True),
     (''raydium_amm_v4:sol_usdc:amm_authority'', RAYDIUM_AMM_AUTHORITY, False, True),
     (''raydium_amm_v4:sol_usdc:open_orders'', RAYDIUM_OPEN_ORDERS, True, True),
     (''raydium_amm_v4:sol_usdc:target_orders'', RAYDIUM_TARGET_ORDERS, True, True),
     (''raydium_amm_v4:sol_usdc:wsol_vault'', RAYDIUM_WSOL_VAULT, True, True),
     (''raydium_amm_v4:sol_usdc:usdc_vault'', RAYDIUM_USDC_VAULT, True, True),
     (''openbook:sol_usdc:market'', RAYDIUM_MARKET, True, True),
     (''openbook:sol_usdc:market_authority'', RAYDIUM_MARKET_AUTHORITY, False, True),
     (''openbook:sol_usdc:market_base_vault'', RAYDIUM_MARKET_BASE_VAULT, True, True),
     (''openbook:sol_usdc:market_quote_vault'', RAYDIUM_MARKET_QUOTE_VAULT, True, True),
     (''openbook:sol_usdc:market_bids'', RAYDIUM_MARKET_BIDS, True, True),
     (''openbook:sol_usdc:market_asks'', RAYDIUM_MARKET_ASKS, True, True),
     (''openbook:srm_mint'', SRM_MINT, False, True),
     (''openbook:msrm_mint'', MSRM_MINT, False, True)]"

text \<open>\<open>alt_extras\<close>: every entry is commented out.\<close>

definition alt_extras :: "pubkey list" where
  "alt_extras = []"

section \<open>Fixtures\<close>

definition USDC_QUOTE_MINT :: pubkey where
  "USDC_QUOTE_MINT = USDC_MINT"

\<comment> \<open>\<open>6ycYUmdKav4kycBvZXSHfQVNzpEbt8SCVdxUgTLcuTF3\<close>\<close>
definition USDC_QUOTE_MINT_AUTHORITY :: pubkey where
  "USDC_QUOTE_MINT_AUTHORITY =
     0x58cb25f328408c20909cead2f67b58985f0da0635b8210cd9a15d8ceb430da06"

record fixture_mint =
  fm_label :: string
  fm_mint :: pubkey
  fm_patch_quote_mint_to_test :: bool

definition FIXTURE_MINTS :: "fixture_mint list" where
  "FIXTURE_MINTS = [
     \<lparr>fm_label = ''graduated:devnet'',
      fm_mint = 0x356ca60b4ad5463542bb4cec92b84ce85c12a1dcd292b76ee9dd43bd5f694c4f,
      fm_patch_quote_mint_to_test = False\<rparr>,
     \<lparr>fm_label = ''not_graduated:devnet'',
      fm_mint = 0x517256af67cf47f5d19f61b05c731869f5d83cccf5e2c099372798b633be056f,
      fm_patch_quote_mint_to_test = False\<rparr>,
     \<lparr>fm_label = ''not_graduated_with_quote_mint:devnet'',
      fm_mint = 0x4465f358a9c7f5425e8c69969a309de374ecb683af8b8fef53405be48993522f,
      fm_patch_quote_mint_to_test = True\<rparr>,
     \<lparr>fm_label = ''graduated_with_quote_mint:devnet'',
      fm_mint = 0x1287d1b356cd3a9b726260c0f268ab1c39b743a2b28dbeb2d5a2d37d07adadcf,
      fm_patch_quote_mint_to_test = True\<rparr>,
     \<lparr>fm_label = ''not_graduated_with_sharing_fee_config_and_quote_mint:devnet'',
      fm_mint = 0xd65a83dfa5aa3130de7d98d08f9e86ab8321eba77048fcaa3079d847f99a914f,
      fm_patch_quote_mint_to_test = True\<rparr>,
     \<lparr>fm_label = ''graduated_with_sharing_fee_config_and_quote_mint:devnet'',
      fm_mint = 0x4063fe92d53936bd6f3820958cd1f4a7a7ee532d0272cae69dba2b39c160a75f,
      fm_patch_quote_mint_to_test = True\<rparr>,
     \<lparr>fm_label = ''graduated_with_sharing_fee_config_and_quote_mint_cashback:devnet'',
      fm_mint = 0x8e37e5579903a3446f7e23554ad9478743f0d4c92f844cd645ed45e2b7136e1f,
      fm_patch_quote_mint_to_test = True\<rparr>,
     \<lparr>fm_label = ''cashback:sol:non-migrated:devnet'',
      fm_mint = 0xb211562457394c70e0b3ccfeb22cdcf05a18fbaf10cf6a872704c06729d256ff,
      fm_patch_quote_mint_to_test = False\<rparr>,
     \<lparr>fm_label = ''cashback:usdc:non-migrated:devnet'',
      fm_mint = 0x73f9b5b1eaab5f8f8277e2108e34346475ae01bba901780cab4e52b11f0d8a4f,
      fm_patch_quote_mint_to_test = True\<rparr>,
     \<lparr>fm_label = ''cashback:sol:migrated:devnet'',
      fm_mint = 0xf4bcd1e9249ad0e819bd29260c74b4238dd1b13bffc812d37d19443fec80c9af,
      fm_patch_quote_mint_to_test = False\<rparr>,
     \<lparr>fm_label = ''cashback:usdc:migrated:devnet'',
      fm_mint = 0x271b0cf0312562d635773ac7b002a545e5fe1bfdcdb9486e4fd5af40f8f94cbf,
      fm_patch_quote_mint_to_test = True\<rparr>,
     \<lparr>fm_label = ''not-cashback:sol:non-migrated:devnet'',
      fm_mint = 0x69ca0d12a2be3778377323e405851bd8d73f7f964ab0cb2e725e7d361397386f,
      fm_patch_quote_mint_to_test = False\<rparr>,
     \<lparr>fm_label = ''not-cashback:usdc:non-migrated:devnet'',
      fm_mint = 0x8a84eab81379e9964f9058e11485ecf6ab6e8bac363c9a51bc0fd058c7f5f2df,
      fm_patch_quote_mint_to_test = True\<rparr>,
     \<lparr>fm_label = ''not-cashback:sol:migrated:devnet'',
      fm_mint = 0x9d8c79dbc9eed84ae247994ad872a223b7afcd37fe190ae4272f0132bc79827f,
      fm_patch_quote_mint_to_test = False\<rparr>,
     \<lparr>fm_label = ''not-cashback:usdc:migrated:devnet'',
      fm_mint = 0x6fe994ef7a3cd90ff2c5a94678c1ee8931407a261a6ba71d364483f5f3c2ceff,
      fm_patch_quote_mint_to_test = True\<rparr>]"

end
