(* ===== verification/Snapshot.thy ===== *)
theory Snapshot
  imports Snapshot_Env
begin

text \<open>
  The snapshot tool \<open>src/src/bin/clone_devnet_accounts/main.rs\<close>: it copies the accounts of a
  cluster into a map and rewrites the ones the local validator needs changed. The token programs'
  account layouts, the lookup-table layout, the rent formula and the generated (de)serializers of
  \<open>QuoteControl\<close> and \<open>SharingConfig\<close> are fields of \<open>tool_env\<close>; writing the map to a file is
  left out.
\<close>

section \<open>Layouts of other programs\<close>

text \<open>The fields of \<open>spl_token::state::Account\<close> the tools name, the others in the extension;
  \<open>AccountState\<close> by its discriminant. \<open>spl_token::state::Mint\<close>. An address lookup table.\<close>

record token_account =
  ta_mint :: pubkey
  ta_owner :: pubkey
  ta_amount :: u64
  ta_state :: u8
  ta_is_native :: "u64 option"
  ta_delegate :: "pubkey option"
  ta_delegated_amount :: u64
  ta_close_authority :: "pubkey option"

record token_mint =
  tm_mint_authority :: "pubkey option"
  tm_supply :: u64
  tm_decimals :: u8
  tm_is_initialized :: bool
  tm_freeze_authority :: "pubkey option"

record 'm lookup_table =
  lt_meta :: 'm
  lt_addresses :: "pubkey list"

text \<open>\<open>pack\<close> writes into a buffer. \<open>te_pod_*\<close> are the mutable views of Token-2022 accounts:
  reading the base of the account, and the data after the base has been written. Of a sharing
  config only the shareholders are read.\<close>

record ('t, 'm) tool_env =
  te_account_len :: nat
  te_unpack_account :: "byte list \<Rightarrow> (string, 't token_account_scheme) res"
  te_pack_account :: "'t token_account_scheme \<Rightarrow> byte list \<Rightarrow> (string, byte list) res"
  te_pod_account :: "byte list \<Rightarrow> (string, 't token_account_scheme) res"
  te_pod_write_account :: "'t token_account_scheme \<Rightarrow> byte list \<Rightarrow> byte list"
  te_mint_len :: nat
  te_unpack_mint :: "byte list \<Rightarrow> (string, token_mint) res"
  te_pack_mint :: "token_mint \<Rightarrow> byte list \<Rightarrow> (string, byte list) res"
  te_pod_mint :: "byte list \<Rightarrow> (string, token_mint) res"
  te_pod_write_mint :: "token_mint \<Rightarrow> byte list \<Rightarrow> byte list"
  te_table_deserialize :: "byte list \<Rightarrow> (string, 'm lookup_table) res"
  te_table_serialize :: "'m lookup_table \<Rightarrow> (string, byte list) res"
  te_default_meta :: 'm
  te_serialize_quote_control :: "quote_control \<Rightarrow> byte list anchor_result"
  te_deserialize_sharing_config ::
    "byte list \<Rightarrow> ((pubkey \<times> u16) list \<times> byte list) anchor_result"
  te_minimum_balance :: "nat \<Rightarrow> u64"

definition lib :: "(string, 'a) res \<Rightarrow> 'a tool_result" where
  "lib = map_err Tool_Lib"

section \<open>Copying one account\<close>

definition clone_one :: "'s rpc \<Rightarrow> pubkey \<Rightarrow> bool \<Rightarrow> ('s, account option) tool" where
  "clone_one r key must =
     io_bind (out_get key) (\<lambda>existing. case existing of
       Some ac \<Rightarrow> io (Ok (Some ac))
     | None \<Rightarrow> io_bind (tool_call (rpc_get_account r key)) (\<lambda>acct. case acct of
         Some ac \<Rightarrow> io_bind (out_insert key ac) (\<lambda>_. io (Ok (Some ac)))
       | None \<Rightarrow> io (if must then panic else Ok None)))"

section \<open>Rewriting accounts\<close>

definition rewrite_alt_active_from_slot_0 ::
  "('t, 'm, 'z) tool_env_scheme \<Rightarrow> account \<Rightarrow> pubkey list \<Rightarrow> account tool_result" where
  "rewrite_alt_active_from_slot_0 te ac addresses =
     and_then (lib (te_table_deserialize te (ac_data ac))) (\<lambda>table.
       let table = table\<lparr>lt_meta := te_default_meta te\<rparr>;
           table = table\<lparr>lt_addresses := addresses\<rparr>
       in and_then (lib (te_table_serialize te table)) (\<lambda>data. Ok (ac\<lparr>ac_data := data\<rparr>)))"

definition set_mint_owner ::
  "pubkey option \<Rightarrow> pubkey option \<Rightarrow> 't token_account_scheme \<Rightarrow> 't token_account_scheme" where
  "set_mint_owner new_mint new_owner t =
     (let t = (case new_mint of None \<Rightarrow> t | Some mint \<Rightarrow> t\<lparr>ta_mint := mint\<rparr>)
      in case new_owner of None \<Rightarrow> t | Some own \<Rightarrow> t\<lparr>ta_owner := own\<rparr>)"

definition rewrite_token_account ::
  "('t, 'm, 'z) tool_env_scheme \<Rightarrow> account \<Rightarrow> pubkey option \<Rightarrow> pubkey option \<Rightarrow>
     account tool_result"
where
  "rewrite_token_account te ac new_mint new_owner =
     (if ac_owner ac = SPL_TOKEN_2022_PROGRAM_ID
      then and_then (lib (te_pod_account te (ac_data ac))) (\<lambda>state.
             Ok (ac\<lparr>ac_data :=
               te_pod_write_account te (set_mint_owner new_mint new_owner state) (ac_data ac)\<rparr>))
      else and_then (lib (te_unpack_account te (ac_data ac))) (\<lambda>token.
           and_then (lib (te_pack_account te (set_mint_owner new_mint new_owner token)
                            (replicate (te_account_len te) 0))) (\<lambda>new_data.
             Ok (ac\<lparr>ac_data := new_data\<rparr>))))"

definition rewrite_mint_authority ::
  "('t, 'm, 'z) tool_env_scheme \<Rightarrow> account \<Rightarrow> pubkey \<Rightarrow> account tool_result" where
  "rewrite_mint_authority te ac new_authority =
     (if ac_owner ac = SPL_TOKEN_2022_PROGRAM_ID
      then and_then (lib (te_pod_mint te (ac_data ac))) (\<lambda>state.
             Ok (ac\<lparr>ac_data := te_pod_write_mint te
               (state\<lparr>tm_mint_authority := Some new_authority\<rparr>) (ac_data ac)\<rparr>))
      else and_then (lib (te_unpack_mint te (ac_data ac))) (\<lambda>mint_state.
           and_then (lib (te_pack_mint te (mint_state\<lparr>tm_mint_authority := Some new_authority\<rparr>)
                            (replicate (te_mint_len te) 0))) (\<lambda>new_data.
             Ok (ac\<lparr>ac_data := new_data\<rparr>))))"

text \<open>The classic token accounts of curves and creator vaults are rewritten in place.\<close>

definition retarget_mint ::
  "('t, 'm, 'z) tool_env_scheme \<Rightarrow> account \<Rightarrow> pubkey \<Rightarrow> account tool_result" where
  "retarget_mint te ac mint =
     and_then (lib (te_unpack_account te (ac_data ac))) (\<lambda>token.
     and_then (lib (te_pack_account te (token\<lparr>ta_mint := mint\<rparr>)
                      (replicate (te_account_len te) 0))) (\<lambda>new_data.
       Ok (ac\<lparr>ac_data := new_data\<rparr>)))"

text \<open>\<open>new_data.resize(len, 0)\<close> when it is shorter.\<close>

definition pad_to :: "nat \<Rightarrow> byte list \<Rightarrow> byte list" where
  "pad_to n data = (if length data < n then data @ replicate (n - length data) 0 else data)"

section \<open>Re-keying a graduated pool\<close>

text \<open>An account moves to a new address, rewritten on the way.\<close>

definition rekey :: "pubkey \<Rightarrow> (account \<Rightarrow> account tool_result) \<Rightarrow> pubkey \<Rightarrow> ('s, unit) tool" where
  "rekey old rewrite new =
     io_bind (out_expect (out_remove old)) (\<lambda>ac.
     io_bind (io (rewrite ac)) (\<lambda>ac. out_insert new ac))"

definition patched_pool :: "pool \<Rightarrow> u8 \<Rightarrow> pubkey \<Rightarrow> pubkey \<Rightarrow> pubkey \<Rightarrow> pool" where
  "patched_pool pl new_pool_bump new_lp_mint_pda new_base_vault new_quote_vault =
     pl\<lparr>p_pool_bump := new_pool_bump, p_quote_mint := USDC_QUOTE_MINT,
        p_lp_mint := new_lp_mint_pda, p_pool_base_token_account := new_base_vault,
        p_pool_quote_token_account := new_quote_vault\<rparr>"

definition patch_graduated_pool_to_usdc_quote_mint ::
  "'e pda_env_scheme \<Rightarrow> 'c codecs_scheme \<Rightarrow> ('t, 'm, 'z) tool_env_scheme \<Rightarrow> pubkey \<Rightarrow> pubkey \<Rightarrow>
     pool \<Rightarrow> pubkey \<Rightarrow> pubkey \<Rightarrow> ('s, unit) tool"
where
  "patch_graduated_pool_to_usdc_quote_mint e cs te base_mint pool_creator pl original_pool_pda
       original_quote_mint =
     (let cc_vault_authority = fst (coin_creator_vault_authority e (p_coin_creator pl));
          original_cc_quote_ata =
            fst (associated_token e cc_vault_authority SPL_TOKEN_PROGRAM_ID original_quote_mint);
          (new_pool_pda, new_pool_bump) = amm_pool e 0 pool_creator base_mint USDC_QUOTE_MINT;
          new_lp_mint_pda = fst (amm_lp_mint e new_pool_pda)
      in io_bind (out_expect (out_get (p_pool_base_token_account pl))) (\<lambda>base_vault.
         io_bind (out_expect (out_get (p_pool_quote_token_account pl))) (\<lambda>quote_vault.
         let new_base_vault = fst (associated_token e new_pool_pda (ac_owner base_vault) base_mint);
             new_quote_vault =
               fst (associated_token e new_pool_pda (ac_owner quote_vault) USDC_QUOTE_MINT)
         in io_bind (io (map_err Tool_Anchor (wrapper_try_serialize (pool_codec cs)
              (patched_pool pl new_pool_bump new_lp_mint_pda new_base_vault new_quote_vault))))
              (\<lambda>new_pool_data.
            io_bind (rekey original_pool_pda (\<lambda>ac.
                Ok (ac\<lparr>ac_data := pad_to (length (ac_data ac)) new_pool_data\<rparr>)) new_pool_pda) (\<lambda>_.
            io_bind (rekey (p_pool_base_token_account pl)
                (\<lambda>ac. rewrite_token_account te ac None (Some new_pool_pda)) new_base_vault) (\<lambda>_.
            io_bind (rekey (p_pool_quote_token_account pl)
                (\<lambda>ac. rewrite_token_account te ac (Some USDC_QUOTE_MINT) (Some new_pool_pda))
                new_quote_vault) (\<lambda>_.
            io_bind (rekey (p_lp_mint pl)
                (\<lambda>ac. rewrite_mint_authority te ac new_pool_pda) new_lp_mint_pda) (\<lambda>_.
            let new_cc_quote_ata =
                  fst (associated_token e cc_vault_authority SPL_TOKEN_PROGRAM_ID USDC_QUOTE_MINT)
            in io_bind (out_remove original_cc_quote_ata) (\<lambda>cc_acct. case cc_acct of
                 None \<Rightarrow> io (Ok ())
               | Some ac \<Rightarrow>
                   io_bind (io (rewrite_token_account te ac (Some USDC_QUOTE_MINT) None))
                     (\<lambda>ac. out_insert new_cc_quote_ata ac))))))))))"

section \<open>A fixture mint\<close>

text \<open>The curve patched to the USDC quote mint, and its quote account moved.\<close>

definition patch_curve_quote ::
  "'e pda_env_scheme \<Rightarrow> 'c codecs_scheme \<Rightarrow> ('t, 'm, 'z) tool_env_scheme \<Rightarrow> pubkey \<Rightarrow>
     bonding_curve \<Rightarrow> pubkey \<Rightarrow> account option \<Rightarrow> ('s, bonding_curve) tool"
where
  "patch_curve_quote e cs te bonding_curve_key bc original_quote_ata_key source_quote_ata =
     (let bc = bc\<lparr>bc_quote_mint := USDC_QUOTE_MINT\<rparr>
      in io_bind (io (map_err Tool_Anchor (wrapper_try_serialize (bonding_curve_codec cs) bc)))
           (\<lambda>new_data.
         io_bind (out_expect (out_get bonding_curve_key)) (\<lambda>entry.
         io_bind (out_insert bonding_curve_key
                    (entry\<lparr>ac_data := pad_to (length (ac_data entry)) new_data\<rparr>)) (\<lambda>_.
         let new_quote_ata_key =
               fst (associated_token e bonding_curve_key SPL_TOKEN_PROGRAM_ID USDC_QUOTE_MINT)
         in case source_quote_ata of
              Some ac \<Rightarrow>
                io_bind (io (retarget_mint te ac USDC_QUOTE_MINT)) (\<lambda>ac.
                io_bind (out_insert new_quote_ata_key ac) (\<lambda>_.
                io_bind (out_remove original_quote_ata_key) (\<lambda>_. io (Ok bc))))
            | None \<Rightarrow> io (Ok bc)))))"

definition clone_creator_vault_quote_ata ::
  "'e pda_env_scheme \<Rightarrow> ('t, 'm, 'z) tool_env_scheme \<Rightarrow> 's rpc \<Rightarrow> pubkey \<Rightarrow> pubkey \<Rightarrow> pubkey \<Rightarrow>
     ('s, unit) tool"
where
  "clone_creator_vault_quote_ata e te r creator_vault original_bc_quote_mint bc_quote =
     (let on_chain_quote_mint = resolve_quote_mint original_bc_quote_mint;
          patched_quote_mint = resolve_quote_mint bc_quote;
          original_cv_quote_ata =
            fst (associated_token e creator_vault SPL_TOKEN_PROGRAM_ID on_chain_quote_mint);
          new_cv_quote_ata =
            fst (associated_token e creator_vault SPL_TOKEN_PROGRAM_ID patched_quote_mint)
      in io_bind (clone_one r original_cv_quote_ata False) (\<lambda>source.
         if patched_quote_mint = on_chain_quote_mint then io (Ok ())
         else case source of
             None \<Rightarrow> io (Ok ())
           | Some ac \<Rightarrow>
               io_bind (io (retarget_mint te ac patched_quote_mint)) (\<lambda>ac.
               io_bind (out_insert new_cv_quote_ata ac) (\<lambda>_.
               io_bind (out_remove original_cv_quote_ata) (\<lambda>_. io (Ok ()))))))"

definition clone_sharing_config ::
  "'e pda_env_scheme \<Rightarrow> ('t, 'm, 'z) tool_env_scheme \<Rightarrow> 's rpc \<Rightarrow> pubkey \<Rightarrow> pubkey \<Rightarrow>
     ('s, unit) tool"
where
  "clone_sharing_config e te r mint bc_quote =
     io_bind (clone_one r (fst (pump_sharing_config e mint)) False) (\<lambda>sharing. case sharing of
       None \<Rightarrow> io (Ok ())
     | Some sharing_acct \<Rightarrow>
         let quote_mint = resolve_quote_mint bc_quote
         in io_bind (out_get quote_mint) (\<lambda>quote_acct.
            let quote_token_program =
                  (case quote_acct of None \<Rightarrow> SPL_TOKEN_PROGRAM_ID | Some a \<Rightarrow> ac_owner a)
            in case decode_sharing_config (te_deserialize_sharing_config te) (ac_data sharing_acct) of
                 Inr shareholders \<Rightarrow>
                   io_each (\<lambda>(address, _).
                     io_bind (clone_one r address False) (\<lambda>_.
                     io_bind (clone_one r
                         (fst (associated_token e address quote_token_program quote_mint)) False)
                       (\<lambda>_. io (Ok ())))) shareholders
               | Inl (Error _) \<Rightarrow> io (Ok ())
               | Inl Panic \<Rightarrow> io panic))"

definition clone_pool ::
  "'e pda_env_scheme \<Rightarrow> 'c codecs_scheme \<Rightarrow> ('t, 'm, 'z) tool_env_scheme \<Rightarrow> 's rpc \<Rightarrow>
     fixture_mint \<Rightarrow> pubkey \<Rightarrow> ('s, unit) tool"
where
  "clone_pool e cs te r fixture original_bc_quote_mint =
     (let mint = fm_mint fixture;
          pool_creator = fst (pool_authority e mint);
          pool_quote_mint = resolve_quote_mint original_bc_quote_mint;
          original_pool_pda = fst (amm_pool e 0 pool_creator mint pool_quote_mint)
      in io_bind (clone_one r original_pool_pda False) (\<lambda>pool_account. case pool_account of
           None \<Rightarrow> io (Ok ())
         | Some pool_account \<Rightarrow>
             io_bind (io (map_err Tool_Client (decode_pool cs (ac_data pool_account)))) (\<lambda>pl.
             io_bind (clone_one r (p_lp_mint pl) True) (\<lambda>_.
             io_bind (clone_one r (p_pool_base_token_account pl) True) (\<lambda>_.
             io_bind (clone_one r (p_pool_quote_token_account pl) True) (\<lambda>_.
             let cc_vault_authority = fst (coin_creator_vault_authority e (p_coin_creator pl))
             in io_bind (clone_one r cc_vault_authority False) (\<lambda>_.
                let original_cc_quote_ata =
                      fst (associated_token e cc_vault_authority SPL_TOKEN_PROGRAM_ID
                             original_bc_quote_mint)
                in io_bind (clone_one r original_cc_quote_ata False) (\<lambda>_.
                   io_when (fm_patch_quote_mint_to_test fixture)
                     (patch_graduated_pool_to_usdc_quote_mint e cs te mint pool_creator pl
                        original_pool_pda original_bc_quote_mint)))))))))"

definition clone_fixture_mint ::
  "'e pda_env_scheme \<Rightarrow> 'c codecs_scheme \<Rightarrow> ('t, 'm, 'z) tool_env_scheme \<Rightarrow> 's rpc \<Rightarrow>
     fixture_mint \<Rightarrow> ('s, unit) tool"
where
  "clone_fixture_mint e cs te r fixture =
     (let mint = fm_mint fixture
      in io_bind (clone_one r mint True) (\<lambda>_.
         let bonding_curve_key = fst (pump_bonding_curve e mint)
         in io_bind (out_expect (clone_one r bonding_curve_key True)) (\<lambda>bc_account.
         io_bind (io (map_err Tool_Client (decode_bonding_curve cs (ac_data bc_account)))) (\<lambda>bc.
         let original_bc_quote_mint = bc_quote_mint bc;
             original_quote_ata_key =
               fst (associated_token e bonding_curve_key SPL_TOKEN_PROGRAM_ID
                      original_bc_quote_mint)
         in io_bind (clone_one r original_quote_ata_key False) (\<lambda>source_quote_ata.
         io_bind (if fm_patch_quote_mint_to_test fixture \<and> bc_quote_mint bc \<noteq> USDC_QUOTE_MINT
                  then patch_curve_quote e cs te bonding_curve_key bc original_quote_ata_key
                         source_quote_ata
                  else io (Ok bc)) (\<lambda>bc.
         let creator_vault = fst (pump_creator_vault e (bc_creator bc))
         in io_bind (clone_one r creator_vault False) (\<lambda>_.
         io_bind (clone_creator_vault_quote_ata e te r creator_vault original_bc_quote_mint
                    (bc_quote_mint bc)) (\<lambda>_.
         io_bind (clone_sharing_config e te r mint (bc_quote_mint bc)) (\<lambda>_.
         io_bind (clone_one r (fst (pump_bonding_curve_v2 e mint)) False) (\<lambda>_.
         io_bind (clone_one r
             (fst (associated_token e bonding_curve_key SPL_TOKEN_2022_PROGRAM_ID mint)) False) (\<lambda>_.
         io_bind (clone_one r
             (fst (associated_token e bonding_curve_key SPL_TOKEN_PROGRAM_ID NATIVE_MINT)) False)
           (\<lambda>_. io_when (complete bc)
                  (clone_pool e cs te r fixture original_bc_quote_mint)))))))))))))"

section \<open>Patches of the whole snapshot\<close>

text \<open>\<open>whitelisted_quote_mints[0]\<close> panics on an empty list, which the array of one key of the
  IDL is not.\<close>

definition patched_global :: "global \<Rightarrow> (tool_error, global) res" where
  "patched_global glob =
     and_then
       (if USDC_QUOTE_MINT \<in> set (g_whitelisted_quote_mints glob) then Ok glob
        else if g_whitelisted_quote_mints glob = [] then panic
        else Ok (glob\<lparr>g_whitelisted_quote_mints :=
               (g_whitelisted_quote_mints glob)[0 := USDC_QUOTE_MINT]\<rparr>)) (\<lambda>patched.
       Ok (patched\<lparr>g_max_curve_depth := max (g_max_curve_depth patched) 2\<rparr>))"

definition patch_global ::
  "'e pda_env_scheme \<Rightarrow> 'c codecs_scheme \<Rightarrow> global \<Rightarrow> ('s, unit) tool" where
  "patch_global e cs glob =
     io_bind (io (patched_global glob)) (\<lambda>patched.
     io_bind (io (map_err Tool_Anchor (wrapper_try_serialize (global_codec cs) patched)))
       (\<lambda>new_data.
     let key = fst (pump_global e)
     in io_bind (out_expect (out_get key)) (\<lambda>entry.
        let new_data = (if length new_data \<le> length (ac_data entry)
                        then new_data @ drop (length new_data) (ac_data entry) else new_data)
        in out_insert key (entry\<lparr>ac_data := new_data\<rparr>))))"

definition synthetic_mint :: token_mint where
  "synthetic_mint = \<lparr>tm_mint_authority = Some USDC_QUOTE_MINT_AUTHORITY, tm_supply = 0,
     tm_decimals = 6, tm_is_initialized = True, tm_freeze_authority = None\<rparr>"

text \<open>\<open>spl_token::ID\<close> is the classic token program.\<close>

definition synthesize_quote_mint :: "('t, 'm, 'z) tool_env_scheme \<Rightarrow> ('s, unit) tool" where
  "synthesize_quote_mint te =
     io_bind (io (case te_pack_mint te synthetic_mint (replicate (te_mint_len te) 0) of
                    Inr data \<Rightarrow> Ok data | Inl _ \<Rightarrow> panic)) (\<lambda>data.
       out_insert USDC_QUOTE_MINT
         \<lparr>ac_lamports = te_minimum_balance te (te_mint_len te), ac_data = data,
          ac_owner = SPL_TOKEN_PROGRAM_ID, ac_executable = False, ac_rent_epoch = 0\<rparr>)"

definition empty_quote_control :: quote_control where
  "empty_quote_control = \<lparr>qc_admin = default_key, qc_reserves_admin = default_key,
     qc_reserved = replicate 32 0, qc_mints = []\<rparr>"

definition synthesize_quote_control ::
  "'e pda_env_scheme \<Rightarrow> ('t, 'm, 'z) tool_env_scheme \<Rightarrow> ('s, unit) tool" where
  "synthesize_quote_control e te =
     (let key = fst (pump_quote_control e)
      in io_bind (out_get key) (\<lambda>existing.
         if existing \<noteq> None then io (Ok ())
         else io_bind (io (map_err Tool_Anchor
                  (te_serialize_quote_control te empty_quote_control))) (\<lambda>data.
           out_insert key
             \<lparr>ac_lamports = te_minimum_balance te (length data), ac_data = data,
              ac_owner = PUMP_PROGRAM_ID, ac_executable = False, ac_rent_epoch = 0\<rparr>)))"

definition top_up :: "('t, 'm, 'z) tool_env_scheme \<Rightarrow> account \<Rightarrow> account" where
  "top_up te ac =
     (if ac_owner ac = PUMP_PROGRAM_ID \<or> ac_owner ac = PUMP_AMM_PROGRAM_ID
      then ac\<lparr>ac_lamports := max (ac_lamports ac) (te_minimum_balance te (length (ac_data ac)))\<rparr>
      else ac)"

definition top_up_rent :: "('t, 'm, 'z) tool_env_scheme \<Rightarrow> ('s, unit) tool" where
  "top_up_rent te = (\<lambda>(s, out). (Ok (), (s, \<lambda>k. map_option (top_up te) (out k))))"

section \<open>The run\<close>

definition insert_fetched ::
  "pubkey list \<Rightarrow> account option list \<Rightarrow> (pubkey \<rightharpoonup> account option) \<Rightarrow>
     (pubkey \<rightharpoonup> account option)" where
  "insert_fetched keys accounts by_key =
     fold (\<lambda>(k, a) m. m(k \<mapsto> a)) (zip keys accounts) by_key"

definition fetch_fixed ::
  "'s rpc \<Rightarrow> 's rpc \<Rightarrow> (string \<times> pubkey \<times> bool \<times> bool) list \<Rightarrow>
     ('s, pubkey \<rightharpoonup> account option) tool"
where
  "fetch_fixed r mainnet labeled =
     (let default_keys = map (\<lambda>(_, k, _, _). k) (filter (\<lambda>(_, _, _, m). \<not> m) labeled);
          mainnet_keys = map (\<lambda>(_, k, _, _). k) (filter (\<lambda>(_, _, _, m). m) labeled)
      in io_bind
           (if default_keys = [] then io (Ok Map.empty)
            else io_bind (tool_call (rpc_get_multiple r default_keys)) (\<lambda>accounts.
                   io (Ok (insert_fetched default_keys accounts Map.empty)))) (\<lambda>by_key.
         if mainnet_keys = [] then io (Ok by_key)
         else io_bind (tool_call (rpc_get_multiple mainnet mainnet_keys)) (\<lambda>accounts.
                io (Ok (insert_fetched mainnet_keys accounts by_key)))))"

primrec load_fixed ::
  "(string \<times> pubkey \<times> bool \<times> bool) list \<Rightarrow> (pubkey \<rightharpoonup> account option) \<Rightarrow> account option \<Rightarrow>
     pubkey list \<Rightarrow> ('s, account option \<times> pubkey list) tool"
where
  "load_fixed [] by_key global_account alt_keys = io (Ok (global_account, alt_keys))"
| "load_fixed (x # labeled) by_key global_account alt_keys =
     (case x of (label, key, must, from_mainnet) \<Rightarrow>
        case (case by_key key of None \<Rightarrow> None | Some v \<Rightarrow> v) of
          Some acct \<Rightarrow>
            io_bind (out_insert key acct) (\<lambda>_.
              load_fixed labeled (by_key(key := None))
                (if label = ''pump:global'' then Some acct else global_account)
                (if take 4 label = ''alt:'' then alt_keys @ [key] else alt_keys))
        | None \<Rightarrow>
            if must then io panic
            else load_fixed labeled (by_key(key := None)) global_account alt_keys)"

text \<open>\<open>seen\<close> holds exactly the keys of \<open>merged\<close>.\<close>

fun push_unseen :: "pubkey list \<Rightarrow> pubkey list \<Rightarrow> pubkey list" where
  "push_unseen merged [] = merged"
| "push_unseen merged (addr # addrs) =
     push_unseen (if addr \<in> set merged then merged else merged @ [addr]) addrs"

primrec merge_tables ::
  "('t, 'm, 'z) tool_env_scheme \<Rightarrow> pubkey list \<Rightarrow> pubkey list \<Rightarrow> ('s, pubkey list) tool" where
  "merge_tables te [] merged = io (Ok merged)"
| "merge_tables te (key # keys) merged =
     io_bind (out_expect (out_get key)) (\<lambda>acct.
     io_bind (io (lib (te_table_deserialize te (ac_data acct)))) (\<lambda>table.
       merge_tables te keys (push_unseen merged (lt_addresses table))))"

definition merge_alts ::
  "('t, 'm, 'z) tool_env_scheme \<Rightarrow> pubkey list \<Rightarrow> ('s, unit) tool" where
  "merge_alts te alt_keys =
     io_when (alt_keys \<noteq> [])
       (io_bind (merge_tables te alt_keys []) (\<lambda>merged.
        let merged = push_unseen merged alt_extras
        in io_each (\<lambda>key.
             io_bind (out_expect (out_get key)) (\<lambda>acct.
             io_bind (io (rewrite_alt_active_from_slot_0 te acct merged)) (\<lambda>acct.
               out_insert key acct))) alt_keys))"

definition snapshot_recipients :: "global \<Rightarrow> pubkey list" where
  "snapshot_recipients glob =
     (let recipients = g_fee_recipient glob # g_fee_recipients glob
            @ g_reserved_fee_recipient glob # g_reserved_fee_recipients glob
            @ g_buyback_fee_recipients glob
      in remdups_adj (sort (filter (\<lambda>p. p \<noteq> default_key) recipients)))"

definition empty_system_account :: account where
  "empty_system_account = \<lparr>ac_lamports = 0, ac_data = [], ac_owner = SYSTEM_PROGRAM_ID,
     ac_executable = False, ac_rent_epoch = 0\<rparr>"

definition or_insert :: "pubkey \<Rightarrow> account \<Rightarrow> ('s, unit) tool" where
  "or_insert key acct =
     io_bind (out_get key) (\<lambda>v. case v of Some _ \<Rightarrow> io (Ok ()) | None \<Rightarrow> out_insert key acct)"

definition clone_recipients :: "'s rpc \<Rightarrow> pubkey list \<Rightarrow> ('s, unit) tool" where
  "clone_recipients r recipients =
     io_when (recipients \<noteq> [])
       (io_bind (tool_call (rpc_get_multiple r recipients)) (\<lambda>accounts.
          io_each (\<lambda>(key, maybe_acct). or_insert key (unwrap_or maybe_acct empty_system_account))
            (zip recipients accounts)))"

text \<open>From the two connections to the finished map; the second is the one mainnet keys are
  fetched from.\<close>

definition build_snapshot ::
  "'e pda_env_scheme \<Rightarrow> 'c codecs_scheme \<Rightarrow> ('t, 'm, 'z) tool_env_scheme \<Rightarrow> 's rpc \<Rightarrow> 's rpc \<Rightarrow>
     ('s, unit) tool"
where
  "build_snapshot e cs te r mainnet =
     io_bind (fetch_fixed r mainnet (fixed_pdas e)) (\<lambda>by_key.
     io_bind (load_fixed (fixed_pdas e) by_key None []) (\<lambda>(global_account, alt_keys).
     io_bind (merge_alts te alt_keys) (\<lambda>_.
     io_bind (out_expect (io (Ok global_account))) (\<lambda>global_account.
     io_bind (io (map_err Tool_Client (decode_global cs (ac_data global_account)))) (\<lambda>glob.
     io_bind (patch_global e cs glob) (\<lambda>_.
     io_bind (clone_recipients r (snapshot_recipients glob)) (\<lambda>_.
     io_bind (io_each (clone_fixture_mint e cs te r) FIXTURE_MINTS) (\<lambda>_.
     io_bind (synthesize_quote_mint te) (\<lambda>_.
     io_bind (synthesize_quote_control e te) (\<lambda>_.
       top_up_rent te))))))))))"

text \<open>\<open>main\<close>: \<open>RpcClient::new\<close> is \<open>connect\<close>; the result is the map written to the file, or
  none when only the usage was printed.\<close>

definition snapshot_urls ::
  "env_vars \<Rightarrow> cli \<Rightarrow> (tool_error, string \<times> string) res" where
  "snapshot_urls env c =
     and_then (case cli_network c of Some n \<Rightarrow> Ok n | None \<Rightarrow> network_from_env env) (\<lambda>network.
       let rpc_url = (case cli_rpc_url c of Some u \<Rightarrow> u
             | None \<Rightarrow> unwrap_or (env ''PUMP_CLONE_RPC'') (default_rpc network));
           mainnet_url = (if network = Mainnet then rpc_url
             else unwrap_or (env ''PUMP_CLONE_MAINNET_RPC'') (default_rpc Mainnet))
       in Ok (rpc_url, mainnet_url))"

definition clone_devnet_accounts ::
  "'e pda_env_scheme \<Rightarrow> 'c codecs_scheme \<Rightarrow> ('t, 'm, 'z) tool_env_scheme \<Rightarrow>
     (string \<Rightarrow> 's rpc) \<Rightarrow> env_vars \<Rightarrow> string list \<Rightarrow> 's \<Rightarrow> snapshot option tool_result \<times> 's"
where
  "clone_devnet_accounts e cs te connect env args s =
     (case and_then (map_err InvalidInput (parse_cli args)) (\<lambda>c. case c of
             None \<Rightarrow> Ok None | Some c \<Rightarrow> map_res Some (snapshot_urls env c)) of
        Inl f \<Rightarrow> (Inl f, s)
      | Inr None \<Rightarrow> (Ok None, s)
      | Inr (Some (rpc_url, mainnet_url)) \<Rightarrow>
          (case build_snapshot e cs te (connect rpc_url) (connect mainnet_url) (s, Map.empty) of
             (r, (s', out)) \<Rightarrow> (map_res (\<lambda>_. Some out) r, s')))"

end
