(* ===== verification/Codec_Layouts.thy ===== *)
theory Codec_Layouts
  imports Curve_Codec
begin

text \<open>
  The codecs of \<open>Pool\<close> and \<open>Global\<close> written out from their IDL structs. The arrays of a
  \<open>Global\<close> are lists here, so its codec writes back only values whose lists have the lengths of
  the arrays: the interface of such a codec is \<open>valid_codec\<close>, which every \<open>account_codec\<close> has.
\<close>

section \<open>The interface\<close>

text \<open>A value the wrapper reads back from what \<open>try_serialize\<close> writes, whatever bytes follow.\<close>

definition writes_back :: "'a codec \<Rightarrow> 'a \<Rightarrow> bool" where
  "writes_back c v \<longleftrightarrow>
     (case wrapper_try_serialize c v of
        Inr d \<Rightarrow> (\<forall>rest. wrapper_try_deserialize c (d @ rest) = Ok (v, rest)) | Inl _ \<Rightarrow> False)"

lemma writes_backE:
  assumes "writes_back c v"
  obtains d where "wrapper_try_serialize c v = Ok d"
    and "\<And>rest. wrapper_try_deserialize c (d @ rest) = Ok (v, rest)"
  using assms by (auto simp: writes_back_def split: sum.splits)

locale valid_codec =
  fixes ser :: "'a \<Rightarrow> byte list"
    and deser :: "byte list \<Rightarrow> ('a \<times> byte list) anchor_result"
    and unguarded :: "byte list \<Rightarrow> ('a \<times> byte list) anchor_result"
    and dflt :: 'a
    and valid :: "'a \<Rightarrow> bool"
  assumes deser_valid: "valid v \<Longrightarrow> deser (ser v @ rest) = Ok (v, rest)"
    and valid_unchecked: "deser bs = Ok r \<Longrightarrow> unguarded bs = Ok r"
    and valid_length: "valid v \<Longrightarrow> length (ser v) = length (ser dflt)"
begin

definition layout :: "'a codec" where
  "layout = \<lparr>codec_default = dflt, codec_serialize = (\<lambda>v. Ok (ser v)),
     codec_deserialize = deser, codec_deserialize_unchecked = unguarded\<rparr>"

lemma layout_writes_back: "valid v \<Longrightarrow> writes_back layout v"
  by (simp add: writes_back_def wrapper_try_serialize_def wrapper_try_deserialize_def layout_def
      deser_valid valid_length [of v])

lemma decode_layout: "valid v \<Longrightarrow> decode (wrapper_try_deserialize layout) (ser v @ rest) = Ok v"
  by (simp add: decode_def wrapper_try_deserialize_def layout_def deser_valid
      valid_length [of v])

end

sublocale account_codec \<subseteq> any: valid_codec ser deser unguarded dflt "\<lambda>_. True"
  by unfold_locales (rule deser_ser, erule deser_unchecked, rule ser_length)

section \<open>More fields\<close>

definition read_u16 :: "byte list \<Rightarrow> (u16 \<times> byte list) anchor_result" where
  "read_u16 bs = (if length bs < 2 then Err ''AccountDidNotDeserialize''
     else Ok (word_of_nat (read_le (take 2 bs)), drop 2 bs))"

definition read_i128 :: "byte list \<Rightarrow> (i128 \<times> byte list) anchor_result" where
  "read_i128 bs = (if length bs < 16 then Err ''AccountDidNotDeserialize''
     else Ok (word_of_nat (read_le (take 16 bs)), drop 16 bs))"

primrec read_keys :: "nat \<Rightarrow> byte list \<Rightarrow> (pubkey list \<times> byte list) anchor_result" where
  "read_keys 0 bs = Ok ([], bs)"
| "read_keys (Suc n) bs =
     and_then (read_key bs) (\<lambda>(k, bs). and_then (read_keys n bs) (\<lambda>(ks, bs). Ok (k # ks, bs)))"

definition keys_bytes :: "pubkey list \<Rightarrow> byte list" where
  "keys_bytes ks = concat (map key_bytes ks)"

lemma read_u16_le [simp]: "read_u16 (le_bytes 2 x @ bs) = Ok (x, bs)"
  by (simp add: read_u16_def)

lemma read_le_u128 [simp]: "read_le (le_bytes 16 (k :: i128)) = unat k"
proof -
  have "unat k mod 256 ^ 16 = unat k" by (intro mod_less) simp
  moreover have "read_le (le_bytes 16 k) = unat k mod 256 ^ 16" by (rule read_le_bytes) simp
  ultimately show ?thesis by linarith
qed

lemma read_i128_le [simp]: "read_i128 (le_bytes 16 x @ bs) = Ok (x, bs)"
  by (simp add: read_i128_def)

lemma read_keys_bytes: "read_keys (length ks) (keys_bytes ks @ bs) = Ok (ks, bs)"
  by (induction ks) (simp_all add: keys_bytes_def)

lemma read_keys_of [simp]: "length ks = n \<Longrightarrow> read_keys n (keys_bytes ks @ bs) = Ok (ks, bs)"
  using read_keys_bytes by blast

declare read_keys.simps [simp del]

lemma length_keys_bytes [simp]: "length (keys_bytes ks) = 32 * length ks"
  by (induction ks) (simp_all add: keys_bytes_def)

section \<open>The pool\<close>

definition POOL_DISCRIMINATOR :: "byte list" where
  "POOL_DISCRIMINATOR = [241, 154, 109, 4, 17, 177, 109, 188]"

definition pool_bytes :: "pool \<Rightarrow> byte list" where
  "pool_bytes p = POOL_DISCRIMINATOR @ [p_pool_bump p] @ le_bytes 2 (p_index p) @
     key_bytes (p_creator p) @ key_bytes (p_base_mint p) @ key_bytes (p_quote_mint p) @
     key_bytes (p_lp_mint p) @ key_bytes (p_pool_base_token_account p) @
     key_bytes (p_pool_quote_token_account p) @ le_bytes 8 (p_lp_supply p) @
     key_bytes (p_coin_creator p) @ bool_byte (p_is_mayhem_mode p) @
     bool_byte (p_is_cashback_coin p) @ le_bytes 16 (p_virtual_quote_reserves p) @
     le_bytes 8 (p_creator_fee_bps p) @ bool_byte (p_can_edit_creator_fee p) @
     bool_byte (p_is_holder_reward p) @ le_bytes 8 (p_protocol_fees p) @
     le_bytes 8 (p_creator_fees p)"

definition read_pool_fields :: "byte list \<Rightarrow> (pool \<times> byte list) anchor_result" where
  "read_pool_fields bs =
     (and_then (read_u8 bs) (\<lambda>(bump, bs). and_then (read_u16 bs) (\<lambda>(index, bs).
      and_then (read_key bs) (\<lambda>(creator, bs). and_then (read_key bs) (\<lambda>(base, bs).
      and_then (read_key bs) (\<lambda>(quote, bs). and_then (read_key bs) (\<lambda>(lp, bs).
      and_then (read_key bs) (\<lambda>(base_acct, bs). and_then (read_key bs) (\<lambda>(quote_acct, bs).
      and_then (read_u64 bs) (\<lambda>(lp_supply, bs). and_then (read_key bs) (\<lambda>(coin_creator, bs).
      and_then (read_bool bs) (\<lambda>(mayhem, bs). and_then (read_bool bs) (\<lambda>(cashback, bs).
      and_then (read_i128 bs) (\<lambda>(vquote, bs). and_then (read_u64 bs) (\<lambda>(bps, bs).
      and_then (read_bool bs) (\<lambda>(can_edit, bs). and_then (read_bool bs) (\<lambda>(holder, bs).
      and_then (read_u64 bs) (\<lambda>(pfees, bs). and_then (read_u64 bs) (\<lambda>(cfees, bs).
        Ok (\<lparr>p_pool_bump = bump, p_index = index, p_creator = creator, p_base_mint = base,
           p_quote_mint = quote, p_lp_mint = lp, p_pool_base_token_account = base_acct,
           p_pool_quote_token_account = quote_acct, p_lp_supply = lp_supply,
           p_coin_creator = coin_creator, p_is_mayhem_mode = mayhem,
           p_is_cashback_coin = cashback, p_virtual_quote_reserves = vquote,
           p_creator_fee_bps = bps, p_can_edit_creator_fee = can_edit,
           p_is_holder_reward = holder, p_protocol_fees = pfees, p_creator_fees = cfees\<rparr>, bs))))))))))))))))))))"

definition read_pool_unchecked :: "byte list \<Rightarrow> (pool \<times> byte list) anchor_result" where
  "read_pool_unchecked bs = read_pool_fields (drop 8 bs)"

definition read_pool :: "byte list \<Rightarrow> (pool \<times> byte list) anchor_result" where
  "read_pool bs =
     (if take 8 bs \<noteq> POOL_DISCRIMINATOR then Err ''AccountDiscriminatorMismatch''
      else read_pool_unchecked bs)"

lemma read_pool_skips: "read_pool bs = Ok r \<Longrightarrow> read_pool_unchecked bs = Ok r"
  by (simp add: read_pool_def split: if_splits)

lemmas read_pool_defs = read_pool_def read_pool_unchecked_def read_pool_fields_def

lemma length_pool_bytes: "length (pool_bytes p) = 287"
  by (simp add: pool_bytes_def POOL_DISCRIMINATOR_def)

lemma read_pool_bytes: "read_pool (pool_bytes p @ rest) = Ok (p, rest)"
proof -
  have "take 8 (pool_bytes p @ rest) = POOL_DISCRIMINATOR"
    by (simp add: pool_bytes_def POOL_DISCRIMINATOR_def)
  moreover have "drop 8 POOL_DISCRIMINATOR = []" "length POOL_DISCRIMINATOR = 8"
    by (simp_all add: POOL_DISCRIMINATOR_def)
  ultimately show ?thesis
    by (simp add: read_pool_defs) (simp add: pool_bytes_def)
qed

interpretation amm_pool_layout: account_codec pool_bytes read_pool read_pool_unchecked default_pool
  by unfold_locales
    (simp_all add: read_pool_bytes length_pool_bytes read_pool_skips)

definition pool_layout :: "pool codec" where
  "pool_layout = \<lparr>codec_default = default_pool, codec_serialize = (\<lambda>p. Ok (pool_bytes p)),
     codec_deserialize = read_pool, codec_deserialize_unchecked = read_pool_unchecked\<rparr>"

lemma pool_layout_writes_back: "writes_back pool_layout p"
  using amm_pool_layout.any.layout_writes_back [of p]
  by (simp add: pool_layout_def amm_pool_layout.any.layout_def)

section \<open>The global account\<close>

definition GLOBAL_DISCRIMINATOR :: "byte list" where
  "GLOBAL_DISCRIMINATOR = [167, 232, 232, 177, 200, 108, 114, 127]"

definition global_bytes :: "global \<Rightarrow> byte list" where
  "global_bytes g = GLOBAL_DISCRIMINATOR @ bool_byte (g_initialized g) @
     key_bytes (g_authority g) @ key_bytes (g_fee_recipient g) @
     le_bytes 8 (g_initial_virtual_token_reserves g) @
     le_bytes 8 (g_initial_virtual_sol_reserves g) @
     le_bytes 8 (g_initial_real_token_reserves g) @ le_bytes 8 (g_token_total_supply g) @
     le_bytes 8 (g_fee_basis_points g) @ key_bytes (g_withdraw_authority g) @
     bool_byte (g_enable_migrate g) @ le_bytes 8 (g_pool_migration_fee g) @
     le_bytes 8 (g_creator_fee_basis_points g) @ keys_bytes (g_fee_recipients g) @
     key_bytes (g_set_creator_authority g) @ key_bytes (g_admin_set_creator_authority g) @
     bool_byte (g_create_v2_enabled g) @ key_bytes (g_whitelist_pda g) @
     key_bytes (g_reserved_fee_recipient g) @ bool_byte (g_mayhem_mode_enabled g) @
     keys_bytes (g_reserved_fee_recipients g) @ bool_byte (g_is_cashback_enabled g) @
     keys_bytes (g_buyback_fee_recipients g) @ le_bytes 8 (g_buyback_basis_points g) @
     le_bytes 8 (g_initial_virtual_quote_reserves g) @
     keys_bytes (g_whitelisted_quote_mints g) @ bool_byte (g_creator_fee_configurable g) @
     le_bytes 8 (g_max_configurable_creator_fee_bps g) @
     key_bytes (g_holder_reward_claim_authority g) @
     bool_byte (g_is_holder_reward_enabled g) @ [g_max_curve_depth g]"

definition read_global_fields :: "byte list \<Rightarrow> (global \<times> byte list) anchor_result" where
  "read_global_fields bs =
     (and_then (read_bool bs) (\<lambda>(initialized, bs). and_then (read_key bs) (\<lambda>(authority, bs).
      and_then (read_key bs) (\<lambda>(fee_recipient, bs). and_then (read_u64 bs) (\<lambda>(ivt, bs).
      and_then (read_u64 bs) (\<lambda>(ivs, bs). and_then (read_u64 bs) (\<lambda>(irt, bs).
      and_then (read_u64 bs) (\<lambda>(supply, bs). and_then (read_u64 bs) (\<lambda>(bps, bs).
      and_then (read_key bs) (\<lambda>(withdraw, bs). and_then (read_bool bs) (\<lambda>(migrate, bs).
      and_then (read_u64 bs) (\<lambda>(migration_fee, bs). and_then (read_u64 bs) (\<lambda>(cbps, bs).
      and_then (read_keys 7 bs) (\<lambda>(recipients, bs). and_then (read_key bs) (\<lambda>(set_creator, bs).
      and_then (read_key bs) (\<lambda>(admin_set, bs). and_then (read_bool bs) (\<lambda>(create_v2, bs).
      and_then (read_key bs) (\<lambda>(whitelist, bs). and_then (read_key bs) (\<lambda>(reserved, bs).
      and_then (read_bool bs) (\<lambda>(mayhem, bs). and_then (read_keys 7 bs) (\<lambda>(reserveds, bs).
      and_then (read_bool bs) (\<lambda>(cashback, bs). and_then (read_keys 8 bs) (\<lambda>(buybacks, bs).
      and_then (read_u64 bs) (\<lambda>(bbps, bs). and_then (read_u64 bs) (\<lambda>(ivq, bs).
      and_then (read_keys 1 bs) (\<lambda>(quotes, bs). and_then (read_bool bs) (\<lambda>(configurable, bs).
      and_then (read_u64 bs) (\<lambda>(max_bps, bs). and_then (read_key bs) (\<lambda>(claim, bs).
      and_then (read_bool bs) (\<lambda>(holder, bs). and_then (read_u8 bs) (\<lambda>(dpth, bs).
        Ok (\<lparr>g_initialized = initialized, g_authority = authority,
           g_fee_recipient = fee_recipient, g_initial_virtual_token_reserves = ivt,
           g_initial_virtual_sol_reserves = ivs, g_initial_real_token_reserves = irt,
           g_token_total_supply = supply, g_fee_basis_points = bps,
           g_withdraw_authority = withdraw, g_enable_migrate = migrate,
           g_pool_migration_fee = migration_fee, g_creator_fee_basis_points = cbps,
           g_fee_recipients = recipients, g_set_creator_authority = set_creator,
           g_admin_set_creator_authority = admin_set, g_create_v2_enabled = create_v2,
           g_whitelist_pda = whitelist, g_reserved_fee_recipient = reserved,
           g_mayhem_mode_enabled = mayhem, g_reserved_fee_recipients = reserveds,
           g_is_cashback_enabled = cashback, g_buyback_fee_recipients = buybacks,
           g_buyback_basis_points = bbps, g_initial_virtual_quote_reserves = ivq,
           g_whitelisted_quote_mints = quotes, g_creator_fee_configurable = configurable,
           g_max_configurable_creator_fee_bps = max_bps, g_holder_reward_claim_authority = claim,
           g_is_holder_reward_enabled = holder, g_max_curve_depth = dpth\<rparr>, bs))))))))))))))))))))))))))))))))"

definition read_global_unchecked :: "byte list \<Rightarrow> (global \<times> byte list) anchor_result" where
  "read_global_unchecked bs = read_global_fields (drop 8 bs)"

definition read_global :: "byte list \<Rightarrow> (global \<times> byte list) anchor_result" where
  "read_global bs =
     (if take 8 bs \<noteq> GLOBAL_DISCRIMINATOR then Err ''AccountDiscriminatorMismatch''
      else read_global_unchecked bs)"

lemma read_global_skips: "read_global bs = Ok r \<Longrightarrow> read_global_unchecked bs = Ok r"
  by (simp add: read_global_def split: if_splits)

lemmas read_global_defs = read_global_def read_global_unchecked_def read_global_fields_def

definition arrays_ok :: "global \<Rightarrow> bool" where
  "arrays_ok g \<longleftrightarrow> length (g_fee_recipients g) = 7 \<and> length (g_reserved_fee_recipients g) = 7 \<and>
     length (g_buyback_fee_recipients g) = 8 \<and> length (g_whitelisted_quote_mints g) = 1"

lemma length_global_bytes: "arrays_ok g \<Longrightarrow> length (global_bytes g) = 1088"
  by (simp add: global_bytes_def GLOBAL_DISCRIMINATOR_def arrays_ok_def)

lemma read_global_bytes:
  assumes "arrays_ok g"
  shows "read_global (global_bytes g @ rest) = Ok (g, rest)"
proof -
  have "take 8 (global_bytes g @ rest) = GLOBAL_DISCRIMINATOR"
    by (simp add: global_bytes_def GLOBAL_DISCRIMINATOR_def)
  moreover have "drop 8 GLOBAL_DISCRIMINATOR = []" "length GLOBAL_DISCRIMINATOR = 8"
    by (simp_all add: GLOBAL_DISCRIMINATOR_def)
  ultimately show ?thesis using assms
    by (simp add: read_global_defs) (simp add: global_bytes_def arrays_ok_def)
qed

lemma default_global_arrays: "arrays_ok default_global"
  by (simp add: arrays_ok_def default_global_def)

interpretation pump_global_layout: valid_codec global_bytes read_global read_global_unchecked
    default_global arrays_ok
  by unfold_locales
     (simp_all add: read_global_bytes length_global_bytes default_global_arrays read_global_skips)

definition global_layout :: "global codec" where
  "global_layout = \<lparr>codec_default = default_global, codec_serialize = (\<lambda>g. Ok (global_bytes g)),
     codec_deserialize = read_global, codec_deserialize_unchecked = read_global_unchecked\<rparr>"

lemma global_layout_writes_back: "arrays_ok g \<Longrightarrow> writes_back global_layout g"
  using pump_global_layout.layout_writes_back [of g]
  by (simp add: global_layout_def pump_global_layout.layout_def)

lemma curve_codec_writes_back: "writes_back curve_codec c"
  using bonding_curve.any.layout_writes_back [of c]
  by (simp add: curve_codec_def bonding_curve.any.layout_def)

end
