(* ===== verification/Snapshot_Facts.thy ===== *)
theory Snapshot_Facts
  imports Snapshot Codec_Layouts
begin

text \<open>
  What the operations of the snapshot tool do to its map: the effect of each primitive, the laws of
  the token layouts, and total correctness of a step, \<open>delivers P m Q\<close>.
\<close>

section \<open>Primitives\<close>

lemma io_bind_apply:
  "io_bind m k \<sigma> = (case m \<sigma> of (Inl f, \<sigma>') \<Rightarrow> (Inl f, \<sigma>') | (Inr x, \<sigma>') \<Rightarrow> k x \<sigma>')"
  by (simp add: io_bind_def)

lemma out_run [simp]:
  "out_get k (s, out) = (Ok (out k), s, out)"
  "out_insert k ac (s, out) = (Ok (), s, out(k \<mapsto> ac))"
  "out_remove k (s, out) = (Ok (out k), s, out(k := None))"
  "io r \<sigma> = (r, \<sigma>)"
  by (simp_all add: out_get_def out_insert_def out_remove_def io_def)

lemma out_expect_run:
  "out_expect m \<sigma> = (case m \<sigma> of (Inl f, \<sigma>') \<Rightarrow> (Inl f, \<sigma>')
     | (Inr v, \<sigma>') \<Rightarrow> (case v of None \<Rightarrow> panic | Some x \<Rightarrow> Ok x, \<sigma>'))"
  by (simp add: out_expect_def io_bind_apply split: sum.split prod.split)

lemmas run_simps = io_bind_apply out_expect_run lib_def Let_def

lemma rekey_step:
  assumes "out old = Some ac" and "rewrite ac = Ok ac'"
  shows "io_bind (rekey old rewrite new) k (s, out) = k () (s, out(old := None, new \<mapsto> ac'))"
  using assms by (simp add: rekey_def run_simps)

section \<open>Token layouts\<close>

text \<open>What is relied on of the token programs' layouts: unpacking gives initialized values only,
  an initialized value packs into a fresh buffer and is read back, and writing through a Token-2022
  view changes what it reads to what was written.\<close>

definition token_layouts_ok :: "('t, 'm, 'z) tool_env_scheme \<Rightarrow> bool" where
  "token_layouts_ok te \<longleftrightarrow>
     (\<forall>d t. te_unpack_account te d = Ok t \<longrightarrow> ta_state t \<noteq> 0) \<and>
     (\<forall>d t. te_pod_account te d = Ok t \<longrightarrow> ta_state t \<noteq> 0) \<and>
     (\<forall>t. ta_state t \<noteq> 0 \<longrightarrow> (\<exists>d. te_pack_account te t (replicate (te_account_len te) 0) = Ok d \<and>
        te_unpack_account te d = Ok t)) \<and>
     (\<forall>d t u. te_pod_account te d = Ok t \<and> ta_state u \<noteq> 0 \<longrightarrow>
        te_pod_account te (te_pod_write_account te u d) = Ok u) \<and>
     (\<forall>d m. te_unpack_mint te d = Ok m \<longrightarrow> tm_is_initialized m) \<and>
     (\<forall>d m. te_pod_mint te d = Ok m \<longrightarrow> tm_is_initialized m) \<and>
     (\<forall>m. tm_is_initialized m \<longrightarrow> (\<exists>d. te_pack_mint te m (replicate (te_mint_len te) 0) = Ok d \<and>
        te_unpack_mint te d = Ok m)) \<and>
     (\<forall>d m n. te_pod_mint te d = Ok m \<and> tm_is_initialized n \<longrightarrow>
        te_pod_mint te (te_pod_write_mint te n d) = Ok n)"

lemma pack_mint_reads:
  "token_layouts_ok te \<Longrightarrow> tm_is_initialized m \<Longrightarrow>
     \<exists>d. te_pack_mint te m (replicate (te_mint_len te) 0) = Ok d \<and> te_unpack_mint te d = Ok m"
  unfolding token_layouts_ok_def by blast

text \<open>The token account and the mint an account holds.\<close>

definition read_token ::
  "('t, 'm, 'z) tool_env_scheme \<Rightarrow> account \<Rightarrow> (string, 't token_account_scheme) res" where
  "read_token te ac =
     (if ac_owner ac = SPL_TOKEN_2022_PROGRAM_ID then te_pod_account te (ac_data ac)
      else te_unpack_account te (ac_data ac))"

definition read_mint :: "('t, 'm, 'z) tool_env_scheme \<Rightarrow> account \<Rightarrow> (string, token_mint) res" where
  "read_mint te ac =
     (if ac_owner ac = SPL_TOKEN_2022_PROGRAM_ID then te_pod_mint te (ac_data ac)
      else te_unpack_mint te (ac_data ac))"

lemma set_mint_owner_simps [simp]:
  "ta_state (set_mint_owner m w t) = ta_state t"
  "ta_amount (set_mint_owner m w t) = ta_amount t"
  "ta_mint (set_mint_owner m w t) = (case m of None \<Rightarrow> ta_mint t | Some k \<Rightarrow> k)"
  "ta_owner (set_mint_owner m w t) = (case w of None \<Rightarrow> ta_owner t | Some k \<Rightarrow> k)"
  by (simp_all add: set_mint_owner_def Let_def split: option.split)

lemma rewrite_token_account_reads:
  assumes ok: "token_layouts_ok te" and t: "read_token te ac = Ok t"
  obtains d where "rewrite_token_account te ac m w = Ok (ac\<lparr>ac_data := d\<rparr>)"
    and "read_token te (ac\<lparr>ac_data := d\<rparr>) = Ok (set_mint_owner m w t)"
proof (cases "ac_owner ac = SPL_TOKEN_2022_PROGRAM_ID")
  case True
  with ok t show ?thesis
    by (intro that [of "te_pod_write_account te (set_mint_owner m w t) (ac_data ac)"])
       (auto simp: rewrite_token_account_def read_token_def token_layouts_ok_def lib_def)
next
  case False
  then have u: "te_unpack_account te (ac_data ac) = Ok t" using t by (simp add: read_token_def)
  then have "ta_state (set_mint_owner m w t) \<noteq> 0" using ok by (auto simp: token_layouts_ok_def)
  then obtain d where
    "te_pack_account te (set_mint_owner m w t) (replicate (te_account_len te) 0) = Ok d"
    "te_unpack_account te d = Ok (set_mint_owner m w t)"
    using ok unfolding token_layouts_ok_def by blast
  with False u show ?thesis
    by (intro that [of d]) (simp_all add: rewrite_token_account_def read_token_def lib_def)
qed

lemma rewrite_mint_authority_reads:
  assumes ok: "token_layouts_ok te" and mi: "read_mint te ac = Ok mi"
  obtains d where "rewrite_mint_authority te ac k = Ok (ac\<lparr>ac_data := d\<rparr>)"
    and "read_mint te (ac\<lparr>ac_data := d\<rparr>) = Ok (mi\<lparr>tm_mint_authority := Some k\<rparr>)"
proof (cases "ac_owner ac = SPL_TOKEN_2022_PROGRAM_ID")
  case True
  with ok mi show ?thesis
    by (intro that [of "te_pod_write_mint te (mi\<lparr>tm_mint_authority := Some k\<rparr>) (ac_data ac)"])
       (auto simp: rewrite_mint_authority_def read_mint_def token_layouts_ok_def lib_def)
next
  case False
  then have u: "te_unpack_mint te (ac_data ac) = Ok mi" using mi by (simp add: read_mint_def)
  then have "tm_is_initialized (mi\<lparr>tm_mint_authority := Some k\<rparr>)"
    using ok by (auto simp: token_layouts_ok_def)
  then obtain d where
    "te_pack_mint te (mi\<lparr>tm_mint_authority := Some k\<rparr>) (replicate (te_mint_len te) 0) = Ok d"
    "te_unpack_mint te d = Ok (mi\<lparr>tm_mint_authority := Some k\<rparr>)"
    using ok unfolding token_layouts_ok_def by blast
  with False u show ?thesis
    by (intro that [of d]) (simp_all add: rewrite_mint_authority_def read_mint_def lib_def)
qed

lemma pad_to_append: "\<exists>z. pad_to n d = d @ z"
  by (auto simp: pad_to_def)

lemma length_pad_to: "length (pad_to n d) = max n (length d)"
  by (simp add: pad_to_def max_def)

section \<open>The keys a step may change\<close>

definition touches :: "pubkey set \<Rightarrow> ('s, 'a) tool \<Rightarrow> bool" where
  "touches K m \<longleftrightarrow> (\<forall>s out k. k \<notin> K \<longrightarrow> snd (snd (m (s, out))) k = out k)"

lemma touches_io: "touches K (io r)"
  by (simp add: touches_def)

lemma touches_bind:
  assumes "touches K m" and "\<And>v. touches K (f v)"
  shows "touches K (io_bind m f)"
  unfolding touches_def
proof (intro allI impI)
  fix s and out :: snapshot and k
  assume k: "k \<notin> K"
  obtain res s1 out1 where m: "m (s, out) = (res, s1, out1)" by (metis surj_pair)
  have "out1 k = out k" using assms(1) k m unfolding touches_def by (metis snd_conv)
  moreover have "snd (snd (f v (s1, out1))) k = out1 k" for v
    using assms(2) k unfolding touches_def by blast
  ultimately show "snd (snd (io_bind m f (s, out))) k = out k"
    by (cases res) (simp_all add: io_bind_apply m)
qed

lemma touches_steps:
  "touches K (out_get k)" "k \<in> K \<Longrightarrow> touches K (out_insert k ac)" "touches K (tool_call c)"
  by (auto simp: touches_def tool_call_def split: prod.split)

lemma touches_clone_one: "key \<in> K \<Longrightarrow> touches K (clone_one r key must)"
  unfolding clone_one_def
  by (auto intro!: touches_bind touches_steps touches_io split: option.split)

end
