(* ===== verification/Snapshot_Rekey.thy ===== *)
theory Snapshot_Rekey
  imports Snapshot_Facts
begin

text \<open>
  Re-keying a graduated pool: which accounts move where, and what they read as afterwards.
\<close>

section \<open>What a snapshot holds\<close>

text \<open>The value an account of the map reads as.\<close>

definition account_reads ::
  "snapshot \<Rightarrow> (account \<Rightarrow> ('e, 'a) res) \<Rightarrow> pubkey \<Rightarrow> 'a option" where
  "account_reads out read k =
     (case out k of None \<Rightarrow> None | Some ac \<Rightarrow> (case read ac of Inr v \<Rightarrow> Some v | Inl _ \<Rightarrow> None))"

lemma account_readsE:
  assumes "account_reads out read k = Some v"
  obtains ac where "out k = Some ac" and "read ac = Ok v"
  using assms by (auto simp: account_reads_def split: option.splits sum.splits)

definition read_pool_account :: "'c codecs_scheme \<Rightarrow> account \<Rightarrow> pool client_result" where
  "read_pool_account cs ac = decode_pool cs (ac_data ac)"

text \<open>A pool at \<open>k\<close> with its two vaults and its LP mint.\<close>

definition holds_pool ::
  "'c codecs_scheme \<Rightarrow> ('t, 'm, 'z) tool_env_scheme \<Rightarrow> snapshot \<Rightarrow> pubkey \<Rightarrow> pool \<Rightarrow>
     't token_account_scheme \<Rightarrow> 't token_account_scheme \<Rightarrow> token_mint \<Rightarrow> bool"
where
  "holds_pool cs te out k pl tb tq m \<longleftrightarrow>
     account_reads out (read_pool_account cs) k = Some pl \<and>
     account_reads out (read_token te) (p_pool_base_token_account pl) = Some tb \<and>
     account_reads out (read_token te) (p_pool_quote_token_account pl) = Some tq \<and>
     account_reads out (read_mint te) (p_lp_mint pl) = Some m"

section \<open>Moving accounts\<close>

text \<open>No account moves to the old key of another; an account may stay where it is.\<close>

definition separate :: "pubkey list \<Rightarrow> pubkey list \<Rightarrow> bool" where
  "separate olds news \<longleftrightarrow> length olds = length news \<and> distinct olds \<and> distinct news \<and>
     (\<forall>i < length olds. \<forall>j < length news. i \<noteq> j \<longrightarrow> olds ! i \<noteq> news ! j)"

lemma separate_5:
  "separate [a, b, c, d, f] [a', b', c', d', f'] \<longleftrightarrow>
     distinct [a, b, c, d, f] \<and> distinct [a', b', c', d', f'] \<and>
     a \<notin> {b', c', d', f'} \<and> b \<notin> {a', c', d', f'} \<and> c \<notin> {a', b', d', f'} \<and>
     d \<notin> {a', b', c', f'} \<and> f \<notin> {a', b', c', d'}"
  by (simp add: separate_def All_less_Suc2)


text \<open>The pool the tool writes: the canonical USDC pool of the base mint.\<close>

definition rekeyed_pool :: "'e pda_env_scheme \<Rightarrow> pubkey \<Rightarrow> pool \<Rightarrow> pubkey \<Rightarrow> pubkey \<Rightarrow> pool" where
  "rekeyed_pool e base_mint pl base_program quote_program =
     (let (k, bump) = canonical_pool e base_mint USDC_QUOTE_MINT
      in pl\<lparr>p_pool_bump := bump, p_quote_mint := USDC_QUOTE_MINT,
           p_lp_mint := fst (amm_lp_mint e k),
           p_pool_base_token_account := fst (associated_token e k base_program base_mint),
           p_pool_quote_token_account :=
             fst (associated_token e k quote_program USDC_QUOTE_MINT)\<rparr>)"

text \<open>The five addresses a pool is found at, its creator vault's token account last.\<close>

definition pool_keys :: "'e pda_env_scheme \<Rightarrow> pubkey \<Rightarrow> pool \<Rightarrow> pubkey \<Rightarrow> pubkey list" where
  "pool_keys e k pl quote_mint =
     [k, p_pool_base_token_account pl, p_pool_quote_token_account pl, p_lp_mint pl,
      fst (associated_token e (fst (coin_creator_vault_authority e (p_coin_creator pl)))
             SPL_TOKEN_PROGRAM_ID quote_mint)]"

lemma rekeyed_pool_simps [simp]:
  "p_coin_creator (rekeyed_pool e b pl bp qp) = p_coin_creator pl"
  "p_quote_mint (rekeyed_pool e b pl bp qp) = USDC_QUOTE_MINT"
  "p_lp_mint (rekeyed_pool e b pl bp qp) =
     fst (amm_lp_mint e (fst (canonical_pool e b USDC_QUOTE_MINT)))"
  "p_pool_base_token_account (rekeyed_pool e b pl bp qp) =
     fst (associated_token e (fst (canonical_pool e b USDC_QUOTE_MINT)) bp b)"
  "p_pool_quote_token_account (rekeyed_pool e b pl bp qp) =
     fst (associated_token e (fst (canonical_pool e b USDC_QUOTE_MINT)) qp USDC_QUOTE_MINT)"
  by (simp_all add: rekeyed_pool_def split: prod.split)

lemma patched_pool_rekeyed:
  "canonical_pool e b USDC_QUOTE_MINT = (k, bump) \<Longrightarrow>
   patched_pool pl bump (fst (amm_lp_mint e k)) (fst (associated_token e k bp b))
     (fst (associated_token e k qp USDC_QUOTE_MINT)) = rekeyed_pool e b pl bp qp"
  by (simp add: patched_pool_def rekeyed_pool_def)

text \<open>The four moves and what they leave at the old and the new keys.\<close>

lemma rekey_maps:
  assumes sep: "separate [P0, B0, Q0, L0, C0] [P1, B1, Q1, L1, C1]"
    and outs: "out1 = out(P0 := None, P1 \<mapsto> p)" "out2 = out1(B0 := None, B1 \<mapsto> b)"
      "out3 = out2(Q0 := None, Q1 \<mapsto> q)" "out4 = out3(L0 := None, L1 \<mapsto> m)"
  shows "out1 B0 = out B0" "out2 Q0 = out Q0" "out3 L0 = out L0" "out4 C0 = out C0"
    and "out4 P1 = Some p" "out4 B1 = Some b" "out4 Q1 = Some q" "out4 L1 = Some m"
    and "x \<notin> {P1, B1, Q1, L1} \<Longrightarrow> out4 x = (if x \<in> {P0, B0, Q0, L0} then None else out x)"
proof -
  note sep' = sep [unfolded separate_5]
  show "out1 B0 = out B0" "out2 Q0 = out Q0" "out3 L0 = out L0" "out4 C0 = out C0"
    "out4 P1 = Some p" "out4 B1 = Some b" "out4 Q1 = Some q" "out4 L1 = Some m"
    using sep' by (auto simp: outs)
  assume new: "x \<notin> {P1, B1, Q1, L1}"
  have "out4 x = (if x = L0 then None else out3 x)" using new by (simp add: outs(4))
  also have "out3 x = (if x = Q0 then None else out2 x)" using new by (simp add: outs(3))
  also have "out2 x = (if x = B0 then None else out1 x)" using new by (simp add: outs(2))
  also have "out1 x = (if x = P0 then None else out x)" using new by (simp add: outs(1))
  finally show "out4 x = (if x \<in> {P0, B0, Q0, L0} then None else out x)"
    by (simp only: insert_iff empty_iff) (simp only: split: if_splits; blast)
qed

lemma rekey_pool_run:
  fixes out :: snapshot
  assumes at: "out P0 = Some pac" "out B0 = Some b_ac" "out Q0 = Some q_ac" "out L0 = Some m_ac"
    and olds: "B0 = p_pool_base_token_account pl" "Q0 = p_pool_quote_token_account pl"
      "L0 = p_lp_mint pl"
      "C0 = fst (associated_token e (fst (coin_creator_vault_authority e (p_coin_creator pl)))
         SPL_TOKEN_PROGRAM_ID quote_mint)"
    and news: "B1 = fst (associated_token e k (ac_owner b_ac) base_mint)"
      "Q1 = fst (associated_token e k (ac_owner q_ac) USDC_QUOTE_MINT)" "L1 = fst (amm_lp_mint e k)"
      "C1 = fst (associated_token e (fst (coin_creator_vault_authority e (p_coin_creator pl)))
         SPL_TOKEN_PROGRAM_ID USDC_QUOTE_MINT)"
    and kb: "canonical_pool e base_mint USDC_QUOTE_MINT = (k, bump)"
    and ser: "wrapper_try_serialize (pool_codec cs)
      (rekeyed_pool e base_mint pl (ac_owner b_ac) (ac_owner q_ac)) = Ok d"
    and rw: "rewrite_token_account te b_ac None (Some k) = Ok b"
      "rewrite_token_account te q_ac (Some USDC_QUOTE_MINT) (Some k) = Ok q"
      "rewrite_mint_authority te m_ac k = Ok m"
    and sep: "separate [P0, B0, Q0, L0, C0] [k, B1, Q1, L1, C1]"
    and outs: "out1 = out(P0 := None, k \<mapsto> pac\<lparr>ac_data := pad_to (length (ac_data pac)) d\<rparr>)"
      "out2 = out1(B0 := None, B1 \<mapsto> b)" "out3 = out2(Q0 := None, Q1 \<mapsto> q)"
      "out4 = out3(L0 := None, L1 \<mapsto> m)"
  shows "patch_graduated_pool_to_usdc_quote_mint e cs te base_mint
       (fst (pool_authority e base_mint)) pl P0 quote_mint (s, out) =
     (case out C0 of None \<Rightarrow> (Ok (), s, out4(C0 := None))
      | Some ac \<Rightarrow> (case rewrite_token_account te ac (Some USDC_QUOTE_MINT) None of
          Inl f \<Rightarrow> (Inl f, s, out4(C0 := None)) | Inr ac' \<Rightarrow> (Ok (), s, out4(C0 := None, C1 \<mapsto> ac'))))"
proof -
  note maps = rekey_maps [OF sep outs]
  have pk: "amm_pool e 0 (fst (pool_authority e base_mint)) base_mint USDC_QUOTE_MINT = (k, bump)"
    using kb by (simp add: canonical_pool_def)
  have pp: "patched_pool pl bump L1 B1 Q1 =
      rekeyed_pool e base_mint pl (ac_owner b_ac) (ac_owner q_ac)"
    unfolding news by (rule patched_pool_rekeyed [OF kb])
  note steps =
    rekey_step [where out = out and old = P0, OF at(1), where new = k
      and ac' = "pac\<lparr>ac_data := pad_to (length (ac_data pac)) d\<rparr>", folded outs(1)]
    rekey_step [where out = out1 and old = B0, OF maps(1) [unfolded at], where new = B1 and ac' = b,
      folded outs(2)]
    rekey_step [where out = out2 and old = Q0, OF maps(2) [unfolded at], where new = Q1 and ac' = q,
      folded outs(3)]
    rekey_step [where out = out3 and old = L0, OF maps(3) [unfolded at], where new = L1 and ac' = m,
      folded outs(4)]
  show ?thesis
    using at(2,3)
    by (simp add: patch_graduated_pool_to_usdc_quote_mint_def pk Let_def steps rw
        ser pp io_bind_apply [of "out_expect m" for m] out_expect_run
        io_bind_apply [of "out_remove k" for k] maps(4) io_bind_io flip: olds news
        split: option.split sum.split)
qed

lemma rekey_pool_moved:
  fixes out :: snapshot
  assumes laws: "token_layouts_ok te" and codec: "\<And>p. writes_back (pool_codec cs) p"
    and pac: "out P0 = Some pac"
    and b: "out (p_pool_base_token_account pl) = Some b_ac" "read_token te b_ac = Ok tb"
    and q: "out (p_pool_quote_token_account pl) = Some q_ac" "read_token te q_ac = Ok tq"
    and m: "out (p_lp_mint pl) = Some m_ac" "read_mint te m_ac = Ok mi"
    and new: "new = rekeyed_pool e base_mint pl (ac_owner b_ac) (ac_owner q_ac)"
    and kb: "canonical_pool e base_mint USDC_QUOTE_MINT = (k, bump)"
    and keys: "pool_keys e P0 pl quote_mint = [P0, B0, Q0, L0, C0]"
      "pool_keys e k new USDC_QUOTE_MINT = [k, B1, Q1, L1, C1]"
    and sep: "separate [P0, B0, Q0, L0, C0] [k, B1, Q1, L1, C1]"
  obtains out4 where
    "patch_graduated_pool_to_usdc_quote_mint e cs te base_mint (fst (pool_authority e base_mint))
       pl P0 quote_mint (s, out) =
     (case out C0 of None \<Rightarrow> (Ok (), s, out4(C0 := None))
      | Some ac \<Rightarrow> (case rewrite_token_account te ac (Some USDC_QUOTE_MINT) None of
          Inl f \<Rightarrow> (Inl f, s, out4(C0 := None)) | Inr ac' \<Rightarrow> (Ok (), s, out4(C0 := None, C1 \<mapsto> ac'))))"
    and "holds_pool cs te out4 k new (tb\<lparr>ta_owner := k\<rparr>)
       (tq\<lparr>ta_mint := USDC_QUOTE_MINT, ta_owner := k\<rparr>) (mi\<lparr>tm_mint_authority := Some k\<rparr>)"
    and "\<And>x. x \<notin> {k, B1, Q1, L1} \<Longrightarrow>
       out4 x = (if x \<in> {P0, B0, Q0, L0} then None else out x)"
proof -
  obtain d where ser: "wrapper_try_serialize (pool_codec cs) new = Ok d"
    and deser: "\<And>rest. wrapper_try_deserialize (pool_codec cs) (d @ rest) = Ok (new, rest)"
    using writes_backE [OF codec [of new]] by blast
  obtain bd where bd: "rewrite_token_account te b_ac None (Some k) = Ok (b_ac\<lparr>ac_data := bd\<rparr>)"
    "read_token te (b_ac\<lparr>ac_data := bd\<rparr>) = Ok (set_mint_owner None (Some k) tb)"
    using rewrite_token_account_reads [OF laws b(2)] by blast
  obtain qd where qd: "rewrite_token_account te q_ac (Some USDC_QUOTE_MINT) (Some k) =
      Ok (q_ac\<lparr>ac_data := qd\<rparr>)"
    "read_token te (q_ac\<lparr>ac_data := qd\<rparr>) = Ok (set_mint_owner (Some USDC_QUOTE_MINT) (Some k) tq)"
    using rewrite_token_account_reads [OF laws q(2)] by blast
  obtain md where md: "rewrite_mint_authority te m_ac k = Ok (m_ac\<lparr>ac_data := md\<rparr>)"
    "read_mint te (m_ac\<lparr>ac_data := md\<rparr>) = Ok (mi\<lparr>tm_mint_authority := Some k\<rparr>)"
    using rewrite_mint_authority_reads [OF laws m(2)] by blast
  define out1 where "out1 = out(P0 := None, k \<mapsto> pac\<lparr>ac_data := pad_to (length (ac_data pac)) d\<rparr>)"
  define out2 where "out2 = out1(B0 := None, B1 \<mapsto> b_ac\<lparr>ac_data := bd\<rparr>)"
  define out3 where "out3 = out2(Q0 := None, Q1 \<mapsto> q_ac\<lparr>ac_data := qd\<rparr>)"
  define out4 where "out4 = out3(L0 := None, L1 \<mapsto> m_ac\<lparr>ac_data := md\<rparr>)"
  note maps = rekey_maps [OF sep out1_def out2_def out3_def out4_def]
  have olds: "B0 = p_pool_base_token_account pl" "Q0 = p_pool_quote_token_account pl"
    "L0 = p_lp_mint pl" using keys(1) by (simp_all add: pool_keys_def)
  have "patch_graduated_pool_to_usdc_quote_mint e cs te base_mint
       (fst (pool_authority e base_mint)) pl P0 quote_mint (s, out) =
     (case out C0 of None \<Rightarrow> (Ok (), s, out4(C0 := None))
      | Some ac \<Rightarrow> (case rewrite_token_account te ac (Some USDC_QUOTE_MINT) None of
          Inl f \<Rightarrow> (Inl f, s, out4(C0 := None)) | Inr ac' \<Rightarrow> (Ok (), s, out4(C0 := None, C1 \<mapsto> ac'))))"
    using keys
    by (intro rekey_pool_run [OF pac b(1) [folded olds] q(1) [folded olds] m(1) [folded olds] olds
          _ _ _ _ _ kb ser [unfolded new] bd(1) qd(1) md(1) sep out1_def out2_def out3_def out4_def])
       (simp_all add: pool_keys_def new kb)
  moreover have "read_pool_account cs (pac\<lparr>ac_data := pad_to (length (ac_data pac)) d\<rparr>) = Ok new"
    using pad_to_append [of "length (ac_data pac)" d]
    by (auto simp: read_pool_account_def decode_pool_def decode_def deser)
  then have "holds_pool cs te out4 k new (tb\<lparr>ta_owner := k\<rparr>)
       (tq\<lparr>ta_mint := USDC_QUOTE_MINT, ta_owner := k\<rparr>) (mi\<lparr>tm_mint_authority := Some k\<rparr>)"
    using maps(5-8) keys(2) bd(2) qd(2) md(2)
    by (simp add: holds_pool_def account_reads_def set_mint_owner_def pool_keys_def)
  ultimately show ?thesis using maps(9) by (rule that)
qed

section \<open>Every account moved\<close>

definition owner_in :: "snapshot \<Rightarrow> pubkey \<Rightarrow> pubkey" where
  "owner_in out k = (case out k of None \<Rightarrow> default_key | Some ac \<Rightarrow> ac_owner ac)"

definition relocated :: "snapshot \<Rightarrow> snapshot \<Rightarrow> pubkey list \<Rightarrow> pubkey list \<Rightarrow> bool" where
  "relocated out out' olds news \<longleftrightarrow>
     (\<forall>x. x \<notin> set news \<longrightarrow> out' x = (if x \<in> set olds then None else out x))"

lemma holds_pool_cong:
  assumes "holds_pool cs te out k pl tb tq m"
    and "\<And>x. x \<in> {k, p_pool_base_token_account pl, p_pool_quote_token_account pl, p_lp_mint pl} \<Longrightarrow>
      out' x = out x"
  shows "holds_pool cs te out' k pl tb tq m"
  using assms by (simp add: holds_pool_def account_reads_def)

lemma holds_poolE:
  assumes "holds_pool cs te out k pl tb tq m"
  obtains pac b q mac where "out k = Some pac"
    "out (p_pool_base_token_account pl) = Some b" "read_token te b = Ok tb"
    "out (p_pool_quote_token_account pl) = Some q" "read_token te q = Ok tq"
    "out (p_lp_mint pl) = Some mac" "read_mint te mac = Ok m"
  using assms by (auto simp: holds_pool_def elim!: account_readsE)

text \<open>The creator vault's token account is moved when the snapshot has it.\<close>

lemma creator_account_step:
  fixes v :: "account option"
  assumes laws: "token_layouts_ok te"
    and cc: "case v of None \<Rightarrow> True | Some ac \<Rightarrow> \<not> isl (read_token te ac)"
    and run: "run = (case v of None \<Rightarrow> (Ok (), s, out4(C0 := None))
      | Some ac \<Rightarrow> (case rewrite_token_account te ac (Some USDC_QUOTE_MINT) None of
          Inl f \<Rightarrow> (Inl f, s, out4(C0 := None)) | Inr ac' \<Rightarrow> (Ok (), s, out4(C0 := None, C1 \<mapsto> ac'))))"
  obtains out' where "run = (Ok (), s, out')"
    and "out' = out4(C0 := None) \<or> (\<exists>ac. out' = out4(C0 := None, C1 \<mapsto> ac))"
proof (cases v)
  case None
  then show ?thesis using run that by simp
next
  case (Some ac)
  with cc obtain t where "read_token te ac = Ok t"
    by (auto simp: isl_def split: sum.splits) (metis obj_sumE)
  then obtain d' where "rewrite_token_account te ac (Some USDC_QUOTE_MINT) None =
      Ok (ac\<lparr>ac_data := d'\<rparr>)"
    using rewrite_token_account_reads [OF laws] by blast
  with run Some that show ?thesis by auto
qed

lemma pool_keys_of:
  obtains C where "pool_keys e k pl quote_mint = [k, p_pool_base_token_account pl,
    p_pool_quote_token_account pl, p_lp_mint pl, C]"
  by (simp add: pool_keys_def)

end
