(* ===== verification/Sample_Tool.thy ===== *)
theory Sample_Tool
  imports Snapshot_Rekey Sample_Cluster
begin

text \<open>
  Layouts and addresses to evaluate the tools on. They stand for no real program: a token account
  is the sequence of its fields, a lookup table that of its addresses, and an address is a number
  made of the seeds.
\<close>

section \<open>Layouts\<close>

definition option_bytes :: "('a \<Rightarrow> byte list) \<Rightarrow> 'a option \<Rightarrow> byte list" where
  "option_bytes f v = (case v of None \<Rightarrow> [0] | Some x \<Rightarrow> 1 # f x)"

definition read_option ::
  "(byte list \<Rightarrow> ('a \<times> byte list) anchor_result) \<Rightarrow> byte list \<Rightarrow>
     ('a option \<times> byte list) anchor_result" where
  "read_option rd bs =
     and_then (read_bool bs) (\<lambda>(some, bs). if some
       then and_then (rd bs) (\<lambda>(v, bs). Ok (Some v, bs)) else Ok (None, bs))"

lemma read_option_bytes [simp]:
  "(\<And>x bs. rd (f x @ bs) = Ok (x, bs)) \<Longrightarrow> read_option rd (option_bytes f v @ bs) = Ok (v, bs)"
  by (cases v) (simp_all add: read_option_def option_bytes_def read_bool_def)

definition token_bytes :: "token_account \<Rightarrow> byte list" where
  "token_bytes t = key_bytes (ta_mint t) @ key_bytes (ta_owner t) @ le_bytes 8 (ta_amount t) @
     [ta_state t] @ option_bytes (le_bytes 8) (ta_is_native t) @
     option_bytes key_bytes (ta_delegate t) @ le_bytes 8 (ta_delegated_amount t) @
     option_bytes key_bytes (ta_close_authority t)"

definition read_token_bytes :: "byte list \<Rightarrow> token_account anchor_result" where
  "read_token_bytes bs =
     and_then (read_key bs) (\<lambda>(mint, bs). and_then (read_key bs) (\<lambda>(own, bs).
     and_then (read_u64 bs) (\<lambda>(amount, bs). and_then (read_u8 bs) (\<lambda>(state, bs).
     and_then (read_option read_u64 bs) (\<lambda>(native, bs).
     and_then (read_option read_key bs) (\<lambda>(delegate, bs). and_then (read_u64 bs) (\<lambda>(delegated, bs).
     and_then (read_option read_key bs) (\<lambda>(close, bs).
       if state = 0 then Err ''UninitializedAccount''
       else Ok \<lparr>ta_mint = mint, ta_owner = own, ta_amount = amount, ta_state = state,
         ta_is_native = native, ta_delegate = delegate, ta_delegated_amount = delegated,
         ta_close_authority = close\<rparr>))))))))"

definition mint_bytes :: "token_mint \<Rightarrow> byte list" where
  "mint_bytes m = option_bytes key_bytes (tm_mint_authority m) @ le_bytes 8 (tm_supply m) @
     [tm_decimals m] @ bool_byte (tm_is_initialized m) @
     option_bytes key_bytes (tm_freeze_authority m)"

definition read_mint_bytes :: "byte list \<Rightarrow> token_mint anchor_result" where
  "read_mint_bytes bs =
     and_then (read_option read_key bs) (\<lambda>(authority, bs). and_then (read_u64 bs) (\<lambda>(supl, bs).
     and_then (read_u8 bs) (\<lambda>(decimals, bs). and_then (read_bool bs) (\<lambda>(ready, bs).
     and_then (read_option read_key bs) (\<lambda>(freeze, bs).
       if ready then Ok \<lparr>tm_mint_authority = authority, tm_supply = supl, tm_decimals = decimals,
         tm_is_initialized = ready, tm_freeze_authority = freeze\<rparr>
       else Err ''UninitializedAccount'')))))"

lemma token_bytes_read: "ta_state t \<noteq> 0 \<Longrightarrow> read_token_bytes (token_bytes t) = Ok t"
  using read_option_bytes [of read_key key_bytes "ta_close_authority t" "[]"]
  by (simp add: read_token_bytes_def token_bytes_def)

lemma mint_bytes_read: "tm_is_initialized m \<Longrightarrow> read_mint_bytes (mint_bytes m) = Ok m"
  using read_option_bytes [of read_key key_bytes "tm_freeze_authority m" "[]"]
  by (simp add: read_mint_bytes_def mint_bytes_def)

lemma read_token_bytes_state: "read_token_bytes d = Ok t \<Longrightarrow> ta_state t \<noteq> 0"
  by (auto simp: read_token_bytes_def res_simps split: prod.splits if_splits)

lemma read_mint_bytes_state: "read_mint_bytes d = Ok m \<Longrightarrow> tm_is_initialized m"
  by (auto simp: read_mint_bytes_def res_simps split: prod.splits if_splits)

definition sample_tool :: "(unit, unit) tool_env" where
  "sample_tool = \<lparr>te_account_len = 165, te_unpack_account = read_token_bytes,
     te_pack_account = (\<lambda>t _. Ok (token_bytes t)), te_pod_account = read_token_bytes,
     te_pod_write_account = (\<lambda>t _. token_bytes t), te_mint_len = 82,
     te_unpack_mint = read_mint_bytes, te_pack_mint = (\<lambda>m _. Ok (mint_bytes m)),
     te_pod_mint = read_mint_bytes, te_pod_write_mint = (\<lambda>m _. mint_bytes m),
     te_table_deserialize = (\<lambda>d. map_res (\<lambda>(ks, _). \<lparr>lt_meta = (), lt_addresses = ks\<rparr>)
       (read_keys (length d div 32) d)),
     te_table_serialize = (\<lambda>t. Ok (keys_bytes (lt_addresses t))), te_default_meta = (),
     te_serialize_quote_control = (\<lambda>_. Ok (replicate 108 0)),
     te_deserialize_sharing_config = (\<lambda>_. Err ''AccountDiscriminatorMismatch''),
     te_minimum_balance = (\<lambda>n. 6960 * (128 + word_of_nat n))\<rparr>"

lemma sample_layouts: "token_layouts_ok sample_tool"
  by (auto simp: token_layouts_ok_def sample_tool_def token_bytes_read mint_bytes_read
      dest: read_token_bytes_state read_mint_bytes_state)

section \<open>Addresses\<close>

definition mix_env :: pda_env where
  "mix_env = sample_env\<lparr>find_program_address := (\<lambda>seeds prog.
     (foldl (\<lambda>a s. 3 * a + word_of_nat (read_le (rev s))) prog seeds, 254))\<rparr>"

lemma mix_address:
  "find_program_address mix_env seeds prog =
     (foldl (\<lambda>a s. 3 * a + word_of_nat (read_le (rev s))) prog seeds, 254)"
  by (simp add: mix_env_def)

lemmas mix_keys = canonical_pool_def amm_pool_def pool_authority_def amm_lp_mint_def
  associated_token_def coin_creator_vault_authority_def mix_address seed_defs
  bytes_of_string_def key_constants program_id_defs USDC_QUOTE_MINT_def u16_le_bytes_def

section \<open>A graduated pool\<close>

text \<open>A SOL pool of mint 9 with its vaults, the base under Token-2022, and its LP mint.\<close>

definition old_pool :: pool where
  "old_pool = sample_pool\<lparr>p_base_mint := 9, p_pool_base_token_account := 81,
     p_pool_quote_token_account := 82, p_lp_mint := 83\<rparr>"

definition old_token :: "pubkey \<Rightarrow> u64 \<Rightarrow> token_account" where
  "old_token mint amount = \<lparr>ta_mint = mint, ta_owner = 80, ta_amount = amount, ta_state = 1,
     ta_is_native = None, ta_delegate = None, ta_delegated_amount = 0, ta_close_authority = None\<rparr>"

definition old_lp :: token_mint where
  "old_lp = \<lparr>tm_mint_authority = Some 80, tm_supply = 1000, tm_decimals = 9,
     tm_is_initialized = True, tm_freeze_authority = None\<rparr>"

definition held :: "pubkey \<Rightarrow> byte list \<Rightarrow> account" where
  "held own data = \<lparr>ac_lamports = 1, ac_data = data, ac_owner = own, ac_executable = False,
     ac_rent_epoch = 0\<rparr>"

definition pool_snapshot :: snapshot where
  "pool_snapshot = [80 \<mapsto> held PUMP_AMM_PROGRAM_ID (pool_bytes old_pool),
     81 \<mapsto> held SPL_TOKEN_2022_PROGRAM_ID (token_bytes (old_token 9 500)),
     82 \<mapsto> held SPL_TOKEN_PROGRAM_ID (token_bytes (old_token NATIVE_MINT 700)),
     83 \<mapsto> held SPL_TOKEN_2022_PROGRAM_ID (mint_bytes old_lp)]"

definition layout_codecs :: codecs where
  "layout_codecs = sample_codecs\<lparr>global_codec := global_layout, pool_codec := pool_layout\<rparr>"

lemma layout_codecs_simps [simp]:
  "global_codec layout_codecs = global_layout" "pool_codec layout_codecs = pool_layout"
  by (simp_all add: layout_codecs_def)

lemma held_simps [simp]: "ac_data (held own d) = d" "ac_owner (held own d) = own"
  by (simp_all add: held_def)

lemma old_pool_simps [simp]:
  "p_pool_base_token_account old_pool = 81" "p_pool_quote_token_account old_pool = 82"
  "p_lp_mint old_pool = 83" "p_coin_creator old_pool = 5"
  by (simp_all add: old_pool_def sample_pool_def)

lemma pool_snapshot_at [simp]:
  "pool_snapshot 80 = Some (held PUMP_AMM_PROGRAM_ID (pool_bytes old_pool))"
  "pool_snapshot 81 = Some (held SPL_TOKEN_2022_PROGRAM_ID (token_bytes (old_token 9 500)))"
  "pool_snapshot 82 = Some (held SPL_TOKEN_PROGRAM_ID (token_bytes (old_token NATIVE_MINT 700)))"
  "pool_snapshot 83 = Some (held SPL_TOKEN_2022_PROGRAM_ID (mint_bytes old_lp))"
  by (simp_all add: pool_snapshot_def)

lemma old_pool_decodes: "decode_pool layout_codecs (pool_bytes old_pool) = Ok old_pool"
  using amm_pool_layout.decode_full [of old_pool "[]"]
  by (simp add: decode_pool_def pool_layout_def amm_pool_layout.codec_of_def)

lemma pool_snapshot_holds:
  "holds_pool layout_codecs sample_tool pool_snapshot 80 old_pool (old_token 9 500)
     (old_token NATIVE_MINT 700) old_lp"
proof -
  have "read_token_bytes (token_bytes (old_token mint amount)) = Ok (old_token mint amount)"
    for mint amount by (rule token_bytes_read) (simp add: old_token_def)
  moreover have "read_mint_bytes (mint_bytes old_lp) = Ok old_lp"
    by (rule mint_bytes_read) (simp add: old_lp_def)
  ultimately show ?thesis
    by (simp add: holds_pool_def account_reads_def read_pool_account_def old_pool_decodes
        read_token_def read_mint_def sample_tool_def program_id_defs)
qed

lemma old_pool_keys:
  "pool_keys mix_env 80 old_pool NATIVE_MINT =
     [80, 81, 82, 83,
      2171894884005853523555810309979534028626519805384357026514695389680559690803995]"
  "pool_keys mix_env (fst (canonical_pool mix_env 9 USDC_QUOTE_MINT))
     (rekeyed_pool mix_env 9 old_pool SPL_TOKEN_2022_PROGRAM_ID SPL_TOKEN_PROGRAM_ID)
     USDC_QUOTE_MINT =
     [1466976584573205975961865377667485112299780264254803817514515251427733307166053,
      14929060426086403117554805515765197003121631510400858260441018374920382983884269,
      15019060930449219303455630052044524973790950470918106593489532928572019812763980,
      1516158255649785059458262452775057131899137630598187048004630949321321550693436,
      2258906708979577271266415329005307139487144389927114572670085718008843094083707]"
  by (simp_all add: pool_keys_def mix_keys)

end
