(* ===== verification/Snapshot_Stages.thy ===== *)
theory Snapshot_Stages
  imports Snapshot_Rekey Sdk_Facts Route_State
begin

text \<open>
  What the stages of a run leave in the snapshot: the merged lookup tables, the patched
  \<open>Global\<close>, the recipients and the synthetic accounts.
\<close>

section \<open>Merging the lookup tables\<close>

lemma push_unseen_append: "push_unseen acc (xs @ ys) = push_unseen (push_unseen acc xs) ys"
  by (induction acc xs rule: push_unseen.induct) simp_all

lemma remdups_skip: "x \<in> set ys \<Longrightarrow> remdups (xs @ x # ys) = remdups (xs @ ys)"
  by (induction xs) auto

lemma push_unseen_first: "distinct acc \<Longrightarrow> push_unseen acc xs = rev (remdups (rev (acc @ xs)))"
proof (induction acc xs rule: push_unseen.induct)
  case (1 merged)
  then show ?case by (simp add: distinct_remdups_id)
next
  case (2 merged addr addrs)
  then show ?case using remdups_skip [of addr "rev merged" "rev addrs"]
    by (cases "addr \<in> set merged") simp_all
qed

definition read_table :: "('t, 'm, 'z) tool_env_scheme \<Rightarrow> account \<Rightarrow> (string, 'm lookup_table) res"
  where "read_table te ac = te_table_deserialize te (ac_data ac)"

lemma merge_tables_run:
  "list_all2 (\<lambda>k t. account_reads out (read_table te) k = Some t) keys tables \<Longrightarrow>
   merge_tables te keys acc (s, out) =
     (Ok (push_unseen acc (concat (map lt_addresses tables))), s, out)"
proof (induction keys tables arbitrary: acc rule: list_all2_induct)
  case (Cons k keys t tables)
  then obtain ac where "out k = Some ac" "read_table te ac = Ok t"
    by (blast elim: account_readsE)
  with Cons.IH show ?case by (simp add: read_table_def run_simps push_unseen_append)
qed simp

lemma io_each_step:
  "f x (s, out) = (Ok (), s, out') \<Longrightarrow> io_each f (x # xs) (s, out) = io_each f xs (s, out')"
  by (simp add: io_bind_apply)

lemma rewrite_tables_run:
  assumes d: "te_table_serialize te
      \<lparr>lt_meta = te_default_meta te, lt_addresses = addresses\<rparr> = Ok d"
    and f: "f = (\<lambda>key. io_bind (out_expect (out_get key)) (\<lambda>acct.
      io_bind (io (rewrite_alt_active_from_slot_0 te acct addresses)) (\<lambda>acct. out_insert key acct)))"
  shows "distinct keys \<Longrightarrow> (\<And>k. k \<in> set keys \<Longrightarrow> account_reads out (read_table te) k \<noteq> None) \<Longrightarrow>
    io_each f keys (s, out) =
    (Ok (), s, \<lambda>k. if k \<in> set keys then map_option (\<lambda>ac. ac\<lparr>ac_data := d\<rparr>) (out k) else out k)"
proof (induction keys arbitrary: out)
  case (Cons k keys)
  then have "account_reads out (read_table te) k \<noteq> None" by simp
  then obtain ac t where at: "out k = Some ac" "te_table_deserialize te (ac_data ac) = Ok t"
    by (auto simp: read_table_def elim: account_readsE)
  have e: "t\<lparr>lt_meta := te_default_meta te, lt_addresses := addresses\<rparr> =
      \<lparr>lt_meta = te_default_meta te, lt_addresses = addresses\<rparr>" by simp
  have "rewrite_alt_active_from_slot_0 te ac addresses = Ok (ac\<lparr>ac_data := d\<rparr>)"
    using at d by (simp add: rewrite_alt_active_from_slot_0_def lib_def e)
  then have step: "f k (s, out) = (Ok (), s, out(k \<mapsto> ac\<lparr>ac_data := d\<rparr>))"
    by (simp add: f run_simps at)
  let ?out = "out(k \<mapsto> ac\<lparr>ac_data := d\<rparr>)"
  have ok: "account_reads ?out (read_table te) k' \<noteq> None" if "k' \<in> set keys" for k'
  proof -
    have "k' \<noteq> k" "account_reads out (read_table te) k' \<noteq> None" using Cons.prems that by auto
    then show ?thesis by (simp add: account_reads_def)
  qed
  have "distinct keys" using Cons.prems(1) by simp
  then have "io_each f keys (s, ?out) = (Ok (), s, \<lambda>k'. if k' \<in> set keys
      then map_option (\<lambda>ac. ac\<lparr>ac_data := d\<rparr>) (?out k') else ?out k')"
    using ok by (rule Cons.IH)
  moreover have "(\<lambda>k'. if k' \<in> set keys
      then map_option (\<lambda>ac. ac\<lparr>ac_data := d\<rparr>) (?out k') else ?out k') =
    (\<lambda>k'. if k' \<in> set (k # keys) then map_option (\<lambda>ac. ac\<lparr>ac_data := d\<rparr>) (out k') else out k')"
    using at(1) by auto
  ultimately show ?case using io_each_step [of f, OF step] by simp
qed simp

definition writes_table :: "('t, 'm, 'z) tool_env_scheme \<Rightarrow> 'm lookup_table \<Rightarrow> bool" where
  "writes_table te t \<longleftrightarrow> (case te_table_serialize te t of
     Inr d \<Rightarrow> te_table_deserialize te d = Ok t | Inl _ \<Rightarrow> False)"

section \<open>Recipients\<close>

lemma set_snapshot_recipients:
  "set (snapshot_recipients glob) =
     listed_fee_recipients glob False \<union> listed_fee_recipients glob True \<union>
     (set (g_buyback_fee_recipients glob) - {default_key})"
  by (auto simp: snapshot_recipients_def listed_fee_recipients_def)

lemma drawn_recipients:
  assumes "draw_ok d1" and "draw_ok d2"
    and "pump_fee_recipients_pair d1 d2 glob mayhem = Some (fee, buyback)"
  shows "{fee, buyback} \<subseteq> set (snapshot_recipients glob)"
proof -
  have "fee_recipient_from_pump_global d1 glob mayhem = Some fee"
    "buyback_fee_recipient_from_pump_global d2 glob = Some buyback"
    using assms(3) by (simp_all add: pump_pair_Some)
  then show ?thesis
    using fee_recipient_listed [OF assms(1)] buyback_recipient_listed [OF assms(2)]
    by (cases mayhem) (auto simp: set_snapshot_recipients)
qed

lemma or_insert_run:
  "or_insert k ac (s, out) = (Ok (), s, case out k of None \<Rightarrow> out(k \<mapsto> ac) | Some _ \<Rightarrow> out)"
  by (simp add: or_insert_def run_simps split: option.split)

text \<open>The recipients added to a snapshot, those of the cluster or empty.\<close>

definition with_recipients ::
  "(pubkey \<Rightarrow> account option) \<Rightarrow> pubkey list \<Rightarrow> snapshot \<Rightarrow> snapshot" where
  "with_recipients L ks out =
     (\<lambda>k. if out k = None \<and> k \<in> set ks then Some (unwrap_or (L k) empty_system_account) else out k)"

lemma recipients_each:
  "io_each (\<lambda>(key, maybe_acct). or_insert key (unwrap_or maybe_acct empty_system_account))
     (zip ks (map L ks)) (s, out) = (Ok (), s, with_recipients L ks out)"
proof (induction ks arbitrary: out)
  case Nil
  then show ?case by (simp add: with_recipients_def)
next
  case (Cons k ks)
  have "with_recipients L ks (case out k of
      None \<Rightarrow> out(k \<mapsto> unwrap_or (L k) empty_system_account) | Some _ \<Rightarrow> out) =
    with_recipients L (k # ks) out"
    by (cases "out k") (auto simp: with_recipients_def fun_eq_iff)
  with Cons.IH show ?case by (simp add: io_bind_apply or_insert_run)
qed

lemma clone_recipients_run:
  assumes "serves_batches r L"
  obtains s' where "clone_recipients r ks (s, out) = (Ok (), s', with_recipients L ks out)"
proof (cases "ks = []")
  case True
  then show ?thesis
    using that [of s] by (simp add: clone_recipients_def io_when_def with_recipients_def)
next
  case False
  obtain res s' where c: "rpc_get_multiple r ks s = (res, s')" by fastforce
  moreover have "fst (rpc_get_multiple r ks s) = Ok (map L ks)"
    using assms by (simp add: serves_batches_def)
  ultimately have "tool_call (rpc_get_multiple r ks) (s, out) = (Ok (map L ks), s', out)"
    by (simp add: tool_call_def)
  with False show ?thesis
    by (intro that [of s']) (simp add: clone_recipients_def io_when_def io_bind_apply recipients_each)
qed

section \<open>The patched global account\<close>

lemma patched_global_fields:
  assumes "patched_global glob = Ok p"
  shows "USDC_QUOTE_MINT \<in> set (g_whitelisted_quote_mints p)" and "2 \<le> g_max_curve_depth p"
    and "g_max_curve_depth glob \<le> g_max_curve_depth p"
    and "arrays_ok p = arrays_ok glob"
    and "p\<lparr>g_whitelisted_quote_mints := g_whitelisted_quote_mints glob,
      g_max_curve_depth := g_max_curve_depth glob\<rparr> = glob"
  using assms
  by (auto simp: patched_global_def arrays_ok_def neq_Nil_conv split: if_splits)

lemma patched_global_Ok: "g_whitelisted_quote_mints glob \<noteq> [] \<Longrightarrow> \<exists>p. patched_global glob = Ok p"
  by (simp add: patched_global_def)

section \<open>A finished snapshot\<close>

lemma io_bind_Ok:
  "io_bind m k \<sigma> = (Ok v, \<sigma>') \<longleftrightarrow> (\<exists>x \<sigma>1. m \<sigma> = (Ok x, \<sigma>1) \<and> k x \<sigma>1 = (Ok v, \<sigma>'))"
  by (cases "m \<sigma>"; cases "fst (m \<sigma>)") (auto simp: io_bind_apply)

lemma io_bind_OkE:
  assumes "io_bind m k \<sigma> = (Ok v, \<sigma>')"
  obtains x \<sigma>1 where "m \<sigma> = (Ok x, \<sigma>1)" and "k x \<sigma>1 = (Ok v, \<sigma>')"
  using assms by (auto simp: io_bind_Ok)

lemma top_up_simps [simp]:
  "ac_data (top_up te ac) = ac_data ac" "ac_owner (top_up te ac) = ac_owner ac"
  "read_mint te (top_up te ac) = read_mint te ac"
  "read_token te (top_up te ac) = read_token te ac"
  by (simp_all add: top_up_def read_mint_def read_token_def)

text \<open>What the local validator needs of a snapshot: accounts of the pump programs are rent exempt,
  the USDC quote mint is the synthetic one, under the authority the tests sign with, and a
  \<open>QuoteControl\<close> exists.\<close>

definition rent_exempt :: "('t, 'm, 'z) tool_env_scheme \<Rightarrow> account \<Rightarrow> bool" where
  "rent_exempt te ac \<longleftrightarrow> ac_lamports ac \<ge> te_minimum_balance te (length (ac_data ac))"

definition snapshot_ready ::
  "'e pda_env_scheme \<Rightarrow> ('t, 'm, 'z) tool_env_scheme \<Rightarrow> snapshot \<Rightarrow> bool" where
  "snapshot_ready e te out \<longleftrightarrow>
     (\<forall>ac \<in> ran out. ac_owner ac \<in> {PUMP_PROGRAM_ID, PUMP_AMM_PROGRAM_ID} \<longrightarrow> rent_exempt te ac) \<and>
     account_reads out (read_mint te) USDC_QUOTE_MINT = Some synthetic_mint \<and>
     out (fst (pump_quote_control e)) \<noteq> None"

lemma synthetic_tail_ready:
  assumes laws: "token_layouts_ok te"
    and m: "synthesize_quote_mint te (s, out) = (Ok (), \<sigma>1)"
    and q: "synthesize_quote_control e te \<sigma>1 = (Ok (), \<sigma>2)"
    and t: "top_up_rent te \<sigma>2 = (Ok (), s', out')"
  shows "snapshot_ready e te out'"
proof -
  obtain d where d: "te_pack_mint te synthetic_mint (replicate (te_mint_len te) 0) = Ok d"
    "te_unpack_mint te d = Ok synthetic_mint"
    using pack_mint_reads [OF laws, of synthetic_mint] by (auto simp: synthetic_mint_def)
  define ac where "ac = \<lparr>ac_lamports = te_minimum_balance te (te_mint_len te), ac_data = d,
    ac_owner = SPL_TOKEN_PROGRAM_ID, ac_executable = False, ac_rent_epoch = 0\<rparr>"
  have "synthesize_quote_mint te (s, out) = (Ok (), s, out(USDC_QUOTE_MINT \<mapsto> ac))"
    using d(1) by (simp add: synthesize_quote_mint_def run_simps ac_def)
  with m have m': "\<sigma>1 = (s, out(USDC_QUOTE_MINT \<mapsto> ac))" by simp
  obtain s2 out2 where \<sigma>2: "\<sigma>2 = (s2, out2)" by (cases \<sigma>2)
  have out': "out' = (\<lambda>k. map_option (top_up te) (out2 k))"
    using t by (simp add: \<sigma>2 top_up_rent_def)
  have "out2 USDC_QUOTE_MINT = Some ac" "out2 (fst (pump_quote_control e)) \<noteq> None"
    using q by (auto simp: m' \<sigma>2 synthesize_quote_control_def run_simps split: if_splits sum.splits)
  moreover have "read_mint te ac = Ok synthetic_mint"
    using d(2) by (simp add: read_mint_def ac_def program_id_defs)
  moreover have "rent_exempt te (top_up te ac')"
    if "ac_owner ac' \<in> {PUMP_PROGRAM_ID, PUMP_AMM_PROGRAM_ID}" for ac'
    using that by (auto simp: rent_exempt_def top_up_def)
  ultimately show ?thesis
    by (auto simp: snapshot_ready_def out' account_reads_def ran_def)
qed

end
