(* ===== verification/Sample_Run.thy ===== *)
theory Sample_Run
  imports Sample_Tool Snapshot_Stages
begin

text \<open>
  A run of the snapshot tool to evaluate its properties on: every address of the cluster holds an
  account of the SPL Token program, no two addresses of the fixed accounts are the same, and every
  curve is an open one quoted in USDC, so the run copies without re-keying.
\<close>

section \<open>Steps that succeed\<close>

text \<open>On a snapshot that holds the keys \<open>D\<close>, the step returns and keeps them.\<close>

definition keeps :: "pubkey set \<Rightarrow> ('s, 'a) tool \<Rightarrow> bool" where
  "keeps D m \<longleftrightarrow> (\<forall>s out. D \<subseteq> dom out \<longrightarrow>
     (\<exists>v s' out'. m (s, out) = (Ok v, s', out') \<and> D \<subseteq> dom out'))"

lemma keepsD: "keeps D m \<Longrightarrow> D \<subseteq> dom out \<Longrightarrow> \<exists>v s' out'. m (s, out) = (Ok v, s', out')"
  unfolding keeps_def by blast

lemma keeps_io: "keeps D (io (Ok v))"
  by (simp add: keeps_def)

lemma keeps_bind:
  assumes "keeps D m" and "\<And>v. keeps D (k v)"
  shows "keeps D (io_bind m k)"
  unfolding keeps_def
proof (intro allI impI)
  fix s and out :: snapshot
  assume "D \<subseteq> dom out"
  then obtain v s1 out1 where "m (s, out) = (Ok v, s1, out1)" "D \<subseteq> dom out1"
    using assms(1) unfolding keeps_def by blast
  then show "\<exists>v s' out'. io_bind m k (s, out) = (Ok v, s', out') \<and> D \<subseteq> dom out'"
    using assms(2) [of v] unfolding keeps_def by (simp add: io_bind_apply)
qed

lemma keeps_insert: "keeps D (out_insert k ac)"
  by (auto simp: keeps_def)

lemma keeps_get: "keeps D (out_get k)"
  by (simp add: keeps_def)

lemma keeps_get_expected: "k \<in> D \<Longrightarrow> keeps D (out_expect (out_get k))"
  by (auto simp: keeps_def out_expect_run subset_iff)

lemma keeps_clone_one:
  assumes "\<And>k. L k \<noteq> None"
  shows "keeps D (clone_one (still_rpc L) k must)"
  unfolding keeps_def
proof (intro allI impI)
  fix s :: unit and out :: snapshot
  obtain ac where "L k = Some ac" using assms by blast
  moreover assume "D \<subseteq> dom out"
  ultimately show "\<exists>v s' out'. clone_one (still_rpc L) k must (s, out) = (Ok v, s', out') \<and>
      D \<subseteq> dom out'"
    by (cases "out k")
       (auto simp: clone_one_def io_bind_apply tool_call_def still_rpc_def)
qed

lemma keeps_clone_expected:
  assumes "\<And>k. L k \<noteq> None"
  shows "keeps D (out_expect (clone_one (still_rpc L) k must))"
  unfolding keeps_def
proof (intro allI impI)
  fix s :: unit and out :: snapshot
  obtain ac where "L k = Some ac" using assms by blast
  moreover assume "D \<subseteq> dom out"
  ultimately show "\<exists>v s' out'. out_expect (clone_one (still_rpc L) k must) (s, out) =
      (Ok v, s', out') \<and> D \<subseteq> dom out'"
    by (cases "out k")
       (auto simp: clone_one_def out_expect_run io_bind_apply tool_call_def still_rpc_def)
qed

lemma keeps_each: "(\<And>x. keeps D (f x)) \<Longrightarrow> keeps D (io_each f xs)"
  by (induction xs) (simp_all add: keeps_io keeps_bind)

lemma keeps_each_in: "(\<And>x. x \<in> set xs \<Longrightarrow> keeps D (f x)) \<Longrightarrow> keeps D (io_each f xs)"
  by (induction xs) (simp_all add: keeps_io keeps_bind)

section \<open>The sample run\<close>

lemma fixed_keys_mix:
  "map (\<lambda>(_, k, _, _). k) (fixed_pdas mix_env) =
     [1817443005017345439075724628361473735180878235462271384018304648922983410556,
      1817443005017345439075724628361473767634506575894266120291080421542735167113,
      1817443005017345439075724628361473735180880454598059046827848856035524656777,
      1817443005017346088276024164158041531463352575911342431661532726611739916674,
      50314268550916932517072142494855694031252233789326615266223230562036732048597,
      1817443005017345439075724628361473735180878244451398234706153024755320076668,
      16393890358859694498799025035857339866452455455953672900709095302929563476624,
      16393890358859694498799025035857339898906083788191607861596903359884856552866,
      16393890358859695147999324571653907662734929788208684172967355664953861302427,
      55173084335531048870313242630687649408342759526759062513325171541484105843848,
      195237781196058902592552092171464002911163773947723797800042604098897765863177,
      7012074400848221567846683017535760651968355258512132957634829319318177160796,
      7012074400848221567846683017535760651968355250318073184379279960152300428637,
      42367006112956232156344818711421454419174393570473629828955563093166125838594,
      114100541097854749455328997791210380467449923951342820815123690882590920843850,
      27785928215767850324312285287442866517355504167384160474017830921590564266737,
      29555267933980536489500274975650497092513243748647118716558015509797207118600,
      110395626395972806983626875024740789938075186612635520869131398180051404645831,
      77748755689495539433763255465644623441730954260759047223313653871480357181808,
      83425005138972712743890305801226304937472443478464691603569059495939218908383,
      109819661078252702565536346270089269873548916703731553119590356443666815140573,
      48292815395202961186890299852789464291268875029788325637790194018464301523341,
      77052544153640939340588711666812816388502385015376572205037139078651057808714,
      76122330107228108585470555182201867114225035628601521858268727121849947127130,
      34654230823607935536898176710052725372998776555274178349516458609300088269088,
      31807617963183463526873185418885532083880806187876494547732084310341845562862,
      91251865114018336456646993295713683965045068817574663799639109553508118399540,
      2945448100360698612852605716637635054990971538316618265478857923193688176775,
      2368208620747851258356087769254822372301326876816393901805484632263839071571]"
  by (simp add: fixed_pdas_def mix_keys pump_global_def pump_event_authority_def
      pump_mint_authority_def pump_global_volume_accumulator_def pump_fee_config_def
      pump_quote_control_def amm_global_config_def amm_event_authority_def
      amm_global_volume_accumulator_def amm_fee_config_def agent_global_config_def
      mayhem_global_params_def mayhem_sol_vault_def DEVNET_ALT_def MAINNET_ALT_def
      RAYDIUM_POOL_def RAYDIUM_AMM_AUTHORITY_def RAYDIUM_OPEN_ORDERS_def
      RAYDIUM_TARGET_ORDERS_def RAYDIUM_WSOL_VAULT_def RAYDIUM_USDC_VAULT_def
      RAYDIUM_MARKET_def RAYDIUM_MARKET_AUTHORITY_def RAYDIUM_MARKET_BASE_VAULT_def
      RAYDIUM_MARKET_QUOTE_VAULT_def RAYDIUM_MARKET_BIDS_def RAYDIUM_MARKET_ASKS_def
      SRM_MINT_def MSRM_MINT_def)

definition run_codecs :: codecs where
  "run_codecs = sample_codecs\<lparr>bonding_curve_codec :=
     const_codec (sample_curve\<lparr>bc_quote_mint := USDC_QUOTE_MINT\<rparr>)\<rparr>"

definition run_rpc :: "unit rpc" where
  "run_rpc = still_rpc (\<lambda>_. Some (held SPL_TOKEN_PROGRAM_ID []))"

lemma run_decodes [simp]:
  "decode_bonding_curve run_codecs d = Ok (sample_curve\<lparr>bc_quote_mint := USDC_QUOTE_MINT\<rparr>)"
  "decode_global run_codecs d = Ok sample_global"
  "wrapper_try_serialize (global_codec run_codecs) g = Ok []"
  by (simp_all add: decode_bonding_curve_def decode_global_def decode_def wrapper_try_deserialize_def
      wrapper_try_serialize_def run_codecs_def sample_codecs_def const_codec_def)

lemma keeps_run_clone:
  "keeps D (clone_one run_rpc k must)" "keeps D (out_expect (clone_one run_rpc k must))"
  by (simp_all add: run_rpc_def keeps_clone_one keeps_clone_expected)

lemma keeps_vault:
  "keeps D (clone_creator_vault_quote_ata mix_env sample_tool run_rpc vault quote quote)"
  unfolding clone_creator_vault_quote_ata_def Let_def
  by (intro keeps_bind keeps_run_clone) (simp add: keeps_io)

lemma keeps_sharing: "keeps D (clone_sharing_config mix_env sample_tool run_rpc mint quote)"
  unfolding clone_sharing_config_def Let_def
  by (intro keeps_bind keeps_run_clone)
     (auto simp: decode_sharing_config_def decode_def sample_tool_def keeps_io keeps_get
       split: option.split intro!: keeps_bind)

lemma keeps_fixture: "keeps D (clone_fixture_mint mix_env run_codecs sample_tool run_rpc fixture)"
  by (simp add: clone_fixture_mint_def Let_def io_when_def sample_curve_def default_bonding_curve_def keeps_io)
     (intro keeps_bind keeps_run_clone keeps_vault keeps_sharing keeps_io)

text \<open>The fixed accounts: all of them are fetched.\<close>

lemma insert_fetched_at:
  "insert_fetched ks (map L ks) m k = (if k \<in> set ks then Some (L k) else m k)"
  by (induction ks arbitrary: m) (auto simp: insert_fetched_def)

lemma load_fixed_all:
  assumes "distinct (map (\<lambda>x. fst (snd x)) labeled)"
    and "\<And>k. k \<in> set (map (\<lambda>x. fst (snd x)) labeled) \<Longrightarrow> by_key k = Some (Some ac)"
  shows "\<exists>out'. load_fixed labeled by_key ga alts (s, out) =
      (Ok (if \<exists>x \<in> set labeled. fst x = ''pump:global'' then Some ac else ga,
           alts @ map (\<lambda>x. fst (snd x)) (filter (\<lambda>x. take 4 (fst x) = ''alt:'') labeled)), s, out') \<and>
      dom out \<union> set (map (\<lambda>x. fst (snd x)) labeled) \<subseteq> dom out'"
  using assms
proof (induction labeled arbitrary: by_key ga alts out)
  case (Cons x labeled)
  obtain l k must m where x: "x = (l, k, must, m)" by (cases x)
  with Cons.prems have k: "by_key k = Some (Some ac)" by simp
  have "distinct (map (\<lambda>x. fst (snd x)) labeled)"
    "\<And>k'. k' \<in> set (map (\<lambda>x. fst (snd x)) labeled) \<Longrightarrow> (by_key(k := None)) k' = Some (Some ac)"
    using Cons.prems x by auto
  from Cons.IH [where by_key = "by_key(k := None)", OF this] obtain out' where
    "load_fixed labeled (by_key(k := None)) (if l = ''pump:global'' then Some ac else ga)
      (if take 4 l = ''alt:'' then alts @ [k] else alts) (s, out(k \<mapsto> ac)) =
     (Ok (if \<exists>x \<in> set labeled. fst x = ''pump:global'' then Some ac
          else if l = ''pump:global'' then Some ac else ga,
        (if take 4 l = ''alt:'' then alts @ [k] else alts) @
        map (\<lambda>x. fst (snd x)) (filter (\<lambda>x. take 4 (fst x) = ''alt:'') labeled)), s, out')"
    "dom (out(k \<mapsto> ac)) \<union> set (map (\<lambda>x. fst (snd x)) labeled) \<subseteq> dom out'"
    by blast
  then show ?case
    using k by (intro exI [of _ out']) (simp add: x io_bind_apply)
qed simp

lemma fetch_fixed_still:
  obtains by_key where
    "fetch_fixed (still_rpc L) (still_rpc L) labeled (s, out) = (Ok by_key, s, out)"
    and "\<And>k. k \<in> set (map (\<lambda>x. fst (snd x)) labeled) \<Longrightarrow> by_key k = Some (L k)"
proof -
  define ks0 ks1 where "ks0 = map (\<lambda>(_, k, _, _). k) (filter (\<lambda>(_, _, _, m). \<not> m) labeled)"
    and "ks1 = map (\<lambda>(_, k, _, _). k) (filter (\<lambda>(_, _, _, m). m) labeled)"
  define m0 where "m0 = (if ks0 = [] then Map.empty else insert_fetched ks0 (map L ks0) Map.empty)"
  define m1 where "m1 = (if ks1 = [] then m0 else insert_fetched ks1 (map L ks1) m0)"
  have "fetch_fixed (still_rpc L) (still_rpc L) labeled (s, out) = (Ok m1, s, out)"
    by (simp add: fetch_fixed_def Let_def io_bind_apply tool_call_def still_rpc_def m0_def m1_def
        flip: ks0_def ks1_def)
  moreover have "m1 k = Some (L k)" if "k \<in> set (map (\<lambda>x. fst (snd x)) labeled)" for k
  proof -
    have "k \<in> set ks0 \<or> k \<in> set ks1"
      using that by (force simp: ks0_def ks1_def)
    then show ?thesis by (auto simp: m1_def m0_def insert_fetched_at)
  qed
  ultimately show ?thesis by (rule that)
qed

lemma out_expect_some: "out_expect (io (Ok (Some x))) = io (Ok x)"
  unfolding out_expect_def io_bind_io option.case ..

text \<open>The stages after it.\<close>

lemma keeps_io_Ok: "r = Ok v \<Longrightarrow> keeps D (io r)"
  by (simp add: keeps_io)

lemma read_keys_total: "32 * n \<le> length d \<Longrightarrow> \<exists>ks bs. read_keys n d = Ok (ks, bs)"
proof (induction n arbitrary: d)
  case (Suc n)
  then have "32 * n \<le> length (drop 32 d)" by simp
  then obtain ks bs where "read_keys n (drop 32 d) = Ok (ks, bs)"
    using Suc.IH by blast
  with Suc.prems show ?case by (simp add: read_keys.simps read_key_def)
qed (simp add: read_keys.simps)

lemma keeps_table: "keeps D (io (lib (te_table_deserialize sample_tool d)))"
proof -
  obtain ks bs where "read_keys (length d div 32) d = Ok (ks, bs)"
    using read_keys_total [of "length d div 32" d] by auto
  then show ?thesis by (simp add: sample_tool_def lib_def keeps_io)
qed

lemma keeps_rewrite_table: "keeps D (io (rewrite_alt_active_from_slot_0 sample_tool ac addresses))"
proof -
  obtain ks bs where "read_keys (length (ac_data ac) div 32) (ac_data ac) = Ok (ks, bs)"
    using read_keys_total [of "length (ac_data ac) div 32" "ac_data ac"] by auto
  then show ?thesis
    by (simp add: rewrite_alt_active_from_slot_0_def sample_tool_def lib_def keeps_io)
qed

lemma keeps_merge_tables: "set keys \<subseteq> D \<Longrightarrow> keeps D (merge_tables sample_tool keys acc)"
  by (induction keys arbitrary: acc)
     (auto intro!: keeps_bind keeps_get_expected keeps_table simp: keeps_io)

lemma keeps_merge: "set keys \<subseteq> D \<Longrightarrow> keeps D (merge_alts sample_tool keys)"
  unfolding merge_alts_def io_when_def Let_def
  by (auto intro!: keeps_bind keeps_merge_tables keeps_each_in keeps_get_expected
      keeps_rewrite_table keeps_insert simp: keeps_io)

lemma keeps_patch_global:
  "fst (pump_global mix_env) \<in> D \<Longrightarrow> keeps D (patch_global mix_env run_codecs sample_global)"
proof -
  obtain p where "patched_global sample_global = Ok p"
    using patched_global_Ok [of sample_global] by (auto simp: sample_global_def)
  moreover assume "fst (pump_global mix_env) \<in> D"
  ultimately show ?thesis
    by (auto simp: patch_global_def Let_def intro!: keeps_bind keeps_get_expected keeps_insert)
qed

lemma keeps_recipients: "keeps D (clone_recipients run_rpc ks)"
  unfolding keeps_def
proof (intro allI impI)
  fix s :: unit and out :: snapshot
  assume "D \<subseteq> dom out"
  moreover obtain s' where "clone_recipients run_rpc ks (s, out) =
      (Ok (), s', with_recipients (\<lambda>_. Some (held SPL_TOKEN_PROGRAM_ID [])) ks out)"
    using clone_recipients_run [OF still_serves(2)] unfolding run_rpc_def by blast
  ultimately show "\<exists>v s' out'. clone_recipients run_rpc ks (s, out) = (Ok v, s', out') \<and>
      D \<subseteq> dom out'"
    by (auto simp: with_recipients_def)
qed

lemma keeps_synthetic:
  "keeps D (synthesize_quote_mint sample_tool)" "keeps D (synthesize_quote_control e sample_tool)"
  "keeps D (top_up_rent te)"
  by (auto simp: synthesize_quote_mint_def synthesize_quote_control_def sample_tool_def Let_def
      keeps_io intro!: keeps_bind keeps_insert keeps_get)
     (auto simp: keeps_def top_up_rent_def)

lemma build_snapshot_succeeds:
  "\<exists>s' out'. build_snapshot mix_env run_codecs sample_tool run_rpc run_rpc ((), Map.empty) =
     (Ok (), s', out')"
proof -
  let ?ac = "held SPL_TOKEN_PROGRAM_ID []" and ?keys = "set (map (\<lambda>x. fst (snd x)) (fixed_pdas mix_env))"
  have proj: "(\<lambda>(_, k, _, _). k) = (\<lambda>x :: string \<times> pubkey \<times> bool \<times> bool. fst (snd x))"
    by (simp add: fun_eq_iff split: prod.split)
  have d: "distinct (map (\<lambda>x. fst (snd x)) (fixed_pdas mix_env))"
    unfolding fixed_keys_mix [unfolded proj]
    by (rule conjunct1 [OF iffD1 [OF distinct_map [where f = uint]]]) simp
  obtain by_key where f: "fetch_fixed run_rpc run_rpc (fixed_pdas mix_env) ((), Map.empty) =
      (Ok by_key, (), Map.empty)"
    and all: "\<And>k. k \<in> ?keys \<Longrightarrow> by_key k = Some (Some ?ac)"
    using fetch_fixed_still [of "\<lambda>_. Some ?ac" "fixed_pdas mix_env" "()" Map.empty]
    unfolding run_rpc_def by blast
  obtain out1 where l: "load_fixed (fixed_pdas mix_env) by_key None [] ((), Map.empty) =
      (Ok (Some ?ac, [DEVNET_ALT, MAINNET_ALT]), (), out1)"
    and dom1: "?keys \<subseteq> dom out1"
    using load_fixed_all [where by_key = by_key and ga = None and alts = "[]" and s = "()"
        and out = Map.empty, OF d all]
    by (auto simp: fixed_pdas_def)
  have "set [DEVNET_ALT, MAINNET_ALT] \<subseteq> ?keys" "fst (pump_global mix_env) \<in> ?keys"
    by (simp_all add: fixed_pdas_def)
  then have "keeps ?keys (io_bind (merge_alts sample_tool [DEVNET_ALT, MAINNET_ALT]) (\<lambda>_.
      io_bind (patch_global mix_env run_codecs sample_global) (\<lambda>_.
      io_bind (clone_recipients run_rpc (snapshot_recipients sample_global)) (\<lambda>_.
      io_bind (io_each (clone_fixture_mint mix_env run_codecs sample_tool run_rpc) FIXTURE_MINTS) (\<lambda>_.
      io_bind (synthesize_quote_mint sample_tool) (\<lambda>_.
      io_bind (synthesize_quote_control mix_env sample_tool) (\<lambda>_. top_up_rent sample_tool)))))))"
    (is "keeps _ ?rest")
    by (intro keeps_bind keeps_merge keeps_patch_global keeps_recipients keeps_each keeps_fixture
        keeps_synthetic)
  from keepsD [OF this dom1, of "()"]
  obtain v s' out' where "?rest ((), out1) = (Ok v, s', out')" by (elim exE)
  then show ?thesis
    by (simp add: build_snapshot_def io_bind_apply [of "fetch_fixed r m l" for r m l] f
        io_bind_apply [of "load_fixed l b g a" for l b g a] l out_expect_some)
qed

end
