(* ===== verification/Text_Parsing.thy ===== *)
theory Text_Parsing
  imports Prelude
begin

text \<open>
  \<open>str::parse\<close> of Rust's unsigned integers, on strings of code points below 256.
\<close>

definition digit_value :: "char \<Rightarrow> nat option" where
  "digit_value c = (let n = of_char c :: nat in if 48 \<le> n \<and> n \<le> 57 then Some (n - 48) else None)"

fun digits_value :: "nat \<Rightarrow> string \<Rightarrow> nat option" where
  "digits_value acc [] = Some acc"
| "digits_value acc (c # cs) =
     (case digit_value c of None \<Rightarrow> None | Some d \<Rightarrow> digits_value (10 * acc + d) cs)"

text \<open>An optional plus sign and at least one digit, of a value that fits the width.\<close>

definition parse_unsigned :: "string \<Rightarrow> 'w::len word option" where
  "parse_unsigned s =
     (let digits = (case s of c # cs \<Rightarrow> if c = CHR ''+'' then cs else s | [] \<Rightarrow> s)
      in if digits = [] then None
         else case digits_value 0 digits of None \<Rightarrow> None
              | Some n \<Rightarrow> if n < 2 ^ LENGTH('w) then Some (word_of_nat n) else None)"

definition is_digit :: "char \<Rightarrow> bool" where
  "is_digit c \<longleftrightarrow> digit_value c \<noteq> None"

lemma digits_value_append:
  "digits_value acc (xs @ ys) =
     (case digits_value acc xs of None \<Rightarrow> None | Some n \<Rightarrow> digits_value n ys)"
  by (induction acc xs rule: digits_value.induct) (auto split: option.split)

lemma digits_value_digits: "list_all is_digit s \<Longrightarrow> \<exists>n. digits_value acc s = Some n"
  by (induction acc s rule: digits_value.induct) (auto simp: is_digit_def)

end
