(* ===== verification/Local_Validator.thy ===== *)
theory Local_Validator
  imports Snapshot Text_Parsing
begin

text \<open>
  What the local validator starts with (\<open>src/src/bin/local_validator\<close>: \<open>main.rs\<close>,
  \<open>utils.rs\<close>, \<open>pump_config.rs\<close>). Files, the faucet and the validator process are left out.
\<close>

section \<open>Configuration\<close>

record account_config_info =
  aci_address :: pubkey
  aci_data :: "byte list"
  aci_owner :: pubkey

definition aci_system :: "pubkey \<Rightarrow> account_config_info" where
  "aci_system address = \<lparr>aci_address = address, aci_data = [], aci_owner = SYSTEM_PROGRAM_ID\<rparr>"

definition aci_from_account :: "pubkey \<Rightarrow> account \<Rightarrow> account_config_info" where
  "aci_from_account address ac =
     \<lparr>aci_address = address, aci_data = ac_data ac, aci_owner = ac_owner ac\<rparr>"

record programs_to_add =
  pta_name :: string
  pta_program_id :: pubkey

definition pump_programs_to_add :: "programs_to_add list" where
  "pump_programs_to_add = [
     \<lparr>pta_name = ''pump'', pta_program_id = PUMP_PROGRAM_ID\<rparr>,
     \<lparr>pta_name = ''pump_amm'', pta_program_id = PUMP_AMM_PROGRAM_ID\<rparr>,
     \<lparr>pta_name = ''pump_fees'', pta_program_id = FEE_PROGRAM_ID\<rparr>,
     \<lparr>pta_name = ''mayhem_program'', pta_program_id = MAYHEM_PROGRAM_ID\<rparr>,
     \<lparr>pta_name = ''mpl_token_metadata'', pta_program_id = MPL_TOKEN_METADATA_PROGRAM_ID\<rparr>,
     \<lparr>pta_name = ''pump_agent_payments'', pta_program_id = AGENT_PAYMENTS_PROGRAM_ID\<rparr>,
     \<lparr>pta_name = ''terminal_proxy'',
      pta_program_id = 0x0d3b6d691278e9cfe62e2213287c440f22ad9cb8f6aece525b5ef490e7e74188\<rparr>,
     \<lparr>pta_name = ''pump_stables_router'',
      pta_program_id = 0x51aabfbe2a1bd783d1921fe6b7ad6081df1790dbd81da0c91d634f10990937ac\<rparr>,
     \<lparr>pta_name = ''serum_dex'',
      pta_program_id = 0x0d0751a8282da61305fe299c37b998e58471db1135037310f8be1045a60af6ee\<rparr>,
     \<lparr>pta_name = ''raydium_amm_v4'',
      pta_program_id = 0x4bd949c43602c33f207790ed16a3524ca1b9975cf121a2a90cffec7df8b68acd\<rparr>]"

definition known_wallets :: "pubkey list" where
  "known_wallets = []"

definition known_lookup_tables :: "pubkey set" where
  "known_lookup_tables = {DEVNET_ALT, MAINNET_ALT}"

definition DEFAULT_ACCOUNT_LAMPORTS :: u64 where
  "DEFAULT_ACCOUNT_LAMPORTS = 10000000000000"

definition env_port :: "env_vars \<Rightarrow> string \<Rightarrow> u16 \<Rightarrow> u16" where
  "env_port env var default_port =
     (case env var of None \<Rightarrow> default_port
      | Some p \<Rightarrow> (case (parse_unsigned p :: u16 option) of None \<Rightarrow> default_port | Some port \<Rightarrow> port))"

section \<open>Loading a snapshot\<close>

text \<open>The entries of the dump come in the iteration order of its map. A lookup table that cannot
  be read or written back keeps its data.\<close>

definition rewrite_lookup_table ::
  "('t, 'm, 'z) tool_env_scheme \<Rightarrow> pubkey \<times> account \<Rightarrow> (pubkey \<times> account) or_panic" where
  "rewrite_lookup_table te entry =
     (case entry of (key, ac) \<Rightarrow>
        if key \<notin> known_lookup_tables then Ok (key, ac)
        else case te_table_deserialize te (ac_data ac) of
            Inr table \<Rightarrow>
              (case te_table_serialize te (table\<lparr>lt_meta := te_default_meta te\<rparr>) of
                 Inr serialized \<Rightarrow> Ok (key, ac\<lparr>ac_data := serialized\<rparr>)
               | Inl (Error _) \<Rightarrow> Ok (key, ac)
               | Inl Panic \<Rightarrow> panic)
          | Inl (Error _) \<Rightarrow> Ok (key, ac)
          | Inl Panic \<Rightarrow> panic)"

primrec rewrite_lookup_tables_active_from_slot_zero ::
  "('t, 'm, 'z) tool_env_scheme \<Rightarrow> (pubkey \<times> account) list \<Rightarrow>
     ((pubkey \<times> account) list) or_panic" where
  "rewrite_lookup_tables_active_from_slot_zero te [] = Ok []"
| "rewrite_lookup_tables_active_from_slot_zero te (x # xs) =
     and_then (rewrite_lookup_table te x) (\<lambda>y.
       map_res ((#) y) (rewrite_lookup_tables_active_from_slot_zero te xs))"

definition validator_account :: "pubkey \<Rightarrow> account_config_info \<times> u64 option \<Rightarrow> pubkey \<times> account" where
  "validator_account faucet_pubkey entry =
     (case entry of (info, lamports) \<Rightarrow>
        (aci_address info,
         \<lparr>ac_lamports = (case lamports of Some l \<Rightarrow> l
            | None \<Rightarrow> if aci_address info = faucet_pubkey then DEFAULT_ACCOUNT_LAMPORTS * 1000
                      else DEFAULT_ACCOUNT_LAMPORTS),
          ac_data = aci_data info, ac_owner = aci_owner info, ac_executable = False,
          ac_rent_epoch = 0\<rparr>))"

text \<open>The calls of \<open>add_account\<close> and \<open>add_program\<close>, in order; the dump, when the file exists,
  is an argument, and so is the directory of the programs.\<close>

definition validator_accounts ::
  "('t, 'm, 'z) tool_env_scheme \<Rightarrow> pubkey \<Rightarrow> (pubkey \<times> account) list option \<Rightarrow>
     ((pubkey \<times> account) list) or_panic"
where
  "validator_accounts te faucet_pubkey dump =
     (let accounts_to_load = (aci_system faucet_pubkey, None)
            # map (\<lambda>wallet. (aci_system wallet, None)) known_wallets
      in and_then (case dump of None \<Rightarrow> Ok []
                   | Some accounts \<Rightarrow> rewrite_lookup_tables_active_from_slot_zero te accounts)
           (\<lambda>accounts.
         let accounts_to_load = accounts_to_load
               @ map (\<lambda>(key, ac). (aci_from_account key ac, None)) accounts
         in Ok (map (validator_account faucet_pubkey) accounts_to_load)))"

definition validator_programs :: "string \<Rightarrow> (string \<times> pubkey) list" where
  "validator_programs programs_path =
     map (\<lambda>p. (programs_path @ ''/'' @ pta_name p, pta_program_id p)) pump_programs_to_add"

section \<open>What the validator loads\<close>

text \<open>An entry of the dump as the validator adds it: its data, with the metadata of a known lookup
  table reset, and its owner, but a balance of its own.\<close>

definition loads_as :: "pubkey \<Rightarrow> pubkey \<times> account \<Rightarrow> pubkey \<times> account \<Rightarrow> bool" where
  "loads_as faucet_pubkey entry added \<longleftrightarrow>
     fst added = fst entry \<and> ac_owner (snd added) = ac_owner (snd entry) \<and>
     (ac_data (snd added) = ac_data (snd entry) \<or> fst entry \<in> known_lookup_tables) \<and>
     ac_lamports (snd added) = (if fst entry = faucet_pubkey then 10000000000000000
       else 10000000000000) \<and> \<not> ac_executable (snd added)"

lemma rewritten_entry:
  "rewrite_lookup_table te entry = Ok entry' \<Longrightarrow>
     fst entry' = fst entry \<and> ac_owner (snd entry') = ac_owner (snd entry) \<and>
     (ac_data (snd entry') = ac_data (snd entry) \<or> fst entry \<in> known_lookup_tables)"
  by (auto simp: rewrite_lookup_table_def split: prod.splits if_splits sum.splits fault.splits)

lemma added_entry:
  "rewrite_lookup_table te entry = Ok (key, ac) \<Longrightarrow>
     loads_as faucet entry (validator_account faucet (aci_from_account key ac, None))"
  using rewritten_entry [of te entry "(key, ac)"]
  by (auto simp: loads_as_def validator_account_def aci_from_account_def DEFAULT_ACCOUNT_LAMPORTS_def)

lemma added_entries:
  "rewrite_lookup_tables_active_from_slot_zero te dump = Ok entries \<Longrightarrow>
     list_all2 (loads_as faucet) dump
       (map (\<lambda>(key, ac). validator_account faucet (aci_from_account key ac, None)) entries)"
  by (induction dump arbitrary: entries) (auto simp: res_simps added_entry)

theorem validator_loads_dump:
  assumes "validator_accounts te faucet (Some dump) = Ok added"
  shows "list_all2 (loads_as faucet) ((faucet, empty_system_account) # dump) added"
proof -
  obtain entries where "rewrite_lookup_tables_active_from_slot_zero te dump = Ok entries"
    and "added = map (validator_account faucet) ((aci_system faucet, None)
      # map (\<lambda>(key, ac). (aci_from_account key ac, None)) entries)"
    using assms by (auto simp: validator_accounts_def known_wallets_def Let_def res_simps)
  then show ?thesis
    using added_entries [of te dump entries faucet]
    by (simp add: case_prod_unfold o_def)
       (simp add: loads_as_def validator_account_def aci_system_def empty_system_account_def
         DEFAULT_ACCOUNT_LAMPORTS_def)
qed

section \<open>Token accounts for the known wallets\<close>

definition DEFAULT_TOKEN_AMOUNT :: u64 where
  "DEFAULT_TOKEN_AMOUNT = 100000000000"

text \<open>\<open>AccountState::Initialized\<close> and \<open>spl_token::state::Account::default()\<close> are arguments
  of the environment below, with the extensions of Token-2022: those of a mint, those they require
  of its accounts, the length and the writes of such an account.\<close>

record ('t, 'x) extension_env =
  xe_initialized :: u8
  xe_default_account :: "'t token_account_scheme"
  xe_mint_extensions :: "byte list \<Rightarrow> (string, 'x list) res"
  xe_required_account_extensions :: "'x list \<Rightarrow> 'x list"
  xe_immutable_owner :: 'x
  xe_account_len :: "'x list \<Rightarrow> (string, nat) res"
  xe_unpack_uninitialized :: "byte list \<Rightarrow> (string, 't token_account_scheme) res"
  xe_init_extension :: "'x \<Rightarrow> byte list \<Rightarrow> (string, byte list) res"
  xe_init_account_type :: "byte list \<Rightarrow> (string, byte list) res"

text \<open>\<open>Result::expect\<close>.\<close>

definition expect_ok :: "('e, 'a) res \<Rightarrow> 'a or_panic" where
  "expect_ok m = (case m of Inr v \<Rightarrow> Ok v | Inl _ \<Rightarrow> panic)"

definition build_spl_token_ata ::
  "('t, 'm, 'z) tool_env_scheme \<Rightarrow> ('t, 'x, 'y) extension_env_scheme \<Rightarrow> pubkey \<Rightarrow> pubkey \<Rightarrow>
     (byte list \<times> pubkey) or_panic"
where
  "build_spl_token_ata te xe mint wallet =
     (let acct = (xe_default_account xe)\<lparr>ta_amount := DEFAULT_TOKEN_AMOUNT, ta_mint := mint,
            ta_owner := wallet, ta_state := xe_initialized xe,
            ta_is_native := (if mint = NATIVE_MINT
              then Some (te_minimum_balance te (te_account_len te)) else None)\<rparr>
      in and_then (expect_ok (te_pack_account te acct (replicate (te_account_len te) 0)))
           (\<lambda>data. Ok (data, SPL_TOKEN_PROGRAM_ID)))"

primrec init_extensions ::
  "('t, 'x, 'y) extension_env_scheme \<Rightarrow> 'x list \<Rightarrow> byte list \<Rightarrow> byte list or_panic" where
  "init_extensions xe [] data = Ok data"
| "init_extensions xe (x # xs) data =
     and_then (expect_ok (xe_init_extension xe x data)) (init_extensions xe xs)"

definition build_token_2022_ata ::
  "('t, 'm, 'z) tool_env_scheme \<Rightarrow> ('t, 'x, 'y) extension_env_scheme \<Rightarrow> account_config_info \<Rightarrow>
     pubkey \<Rightarrow> pubkey \<Rightarrow> (byte list \<times> pubkey) or_panic"
where
  "build_token_2022_ata te xe mint_account mint wallet =
     and_then (expect_ok (te_pod_mint te (aci_data mint_account))) (\<lambda>_.
     and_then (expect_ok (xe_mint_extensions xe (aci_data mint_account))) (\<lambda>mint_extensions.
     let account_extensions =
           xe_required_account_extensions xe mint_extensions @ [xe_immutable_owner xe]
     in and_then (expect_ok (xe_account_len xe account_extensions)) (\<lambda>account_size.
        let data = replicate account_size 0
        in and_then (expect_ok (xe_unpack_uninitialized xe data)) (\<lambda>base.
           let base = base\<lparr>ta_amount := DEFAULT_TOKEN_AMOUNT, ta_mint := mint,
                 ta_owner := wallet, ta_state := xe_initialized xe,
                 ta_is_native := (if mint = NATIVE_MINT
                   then Some (te_minimum_balance te (te_account_len te)) else None),
                 ta_close_authority := None, ta_delegate := None, ta_delegated_amount := 0\<rparr>
           in and_then (init_extensions xe account_extensions (te_pod_write_account te base data))
                (\<lambda>data.
              and_then (expect_ok (xe_init_account_type xe data)) (\<lambda>data.
                Ok (data, SPL_TOKEN_2022_PROGRAM_ID)))))))"

text \<open>\<open>find(|(a, _)| a.address == *mint)\<close>; the accounts pushed for one mint are seen by the next.\<close>

definition create_one_ata ::
  "'e pda_env_scheme \<Rightarrow> ('t, 'm, 'z) tool_env_scheme \<Rightarrow> ('t, 'x, 'y) extension_env_scheme \<Rightarrow>
     pubkey \<Rightarrow> pubkey \<Rightarrow> (account_config_info \<times> u64 option) list \<Rightarrow>
     ((account_config_info \<times> u64 option) list) or_panic"
where
  "create_one_ata e te xe wallet mint accounts_to_load =
     (case find (\<lambda>(a, _). aci_address a = mint) accounts_to_load of
        None \<Rightarrow> Ok accounts_to_load
      | Some (mint_account_info, _) \<Rightarrow>
          let ata = fst (associated_token e wallet (aci_owner mint_account_info) mint)
          in and_then (if aci_owner mint_account_info = SPL_TOKEN_2022_PROGRAM_ID
                       then build_token_2022_ata te xe mint_account_info mint wallet
                       else build_spl_token_ata te xe mint wallet) (\<lambda>(data, own).
               Ok (accounts_to_load
                   @ [(\<lparr>aci_address = ata, aci_data = data, aci_owner = own\<rparr>, None)])))"

primrec create_mint_atas ::
  "'e pda_env_scheme \<Rightarrow> ('t, 'm, 'z) tool_env_scheme \<Rightarrow> ('t, 'x, 'y) extension_env_scheme \<Rightarrow>
     pubkey \<Rightarrow> pubkey list \<Rightarrow> (account_config_info \<times> u64 option) list \<Rightarrow>
     ((account_config_info \<times> u64 option) list) or_panic"
where
  "create_mint_atas e te xe wallet [] accounts_to_load = Ok accounts_to_load"
| "create_mint_atas e te xe wallet (mint # mints) accounts_to_load =
     and_then (create_one_ata e te xe wallet mint accounts_to_load)
       (create_mint_atas e te xe wallet mints)"

primrec create_wallet_associated_token_account ::
  "'e pda_env_scheme \<Rightarrow> ('t, 'm, 'z) tool_env_scheme \<Rightarrow> ('t, 'x, 'y) extension_env_scheme \<Rightarrow>
     pubkey list \<Rightarrow> pubkey list \<Rightarrow> (account_config_info \<times> u64 option) list \<Rightarrow>
     ((account_config_info \<times> u64 option) list) or_panic"
where
  "create_wallet_associated_token_account e te xe mints [] accounts_to_load = Ok accounts_to_load"
| "create_wallet_associated_token_account e te xe mints (wallet # wallets) accounts_to_load =
     and_then (create_mint_atas e te xe wallet mints accounts_to_load)
       (create_wallet_associated_token_account e te xe mints wallets)"

end
