(* ===== verification/Snapshot_Properties.thy ===== *)
theory Snapshot_Properties
  imports Sample_Run Local_Validator
begin

text \<open>
  Properties of the snapshot tool: the finished snapshot, the re-keyed pools, the lookup tables,
  the patched \<open>Global\<close> and the recipients it holds.
\<close>

section \<open>The finished snapshot\<close>

lemma build_snapshot_ready:
  assumes "token_layouts_ok te" and "build_snapshot e cs te r r' \<sigma> = (Ok (), s', out)"
  shows "snapshot_ready e te out"
  using assms(2) unfolding build_snapshot_def
  by (auto elim!: io_bind_OkE split: prod.splits intro: synthetic_tail_ready [OF assms(1)])

text \<open>C37: Whatever the arguments, the environment and the clusters, a snapshot the tool finishes is
  one the local validator can use: every account of the pump programs is rent exempt at its final
  length, the USDC mint is the synthetic mint under the authority the tests sign with, and a
  \<open>QuoteControl\<close> exists.\<close>

theorem finished_snapshot_ready:
  assumes "token_layouts_ok te"
    and "clone_devnet_accounts e cs te connect env args s = (Ok (Some out), s')"
  shows "snapshot_ready e te out"
  using assms build_snapshot_ready
  by (fastforce simp: clone_devnet_accounts_def map_res_Inr split: sum.splits option.splits prod.splits)

theorem finished_snapshot_ready_witness:
  "\<exists>s' out. clone_devnet_accounts mix_env run_codecs sample_tool (\<lambda>_. run_rpc) (\<lambda>_. None)
       [''-n'', ''Devnet ''] () = (Ok (Some out), s') \<and> snapshot_ready mix_env sample_tool out"
proof -
  obtain s' out where run: "build_snapshot mix_env run_codecs sample_tool run_rpc run_rpc
      ((), Map.empty) = (Ok (), s', out)"
    using build_snapshot_succeeds by blast
  have "network_parse ''Devnet '' = Ok Devnet" by code_simp
  then have "clone_devnet_accounts mix_env run_codecs sample_tool (\<lambda>_. run_rpc) (\<lambda>_. None)
      [''-n'', ''Devnet ''] () = (Ok (Some out), s')"
    by (simp add: clone_devnet_accounts_def parse_cli_def snapshot_urls_def run)
  then show ?thesis
    by (intro exI conjI) (assumption, rule finished_snapshot_ready [OF sample_layouts])
qed

section \<open>Re-keyed pools\<close>

text \<open>C38: Re-keying a graduated pool succeeds whenever the pool, its two vaults and its LP mint are in
  the snapshot and readable. Afterwards the canonical USDC pool address of the base mint holds the
  pool with its quote mint, LP mint and vaults changed to the ones derived from that address; the
  vaults hold the amounts they held and are owned by it, the quote vault in USDC; the LP mint has
  it as mint authority; the old addresses are gone and no other account changed.\<close>

theorem rekeyed_pool_consistent:
  fixes out :: snapshot
  assumes laws: "token_layouts_ok te" and codec: "\<And>p. writes_back (pool_codec cs) p"
    and old: "holds_pool cs te out k\<^sub>0 pl tb tq m"
    and cc: "case out (pool_keys e k\<^sub>0 pl quote_mint ! 4) of None \<Rightarrow> True
             | Some ac \<Rightarrow> \<not> isl (read_token te ac)"
    and k: "k = fst (canonical_pool e base_mint USDC_QUOTE_MINT)"
    and new: "new = rekeyed_pool e base_mint pl
       (owner_in out (p_pool_base_token_account pl)) (owner_in out (p_pool_quote_token_account pl))"
    and sep: "separate (pool_keys e k\<^sub>0 pl quote_mint) (pool_keys e k new USDC_QUOTE_MINT)"
  shows "\<exists>out'. patch_graduated_pool_to_usdc_quote_mint e cs te base_mint
       (fst (pool_authority e base_mint)) pl k\<^sub>0 quote_mint (s, out) = (Ok (), s, out') \<and>
     holds_pool cs te out' k new (tb\<lparr>ta_owner := k\<rparr>)
       (tq\<lparr>ta_mint := USDC_QUOTE_MINT, ta_owner := k\<rparr>) (m\<lparr>tm_mint_authority := Some k\<rparr>) \<and>
     relocated out out' (pool_keys e k\<^sub>0 pl quote_mint) (pool_keys e k new USDC_QUOTE_MINT)"
proof -
  obtain C0 C1 where k0: "pool_keys e k\<^sub>0 pl quote_mint = [k\<^sub>0, p_pool_base_token_account pl,
      p_pool_quote_token_account pl, p_lp_mint pl, C0]"
    and k1: "pool_keys e k new USDC_QUOTE_MINT = [k, p_pool_base_token_account new,
      p_pool_quote_token_account new, p_lp_mint new, C1]" using pool_keys_of by metis
  obtain pac b q mac where at: "out k\<^sub>0 = Some pac"
    "out (p_pool_base_token_account pl) = Some b" "read_token te b = Ok tb"
    "out (p_pool_quote_token_account pl) = Some q" "read_token te q = Ok tq"
    "out (p_lp_mint pl) = Some mac" "read_mint te mac = Ok m"
    using old by (rule holds_poolE)
  have n: "new = rekeyed_pool e base_mint pl (ac_owner b) (ac_owner q)"
    by (simp add: new owner_in_def at)
  obtain bump where kb: "canonical_pool e base_mint USDC_QUOTE_MINT = (k, bump)"
    using k by (cases "canonical_pool e base_mint USDC_QUOTE_MINT") simp
  obtain out4 where run: "patch_graduated_pool_to_usdc_quote_mint e cs te base_mint
       (fst (pool_authority e base_mint)) pl k\<^sub>0 quote_mint (s, out) =
     (case out C0 of None \<Rightarrow> (Ok (), s, out4(C0 := None))
      | Some ac \<Rightarrow> (case rewrite_token_account te ac (Some USDC_QUOTE_MINT) None of
          Inl f \<Rightarrow> (Inl f, s, out4(C0 := None)) | Inr ac' \<Rightarrow> (Ok (), s, out4(C0 := None, C1 \<mapsto> ac'))))"
    and holds: "holds_pool cs te out4 k new (tb\<lparr>ta_owner := k\<rparr>)
       (tq\<lparr>ta_mint := USDC_QUOTE_MINT, ta_owner := k\<rparr>) (m\<lparr>tm_mint_authority := Some k\<rparr>)"
    and frame: "\<And>x. x \<notin> {k, p_pool_base_token_account new, p_pool_quote_token_account new,
         p_lp_mint new} \<Longrightarrow>
       out4 x = (if x \<in> {k\<^sub>0, p_pool_base_token_account pl, p_pool_quote_token_account pl,
         p_lp_mint pl} then None else out x)"
    by (rule rekey_pool_moved [OF laws codec at n kb k0 k1 sep [unfolded k0 k1]]) blast+
  obtain out' where run': "patch_graduated_pool_to_usdc_quote_mint e cs te base_mint
       (fst (pool_authority e base_mint)) pl k\<^sub>0 quote_mint (s, out) = (Ok (), s, out')"
    and upd: "out' = out4(C0 := None) \<or> (\<exists>ac. out' = out4(C0 := None, C1 \<mapsto> ac))"
    using cc by (simp add: k0) (rule creator_account_step [OF laws _ run])
  have "out' x = out4 x" if "x \<in> {k, p_pool_base_token_account new, p_pool_quote_token_account new,
      p_lp_mint new}" for x
    using sep [unfolded k0 k1] upd that by (auto simp: separate_5)
  then have "holds_pool cs te out' k new (tb\<lparr>ta_owner := k\<rparr>)
       (tq\<lparr>ta_mint := USDC_QUOTE_MINT, ta_owner := k\<rparr>) (m\<lparr>tm_mint_authority := Some k\<rparr>)"
    by (rule holds_pool_cong [OF holds])
  moreover have "relocated out out' (pool_keys e k\<^sub>0 pl quote_mint)
      (pool_keys e k new USDC_QUOTE_MINT)"
    using upd frame by (auto simp: relocated_def k0 k1)
  ultimately show ?thesis using run' by blast
qed

theorem rekeyed_pool_consistent_witness:
  "\<exists>out'. patch_graduated_pool_to_usdc_quote_mint mix_env layout_codecs sample_tool 9
       (fst (pool_authority mix_env 9)) old_pool 80 NATIVE_MINT ((), pool_snapshot) =
         (Ok (), (), out') \<and>
     holds_pool layout_codecs sample_tool out' (fst (canonical_pool mix_env 9 USDC_QUOTE_MINT))
       (rekeyed_pool mix_env 9 old_pool SPL_TOKEN_2022_PROGRAM_ID SPL_TOKEN_PROGRAM_ID)
       ((old_token 9 500)\<lparr>ta_owner := fst (canonical_pool mix_env 9 USDC_QUOTE_MINT)\<rparr>)
       ((old_token NATIVE_MINT 700)\<lparr>ta_mint := USDC_QUOTE_MINT,
          ta_owner := fst (canonical_pool mix_env 9 USDC_QUOTE_MINT)\<rparr>)
       (old_lp\<lparr>tm_mint_authority := Some (fst (canonical_pool mix_env 9 USDC_QUOTE_MINT))\<rparr>) \<and>
     relocated pool_snapshot out' (pool_keys mix_env 80 old_pool NATIVE_MINT)
       (pool_keys mix_env (fst (canonical_pool mix_env 9 USDC_QUOTE_MINT))
         (rekeyed_pool mix_env 9 old_pool SPL_TOKEN_2022_PROGRAM_ID SPL_TOKEN_PROGRAM_ID)
         USDC_QUOTE_MINT)"
  by (rule rekeyed_pool_consistent [OF sample_layouts _ pool_snapshot_holds _ refl])
     (simp_all add: pool_layout_writes_back owner_in_def old_pool_keys separate_5 pool_snapshot_def)

section \<open>Lookup tables\<close>

text \<open>C39: Merging the lookup tables succeeds on readable tables and leaves each of them with the default
  metadata and the same addresses: the first occurrences, in order, of the addresses of all of
  them. No other account of the snapshot changes.\<close>

theorem lookup_tables_merged:
  fixes out :: snapshot
  assumes keys: "distinct alt_keys" "alt_keys \<noteq> []"
    and tables: "map (account_reads out (read_table te)) alt_keys = map Some tables"
    and merged: "merged = rev (remdups (rev (concat (map lt_addresses tables))))"
    and law: "writes_table te \<lparr>lt_meta = te_default_meta te, lt_addresses = merged\<rparr>"
  shows "\<exists>out'. merge_alts te alt_keys (s, out) = (Ok (), s, out') \<and>
     map (account_reads out' (read_table te)) alt_keys = replicate (length alt_keys)
       (Some \<lparr>lt_meta = te_default_meta te, lt_addresses = merged\<rparr>) \<and>
     out' |` (- set alt_keys) = out |` (- set alt_keys)"
proof -
  obtain d where d: "te_table_serialize te \<lparr>lt_meta = te_default_meta te, lt_addresses = merged\<rparr> = Ok d"
    "te_table_deserialize te d = Ok \<lparr>lt_meta = te_default_meta te, lt_addresses = merged\<rparr>"
    using law by (auto simp: writes_table_def split: sum.splits)
  have reads: "account_reads out (read_table te) k \<noteq> None" if "k \<in> set alt_keys" for k
    using arg_cong [OF tables, of set] that by auto
  have "list_all2 (\<lambda>k t. account_reads out (read_table te) k = Some t) alt_keys tables"
    using tables by (auto simp: list_all2_conv_all_nth list_eq_iff_nth_eq)
  from merge_tables_run [OF this, of "[]" s]
  have "merge_tables te alt_keys [] (s, out) = (Ok merged, s, out)"
    by (simp add: merged push_unseen_first)
  then have run: "merge_alts te alt_keys (s, out) = (Ok (), s, \<lambda>k. if k \<in> set alt_keys
      then map_option (\<lambda>ac. ac\<lparr>ac_data := d\<rparr>) (out k) else out k)"
    using keys rewrite_tables_run [OF d(1) refl keys(1) reads, of s]
    by (simp add: merge_alts_def io_when_def io_bind_apply alt_extras_def)
  have "\<exists>ac. out k = Some ac" if "k \<in> set alt_keys" for k
    using reads [OF that] by (auto elim: account_readsE)
  then show ?thesis
    unfolding run using d(2)
    by (force simp: account_reads_def read_table_def restrict_map_def map_replicate_const [symmetric]
        split: option.splits)
qed

definition two_tables :: snapshot where
  "two_tables = [DEVNET_ALT \<mapsto> held SYSTEM_PROGRAM_ID (keys_bytes [1, 2]),
     MAINNET_ALT \<mapsto> held SYSTEM_PROGRAM_ID (keys_bytes [2, 3, 1])]"

lemma sample_table_reads:
  "read_table sample_tool (held own (keys_bytes ks)) = Ok \<lparr>lt_meta = (), lt_addresses = ks\<rparr>"
  using read_keys_bytes [of ks "[]"] by (simp add: read_table_def sample_tool_def)

lemma sample_writes_table: "writes_table sample_tool \<lparr>lt_meta = (), lt_addresses = ks\<rparr>"
  using read_keys_bytes [of ks "[]"] by (simp add: writes_table_def sample_tool_def)

theorem lookup_tables_merged_witness:
  "\<exists>out'. merge_alts sample_tool [DEVNET_ALT, MAINNET_ALT] ((), two_tables) = (Ok (), (), out') \<and>
     map (account_reads out' (read_table sample_tool)) [DEVNET_ALT, MAINNET_ALT] =
       replicate (length [DEVNET_ALT, MAINNET_ALT])
         (Some \<lparr>lt_meta = te_default_meta sample_tool, lt_addresses = [1, 2, 3]\<rparr>) \<and>
     out' |` (- set [DEVNET_ALT, MAINNET_ALT]) = two_tables |` (- set [DEVNET_ALT, MAINNET_ALT])"
  by (rule lookup_tables_merged [where tables = "[\<lparr>lt_meta = (), lt_addresses = [1, 2]\<rparr>,
        \<lparr>lt_meta = (), lt_addresses = [2, 3, 1]\<rparr>]"])
     (simp_all add: two_tables_def account_reads_def sample_table_reads sample_writes_table
       DEVNET_ALT_def MAINNET_ALT_def)

section \<open>The global account\<close>

text \<open>C40: Patching the cloned \<open>Global\<close> rewrites that account only, to data that decodes to a \<open>Global\<close>
  with USDC whitelisted and a curve depth of at least 2, equal to the cloned one in every other
  field; the data does not shrink, and its bytes past the current layout are kept.\<close>

theorem global_patch_decodes:
  fixes out :: snapshot
  assumes ac: "out (fst (pump_global e)) = Some ac"
    and codec: "\<And>g. arrays_ok g \<Longrightarrow> writes_back (global_codec cs) g"
    and arrays: "arrays_ok glob"
  shows "\<exists>p d. patch_global e cs glob (s, out) =
       (Ok (), s, out(fst (pump_global e) \<mapsto> ac\<lparr>ac_data := d\<rparr>)) \<and>
     decode_global cs d = Ok p \<and> USDC_QUOTE_MINT \<in> set (g_whitelisted_quote_mints p) \<and>
     2 \<le> g_max_curve_depth p \<and>
     p\<lparr>g_whitelisted_quote_mints := g_whitelisted_quote_mints glob,
       g_max_curve_depth := g_max_curve_depth glob\<rparr> = glob \<and>
     length (ac_data ac) \<le> length d \<and>
     (\<exists>n. wrapper_try_serialize (global_codec cs) p = Ok (take n d) \<and> drop n d = drop n (ac_data ac))"
proof -
  have "g_whitelisted_quote_mints glob \<noteq> []" using arrays by (auto simp: arrays_ok_def)
  then obtain p where p: "patched_global glob = Ok p" using patched_global_Ok by blast
  note fields = patched_global_fields [OF p]
  have "arrays_ok p" using fields(4) arrays by blast
  then obtain d where ser: "wrapper_try_serialize (global_codec cs) p = Ok d"
    and deser: "\<And>rest. wrapper_try_deserialize (global_codec cs) (d @ rest) = Ok (p, rest)"
    using writes_backE [OF codec] by blast
  define d' where "d' = d @ drop (length d) (ac_data ac)"
  have "patch_global e cs glob (s, out) =
      (Ok (), s, out(fst (pump_global e) \<mapsto> ac\<lparr>ac_data := d'\<rparr>))"
    by (simp add: patch_global_def run_simps p ser ac d'_def)
  moreover have "decode_global cs d' = Ok p"
    by (simp add: decode_global_def decode_def deser d'_def)
  moreover have "length (ac_data ac) \<le> length d'" by (simp add: d'_def)
  moreover have "take (length d) d' = d" "drop (length d) d' = drop (length d) (ac_data ac)"
    by (simp_all add: d'_def)
  ultimately show ?thesis using fields(1,2,5) ser by metis
qed

definition unlisted_global :: global where
  "unlisted_global = sample_global\<lparr>g_whitelisted_quote_mints := [5], g_max_curve_depth := 1\<rparr>"

theorem global_patch_decodes_witness:
  "\<exists>p d. patch_global mix_env layout_codecs unlisted_global
         ((), [fst (pump_global mix_env) \<mapsto> held PUMP_PROGRAM_ID (replicate 900 0)]) =
       (Ok (), (), [fst (pump_global mix_env) \<mapsto> held PUMP_PROGRAM_ID (replicate 900 0),
         fst (pump_global mix_env) \<mapsto> (held PUMP_PROGRAM_ID (replicate 900 0))\<lparr>ac_data := d\<rparr>]) \<and>
     decode_global layout_codecs d = Ok p \<and> USDC_QUOTE_MINT \<in> set (g_whitelisted_quote_mints p) \<and>
     2 \<le> g_max_curve_depth p \<and>
     p\<lparr>g_whitelisted_quote_mints := g_whitelisted_quote_mints unlisted_global,
       g_max_curve_depth := g_max_curve_depth unlisted_global\<rparr> = unlisted_global \<and>
     length (ac_data (held PUMP_PROGRAM_ID (replicate 900 0))) \<le> length d \<and>
     (\<exists>n. wrapper_try_serialize (global_codec layout_codecs) p = Ok (take n d) \<and>
        drop n d = drop n (ac_data (held PUMP_PROGRAM_ID (replicate 900 0))))"
  by (rule global_patch_decodes)
     (simp_all add: global_layout_writes_back arrays_ok_def unlisted_global_def sample_global_def
       default_global_def)

section \<open>Recipients\<close>

text \<open>After the recipients of a \<open>Global\<close> have been cloned, every recipient pair the SDK draws from
  that \<open>Global\<close>, mayhem or not, consists of accounts of the snapshot: the one already there, else
  the cluster's, else an empty system account; nothing else changes.\<close>

theorem drawn_recipients_cloned:
  fixes out :: snapshot
  assumes "serves_batches r L" and "draw_ok d1" and "draw_ok d2"
    and "pump_fee_recipients_pair d1 d2 glob mayhem = Some (fee, buyback)"
  shows "\<exists>s' out'. clone_recipients r (snapshot_recipients glob) (s, out) = (Ok (), s', out') \<and>
     fee \<in> dom out' \<and> buyback \<in> dom out' \<and>
     out' = (\<lambda>k. if out k = None \<and> k \<in> set (snapshot_recipients glob)
       then Some (unwrap_or (L k) empty_system_account) else out k)"
proof -
  obtain s' where "clone_recipients r (snapshot_recipients glob) (s, out) =
      (Ok (), s', with_recipients L (snapshot_recipients glob) out)"
    using clone_recipients_run [OF assms(1)] by blast
  moreover have "{fee, buyback} \<subseteq> dom (with_recipients L (snapshot_recipients glob) out)"
    using drawn_recipients [OF assms(2-4)] by (auto simp: with_recipients_def)
  ultimately show ?thesis by (auto simp: with_recipients_def)
qed

theorem drawn_recipients_cloned_witness:
  "\<exists>s' out'. clone_recipients (still_rpc Map.empty) (snapshot_recipients sample_global)
       ((), [22 \<mapsto> held PUMP_PROGRAM_ID []]) = (Ok (), s', out') \<and>
     13 \<in> dom out' \<and> 22 \<in> dom out' \<and>
     out' = (\<lambda>k. if [22 \<mapsto> held PUMP_PROGRAM_ID []] k = None \<and>
         k \<in> set (snapshot_recipients sample_global)
       then Some (unwrap_or (Map.empty k) empty_system_account)
       else [22 \<mapsto> held PUMP_PROGRAM_ID []] k)"
proof (rule drawn_recipients_cloned [OF still_serves(2)])
  show "pump_fee_recipients_pair (\<lambda>n. n - 1) (\<lambda>n. n - 1) sample_global False = Some (13, 22)"
    by code_simp
qed (simp_all add: draw_ok_def)

section \<open>The creator vault of a SOL pool\<close>

text \<open>On a SOL curve, whose quote mint is the zero key, cloning the graduated pool derives the
  creator vault's token account from that zero key: whatever the cluster holds, the vault's wrapped
  SOL account, which the trades of the pool pass, is not copied.\<close>

theorem sol_creator_vault_not_cloned:
  fixes out :: snapshot
  assumes curve: "original_quote = default_key"
    and at: "out (fst (canonical_pool e (fm_mint fixture) (resolve_quote_mint original_quote))) = Some pac"
    and pool: "decode_pool cs (ac_data pac) = Ok pl"
    and auth: "auth = fst (coin_creator_vault_authority e (p_coin_creator pl))"
    and vault: "vault = fst (associated_token e auth SPL_TOKEN_PROGRAM_ID NATIVE_MINT)"
    and fresh: "vault \<notin> {p_lp_mint pl, p_pool_base_token_account pl, p_pool_quote_token_account pl,
       auth, fst (associated_token e auth SPL_TOKEN_PROGRAM_ID default_key)}"
    and patch: "\<not> fm_patch_quote_mint_to_test fixture"
  shows "snd (snd (clone_pool e cs te r fixture original_quote (s, out))) vault = out vault"
proof -
  have "touches (- {vault})
     (io_bind (clone_one r (p_lp_mint pl) True) (\<lambda>_.
             io_bind (clone_one r (p_pool_base_token_account pl) True) (\<lambda>_.
             io_bind (clone_one r (p_pool_quote_token_account pl) True) (\<lambda>_.
             io_bind (clone_one r auth False) (\<lambda>_.
             io_bind (clone_one r (fst (associated_token e auth SPL_TOKEN_PROGRAM_ID
                             original_quote)) False) (\<lambda>_. io (Ok ())))))))"
    (is "touches _ ?m")
    using fresh curve by (intro touches_bind touches_clone_one touches_io) auto
  moreover have "clone_pool e cs te r fixture original_quote (s, out) = ?m (s, out)"
    using at pool patch
    by (simp add: clone_pool_def canonical_pool_def Let_def clone_one_def [of r "fst (amm_pool e i c m q)" for i c m q] io_bind_apply [of "clone_one r (fst (amm_pool e i c m q)) b" for i c m q b] io_bind_apply [of "out_get k" for k] io_when_def auth)
  ultimately show ?thesis by (simp add: touches_def)
qed

theorem sol_creator_vault_not_cloned_witness:
  "snd (snd (clone_pool mix_env layout_codecs sample_tool run_rpc
       \<lparr>fm_label = ''graduated'', fm_mint = 9, fm_patch_quote_mint_to_test = False\<rparr> 0
       ((), [fst (canonical_pool mix_env 9 NATIVE_MINT) \<mapsto>
          held PUMP_AMM_PROGRAM_ID (pool_bytes old_pool)])))
     (fst (associated_token mix_env (fst (coin_creator_vault_authority mix_env 5))
        SPL_TOKEN_PROGRAM_ID NATIVE_MINT)) =
   [fst (canonical_pool mix_env 9 NATIVE_MINT) \<mapsto>
      held PUMP_AMM_PROGRAM_ID (pool_bytes old_pool)]
     (fst (associated_token mix_env (fst (coin_creator_vault_authority mix_env 5))
        SPL_TOKEN_PROGRAM_ID NATIVE_MINT))"
proof (rule sol_creator_vault_not_cloned [where pl = old_pool
      and pac = "held PUMP_AMM_PROGRAM_ID (pool_bytes old_pool)"])
  show "fst (associated_token mix_env (fst (coin_creator_vault_authority mix_env 5))
      SPL_TOKEN_PROGRAM_ID NATIVE_MINT) \<notin>
    {p_lp_mint old_pool, p_pool_base_token_account old_pool, p_pool_quote_token_account old_pool,
     fst (coin_creator_vault_authority mix_env (p_coin_creator old_pool)),
     fst (associated_token mix_env
       (fst (coin_creator_vault_authority mix_env (p_coin_creator old_pool)))
       SPL_TOKEN_PROGRAM_ID default_key)}"
    by (simp add: mix_keys)
qed (simp_all add: resolve_quote_mint_def old_pool_decodes)

end
