(* ===== verification/Float64.thy ===== *)
theory Float64
  imports Complex_Main "HOL-Library.Log_Nat" Text_Parsing
begin

text \<open>
  The \<open>f64\<close> operations \<open>src/src/bin/airdropusdc/main.rs\<close> uses, each the exact result rounded
  to 53 significant bits, ties to even. No operation here tells the two zeros apart, so a finite
  value is a rational.
\<close>

datatype f64 =
    NaN
  | Inf bool \<comment> \<open>negative\<close>
  | Fin rat

section \<open>Rounding\<close>

definition bit_length :: "nat \<Rightarrow> nat" where
  "bit_length n = floorlog 2 n"

text \<open>The exponent of a positive rational: \<open>2 powi e \<le> x < 2 powi (e + 1)\<close>.\<close>

definition rat_exponent :: "rat \<Rightarrow> int" where
  "rat_exponent x = (case quotient_of x of (p, q) \<Rightarrow>
     let e = int (bit_length (nat p)) - int (bit_length (nat q))
     in if x < 2 powi e then e - 1 else e)"

definition round_half_even :: "rat \<Rightarrow> int" where
  "round_half_even x =
     (let n = \<lfloor>x\<rfloor>; r = x - of_int n
      in if r < 1 / 2 then n else if r > 1 / 2 then n + 1 else if even n then n else n + 1)"

text \<open>Subnormals keep the exponent -1022; what rounds to \<open>2 powi 1024\<close> or more overflows.\<close>

definition round_f64 :: "rat \<Rightarrow> f64" where
  "round_f64 x =
     (if x = 0 then Fin 0
      else
        let ulp = 2 powi (max (rat_exponent \<bar>x\<bar>) (-1022) - 52);
            y = of_int (round_half_even (\<bar>x\<bar> / ulp)) * ulp
        in if y \<ge> 2 powi 1024 then Inf (x < 0) else Fin (if x < 0 then - y else y))"

section \<open>Operations\<close>

fun f64_is_finite :: "f64 \<Rightarrow> bool" where
  "f64_is_finite (Fin x) = True"
| "f64_is_finite _ = False"

fun f64_le :: "f64 \<Rightarrow> f64 \<Rightarrow> bool" where
  "f64_le NaN y = False"
| "f64_le x NaN = False"
| "f64_le (Inf neg) y = (neg \<or> y = Inf False)"
| "f64_le (Fin x) (Inf neg) = (\<not> neg)"
| "f64_le (Fin x) (Fin y) = (x \<le> y)"

fun f64_mul :: "f64 \<Rightarrow> f64 \<Rightarrow> f64" where
  "f64_mul NaN y = NaN"
| "f64_mul x NaN = NaN"
| "f64_mul (Inf a) (Inf b) = Inf (a \<noteq> b)"
| "f64_mul (Inf a) (Fin y) = (if y = 0 then NaN else Inf (a \<noteq> (y < 0)))"
| "f64_mul (Fin x) (Inf b) = (if x = 0 then NaN else Inf ((x < 0) \<noteq> b))"
| "f64_mul (Fin x) (Fin y) = round_f64 (x * y)"

text \<open>\<open>powi\<close> by repeated multiplication; where every product is exact, as for the powers of ten
  below \<open>10 ^ 22\<close>, the order does not matter.\<close>

primrec f64_powi :: "f64 \<Rightarrow> nat \<Rightarrow> f64" where
  "f64_powi x 0 = Fin 1"
| "f64_powi x (Suc n) = f64_mul (f64_powi x n) x"

text \<open>\<open>round\<close>: to the nearest integer, halves away from zero.\<close>

fun f64_round :: "f64 \<Rightarrow> f64" where
  "f64_round (Fin x) = Fin (of_int (if x < 0 then - \<lfloor>- x + 1 / 2\<rfloor> else \<lfloor>x + 1 / 2\<rfloor>))"
| "f64_round y = y"

text \<open>\<open>as f64\<close> rounds, \<open>as u64\<close> truncates and saturates.\<close>

definition f64_of_u64 :: "u64 \<Rightarrow> f64" where
  "f64_of_u64 w = round_f64 (of_nat (unat w))"

fun f64_as_u64 :: "f64 \<Rightarrow> u64" where
  "f64_as_u64 NaN = 0"
| "f64_as_u64 (Inf neg) = (if neg then 0 else - 1)"
| "f64_as_u64 (Fin x) = (if x < 0 then 0 else if 2 ^ 64 \<le> x then - 1 else word_of_int \<lfloor>x\<rfloor>)"

section \<open>Parsing\<close>

text \<open>\<open>str::parse::<f64>\<close>: a sign, then \<open>inf\<close>, \<open>infinity\<close>, \<open>nan\<close> in any case, or digits
  with at most one point, at least one digit, and an exponent.\<close>

definition split_sign :: "string \<Rightarrow> bool \<times> string" where
  "split_sign s = (case s of [] \<Rightarrow> (False, []) | c # cs \<Rightarrow>
     if c = CHR ''-'' then (True, cs) else if c = CHR ''+'' then (False, cs) else (False, s))"

definition parse_exponent :: "string \<Rightarrow> int option" where
  "parse_exponent s = (case s of [] \<Rightarrow> Some 0 | c # cs \<Rightarrow>
     if c = CHR ''e'' \<or> c = CHR ''E'' then
       (case split_sign cs of (neg, ds) \<Rightarrow>
          if ds = [] then None
          else map_option (\<lambda>n. if neg then - int n else int n) (digits_value 0 ds))
     else None)"

definition parse_decimal :: "string \<Rightarrow> rat option" where
  "parse_decimal s =
     (let whole = takeWhile is_digit s; rest = dropWhile is_digit s;
          (frac, rest) = (case rest of [] \<Rightarrow> ([], []) | c # cs \<Rightarrow>
            if c = CHR ''.'' then (takeWhile is_digit cs, dropWhile is_digit cs) else ([], rest))
      in if whole = [] \<and> frac = [] then None
         else case (digits_value 0 (whole @ frac), parse_exponent rest) of
                (Some m, Some e) \<Rightarrow> Some (of_nat m * 10 powi (e - int (length frac)))
              | _ \<Rightarrow> None)"

definition lower :: "char \<Rightarrow> char" where
  "lower c = (let n = of_char c :: nat in if 65 \<le> n \<and> n \<le> 90 then char_of (n + 32) else c)"

definition parse_f64 :: "string \<Rightarrow> f64 option" where
  "parse_f64 s = (case split_sign s of (neg, body) \<Rightarrow>
     let word = map lower body
     in if word = ''inf'' \<or> word = ''infinity'' then Some (Inf neg)
        else if word = ''nan'' then Some NaN
        else map_option (\<lambda>x. round_f64 (if neg then - x else x)) (parse_decimal body))"

section \<open>Rounding errors\<close>

lemma floorlog_2_bounds:
  assumes "0 < n"
  shows "2 ^ (floorlog 2 n - 1) \<le> n \<and> n < 2 ^ floorlog 2 n"
  using floorlog_bounds [of n 2] assms by simp

lemma bit_length_powi:
  assumes "0 < p"
  shows "(2 :: rat) powi (int (bit_length (nat p)) - 1) \<le> of_int p"
    and "of_int p < (2 :: rat) powi int (bit_length (nat p))"
proof -
  have pos: "0 < nat p" using assms by simp
  then have "bit_length (nat p) \<noteq> 0" by (auto simp: bit_length_def floorlog_def)
  then have e: "int (bit_length (nat p)) - 1 = int (bit_length (nat p) - 1)" by simp
  have "rat_of_nat (2 ^ (bit_length (nat p) - 1)) \<le> rat_of_nat (nat p)"
    "rat_of_nat (nat p) < rat_of_nat (2 ^ bit_length (nat p))"
    using floorlog_2_bounds [OF pos] by (simp_all only: of_nat_le_iff of_nat_less_iff bit_length_def)
  moreover have "rat_of_nat (nat p) = of_int p" using assms by simp
  ultimately show "(2 :: rat) powi (int (bit_length (nat p)) - 1) \<le> of_int p"
    "of_int p < (2 :: rat) powi int (bit_length (nat p))"
    unfolding e by (simp_all add: power_int_of_nat)
qed

lemma rat_exponent_bounds:
  assumes "0 < x"
  shows "2 powi rat_exponent x \<le> x" and "x < 2 powi (rat_exponent x + 1)"
proof -
  obtain p q where pq: "quotient_of x = (p, q)" by (cases "quotient_of x")
  have q: "0 < q" and x: "x = of_int p / of_int q"
    using quotient_of_denom_pos [OF pq] quotient_of_div [OF pq] by simp_all
  have p: "0 < p" using assms q by (simp add: x zero_less_divide_iff)
  define a b where "a = int (bit_length (nat p))" and "b = int (bit_length (nat q))"
  note bp = bit_length_powi [OF p, folded a_def] and bq = bit_length_powi [OF q, folded b_def]
  have q0: "(0 :: rat) < of_int q" using q by simp
  have "(2 :: rat) powi (a - b + 1) = 2 powi a / 2 powi (b - 1)"
    by (simp add: power_int_diff power_int_add)
  also have "of_int p / of_int q < \<dots>"
    using bp(2) bq(1) q0 p by (intro frac_less) simp_all
  finally have up: "x < 2 powi (a - b + 1)" by (simp add: x)
  have "(2 :: rat) powi (a - b - 1) = 2 powi (a - 1) / 2 powi b"
    by (simp add: power_int_diff)
  also have "\<dots> \<le> of_int p / of_int q"
    using bp(1) bq(2) q0 p by (intro frac_le) simp_all
  finally have lo: "2 powi (a - b - 1) \<le> x" by (simp add: x)
  have e: "rat_exponent x = (if x < 2 powi (a - b) then a - b - 1 else a - b)"
    by (simp add: rat_exponent_def pq a_def b_def Let_def)
  show "2 powi rat_exponent x \<le> x" "x < 2 powi (rat_exponent x + 1)"
    using up lo by (simp_all add: e not_less)
qed

lemma rat_exponent_unique:
  assumes "2 powi e \<le> x" and "x < 2 powi (e + 1)"
  shows "rat_exponent x = e"
proof -
  have "0 < x" using assms(1) zero_less_power_int [of "2 :: rat" e] by linarith
  note b = rat_exponent_bounds [OF this]
  have "\<not> rat_exponent x + 1 \<le> e" "\<not> e + 1 \<le> rat_exponent x"
    using assms b power_int_increasing [of "rat_exponent x + 1" e "2 :: rat"]
      power_int_increasing [of "e + 1" "rat_exponent x" "2 :: rat"] by linarith+
  then show ?thesis by simp
qed

lemma round_half_even_error: "\<bar>of_int (round_half_even x) - x\<bar> \<le> 1 / 2"
proof -
  show ?thesis using floor_correct [of x] by (auto simp: round_half_even_def Let_def abs_le_iff)
qed

text \<open>The relative error of a normal value is at most half a unit in the last place.\<close>

lemma round_f64_error:
  assumes "2 powi - 1022 \<le> x" and "x < 2 powi 1000"
  obtains y where "round_f64 x = Fin y" and "\<bar>y - x\<bar> \<le> x * 2 powi - 53"
proof -
  define e where "e = rat_exponent x"
  have x: "0 < x" using assms(1) zero_less_power_int [of "2 :: rat" "- 1022"] by linarith
  note b = rat_exponent_bounds [OF x, folded e_def]
  have lo: "- 1022 \<le> e"
    using assms(1) b(2) power_int_increasing [of "e + 1" "- 1022" "2 :: rat"] by linarith
  define ulp :: rat where "ulp = 2 powi (e - 52)"
  define y where "y = of_int (round_half_even (x / ulp)) * ulp"
  have u: "0 < ulp" by (simp add: ulp_def)
  have "y - x = (of_int (round_half_even (x / ulp)) - x / ulp) * ulp"
    using u by (simp add: y_def left_diff_distrib)
  then have "\<bar>y - x\<bar> = \<bar>of_int (round_half_even (x / ulp)) - x / ulp\<bar> * ulp"
    using u by (simp add: abs_mult)
  also have "\<dots> \<le> 1 / 2 * ulp" using u by (intro mult_right_mono round_half_even_error) simp
  also have "\<dots> = 2 powi e * 2 powi - 53" by (simp add: ulp_def power_int_diff)
  also have "\<dots> \<le> x * 2 powi - 53" using b(1) by (intro mult_right_mono) simp_all
  finally have err: "\<bar>y - x\<bar> \<le> x * 2 powi - 53" .
  have "x * 2 powi - 53 \<le> x" using x by simp
  then have "y \<le> 2 * x" using err by linarith
  also have "\<dots> < 2 powi 1024" using assms(2) by simp
  finally have "round_f64 x = Fin y"
    using x lo by (simp add: round_f64_def Let_def e_def [symmetric] max_def ulp_def [symmetric] y_def)
  from this err show thesis by (rule that)
qed

text \<open>Integers of at most 53 bits are exact.\<close>

lemma round_f64_nat:
  assumes "n < 2 ^ 53"
  shows "round_f64 (of_nat n) = Fin (of_nat n)"
proof (cases "n = 0")
  case True
  then show ?thesis by (simp add: round_f64_def)
next
  case False
  define x :: rat where "x = of_nat n"
  define e where "e = rat_exponent x"
  have x: "2 powi 0 \<le> x" "x < 2 powi 53" using False assms by (simp_all add: x_def)
  have "0 < x" using x(1) by simp
  note b = rat_exponent_bounds [OF this, folded e_def]
  have e: "0 \<le> e" "e \<le> 52"
    using x b power_int_increasing [of "e + 1" 0 "2 :: rat"] power_int_increasing [of 53 e "2 :: rat"]
    by linarith+
  define ulp :: rat where "ulp = 2 powi (e - 52)"
  have u: "0 < ulp" by (simp add: ulp_def)
  define k where "k = int (n * 2 ^ nat (52 - e))"
  have "x / ulp = x * 2 powi (52 - e)" by (simp add: ulp_def power_int_diff)
  also have "\<dots> = of_int k" using e(2) by (simp add: x_def k_def power_int_def)
  finally have k: "x / ulp = of_int k" .
  then have "round_half_even (x / ulp) = k" by (simp add: round_half_even_def)
  moreover have "of_int k * ulp = x" using k u by (simp add: divide_eq_eq)
  ultimately have "of_int (round_half_even (x / ulp)) * ulp = x" by simp
  moreover have "x < 2 powi 1024" using x(2) power_int_increasing [of 53 1024 "2 :: rat"] by linarith
  ultimately show ?thesis
    using x e by (simp add: round_f64_def Let_def e_def [symmetric] max_def ulp_def [symmetric] x_def [symmetric])
qed

text \<open>Scaling by a million the value nearest to an amount of at most six decimals, and rounding to
  an integer, gives back the amount in millionths.\<close>

lemma f64_million: "f64_powi (Fin 10) 6 = Fin 1000000"
proof -
  note r = round_f64_nat [of 10, simplified] round_f64_nat [of 100, simplified]
    round_f64_nat [of 1000, simplified] round_f64_nat [of 10000, simplified]
    round_f64_nat [of 100000, simplified] round_f64_nat [of 1000000, simplified]
  have "f64_powi (Fin 10) (Suc (Suc (Suc (Suc (Suc (Suc 0)))))) = Fin 1000000" by (simp add: r)
  then show ?thesis by (simp add: numeral_eq_Suc)
qed

lemma six_decimals_exact:
  assumes "n < 2 ^ 51"
  shows "f64_round (f64_mul (round_f64 (of_nat n / 10 ^ 6)) (Fin 1000000)) = Fin (of_nat n)"
proof (cases "n = 0")
  case True
  then show ?thesis by (simp add: round_f64_def floor_eq_iff)
next
  case False
  define x :: rat where "x = of_nat n / 10 ^ 6"
  have n: "1 \<le> rat_of_nat n" "rat_of_nat n \<le> 2 ^ 51 - 1" using False assms
    by (simp_all add: of_nat_diff [symmetric])
  then have xb: "1 / 10 ^ 6 \<le> x" "x < 2 ^ 51" by (simp_all add: x_def)
  have "2 powi - 1022 \<le> x" "x < 2 powi 1000"
    using xb power_int_increasing [of "- 1022" "- 20" "2 :: rat"]
      power_int_increasing [of 51 1000 "2 :: rat"] by simp_all
  then obtain r where r: "round_f64 x = Fin r" and re: "\<bar>r - x\<bar> \<le> x * 2 powi - 53"
    by (rule round_f64_error)
  have re': "\<bar>r * 1000000 - of_nat n\<bar> \<le> of_nat n * 2 powi - 53"
    using re by (simp add: x_def abs_le_iff field_simps)
  have "of_nat n * 2 powi - 53 \<le> (1 / 4 :: rat)" using n(2) by simp
  then have rb: "3 / 4 \<le> r * 1000000" "r * 1000000 < 2 ^ 51" using re' n by linarith+
  have "2 powi - 1022 \<le> r * 1000000" "r * 1000000 < 2 powi 1000"
    using rb power_int_increasing [of "- 1022" "- 1" "2 :: rat"]
      power_int_increasing [of 51 1000 "2 :: rat"] by simp_all
  then obtain y where y: "round_f64 (r * 1000000) = Fin y"
    and ye: "\<bar>y - r * 1000000\<bar> \<le> r * 1000000 * 2 powi - 53"
    by (rule round_f64_error)
  have "r * 1000000 \<le> of_nat n + of_nat n * 2 powi - 53" using re' by linarith
  then have "r * 1000000 * 2 powi - 53 \<le> (of_nat n + of_nat n * 2 powi - 53) * 2 powi - 53"
    by (intro mult_right_mono) simp_all
  with ye re' have "\<bar>y - of_nat n\<bar>
      \<le> of_nat n * 2 powi - 53 + (of_nat n + of_nat n * 2 powi - 53) * 2 powi - 53" by linarith
  also have "\<dots> \<le> (2 ^ 51 - 1) * 2 powi - 53 + ((2 ^ 51 - 1) + (2 ^ 51 - 1) * 2 powi - 53) * 2 powi - 53"
    using n(2) by (intro add_mono mult_right_mono) simp_all
  also have "\<dots> < (1 / 2 :: rat)" by simp
  finally have "\<bar>y - of_nat n\<bar> < 1 / 2" .
  then have b: "of_nat n - 1 / 2 < y" "y < of_nat n + 1 / 2" by linarith+
  then have "\<not> y < 0" using n(1) by linarith
  moreover have "\<lfloor>y + 1 / 2\<rfloor> = int n" by (rule floor_unique) (use b in simp_all)
  ultimately show ?thesis using r y by (simp add: x_def)
qed

section \<open>Parsing amounts\<close>

text \<open>Digits with a point and at most six decimals.\<close>

lemma split_decimal:
  assumes "list_all is_digit whole" "list_all is_digit decs" "whole \<noteq> []"
  shows "split_sign (whole @ CHR ''.'' # decs) = (False, whole @ CHR ''.'' # decs)"
    and "map lower (whole @ CHR ''.'' # decs) = whole @ CHR ''.'' # decs"
    and "hd whole \<noteq> CHR ''i'' \<and> hd whole \<noteq> CHR ''n''"
proof -
  have no: "\<not> is_digit CHR ''-''" "\<not> is_digit CHR ''+''" "\<not> is_digit CHR ''i''" "\<not> is_digit CHR ''n''"
    by (simp_all add: is_digit_def digit_value_def)
  have low: "is_digit c \<Longrightarrow> lower c = c" for c
    by (auto simp: is_digit_def digit_value_def lower_def Let_def split: if_splits)
  have dot: "lower CHR ''.'' = CHR ''.''" by (simp add: lower_def)
  obtain c cs where w: "whole = c # cs" using assms(3) by (cases whole) auto
  have c: "is_digit c" using assms(1) by (simp add: w)
  show "split_sign (whole @ CHR ''.'' # decs) = (False, whole @ CHR ''.'' # decs)"
    using c no by (auto simp: split_sign_def w)
  show "map lower (whole @ CHR ''.'' # decs) = whole @ CHR ''.'' # decs"
    using assms(1,2) low dot by (auto simp: list_all_iff intro!: map_idI)
  show "hd whole \<noteq> CHR ''i'' \<and> hd whole \<noteq> CHR ''n''"
    using c no by (auto simp: w)
qed

lemma parse_decimal_point:
  assumes "list_all is_digit whole" "list_all is_digit decs" "whole \<noteq> []"
    and "digits_value 0 (whole @ decs) = Some m"
  shows "parse_decimal (whole @ CHR ''.'' # decs) = Some (of_nat m * 10 powi (- int (length decs)))"
proof -
  have "\<not> is_digit CHR ''.''" by (simp add: is_digit_def digit_value_def)
  then have "takeWhile is_digit (whole @ CHR ''.'' # decs) = whole"
    "dropWhile is_digit (whole @ CHR ''.'' # decs) = CHR ''.'' # decs"
    using assms(1) by (simp_all add: list_all_iff takeWhile_append dropWhile_append)
  moreover have t: "takeWhile is_digit decs = decs" "dropWhile is_digit decs = []"
    using assms(2) by (simp_all add: list_all_iff)
  ultimately show ?thesis
    using assms(3,4) by (simp add: parse_decimal_def Let_def parse_exponent_def t)
qed

lemma parse_f64_point:
  assumes "list_all is_digit whole" "list_all is_digit decs" "whole \<noteq> []"
    and "digits_value 0 (whole @ decs) = Some m" and "length decs \<le> 6"
  shows "parse_f64 (whole @ CHR ''.'' # decs) =
    Some (round_f64 (of_nat (m * 10 ^ (6 - length decs)) / 10 ^ 6))"
proof -
  note sp = split_decimal [OF assms(1,2,3)]
  have "(10 :: rat) ^ 6 = 10 ^ (6 - length decs) * 10 ^ length decs"
    using assms(5) by (simp only: power_add [symmetric]) simp
  then have e: "(of_nat m :: rat) * 10 powi (- int (length decs)) =
      of_nat (m * 10 ^ (6 - length decs)) / 10 ^ 6"
    by (simp add: power_int_minus field_simps)
  have ne: "whole @ CHR ''.'' # decs \<noteq> ''inf''" "whole @ CHR ''.'' # decs \<noteq> ''infinity''"
    "whole @ CHR ''.'' # decs \<noteq> ''nan''"
    using sp(3) assms(3) by (cases whole; simp)+
  show ?thesis
    unfolding parse_f64_def sp(1) prod.case Let_def sp(2)
    using ne by (simp only: parse_decimal_point [OF assms(1-4)] e) simp
qed
text \<open>\<open>u64::MAX as f64\<close> is one more than the maximum.\<close>

lemma f64_of_max: "f64_of_u64 (- 1) = Fin (2 ^ 64)"
proof -
  have x: "rat_of_nat (unat (- 1 :: u64)) = 18446744073709551615" by (simp add: unsigned_minus_1_eq_mask mask_eq_exp_minus_1)
  have "rat_exponent 18446744073709551615 = 63" by (rule rat_exponent_unique) simp_all
  moreover have "\<lfloor>18446744073709551615 / 2048 :: rat\<rfloor> = 9007199254740991"
    by (rule floor_unique) simp_all
  ultimately have "round_f64 18446744073709551615 = Fin (2 ^ 64)"
    by (simp add: round_f64_def round_half_even_def Let_def)
  then show ?thesis by (simp only: f64_of_u64_def x)
qed

end
