(* ===== verification/Session.thy ===== *)
theory Session
  imports Snapshot Text_Parsing
begin

text \<open>
  Programs that talk to a validator: the calls they make of \<open>RpcClient\<close>, of the clock and of the
  crates that build and sign transactions, their composition, and the helpers of
  \<open>src/tests/common/mod.rs\<close> that the examples share. A program may panic, and a wait may never end:
  its result is an option, none when it does not return. Printing is left out.
\<close>

section \<open>The connection\<close>

text \<open>Times are nanoseconds. A key pair is known by its public key. \<open>nt_balance_text\<close> is the
  \<open>amount\<close> of \<open>get_token_account_balance\<close>; \<open>nt_now\<close> is \<open>Instant::now\<close>, \<open>nt_keypair\<close> is
  \<open>Keypair::new\<close>. \<open>nt_sign_legacy\<close> is \<open>Transaction::new_signed_with_payer\<close>, which panics when
  a signer is missing.\<close>

record ('s, 'tx, 'msg, 'hash, 'sig) net =
  nt_rpc :: "'s rpc"
  nt_get_account :: "pubkey \<Rightarrow> ('s, account) rpc_call"
  nt_request_airdrop :: "pubkey \<Rightarrow> u64 \<Rightarrow> ('s, 'sig) rpc_call"
  nt_confirm :: "'sig \<Rightarrow> ('s, bool) rpc_call"
  nt_balance :: "pubkey \<Rightarrow> ('s, u64) rpc_call"
  nt_balance_text :: "pubkey \<Rightarrow> ('s, string) rpc_call"
  nt_blockhash :: "('s, 'hash) rpc_call"
  nt_send :: "'tx \<Rightarrow> ('s, 'sig) rpc_call"
  nt_now :: "'s \<Rightarrow> nat \<times> 's"
  nt_sleep :: "nat \<Rightarrow> 's \<Rightarrow> 's"
  nt_keypair :: "'s \<Rightarrow> pubkey \<times> 's"
  nt_read_keypair :: "string \<Rightarrow> ('s, pubkey) rpc_call"
  nt_sign_legacy :: "instruction list \<Rightarrow> pubkey \<Rightarrow> pubkey list \<Rightarrow> 'hash \<Rightarrow> 'tx or_panic"
  nt_compile :: "pubkey \<Rightarrow> instruction list \<Rightarrow> (pubkey \<times> pubkey list) list \<Rightarrow> 'hash \<Rightarrow>
     (string, 'msg) res"
  nt_sign :: "'msg \<Rightarrow> pubkey list \<Rightarrow> (string, 'tx) res"
  nt_set_compute_unit_limit :: "u32 \<Rightarrow> instruction"
  nt_mint_to :: "pubkey \<Rightarrow> pubkey \<Rightarrow> pubkey \<Rightarrow> pubkey \<Rightarrow> pubkey list \<Rightarrow> u64 \<Rightarrow>
     (string, instruction) res"

section \<open>Programs\<close>

type_synonym ('s, 'a) run = "'s \<Rightarrow> ('a or_panic \<times> 's) option"

definition run_return :: "'a \<Rightarrow> ('s, 'a) run" where
  "run_return v = (\<lambda>s. Some (Ok v, s))"

definition run_bind :: "('s, 'a) run \<Rightarrow> ('a \<Rightarrow> ('s, 'b) run) \<Rightarrow> ('s, 'b) run" where
  "run_bind m k = (\<lambda>s. case m s of None \<Rightarrow> None
     | Some (Inl f, s') \<Rightarrow> Some (Inl f, s') | Some (Inr v, s') \<Rightarrow> k v s')"

text \<open>\<open>.expect(...)\<close> on what a call, a function or a builder returns; \<open>assert!\<close>;
  \<open>unwrap_or\<close> on a call.\<close>

definition expecting :: "('s, 'e, 'a) io \<Rightarrow> ('s, 'a) run" where
  "expecting m = (\<lambda>s. case m s of (Inl f, s') \<Rightarrow> Some (panic, s') | (Inr v, s') \<Rightarrow> Some (Ok v, s'))"

definition expecting_ok :: "('e, 'a) res \<Rightarrow> ('s, 'a) run" where
  "expecting_ok r = expecting (io r)"

definition expecting_some :: "'a option \<Rightarrow> ('s, 'a) run" where
  "expecting_some v = (\<lambda>s. Some (expect v, s))"

definition asserting :: "bool \<Rightarrow> ('s, unit) run" where
  "asserting b = (\<lambda>s. Some (if b then Ok () else panic, s))"

definition or_default :: "('s, 'e, 'a) io \<Rightarrow> 'a \<Rightarrow> ('s, 'a) run" where
  "or_default m d = (\<lambda>s. case m s of (Inl Panic, s') \<Rightarrow> Some (panic, s')
     | (Inl (Error x), s') \<Rightarrow> Some (Ok d, s') | (Inr v, s') \<Rightarrow> Some (Ok v, s'))"

definition effect :: "('s \<Rightarrow> 'a \<times> 's) \<Rightarrow> ('s, 'a) run" where
  "effect f = (\<lambda>s. case f s of (v, s') \<Rightarrow> Some (Ok v, s'))"

section \<open>Waiting for a confirmation\<close>

text \<open>The loop polls until the transaction is confirmed, and panics when the deadline has passed;
  500 ms between two polls.\<close>

partial_function (option) confirm_loop ::
  "('s, 'tx, 'msg, 'hash, 'sig, 'z) net_scheme \<Rightarrow> 'sig \<Rightarrow> nat \<Rightarrow> 's \<Rightarrow> (unit or_panic \<times> 's) option"
where
  "confirm_loop n sig deadline s =
     Option.bind (or_default (nt_confirm n sig) False s) (\<lambda>r. case r of
       (Inl f, s) \<Rightarrow> Some (Inl f, s)
     | (Inr confirmed, s) \<Rightarrow>
         if confirmed then Some (Ok (), s)
         else case nt_now n s of (now, s) \<Rightarrow>
           if now < deadline then confirm_loop n sig deadline (nt_sleep n 500000000 s)
           else Some (panic, s))"

text \<open>\<open>Instant::now() + Duration::from_secs(30)\<close>, then the loop.\<close>

definition await_confirmation ::
  "('s, 'tx, 'msg, 'hash, 'sig, 'z) net_scheme \<Rightarrow> 'sig \<Rightarrow> ('s, unit) run" where
  "await_confirmation n sig =
     run_bind (effect (nt_now n)) (\<lambda>now. confirm_loop n sig (now + 30000000000))"

section \<open>The shared helpers of the examples\<close>

definition LAMPORTS_PER_SOL :: u64 where "LAMPORTS_PER_SOL = 1000000000"

definition DEFAULT_USER_LAMPORTS :: u64 where "DEFAULT_USER_LAMPORTS = 50 * LAMPORTS_PER_SOL"

definition local_rpc_url :: "env_vars \<Rightarrow> string" where
  "local_rpc_url env = unwrap_or (env ''PUMP_LOCAL_RPC'') ''http://127.0.0.1:8899''"

definition pick_first_nonzero :: "pubkey list \<Rightarrow> pubkey option" where
  "pick_first_nonzero xs = find (\<lambda>p. p \<noteq> default_key) xs"

definition example_fee_recipients ::
  "'e pda_env_scheme \<Rightarrow> 'c codecs_scheme \<Rightarrow> 's rpc \<Rightarrow> ('s, pubkey \<times> pubkey) run" where
  "example_fee_recipients e cs r =
     run_bind (expecting (fetch_global e cs r)) (\<lambda>glob.
     run_bind (expecting_some (case pick_first_nonzero [g_fee_recipient glob] of
         Some k \<Rightarrow> Some k | None \<Rightarrow> pick_first_nonzero (g_fee_recipients glob))) (\<lambda>fee_recipient.
     run_bind (expecting_some (pick_first_nonzero (g_buyback_fee_recipients glob)))
       (\<lambda>buyback_fee_recipient. run_return (fee_recipient, buyback_fee_recipient))))"

definition airdrop_blocking ::
  "('s, 'tx, 'msg, 'hash, 'sig, 'z) net_scheme \<Rightarrow> pubkey \<Rightarrow> u64 \<Rightarrow> ('s, unit) run" where
  "airdrop_blocking n to_key lamports =
     run_bind (expecting (nt_request_airdrop n to_key lamports)) (\<lambda>sig.
     run_bind (await_confirmation n sig) (\<lambda>_.
     run_bind (expecting (nt_balance n to_key)) (\<lambda>bal. asserting (lamports \<le> bal))))"

definition load_alt ::
  "('t, 'm, 'y) tool_env_scheme \<Rightarrow> ('s, 'tx, 'msg, 'hash, 'sig, 'z) net_scheme \<Rightarrow> pubkey \<Rightarrow>
     ('s, pubkey \<times> pubkey list) run" where
  "load_alt te n key =
     run_bind (expecting (nt_get_account n key)) (\<lambda>acct.
     run_bind (expecting_ok (te_table_deserialize te (ac_data acct))) (\<lambda>parsed.
       run_return (key, lt_addresses parsed)))"

definition build_v0_tx ::
  "('s, 'tx, 'msg, 'hash, 'sig, 'z) net_scheme \<Rightarrow> instruction list \<Rightarrow> pubkey \<Rightarrow> pubkey list \<Rightarrow>
     pubkey \<times> pubkey list \<Rightarrow> ('s, 'tx) run" where
  "build_v0_tx n ixs payer signers alt =
     run_bind (expecting (nt_blockhash n)) (\<lambda>blockhash.
     run_bind (expecting_ok (nt_compile n payer ixs [alt] blockhash)) (\<lambda>msg.
       expecting_ok (nt_sign n msg signers)))"

definition send_v0_tx ::
  "('s, 'tx, 'msg, 'hash, 'sig, 'z) net_scheme \<Rightarrow> instruction list \<Rightarrow> pubkey \<Rightarrow> pubkey list \<Rightarrow>
     pubkey \<times> pubkey list \<Rightarrow> ('s, 'sig) run" where
  "send_v0_tx n ixs payer signers alt =
     run_bind (build_v0_tx n ixs payer signers alt) (\<lambda>tx. expecting (nt_send n tx))"

text \<open>The authority's key pair is read from \<open>keys/quote_mint_authority.json\<close>.\<close>

definition read_mint_authority ::
  "('s, 'tx, 'msg, 'hash, 'sig, 'z) net_scheme \<Rightarrow> string \<Rightarrow> ('s, pubkey) run" where
  "read_mint_authority n path =
     run_bind (expecting (nt_read_keypair n path)) (\<lambda>authority.
     run_bind (asserting (authority = USDC_QUOTE_MINT_AUTHORITY)) (\<lambda>_. run_return authority))"

definition fund_test_usdc ::
  "'e sdk_env_scheme \<Rightarrow> ('s, 'tx, 'msg, 'hash, 'sig, 'z) net_scheme \<Rightarrow> string \<Rightarrow> pubkey \<Rightarrow> u64 \<Rightarrow>
     ('s, pubkey) run" where
  "fund_test_usdc e n authority_path user amount =
     run_bind (read_mint_authority n authority_path) (\<lambda>authority.
     let token_program = SPL_TOKEN_PROGRAM_ID;
         ata = fst (associated_token e user token_program USDC_QUOTE_MINT)
     in run_bind (expecting_ok (nt_mint_to n token_program USDC_QUOTE_MINT ata authority [] amount))
          (\<lambda>mint_ix.
        let ixs = [create_ata_idempotent e user user USDC_QUOTE_MINT token_program, mint_ix]
        in run_bind (expecting (nt_blockhash n)) (\<lambda>blockhash.
           run_bind (expecting_ok (nt_sign_legacy n ixs user [user, authority] blockhash)) (\<lambda>tx.
           run_bind (expecting (nt_send n tx)) (\<lambda>_. run_return ata)))))"

definition build_wsol_setup_tx ::
  "'e sdk_env_scheme \<Rightarrow> ('s, 'tx, 'msg, 'hash, 'sig, 'z) net_scheme \<Rightarrow> pubkey \<Rightarrow> pubkey \<Rightarrow> pubkey \<Rightarrow>
     u64 \<Rightarrow> ('s, 'tx) run" where
  "build_wsol_setup_tx e n user bonding_curve buyback_fee_recipient wrap_lamports =
     (let quote_mint = NATIVE_MINT;
          quote_token_program = SPL_TOKEN_PROGRAM_ID;
          user_ata = user_wsol_ata e user
      in run_bind (expecting_some (sync_native e quote_token_program user_ata)) (\<lambda>sync.
         let ixs = [nt_set_compute_unit_limit n 200000,
               create_ata_idempotent e user bonding_curve quote_mint quote_token_program,
               create_ata_idempotent e user user quote_mint quote_token_program,
               create_ata_idempotent e user buyback_fee_recipient quote_mint quote_token_program,
               system_transfer e user user_ata wrap_lamports,
               sync]
         in run_bind (expecting (nt_blockhash n)) (\<lambda>blockhash.
              expecting_ok (nt_sign_legacy n ixs user [user] blockhash))))"

text \<open>\<open>Ok(amount) => amount.amount.parse().expect(...), Err(_) => 0\<close>.\<close>

definition token_balance ::
  "('s, 'tx, 'msg, 'hash, 'sig, 'z) net_scheme \<Rightarrow> pubkey \<Rightarrow> ('s, u64) run" where
  "token_balance n ata =
     run_bind (or_default (\<lambda>s. case nt_balance_text n ata s of (r, s') \<Rightarrow> (map_res Some r, s')) None)
       (\<lambda>amount. case amount of None \<Rightarrow> run_return 0
          | Some t \<Rightarrow> expecting_some (parse_unsigned t))"

end
