(* ===== verification/Airdrop.thy ===== *)
theory Airdrop
  imports Float64 Session
begin

text \<open>
  \<open>src/src/bin/airdropusdc/main.rs\<close>: the mint of test USDC to a wallet. The decoder of public
  keys and the constructors of instructions are arguments.
\<close>

section \<open>Arguments\<close>

definition QUOTE_DECIMALS :: nat where "QUOTE_DECIMALS = 6"

definition parse_amount :: "string \<Rightarrow> u64 or_panic" where
  "parse_amount amount_str =
     and_then (expect (parse_f64 amount_str)) (\<lambda>usdc.
       if \<not> (f64_is_finite usdc \<and> f64_le (Fin 0) usdc) then panic
       else
         let scale = f64_powi (Fin 10) QUOTE_DECIMALS;
             raw = f64_round (f64_mul usdc scale)
         in if \<not> f64_le raw (f64_of_u64 (- 1)) then panic else Ok (f64_as_u64 raw))"

definition airdrop_args ::
  "(string \<Rightarrow> pubkey option) \<Rightarrow> string list \<Rightarrow> (pubkey \<times> u64) or_panic" where
  "airdrop_args key_from_str args =
     (case args of wallet_str # amount_str # _ \<Rightarrow>
        and_then (expect (key_from_str wallet_str)) (\<lambda>wallet.
        and_then (parse_amount amount_str) (\<lambda>raw. Ok (wallet, raw)))
      | _ \<Rightarrow> panic)"

section \<open>The run\<close>

definition ensure_authority_funded ::
  "('s, 'tx, 'msg, 'hash, 'sig, 'z) net_scheme \<Rightarrow> pubkey \<Rightarrow> ('s, unit) run" where
  "ensure_authority_funded n authority =
     run_bind (or_default (nt_balance n authority) 0) (\<lambda>balance.
       if LAMPORTS_PER_SOL \<le> balance then run_return ()
       else run_bind (expecting (nt_request_airdrop n authority (10 * LAMPORTS_PER_SOL)))
              (await_confirmation n))"

definition airdrop_instructions ::
  "'e sdk_env_scheme \<Rightarrow> ('s, 'tx, 'msg, 'hash, 'sig, 'z) net_scheme \<Rightarrow> pubkey \<Rightarrow> pubkey \<Rightarrow> u64 \<Rightarrow>
     ('s, instruction list) run"
where
  "airdrop_instructions e n authority wallet raw_amount =
     (let quote_token_program = SPL_TOKEN_PROGRAM_ID;
          wallet_quote_ata = fst (associated_token e wallet quote_token_program USDC_QUOTE_MINT)
      in run_bind (expecting_ok (nt_mint_to n quote_token_program USDC_QUOTE_MINT wallet_quote_ata
             USDC_QUOTE_MINT_AUTHORITY [] raw_amount)) (\<lambda>mint_ix.
           run_return [nt_set_compute_unit_limit n 200000,
             create_ata_idempotent e authority wallet USDC_QUOTE_MINT quote_token_program,
             mint_ix]))"

text \<open>\<open>connect\<close> is \<open>RpcClient::new_with_commitment\<close>; the arguments are those after the
  program's name.\<close>

definition airdropusdc ::
  "'e sdk_env_scheme \<Rightarrow> (string \<Rightarrow> pubkey option) \<Rightarrow>
     (string \<Rightarrow> ('s, 'tx, 'msg, 'hash, 'sig, 'z) net_scheme) \<Rightarrow> env_vars \<Rightarrow> string \<Rightarrow> string list \<Rightarrow>
     ('s, unit) run"
where
  "airdropusdc e key_from_str connect env authority_path args =
     run_bind (expecting_ok (airdrop_args key_from_str args)) (\<lambda>(wallet, raw_amount).
     let n = connect (local_rpc_url env)
     in run_bind (read_mint_authority n authority_path) (\<lambda>authority.
        run_bind (ensure_authority_funded n authority) (\<lambda>_.
        run_bind (airdrop_instructions e n authority wallet raw_amount) (\<lambda>ixs.
        run_bind (expecting (nt_blockhash n)) (\<lambda>blockhash.
        run_bind (expecting_ok (nt_sign_legacy n ixs authority [authority] blockhash)) (\<lambda>tx.
        run_bind (expecting (nt_send n tx)) (\<lambda>_. run_return ())))))))"

end
