(* ===== verification/Example_Flows.thy ===== *)
theory Example_Flows
  imports Session Client_Trades Client_Routes
begin

text \<open>
  The programs of \<open>src/examples\<close>: fetch, quote, build and send over one connection, each a
  straight line that panics at the first failure. \<open>dr i\<close> is the \<open>i\<close>-th random draw. The
  parameters \<open>e\<close>, \<open>cs\<close>, \<open>te\<close>, \<open>n\<close> are the code outside the repository, the account
  decoders, the layouts of other programs and the connection. What a flow prints is left out, with the
  reads that feed only the printing kept where they can panic.
\<close>

section \<open>Fixtures\<close>

text \<open>The mints of \<open>src/tests/common/fixtures.rs\<close> the examples trade.\<close>

\<comment> \<open>\<open>4bYhSvpXvDQ1dXTELLtf6p9fPV3Th1PKBu4A1yN7pump\<close>\<close>
definition GRADUATED_DEVNET_MINT :: pubkey where
  "GRADUATED_DEVNET_MINT = 0x356ca60b4ad5463542bb4cec92b84ce85c12a1dcd292b76ee9dd43bd5f694c4f"

\<comment> \<open>\<open>6Uw9RM7bxQYeGH9drfbEwTMqWJLaAsVe8wJJpq29pump\<close>\<close>
definition NOT_GRADUATED_DEVNET_MINT :: pubkey where
  "NOT_GRADUATED_DEVNET_MINT = 0x517256af67cf47f5d19f61b05c731869f5d83cccf5e2c099372798b633be056f"

\<comment> \<open>\<open>5LMXdz8i1NPhVMNgR71maKb3gWLXWHz3s5rJ3sqJpump\<close>\<close>
definition GRADUATED_WITH_SHARING_FEE_CONFIG_AND_QUOTE_MINT :: pubkey where
  "GRADUATED_WITH_SHARING_FEE_CONFIG_AND_QUOTE_MINT =
     0x4063fe92d53936bd6f3820958cd1f4a7a7ee532d0272cae69dba2b39c160a75f"

\<comment> \<open>\<open>87xWBwS3ZDxLkgjvjJXqXMfjRCXdk9hstuFiXeC9pump\<close>\<close>
definition NOT_CASHBACK_SOL_CURVE_MINT :: pubkey where
  "NOT_CASHBACK_SOL_CURVE_MINT = 0x69ca0d12a2be3778377323e405851bd8d73f7f964ab0cb2e725e7d361397386f"

section \<open>Bonding curve\<close>

definition example_buy_v2 ::
  "'e sdk_env_scheme \<Rightarrow> 'c codecs_scheme \<Rightarrow> ('t, 'm, 'y) tool_env_scheme \<Rightarrow>
     ('s, 'tx, 'msg, 'hash, 'sig, 'z) net_scheme \<Rightarrow> (nat \<Rightarrow> nat \<Rightarrow> nat) \<Rightarrow>
     ('s, unit) run"
where
  "example_buy_v2 e cs te n dr =
     run_bind (effect (nt_keypair n)) (\<lambda>user.
     let mint = NOT_GRADUATED_DEVNET_MINT
     in
     run_bind (airdrop_blocking n user DEFAULT_USER_LAMPORTS) (\<lambda>_.
     run_bind (load_alt te n DEVNET_ALT) (\<lambda>alt.
     run_bind (expecting (fetch_global e cs (nt_rpc n))) (\<lambda>glob.
     run_bind (expecting (fetch_bonding_curve e cs (nt_rpc n) mint)) (\<lambda>bc.
     run_bind (expecting_some (buy_v2_instructions e (dr 0) (dr 1) glob bc mint SPL_TOKEN_PROGRAM_ID user
         300000000 LAMPORTS_PER_SOL)) (\<lambda>ixs.
     run_bind (send_v0_tx n (nt_set_compute_unit_limit n 400000 # ixs) user [user] alt) (\<lambda>_.
     run_return ())))))))"

definition example_sell_v2 ::
  "'e sdk_env_scheme \<Rightarrow> 'c codecs_scheme \<Rightarrow> ('t, 'm, 'y) tool_env_scheme \<Rightarrow>
     ('s, 'tx, 'msg, 'hash, 'sig, 'z) net_scheme \<Rightarrow> (nat \<Rightarrow> nat \<Rightarrow> nat) \<Rightarrow>
     ('s, unit) run"
where
  "example_sell_v2 e cs te n dr =
     run_bind (effect (nt_keypair n)) (\<lambda>user.
     let mint = NOT_GRADUATED_DEVNET_MINT; buy_amount = 300000000
     in
     run_bind (airdrop_blocking n user DEFAULT_USER_LAMPORTS) (\<lambda>_.
     run_bind (load_alt te n DEVNET_ALT) (\<lambda>alt.
     run_bind (expecting (fetch_global e cs (nt_rpc n))) (\<lambda>glob.
     run_bind (expecting (fetch_bonding_curve e cs (nt_rpc n) mint)) (\<lambda>bc_pre.
     run_bind (expecting_some (buy_v2_instructions e (dr 0) (dr 1) glob bc_pre mint SPL_TOKEN_PROGRAM_ID user
         buy_amount LAMPORTS_PER_SOL)) (\<lambda>buy_ixs.
     run_bind (send_v0_tx n (nt_set_compute_unit_limit n 400000 # buy_ixs) user [user] alt) (\<lambda>_.
     run_bind (expecting (fetch_bonding_curve e cs (nt_rpc n) mint)) (\<lambda>bc_after_buy.
     run_bind (expecting_some (sell_v2_instructions e (dr 2) (dr 3) glob bc_after_buy mint SPL_TOKEN_PROGRAM_ID
         user buy_amount 1)) (\<lambda>sell_ixs.
     run_bind (send_v0_tx n (nt_set_compute_unit_limit n 400000 # sell_ixs) user [user] alt) (\<lambda>_.
     run_return ()))))))))))"

definition example_buy_v3 ::
  "'e sdk_env_scheme \<Rightarrow> 'c codecs_scheme \<Rightarrow> ('t, 'm, 'y) tool_env_scheme \<Rightarrow>
     ('s, 'tx, 'msg, 'hash, 'sig, 'z) net_scheme \<Rightarrow> (nat \<Rightarrow> nat \<Rightarrow> nat) \<Rightarrow>
     ('s, unit) run"
where
  "example_buy_v3 e cs te n dr =
     run_bind (effect (nt_keypair n)) (\<lambda>user.
     let mint = NOT_CASHBACK_SOL_CURVE_MINT; amount = 1000000000
     in
     run_bind (airdrop_blocking n user DEFAULT_USER_LAMPORTS) (\<lambda>_.
     run_bind (load_alt te n DEVNET_ALT) (\<lambda>alt.
     run_bind (expecting (build_buy_v3 e cs (nt_rpc n) (dr 0) user mint amount 100)) (\<lambda>(quote, ixs).
     run_bind (send_v0_tx n (nt_set_compute_unit_limit n 400000 # ixs) user [user] alt) (\<lambda>_.
     run_bind (expecting (fetch_mint cs (nt_rpc n) mint)) (\<lambda>(_, base_token_program).
     let ata = fst (associated_token e user base_token_program mint)
     in
     run_bind (expecting (fetch_bonding_curve e cs (nt_rpc n) mint)) (\<lambda>after.
     run_bind (token_balance n ata) (\<lambda>_.
     run_return ()))))))))"

definition example_sweep_creator_fee ::
  "'e sdk_env_scheme \<Rightarrow> 'c codecs_scheme \<Rightarrow> ('t, 'm, 'y) tool_env_scheme \<Rightarrow>
     ('s, 'tx, 'msg, 'hash, 'sig, 'z) net_scheme \<Rightarrow>
     ('s, unit) run"
where
  "example_sweep_creator_fee e cs te n =
     run_bind (effect (nt_keypair n)) (\<lambda>payer.
     let mint = NOT_CASHBACK_SOL_CURVE_MINT; quote_token_program = SPL_TOKEN_PROGRAM_ID
     in
     run_bind (airdrop_blocking n payer DEFAULT_USER_LAMPORTS) (\<lambda>_.
     run_bind (load_alt te n DEVNET_ALT) (\<lambda>alt.
     run_bind (expecting (fetch_bonding_curve e cs (nt_rpc n) mint)) (\<lambda>bc.
     let vault = fst (pump_creator_vault e (bc_creator bc))
     in
     run_bind (expecting (nt_balance n vault)) (\<lambda>_.
     run_bind (send_v0_tx n (nt_set_compute_unit_limit n 200000 # [sweep_creator_fee_instruction e payer mint
         (bc_creator bc) (bc_quote_mint bc) quote_token_program]) payer [payer] alt) (\<lambda>_.
     run_bind (expecting (fetch_bonding_curve e cs (nt_rpc n) mint)) (\<lambda>after.
     run_bind (expecting (nt_balance n vault)) (\<lambda>_.
     run_return ()))))))))"

section \<open>New coins\<close>

definition example_create_v2 ::
  "'e sdk_env_scheme \<Rightarrow> ('t, 'm, 'y) tool_env_scheme \<Rightarrow>
     ('s, 'tx, 'msg, 'hash, 'sig, 'z) net_scheme \<Rightarrow>
     ('s, unit) run"
where
  "example_create_v2 e te n =
     run_bind (effect (nt_keypair n)) (\<lambda>user.
     run_bind (effect (nt_keypair n)) (\<lambda>mint.
     run_bind (airdrop_blocking n user DEFAULT_USER_LAMPORTS) (\<lambda>_.
     run_bind (load_alt te n DEVNET_ALT) (\<lambda>alt.
     run_bind (send_v0_tx n (nt_set_compute_unit_limit n 400000 # [create_v2_instruction e mint user ''Example''
         ''EX'' ''https://example.com/ex.json'' user
         default_key SPL_TOKEN_PROGRAM_ID False False 0]) user [user, mint] alt) (\<lambda>_.
     run_return ())))))"

definition example_create_v2_and_buy ::
  "'e sdk_env_scheme \<Rightarrow> 'c codecs_scheme \<Rightarrow> ('t, 'm, 'y) tool_env_scheme \<Rightarrow>
     ('s, 'tx, 'msg, 'hash, 'sig, 'z) net_scheme \<Rightarrow> (nat \<Rightarrow> nat \<Rightarrow> nat) \<Rightarrow>
     ('s, unit) run"
where
  "example_create_v2_and_buy e cs te n dr =
     run_bind (effect (nt_keypair n)) (\<lambda>user.
     run_bind (effect (nt_keypair n)) (\<lambda>mint.
     run_bind (airdrop_blocking n user DEFAULT_USER_LAMPORTS) (\<lambda>_.
     run_bind (load_alt te n DEVNET_ALT) (\<lambda>alt.
     run_bind (expecting (fetch_global e cs (nt_rpc n))) (\<lambda>glob.
     run_bind (expecting_some (create_v2_and_buy_instruction e (dr 0) (dr 1) mint user ''Example'' ''EX''
         ''https://example.com/ex.json'' user
         default_key SPL_TOKEN_PROGRAM_ID False False 0
         None glob 1000000000 LAMPORTS_PER_SOL)) (\<lambda>ixs.
     run_bind (send_v0_tx n (nt_set_compute_unit_limit n 400000 # ixs) user [user, mint] alt) (\<lambda>_.
     run_return ())))))))"

definition example_claim_cashback_v2 ::
  "'e sdk_env_scheme \<Rightarrow> 'c codecs_scheme \<Rightarrow> ('t, 'm, 'y) tool_env_scheme \<Rightarrow>
     ('s, 'tx, 'msg, 'hash, 'sig, 'z) net_scheme \<Rightarrow> (nat \<Rightarrow> nat \<Rightarrow> nat) \<Rightarrow>
     ('s, unit) run"
where
  "example_claim_cashback_v2 e cs te n dr =
     run_bind (effect (nt_keypair n)) (\<lambda>user.
     run_bind (effect (nt_keypair n)) (\<lambda>mint.
     run_bind (airdrop_blocking n user DEFAULT_USER_LAMPORTS) (\<lambda>_.
     run_bind (load_alt te n DEVNET_ALT) (\<lambda>alt.
     run_bind (expecting (fetch_global e cs (nt_rpc n))) (\<lambda>glob.
     run_bind (expecting_some (create_v2_and_buy_instruction e (dr 0) (dr 1) mint user
         ''Cashback Example'' ''CBEX'' ''https://example.com/cbex.json'' user default_key SPL_TOKEN_PROGRAM_ID False True 0
         None glob 1000000000 LAMPORTS_PER_SOL)) (\<lambda>create_ixs.
     run_bind (send_v0_tx n (nt_set_compute_unit_limit n 400000 # create_ixs) user [user, mint] alt) (\<lambda>_.
     run_bind (send_v0_tx n (nt_set_compute_unit_limit n 200000 # [claim_cashback_v2_instruction e user default_key
         SPL_TOKEN_PROGRAM_ID]) user [user] alt) (\<lambda>_.
     run_return ()))))))))"

section \<open>Pools\<close>

text \<open>\<open>decode_pool(&rpc.get_account(..).await.expect(..).data).expect(..)\<close>.\<close>

definition expect_decoded ::
  "('s, 'tx, 'msg, 'hash, 'sig, 'z) net_scheme \<Rightarrow> (byte list \<Rightarrow> ('e, 'a) res) \<Rightarrow> pubkey \<Rightarrow>
     ('s, 'a) run"
where
  "expect_decoded n decoder key =
     run_bind (expecting (nt_get_account n key)) (\<lambda>ac. expecting_ok (decoder (ac_data ac)))"

definition example_buy_amm ::
  "'e sdk_env_scheme \<Rightarrow> 'c codecs_scheme \<Rightarrow> ('t, 'm, 'y) tool_env_scheme \<Rightarrow>
     ('s, 'tx, 'msg, 'hash, 'sig, 'z) net_scheme \<Rightarrow> (nat \<Rightarrow> nat \<Rightarrow> nat) \<Rightarrow>
     ('s, unit) run"
where
  "example_buy_amm e cs te n dr =
     run_bind (example_fee_recipients e cs (nt_rpc n)) (\<lambda>(_, buyback_fee_recipient).
     run_bind (effect (nt_keypair n)) (\<lambda>user.
     let mint = GRADUATED_DEVNET_MINT; base_token_program = SPL_TOKEN_2022_PROGRAM_ID;
         quote_token_program = SPL_TOKEN_PROGRAM_ID; quote_mint = NATIVE_MINT;
         max_sol_cost = LAMPORTS_PER_SOL; base_amount_out = 1000000
     in
     run_bind (airdrop_blocking n user DEFAULT_USER_LAMPORTS) (\<lambda>_.
     run_bind (load_alt te n DEVNET_ALT) (\<lambda>alt.
     let pool_creator = fst (pool_authority e mint);
         pool_address = fst (amm_pool e 0 pool_creator mint quote_mint)
     in
     run_bind (expect_decoded n (decode_pool cs) pool_address) (\<lambda>pl.
     run_bind (expect_decoded n (decode_global_config cs) (fst (amm_global_config e))) (\<lambda>cfg.
     run_bind (build_wsol_setup_tx e n user (fst (pump_bonding_curve e mint)) buyback_fee_recipient
         max_sol_cost) (\<lambda>setup_tx.
     run_bind (expecting (nt_send n setup_tx)) (\<lambda>_.
     run_bind (expecting_some (buy_amm_instructions e (dr 0) (dr 1) pool_address cfg pl base_token_program
         quote_token_program user base_amount_out max_sol_cost)) (\<lambda>ixs.
     run_bind (expecting_ok (unwrap_sol_instruction e user)) (\<lambda>unwrap_ix.
     run_bind (send_v0_tx n (nt_set_compute_unit_limit n 400000 # ixs @ [unwrap_ix]) user [user] alt) (\<lambda>_.
     run_return ())))))))))))"

definition example_sell_amm ::
  "'e sdk_env_scheme \<Rightarrow> 'c codecs_scheme \<Rightarrow> ('t, 'm, 'y) tool_env_scheme \<Rightarrow>
     ('s, 'tx, 'msg, 'hash, 'sig, 'z) net_scheme \<Rightarrow> (nat \<Rightarrow> nat \<Rightarrow> nat) \<Rightarrow>
     ('s, unit) run"
where
  "example_sell_amm e cs te n dr =
     run_bind (example_fee_recipients e cs (nt_rpc n)) (\<lambda>(_, buyback_fee_recipient).
     run_bind (effect (nt_keypair n)) (\<lambda>user.
     let mint = GRADUATED_DEVNET_MINT; base_token_program = SPL_TOKEN_2022_PROGRAM_ID;
         quote_token_program = SPL_TOKEN_PROGRAM_ID; quote_mint = NATIVE_MINT;
         max_sol_cost = LAMPORTS_PER_SOL; base_amount = 1000000000
     in
     run_bind (airdrop_blocking n user DEFAULT_USER_LAMPORTS) (\<lambda>_.
     run_bind (load_alt te n DEVNET_ALT) (\<lambda>alt.
     let pool_creator = fst (pool_authority e mint);
         pool_address = fst (amm_pool e 0 pool_creator mint quote_mint)
     in
     run_bind (expect_decoded n (decode_pool cs) pool_address) (\<lambda>pl.
     run_bind (expect_decoded n (decode_global_config cs) (fst (amm_global_config e))) (\<lambda>cfg.
     run_bind (build_wsol_setup_tx e n user (fst (pump_bonding_curve e mint)) buyback_fee_recipient
         max_sol_cost) (\<lambda>setup_tx.
     run_bind (expecting (nt_send n setup_tx)) (\<lambda>_.
     run_bind (expecting_some (buy_amm_instructions e (dr 0) (dr 1) pool_address cfg pl base_token_program
         quote_token_program user base_amount max_sol_cost)) (\<lambda>buy_ixs.
     run_bind (send_v0_tx n (nt_set_compute_unit_limit n 400000 # buy_ixs) user [user] alt) (\<lambda>_.
     run_bind (expecting_some (sell_amm_instructions e (dr 2) (dr 3) pool_address cfg pl base_token_program
         quote_token_program user base_amount 0)) (\<lambda>sell_ixs.
     run_bind (expecting_ok (unwrap_sol_instruction e user)) (\<lambda>unwrap_ix.
     run_bind (send_v0_tx n (nt_set_compute_unit_limit n 400000 # sell_ixs @ [unwrap_ix]) user [user] alt) (\<lambda>_.
     run_return ())))))))))))))"

section \<open>Creator fees\<close>

definition example_collect_coin_creator_fee ::
  "'e sdk_env_scheme \<Rightarrow> 'c codecs_scheme \<Rightarrow> ('t, 'm, 'y) tool_env_scheme \<Rightarrow>
     ('s, 'tx, 'msg, 'hash, 'sig, 'z) net_scheme \<Rightarrow>
     ('s, unit) run"
where
  "example_collect_coin_creator_fee e cs te n =
     (let mint = GRADUATED_DEVNET_MINT; quote_token_program = SPL_TOKEN_PROGRAM_ID;
         quote_mint = NATIVE_MINT; pool_creator = fst (pool_authority e mint);
         pool_address = fst (amm_pool e 0 pool_creator mint quote_mint)
     in
     run_bind (expect_decoded n (decode_pool cs) pool_address) (\<lambda>pl.
     run_bind (effect (nt_keypair n)) (\<lambda>user.
     run_bind (airdrop_blocking n user DEFAULT_USER_LAMPORTS) (\<lambda>_.
     run_bind (load_alt te n DEVNET_ALT) (\<lambda>alt.
     run_bind (send_v0_tx n (nt_set_compute_unit_limit n 200000 # collect_coin_creator_fee_instructions e
         user (p_coin_creator pl) quote_mint quote_token_program True) user [user] alt) (\<lambda>_.
     run_return ()))))))"

definition example_transfer_creator_fees_to_pump_v2 ::
  "'e sdk_env_scheme \<Rightarrow> 'c codecs_scheme \<Rightarrow> ('t, 'm, 'y) tool_env_scheme \<Rightarrow>
     ('s, 'tx, 'msg, 'hash, 'sig, 'z) net_scheme \<Rightarrow>
     ('s, unit) run"
where
  "example_transfer_creator_fees_to_pump_v2 e cs te n =
     (let mint = GRADUATED_DEVNET_MINT; quote_token_program = SPL_TOKEN_PROGRAM_ID;
         quote_mint = NATIVE_MINT; pool_creator = fst (pool_authority e mint);
         pool_address = fst (amm_pool e 0 pool_creator mint quote_mint)
     in
     run_bind (expect_decoded n (decode_pool cs) pool_address) (\<lambda>pl.
     run_bind (effect (nt_keypair n)) (\<lambda>user.
     run_bind (airdrop_blocking n user DEFAULT_USER_LAMPORTS) (\<lambda>_.
     run_bind (load_alt te n DEVNET_ALT) (\<lambda>alt.
     run_bind (send_v0_tx n (nt_set_compute_unit_limit n 200000 # [transfer_creator_fees_to_pump_v2_instruction
         e user (p_coin_creator pl) quote_mint quote_token_program]) user [user] alt) (\<lambda>_.
     run_return ()))))))"

text \<open>A failed send is only reported.\<close>

definition example_collect_creator_fee_v2 ::
  "'e sdk_env_scheme \<Rightarrow> ('t, 'm, 'y) tool_env_scheme \<Rightarrow>
     ('s, 'tx, 'msg, 'hash, 'sig, 'z) net_scheme \<Rightarrow>
     ('s, unit) run"
where
  "example_collect_creator_fee_v2 e te n =
     run_bind (effect (nt_keypair n)) (\<lambda>user.
     run_bind (airdrop_blocking n user DEFAULT_USER_LAMPORTS) (\<lambda>_.
     run_bind (load_alt te n DEVNET_ALT) (\<lambda>alt.
     run_bind (build_v0_tx n (nt_set_compute_unit_limit n 200000 # collect_creator_fee_v2_instructions e user
         user USDC_QUOTE_MINT SPL_TOKEN_PROGRAM_ID True) user [user] alt) (\<lambda>tx.
     run_bind (or_default (\<lambda>s. case nt_send n tx s of (r, s') \<Rightarrow> (map_res Some r, s')) None) (\<lambda>_.
     run_return ())))))"

definition example_distribute_creator_fees_v2 ::
  "'e sdk_env_scheme \<Rightarrow> 'c codecs_scheme \<Rightarrow> ('t, 'm, 'y) tool_env_scheme \<Rightarrow>
     ('s, 'tx, 'msg, 'hash, 'sig, 'z) net_scheme \<Rightarrow>
     ('s, unit) run"
where
  "example_distribute_creator_fees_v2 e cs te n =
     (let mint = GRADUATED_WITH_SHARING_FEE_CONFIG_AND_QUOTE_MINT
     in
     run_bind (expecting (fetch_bonding_curve e cs (nt_rpc n) mint)) (\<lambda>bc.
     run_bind (expect_decoded n (decode_sharing_config (te_deserialize_sharing_config te))
         (fst (pump_sharing_config e mint))) (\<lambda>sharing.
     let shareholders = map fst sharing
     in
     run_bind (effect (nt_keypair n)) (\<lambda>payer.
     run_bind (airdrop_blocking n payer DEFAULT_USER_LAMPORTS) (\<lambda>_.
     run_bind (load_alt te n DEVNET_ALT) (\<lambda>alt.
     run_bind (send_v0_tx n (nt_set_compute_unit_limit n 400000 # distribute_creator_fees_v2_instructions e
         payer mint (bc_creator bc) USDC_QUOTE_MINT SPL_TOKEN_PROGRAM_ID False True shareholders) payer [payer] alt) (\<lambda>_.
     run_return ())))))))"

section \<open>Multi-hop swap\<close>

text \<open>\<open>ixs\<close> behind a compute-unit limit.\<close>

definition example_send ::
  "('s, 'tx, 'msg, 'hash, 'sig, 'z) net_scheme \<Rightarrow> pubkey \<times> pubkey list \<Rightarrow> pubkey \<Rightarrow> u32 \<Rightarrow>
     instruction list \<Rightarrow> pubkey list \<Rightarrow> ('s, 'sig) run" where
  "example_send n alt user cu ixs extra_signers =
     send_v0_tx n (nt_set_compute_unit_limit n cu # ixs) user (user # extra_signers) alt"

definition MULTI_HOP_COMPUTE_UNITS :: u32 where "MULTI_HOP_COMPUTE_UNITS = 1400000"

definition example_multi_hop_swap ::
  "'e sdk_env_scheme \<Rightarrow> 'c codecs_scheme \<Rightarrow> ('t, 'm, 'y) tool_env_scheme \<Rightarrow>
     ('s, 'tx, 'msg, 'hash, 'sig, 'z) net_scheme \<Rightarrow> string \<Rightarrow>
     (nat \<Rightarrow> nat \<Rightarrow> nat) \<Rightarrow> ('s, unit) run"
where
  "example_multi_hop_swap e cs te n authority_path dr =
     run_bind (effect (nt_keypair n)) (\<lambda>user.
     run_bind (airdrop_blocking n user DEFAULT_USER_LAMPORTS) (\<lambda>_.
     run_bind (fund_test_usdc e n authority_path user 100000000000) (\<lambda>_.
     run_bind (load_alt te n DEVNET_ALT) (\<lambda>alt.
     run_bind (effect (nt_keypair n)) (\<lambda>q.
     let create_q = create_v2_instruction e q user ''Quote'' ''QUOTE'' ''https://example.com/q.json''
           user USDC_QUOTE_MINT SPL_TOKEN_PROGRAM_ID False False 0
     in
     run_bind (example_send n alt user 400000 [create_q] [q]) (\<lambda>_.
     run_bind (expecting (build_buy_v3 e cs (nt_rpc n) (dr 0) user q 500000000000000 100))
       (\<lambda>(_, ixs).
     run_bind (example_send n alt user 400000 ixs []) (\<lambda>_.
     run_bind (expecting (fetch_pump_quote_create e cs (nt_rpc n) q)) (\<lambda>created.
     run_bind (effect (nt_keypair n)) (\<lambda>c.
     let create_c = create_v2_instruction e c user ''Child'' ''CHILD'' ''https://example.com/c.json''
           user q (pqc_quote_token_program created) False False 0;
         create_c = create_c\<lparr>ix_accounts := ix_accounts create_c @ pqc_remaining_accounts created\<rparr>
     in
     run_bind (example_send n alt user 250000 [create_c] [c]) (\<lambda>_.
     run_bind (expecting (discover_route e cs (nt_rpc n) c None)) (\<lambda>_.
     run_bind (expecting (build_multi_hop_swap e cs (nt_rpc n) (dr 1) user c True 1000000 100))
       (\<lambda>(quote, ixs).
     run_bind (example_send n alt user MULTI_HOP_COMPUTE_UNITS ixs []) (\<lambda>_.
     let ata = fst (associated_token e user SPL_TOKEN_2022_PROGRAM_ID c)
     in
     run_bind (token_balance n ata) (\<lambda>_.
     run_return ())))))))))))))))"

section \<open>A coin quoted in a Token-2022 mint\<close>

definition env_or :: "env_vars \<Rightarrow> string \<Rightarrow> string \<Rightarrow> string" where
  "env_or env key default_value = unwrap_or (env key) default_value"

definition contains_text :: "string \<Rightarrow> string \<Rightarrow> bool" where
  "contains_text s sub = list_ex (\<lambda>i. take (length sub) (drop i s) = sub) [0..<Suc (length s)]"

text \<open>\<open>key_from_str\<close> is \<open>Pubkey::from_str\<close>, \<open>connect\<close> is \<open>RpcClient::new_with_commitment\<close>.\<close>

definition example_create_v2_token2022_quote ::
  "'e sdk_env_scheme \<Rightarrow> 'c codecs_scheme \<Rightarrow> ('t, 'm, 'y) tool_env_scheme \<Rightarrow>
     (string \<Rightarrow> pubkey option) \<Rightarrow> (string \<Rightarrow> ('s, 'tx, 'msg, 'hash, 'sig, 'z) net_scheme) \<Rightarrow>
     env_vars \<Rightarrow> (nat \<Rightarrow> nat \<Rightarrow> nat) \<Rightarrow> ('s, unit) run"
where
  "example_create_v2_token2022_quote e cs te key_from_str connect env dr =
     (let rpc_url = env_or env ''RPC_URL'' ''https://api.devnet.solana.com'';
          keypair_path = env_or env ''KEYPAIR''
            (env_or env ''HOME'' ''.'' @ ''/.config/solana/id.json'')
      in
     run_bind (expecting_some (env ''QUOTE_MINT'')) (\<lambda>quote_text.
     run_bind (expecting_some (key_from_str quote_text)) (\<lambda>quote_mint.
     run_bind (expecting_some (parse_unsigned (env_or env ''TOKEN_AMOUNT'' ''1000000000'')))
       (\<lambda>token_amount.
     run_bind (expecting_some (parse_unsigned (env_or env ''SLIPPAGE_BPS'' ''100''))) (\<lambda>slippage_bps.
     run_bind (expecting_some (parse_unsigned (env_or env ''CREATOR_FEE_BPS'' ''0'')))
       (\<lambda>creator_bps.
     let default_alt = (if contains_text rpc_url ''mainnet'' then MAINNET_ALT else DEVNET_ALT)
     in
     run_bind (case env ''ALT'' of None \<Rightarrow> run_return default_alt
         | Some k \<Rightarrow> expecting_some (key_from_str k)) (\<lambda>alt_key.
     let n = connect rpc_url; r = nt_rpc n
     in
     run_bind (expecting (nt_read_keypair n keypair_path)) (\<lambda>user.
     run_bind (effect (nt_keypair n)) (\<lambda>mint.
     run_bind (expecting (nt_get_account n quote_mint)) (\<lambda>quote_mint_account.
     let quote_token_program = ac_owner quote_mint_account
     in
     run_bind (asserting (quote_token_program = SPL_TOKEN_PROGRAM_ID
         \<or> quote_token_program = SPL_TOKEN_2022_PROGRAM_ID)) (\<lambda>_.
     run_bind (expecting (fetch_global e cs r)) (\<lambda>glob.
     run_bind (expecting (fetch_fee_config e cs r)) (\<lambda>fee_config.
     run_bind (or_default (io_bind (fetch_quote_control e cs r) (\<lambda>qc. io (Ok (Some qc)))) None)
       (\<lambda>quote_control.
     run_bind (expecting_some (initial_virtual_quote_reserves glob quote_control quote_mint))
       (\<lambda>virtual_quote_reserves.
     let preview = initial_bonding_curve glob user quote_mint virtual_quote_reserves False False
           creator_bps
     in
     run_bind (expecting_ok (buy_quote_bonding_curve_token_out e glob fee_config preview
         (g_token_total_supply glob) token_amount slippage_bps)) (\<lambda>quote.
     run_bind (load_alt te n alt_key) (\<lambda>alt.
     run_bind (expecting_some (create_v2_and_buy_instruction e (dr 0) (dr 1) mint user ''Example''
         ''EX'' ''https://example.com/ex.json'' user quote_mint quote_token_program False False
         creator_bps None glob token_amount (q_max_input quote))) (\<lambda>ixs.
     run_bind (send_v0_tx n (nt_set_compute_unit_limit n 400000 # ixs) user [user, mint] alt) (\<lambda>_.
     run_bind (expecting (fetch_bonding_curve e cs r mint)) (\<lambda>curve.
     run_return ()))))))))))))))))))))"

end
