(* ===== verification/Flow_Properties.thy ===== *)
theory Flow_Properties
  imports Airdrop Example_Flows Client_Properties Tx_Properties Sample_Tool
begin

text \<open>
  Properties of the programs that talk to a validator: the wait for a confirmation, the airdrop of
  test USDC and the launch of a coin with its first buy.
\<close>

section \<open>Programs\<close>

lemma run_bind_Ok:
  assumes "run_bind m k s = Some (Ok v, s')"
  obtains a s1 where "m s = Some (Ok a, s1)" and "k a s1 = Some (Ok v, s')"
  using assms by (auto simp: run_bind_def split: option.splits sum.splits)

lemma expecting_Ok: "expecting m s = Some (Ok v, s') \<longleftrightarrow> m s = (Ok v, s')"
  by (auto simp: expecting_def split: prod.splits sum.splits)

lemma expecting_ok_Ok: "expecting_ok r s = Some (Ok v, s') \<longleftrightarrow> r = Ok v \<and> s' = s"
  by (auto simp: expecting_ok_def expecting_Ok io_def)

lemma asserting_Ok: "asserting b s = Some (Ok v, s') \<longleftrightarrow> b \<and> s' = s"
  by (auto simp: asserting_def)

lemma run_return_Ok: "run_return a s = Some (Ok v, s') \<longleftrightarrow> v = a \<and> s' = s"
  by (auto simp: run_return_def)

lemma expecting_some_Ok: "expecting_some x s = Some (Ok v, s') \<longleftrightarrow> x = Some v \<and> s' = s"
  by (cases x) (auto simp: expecting_some_def)

lemmas run_results = expecting_Ok expecting_ok_Ok expecting_some_Ok asserting_Ok run_return_Ok

section \<open>Waiting\<close>

text \<open>The clock does not go back, and a sleep is at least as long as asked for.\<close>

definition clock_ok :: "('s, 'tx, 'msg, 'hash, 'sig, 'z) net_scheme \<Rightarrow> ('s \<Rightarrow> nat) \<Rightarrow> bool" where
  "clock_ok n clock \<longleftrightarrow>
     (\<forall>s. fst (nt_now n s) = clock s \<and> clock s \<le> clock (snd (nt_now n s))) \<and>
     (\<forall>sig s. clock s \<le> clock (snd (nt_confirm n sig s))) \<and>
     (\<forall>d s. clock s + d \<le> clock (nt_sleep n d s))"

text \<open>A poll that neither ends the wait nor runs past the deadline, what follows it, and what the
  last poll returns.\<close>

definition waits :: "('s, 'tx, 'msg, 'hash, 'sig, 'z) net_scheme \<Rightarrow> 'sig \<Rightarrow> nat \<Rightarrow> 's \<Rightarrow> bool" where
  "waits n sig deadline s =
     (case nt_confirm n sig s of (r, s1) \<Rightarrow>
        r \<noteq> panic \<and> r \<noteq> Ok True \<and> fst (nt_now n s1) < deadline)"

definition next_poll :: "('s, 'tx, 'msg, 'hash, 'sig, 'z) net_scheme \<Rightarrow> 'sig \<Rightarrow> 's \<Rightarrow> 's" where
  "next_poll n sig s = nt_sleep n 500000000 (snd (nt_now n (snd (nt_confirm n sig s))))"

definition last_poll ::
  "('s, 'tx, 'msg, 'hash, 'sig, 'z) net_scheme \<Rightarrow> 'sig \<Rightarrow> 's \<Rightarrow> unit or_panic \<times> 's" where
  "last_poll n sig s =
     (case nt_confirm n sig s of (r, s1) \<Rightarrow>
        if r = Ok True then (Ok (), s1) else if r = panic then (panic, s1)
        else (panic, snd (nt_now n s1)))"

lemma confirm_loop_step:
  "confirm_loop n sig deadline s =
     (if waits n sig deadline s then confirm_loop n sig deadline (next_poll n sig s)
      else Some (last_poll n sig s))"
  by (subst confirm_loop.simps)
    (auto simp: or_default_def waits_def next_poll_def last_poll_def
      split: prod.splits sum.splits fault.splits)

lemma waits_advances:
  assumes "clock_ok n clock" and "waits n sig deadline s"
  shows "clock s < deadline" and "clock s + 500000000 \<le> clock (next_poll n sig s)"
proof -
  obtain r s1 where c: "nt_confirm n sig s = (r, s1)" by (cases "nt_confirm n sig s")
  have 1: "clock s \<le> clock s1" using assms(1) c unfolding clock_ok_def by (metis snd_conv)
  have 2: "fst (nt_now n s1) = clock s1" "clock s1 \<le> clock (snd (nt_now n s1))"
    using assms(1) by (simp_all add: clock_ok_def)
  have 3: "clock (snd (nt_now n s1)) + 500000000 \<le> clock (nt_sleep n 500000000 (snd (nt_now n s1)))"
    using assms(1) by (simp add: clock_ok_def)
  show "clock s < deadline" using assms(2) 1 2 by (simp add: waits_def c)
  show "clock s + 500000000 \<le> clock (next_poll n sig s)"
    using 1 2(2) 3 by (simp add: next_poll_def c)
qed

lemma confirm_loop_ends:
  assumes "clock_ok n clock" and "deadline \<le> clock s + m * 500000000"
  shows "\<exists>k\<le>m. (\<forall>j<k. waits n sig deadline ((next_poll n sig ^^ j) s)) \<and>
    \<not> waits n sig deadline ((next_poll n sig ^^ k) s) \<and>
    confirm_loop n sig deadline s = Some (last_poll n sig ((next_poll n sig ^^ k) s))"
  using assms(2)
proof (induction m arbitrary: s)
  case 0
  then have "\<not> waits n sig deadline s" using waits_advances(1) [OF assms(1), of sig deadline s] by auto
  then show ?case by (simp add: confirm_loop_step)
next
  case (Suc m)
  show ?case
  proof (cases "waits n sig deadline s")
    case False
    then show ?thesis by (intro exI [of _ 0]) (simp add: confirm_loop_step)
  next
    case True
    then have "deadline \<le> clock (next_poll n sig s) + m * 500000000"
      using waits_advances(2) [OF assms(1) True] Suc.prems by simp
    from Suc.IH [OF this] obtain k where k: "k \<le> m"
      and w: "\<forall>j<k. waits n sig deadline ((next_poll n sig ^^ j) (next_poll n sig s))"
      and e: "\<not> waits n sig deadline ((next_poll n sig ^^ k) (next_poll n sig s))"
      and r: "confirm_loop n sig deadline (next_poll n sig s) =
        Some (last_poll n sig ((next_poll n sig ^^ k) (next_poll n sig s)))" by blast
    have "waits n sig deadline ((next_poll n sig ^^ j) s)" if "j < Suc k" for j
      using that w True by (cases j) (simp_all add: funpow_swap1)
    moreover have "confirm_loop n sig deadline s =
        Some (last_poll n sig ((next_poll n sig ^^ Suc k) s))"
      using True r by (simp add: confirm_loop_step [of n sig deadline s] funpow_swap1)
    ultimately show ?thesis using k e by (intro exI [of _ "Suc k"]) (simp add: funpow_swap1)
  qed
qed

text \<open>A local validator to evaluate the programs on: a clock and the transactions sent. Nobody is
  funded, an airdrop is confirmed when the clock is past one second.\<close>

type_synonym local_state = "nat \<times> (instruction list \<times> pubkey list) list"

definition local_net ::
  "(local_state, instruction list \<times> pubkey list, instruction list, unit, unit) net" where
  "local_net = \<lparr>
     nt_rpc = \<lparr>rpc_get_account = (\<lambda>_ s. (Ok None, s)),
       rpc_get_multiple = (\<lambda>keys s. (Ok (map (\<lambda>_. None) keys), s)),
       rpc_min_rent = (\<lambda>_ s. (Ok 0, s))\<rparr>,
     nt_get_account = (\<lambda>_ s. (Err ''AccountNotFound'', s)),
     nt_request_airdrop = (\<lambda>_ _ s. (Ok (), s)),
     nt_confirm = (\<lambda>_ s. (Ok (1000000000 \<le> fst s), s)),
     nt_balance = (\<lambda>_ s. (Ok 0, s)),
     nt_balance_text = (\<lambda>_ s. (Ok ''0'', s)),
     nt_blockhash = (\<lambda>s. (Ok (), s)),
     nt_send = (\<lambda>tx s. (Ok (), (fst s, snd s @ [tx]))),
     nt_now = (\<lambda>s. (fst s, s)),
     nt_sleep = (\<lambda>d s. (fst s + d, snd s)),
     nt_keypair = (\<lambda>s. (1, s)),
     nt_read_keypair = (\<lambda>_ s. (Ok USDC_QUOTE_MINT_AUTHORITY, s)),
     nt_sign_legacy = (\<lambda>ixs _ signers _. Ok (ixs, signers)),
     nt_compile = (\<lambda>_ ixs _ _. Ok ixs),
     nt_sign = (\<lambda>ixs signers. Ok (ixs, signers)),
     nt_set_compute_unit_limit = (\<lambda>units. \<lparr>ix_program_id = 0x0306466fe5211732ffecadba72c39be7bc8ce5bbc5f7126b2c439b3a40000000, ix_accounts = [],
       ix_data = 2 # le_bytes 4 units\<rparr>),
     nt_mint_to = (\<lambda>token_program mint ata authority _ amount.
       Ok \<lparr>ix_program_id = token_program, ix_accounts = [new_meta mint False, new_meta ata False,
             new_readonly authority True], ix_data = 7 # le_bytes 8 amount\<rparr>)\<rparr>"

lemma local_net_clock: "clock_ok local_net fst"
  by (simp add: clock_ok_def local_net_def)

text \<open>C29: The wait for a confirmation always ends, within 61 polls, if the clock does not go back and
  a sleep is not shorter than asked for: it answers with the first poll that is confirmed (the
  program goes on), panics, or comes after the 30 seconds are over (the program panics).\<close>
theorem await_confirmation_ends:
  assumes "clock_ok n clock"
  shows "\<exists>k\<le>60. \<exists>started. nt_now n s = (clock s, started) \<and>
    (\<forall>j<k. waits n sig (clock s + 30000000000) ((next_poll n sig ^^ j) started)) \<and>
    \<not> waits n sig (clock s + 30000000000) ((next_poll n sig ^^ k) started) \<and>
    await_confirmation n sig s = Some (last_poll n sig ((next_poll n sig ^^ k) started))"
proof -
  obtain started where st: "nt_now n s = (clock s, started)"
    using assms by (cases "nt_now n s") (auto simp: clock_ok_def dest: spec [of _ s])
  have "clock s \<le> clock started" using assms st unfolding clock_ok_def by (metis snd_conv)
  then have "clock s + 30000000000 \<le> clock started + 60 * 500000000" by simp
  from confirm_loop_ends [OF assms this] show ?thesis
    using st by (auto simp: await_confirmation_def run_bind_def effect_def)
qed

lemma local_net_last_poll:
  "1000000000 \<le> deadline \<Longrightarrow> \<not> waits local_net () deadline s \<Longrightarrow> last_poll local_net () s = (Ok (), s)"
  by (auto simp: waits_def last_poll_def local_net_def)

theorem await_confirmation_ends_witness:
  "\<exists>s'. await_confirmation local_net () (7, []) = Some (Ok (), s')"
proof -
  obtain x where "\<not> waits local_net () (fst (7 :: nat, [] :: (instruction list \<times> pubkey list) list)
      + 30000000000) x" "await_confirmation local_net () (7, []) = Some (last_poll local_net () x)"
    using await_confirmation_ends [OF local_net_clock, of "(7, [])" "()"] by blast
  then show ?thesis using local_net_last_poll [of 30000000007 x] by simp
qed

section \<open>Airdrop of test USDC\<close>

lemma digits_amount:
  assumes "list_all is_digit whole" "list_all is_digit decs" "whole \<noteq> []"
    and "digits_value 0 (whole @ decs) = Some m" and "length decs \<le> 6"
    and "m * 10 ^ (6 - length decs) < 2 ^ 51"
  shows "parse_amount (whole @ CHR ''.'' # decs) = Ok (of_nat (m * 10 ^ (6 - length decs)))"
proof -
  define n where "n = m * 10 ^ (6 - length decs)"
  have n: "n < 2 ^ 51" using assms(6) by (simp add: n_def)
  define x :: rat where "x = of_nat n / 10 ^ 6"
  have "\<exists>r. round_f64 x = Fin r \<and> 0 \<le> r"
  proof (cases "n = 0")
    case False
    then have n': "1 \<le> rat_of_nat n" "rat_of_nat n \<le> 2 ^ 51" using n by (simp_all add: less_imp_le)
    then have "1 / 10 ^ 6 \<le> x" "x \<le> 2 ^ 51" by (simp_all add: x_def)
    then have "2 powi - 1022 \<le> x" "x < 2 powi 1000"
      using power_int_increasing [of "- 1022" "- 20" "2 :: rat"]
        power_int_increasing [of 52 1000 "2 :: rat"] by simp_all
    then obtain r where r: "round_f64 x = Fin r" "\<bar>r - x\<bar> \<le> x * 2 powi - 53" by (rule round_f64_error)
    have "x * 2 powi - 53 \<le> x" using \<open>1 / 10 ^ 6 \<le> x\<close> by simp
    then have "0 \<le> r" using r(2) by linarith
    with r(1) show ?thesis by blast
  qed (simp add: x_def round_f64_def)
  then obtain r where r: "round_f64 x = Fin r" "0 \<le> r" by blast
  have e: "f64_round (round_f64 (r * 1000000)) = Fin (of_nat n)"
    using six_decimals_exact [OF n] r(1) by (simp add: x_def)
  have "rat_of_nat n < 2 ^ 51" using n by simp
  then have b: "\<not> rat_of_nat n < 0" "rat_of_nat n \<le> 2 ^ 64" "\<not> 2 ^ 64 \<le> rat_of_nat n" by simp_all
  have "parse_f64 (whole @ CHR ''.'' # decs) = Some (Fin r)"
    using parse_f64_point [OF assms(1-5)] r(1) by (simp add: x_def n_def)
  then show ?thesis
    unfolding n_def [symmetric] using r(2) b
    by (simp add: parse_amount_def QUOTE_DECIMALS_def f64_million e f64_of_max Let_def)
qed

text \<open>C28: If \<open>airdropusdc\<close> is called with an amount of at most six decimals below 2^51 raw units
  and returns, its last effect is to send one transaction, signed by the mint authority of the test
  USDC: a compute-unit limit, the creation of the wallet's token account and the mint of exactly
  that amount into it. Nothing is lost in the floating-point arithmetic of the parser.\<close>
theorem airdrop_mints_amount:
  assumes "airdropusdc e key_from_str connect env path [wallet, whole @ CHR ''.'' # decs] s =
      Some (Ok (), s')"
    and "list_all is_digit whole" "list_all is_digit decs" "whole \<noteq> []"
    and "digits_value 0 (whole @ decs) = Some m" and "length decs \<le> 6"
    and "m * 10 ^ (6 - length decs) < 2 ^ 51"
  shows "\<exists>key mint_ix blockhash tx s1 sig. let n = connect (local_rpc_url env) in
    key_from_str wallet = Some key \<and>
    nt_mint_to n SPL_TOKEN_PROGRAM_ID USDC_QUOTE_MINT
      (ata_of e key SPL_TOKEN_PROGRAM_ID USDC_QUOTE_MINT) USDC_QUOTE_MINT_AUTHORITY []
      (of_nat (m * 10 ^ (6 - length decs))) = Ok mint_ix \<and>
    nt_sign_legacy n
      [nt_set_compute_unit_limit n 200000,
       create_ata_idempotent e USDC_QUOTE_MINT_AUTHORITY key USDC_QUOTE_MINT SPL_TOKEN_PROGRAM_ID,
       mint_ix] USDC_QUOTE_MINT_AUTHORITY [USDC_QUOTE_MINT_AUTHORITY] blockhash = Ok tx \<and>
    nt_send n tx s1 = (Ok sig, s')"
proof -
  have args: "airdrop_args key_from_str [wallet, whole @ CHR ''.'' # decs] = Ok p \<longleftrightarrow>
      (\<exists>key. key_from_str wallet = Some key \<and> p = (key, of_nat (m * 10 ^ (6 - length decs))))" for p
    using digits_amount [OF assms(2-7)]
    by (cases "key_from_str wallet") (auto simp: airdrop_args_def)
  show ?thesis
    using assms(1)
    by (auto simp: airdropusdc_def read_mint_authority_def airdrop_instructions_def run_results
        args ata_of_def Let_def elim!: run_bind_Ok) blast
qed

lemma local_net_confirmed: "await_confirmation local_net () (7, []) = Some (Ok (), (1000000007, []))"
  by (simp add: await_confirmation_def run_bind_def effect_def confirm_loop.simps or_default_def
      local_net_def)

lemma digits_1_5: "list_all is_digit ''1''" "list_all is_digit ''5''"
    "digits_value 0 (''1'' @ ''5'') = Some 15"
  by (simp_all add: is_digit_def digit_value_def)

lemma local_airdrop:
  "\<exists>s'. airdropusdc sample_sdk_env (\<lambda>_. Some 77) (\<lambda>_. local_net) (\<lambda>_. None) ''keys''
     [''w'', ''1'' @ CHR ''.'' # ''5''] (7, []) = Some (Ok (), s')"
proof -
  have a: "airdrop_args (\<lambda>_. Some 77) [''w'', ''1'' @ CHR ''.'' # ''5''] = Ok (77, 1500000)"
    unfolding airdrop_args_def list.case expect_simps and_then_simps
    by (subst digits_amount [OF digits_1_5(1,2) _ digits_1_5(3)]) simp_all
  have f: "ensure_authority_funded local_net k (7, []) = Some (Ok (), (1000000007, []))" for k
    using local_net_confirmed
    by (simp add: ensure_authority_funded_def run_bind_def or_default_def expecting_def local_net_def
        LAMPORTS_PER_SOL_def)
  show ?thesis
    unfolding airdropusdc_def a
    by (simp add: run_bind_def expecting_ok_def expecting_def io_def read_mint_authority_def
        asserting_def run_return_def f airdrop_instructions_def Let_def)
      (simp add: local_net_def f [unfolded local_net_def])
qed

theorem airdrop_mints_amount_witness:
  "\<exists>s'. airdropusdc sample_sdk_env (\<lambda>_. Some 77) (\<lambda>_. local_net) (\<lambda>_. None) ''keys''
      [''w'', ''1.5''] (7, []) = Some (Ok (), s') \<and>
    last (snd s') =
      ([nt_set_compute_unit_limit local_net 200000,
        create_ata_idempotent sample_sdk_env USDC_QUOTE_MINT_AUTHORITY 77 USDC_QUOTE_MINT
          SPL_TOKEN_PROGRAM_ID,
        \<lparr>ix_program_id = SPL_TOKEN_PROGRAM_ID,
         ix_accounts = [new_meta USDC_QUOTE_MINT False,
           new_meta (ata_of sample_sdk_env 77 SPL_TOKEN_PROGRAM_ID USDC_QUOTE_MINT) False,
           new_readonly USDC_QUOTE_MINT_AUTHORITY True],
         ix_data = 7 # le_bytes 8 (1500000 :: u64)\<rparr>], [USDC_QUOTE_MINT_AUTHORITY])"
proof -
  obtain s' where s': "airdropusdc sample_sdk_env (\<lambda>_. Some 77) (\<lambda>_. local_net) (\<lambda>_. None) ''keys''
      [''w'', ''1'' @ CHR ''.'' # ''5''] (7, []) = Some (Ok (), s')"
    using local_airdrop by blast
  from airdrop_mints_amount [OF this digits_1_5(1,2) _ digits_1_5(3)] s'
  show ?thesis by (auto simp: local_net_def)
qed

text \<open>The overflow check compares with \<open>u64::MAX as f64\<close>, which is 2^64: an amount of exactly
  2^64 raw units passes it, and the saturating cast makes it one unit less.\<close>

lemma amount_limit: "parse_amount ''18446744073709.551616'' = Ok (- 1)"
proof -
  have d: "list_all is_digit ''18446744073709''" "list_all is_digit ''551616''"
    by (simp_all add: is_digit_def digit_value_def)
  have v: "digits_value 0 (''18446744073709'' @ ''551616'') = Some 18446744073709551616"
    by (simp add: digit_value_def)
  have "rat_exponent (18446744073709551616 / 1000000) = 44" by (rule rat_exponent_unique) simp_all
  moreover have "\<lfloor>18446744073709551616 / 1000000 * 256 :: rat\<rfloor> = 4722366482869645"
    by (rule floor_unique) simp_all
  ultimately have r: "round_f64 (18446744073709551616 / 1000000) = Fin (4722366482869645 / 256)"
    by (simp add: round_f64_def round_half_even_def Let_def)
  have "rat_exponent (4722366482869645 / 256 * 1000000) = 63" by (rule rat_exponent_unique) simp_all
  moreover have "\<lfloor>4722366482869645 / 256 * 1000000 / 2048 :: rat\<rfloor> = 9007199254740991"
    by (rule floor_unique) simp_all
  ultimately have m: "round_f64 (4722366482869645 / 256 * 1000000) = Fin (2 ^ 64)"
    by (simp add: round_f64_def round_half_even_def Let_def)
  have "parse_f64 ''18446744073709.551616'' = Some (Fin (4722366482869645 / 256))"
    using parse_f64_point [OF d _ v] r by simp
  then show ?thesis
    using m by (simp add: parse_amount_def QUOTE_DECIMALS_def f64_million f64_of_max Let_def)
qed

section \<open>Launch of a coin\<close>

lemma send_v0_tx_Ok:
  assumes "send_v0_tx n ixs payer signers alt s = Some (Ok sig, s')"
  obtains blockhash s1 msg tx where "nt_blockhash n s = (Ok blockhash, s1)"
    and "nt_compile n payer ixs [alt] blockhash = Ok msg" and "nt_sign n msg signers = Ok tx"
    and "nt_send n tx s1 = (Ok sig, s')"
  using assms by (auto simp: send_v0_tx_def build_v0_tx_def run_results elim!: run_bind_Ok)

lemma create_v2_and_buy_parts:
  assumes "codegen_ok e"
    and "create_v2_and_buy_instruction e d1 d2 mint user nm symbol uri creator quote_mint tp mayhem
      cashback creator_bps None glob amount max_quote = Some ixs"
  shows "hd ixs = create_v2_instruction e mint user nm symbol uri creator quote_mint tp mayhem
      cashback creator_bps"
    and "dispatch_trade (last ixs) = Some (PumpBuyV2, unat amount, unat max_quote)"
    and "filter meta_is_signer (ix_accounts (last ixs)) = user_signs user"
  using assms(2)
  by (auto simp: create_v2_and_buy_instruction_def buy_v2_instructions_def Let_def
      recipient_trade_dispatch [OF assms(1)] pump_trade_signers [OF assms(1)]
      split: option.splits prod.splits)

lemma example_launch:
  assumes "example_create_v2_token2022_quote e cs te key_from_str connect env dr s = Some (Ok (), s')"
  obtains user mint quote_text quote_mint tp amount bps creator_bps glob cfg qc vq quote ixs alt s1
    sig s2 t1 t2 t3
  where "env ''QUOTE_MINT'' = Some quote_text" and "key_from_str quote_text = Some quote_mint"
    and "parse_unsigned (env_or env ''TOKEN_AMOUNT'' ''1000000000'') = Some amount"
    and "parse_unsigned (env_or env ''SLIPPAGE_BPS'' ''100'') = Some bps"
    and "parse_unsigned (env_or env ''CREATOR_FEE_BPS'' ''0'') = Some creator_bps"
    and "initial_virtual_quote_reserves glob qc quote_mint = Some vq"
    and "buy_quote_bonding_curve_token_out e glob cfg
       (initial_bonding_curve glob user quote_mint vq False False creator_bps)
       (g_token_total_supply glob) amount bps = Ok quote"
    and "create_v2_and_buy_instruction e (dr 0) (dr 1) mint user ''Example'' ''EX''
       ''https://example.com/ex.json'' user quote_mint tp False False creator_bps None glob amount
       (q_max_input quote) = Some ixs"
    and "send_v0_tx (connect (env_or env ''RPC_URL'' ''https://api.devnet.solana.com''))
       (nt_set_compute_unit_limit (connect (env_or env ''RPC_URL'' ''https://api.devnet.solana.com''))
          400000 # ixs) user [user, mint] alt s1 = Some (Ok sig, s2)"
    and "tp \<in> {SPL_TOKEN_PROGRAM_ID, SPL_TOKEN_2022_PROGRAM_ID}"
    and "fetch_global e cs (nt_rpc (connect (env_or env ''RPC_URL'' ''https://api.devnet.solana.com'')))
       t1 = (Ok glob, t2)"
    and "fetch_fee_config e cs (nt_rpc (connect (env_or env ''RPC_URL''
       ''https://api.devnet.solana.com''))) t2 = (Ok cfg, t3)"
  using assms unfolding example_create_v2_token2022_quote_def Let_def
  by (elim run_bind_Ok) (simp only: run_results, elim conjE, rule that, assumption+, simp, assumption+)

text \<open>C30: If the launch of a coin on a configurable quote mint returns, it sent one version-0
  transaction signed by the creator and the new mint: behind the compute-unit limit it starts with
  the creation of the coin and ends with a \<open>buy_v2\<close> of exactly the requested tokens, signed by the
  creator only, whose spending limit is the maximum quoted, slippage included, on the curve the
  creation initializes; the quote mint is one Global or the quote control lists.\<close>
theorem launch_buys_as_quoted:
  assumes ok: "codegen_ok e"
    and run: "example_create_v2_token2022_quote e cs te key_from_str connect env dr s =
      Some (Ok (), s')"
  shows "\<exists>user mint quote_mint tp amount bps creator_bps glob cfg qc vq quote ixs.
    \<exists>alt blockhash msg tx s1 sig s2 t1 t2 t3.
    let n = connect (env_or env ''RPC_URL'' ''https://api.devnet.solana.com'') in
    fetch_global e cs (nt_rpc n) t1 = (Ok glob, t2) \<and>
    fetch_fee_config e cs (nt_rpc n) t2 = (Ok cfg, t3) \<and>
    Option.bind (env ''QUOTE_MINT'') key_from_str = Some quote_mint \<and>
    parse_unsigned (env_or env ''TOKEN_AMOUNT'' ''1000000000'') = Some amount \<and>
    parse_unsigned (env_or env ''SLIPPAGE_BPS'' ''100'') = Some bps \<and>
    parse_unsigned (env_or env ''CREATOR_FEE_BPS'' ''0'') = Some creator_bps \<and>
    initial_virtual_quote_reserves glob qc quote_mint = Some vq \<and>
    tp \<in> {SPL_TOKEN_PROGRAM_ID, SPL_TOKEN_2022_PROGRAM_ID} \<and>
    buy_quote_bonding_curve_token_out e glob cfg
      (initial_bonding_curve glob user quote_mint vq False False creator_bps)
      (g_token_total_supply glob) amount bps = Ok quote \<and>
    nt_compile n user (nt_set_compute_unit_limit n 400000 # ixs) [alt] blockhash = Ok msg \<and>
    nt_sign n msg [user, mint] = Ok tx \<and> nt_send n tx s1 = (Ok sig, s2) \<and>
    hd ixs = create_v2_instruction e mint user ''Example'' ''EX'' ''https://example.com/ex.json''
      user quote_mint tp False False creator_bps \<and>
    dispatch_trade (last ixs) = Some (PumpBuyV2, unat amount, unat (q_max_input quote)) \<and>
    filter meta_is_signer (ix_accounts (last ixs)) = user_signs user"
  using run
proof (rule example_launch, goal_cases)
  case (1 user mint quote_text quote_mint tp amount bps creator_bps glob cfg qc vq quote ixs alt s1
      sig s2 t1 t2 t3)
  let ?n = "connect (env_or env ''RPC_URL'' ''https://api.devnet.solana.com'')"
  obtain blockhash s3 msg tx where tx:
    "nt_compile ?n user (nt_set_compute_unit_limit ?n 400000 # ixs) [alt] blockhash = Ok msg"
    "nt_sign ?n msg [user, mint] = Ok tx" "nt_send ?n tx s3 = (Ok sig, s2)"
    using 1(9) by (rule send_v0_tx_Ok)
  have "Option.bind (env ''QUOTE_MINT'') key_from_str = Some quote_mint" using 1(1,2) by simp
  with 1(3-7,10-12) tx create_v2_and_buy_parts [OF ok 1(8)] show ?case
    unfolding Let_def by (intro exI conjI) assumption+
qed

text \<open>The launch on the sample cluster, whose keys are 3 and 77, quoted in wrapped SOL.\<close>

definition launch_net ::
  "(unit, instruction list \<times> pubkey list, instruction list, unit, unit) net" where
  "launch_net = \<lparr>nt_rpc = sample_rpc,
     nt_get_account = (\<lambda>k s. (Ok (sample_account k), s)),
     nt_request_airdrop = (\<lambda>_ _ s. (Ok (), s)), nt_confirm = (\<lambda>_ s. (Ok True, s)),
     nt_balance = (\<lambda>_ s. (Ok 0, s)), nt_balance_text = (\<lambda>_ s. (Ok ''0'', s)),
     nt_blockhash = (\<lambda>s. (Ok (), s)), nt_send = (\<lambda>_ s. (Ok (), s)), nt_now = (\<lambda>s. (0, s)),
     nt_sleep = (\<lambda>_ s. s), nt_keypair = (\<lambda>s. (77, s)), nt_read_keypair = (\<lambda>_ s. (Ok 3, s)),
     nt_sign_legacy = (\<lambda>ixs _ signers _. Ok (ixs, signers)), nt_compile = (\<lambda>_ ixs _ _. Ok ixs),
     nt_sign = (\<lambda>ixs signers. Ok (ixs, signers)),
     nt_set_compute_unit_limit = nt_set_compute_unit_limit local_net,
     nt_mint_to = nt_mint_to local_net\<rparr>"

definition launch_env :: env_vars where
  "launch_env k = (if k = ''QUOTE_MINT'' then Some ''SOL'' else None)"

definition launch_tool :: "(unit, unit) tool_env" where
  "launch_tool = sample_tool\<lparr>te_table_deserialize := \<lambda>_. Ok \<lparr>lt_meta = (), lt_addresses = []\<rparr>\<rparr>"

lemma launch_quote:
  "\<exists>q. buy_quote_bonding_curve_token_out sample_sdk_env sample_global sample_fee_config
     (initial_bonding_curve sample_global 3 NATIVE_MINT 30000000000 False False 0) 1000000000000000
     1000000000 100 = Ok q"
proof -
  have "isl (buy_quote_bonding_curve_token_out sample_sdk_env sample_global sample_fee_config
     (initial_bonding_curve sample_global 3 NATIVE_MINT 30000000000 False False 0) 1000000000000000
     1000000000 100) = False" by code_simp
  then show ?thesis by (auto simp: isl_def) (metis sum.exhaust)
qed

lemma launch_recipients:
  "pump_fee_recipients_pair (\<lambda>_. 0) (\<lambda>_. 0) sample_global False \<noteq> None"
  by code_simp

lemma run_bind_step: "m s = Some (Ok v, s1) \<Longrightarrow> run_bind m k s = k v s1"
  by (simp add: run_bind_def)

lemma launch_fetches:
  "expecting (fetch_global sample_sdk_env sample_codecs sample_rpc) () = Some (Ok sample_global, ())"
  "expecting (fetch_fee_config sample_sdk_env sample_codecs sample_rpc) () =
     Some (Ok sample_fee_config, ())"
  "expecting (fetch_bonding_curve sample_sdk_env sample_codecs sample_rpc 77) () =
     Some (Ok sample_curve, ())"
  by (simp_all add: expecting_def fetch_global_def fetch_fee_config_def fetch_bonding_curve_def
      get_account_def sample_fetch sample_accounts_Some io_bind_def io_def)

lemma launch_calls:
  "expecting (nt_read_keypair launch_net p) () = Some (Ok 3, ())"
  "effect (nt_keypair launch_net) () = Some (Ok 77, ())"
  "expecting (nt_get_account launch_net k) () = Some (Ok (sample_account k), ())"
  "load_alt launch_tool launch_net k () = Some (Ok (k, []), ())"
  "send_v0_tx launch_net ixs payer signers alt () = Some (Ok (), ())"
  "nt_rpc launch_net = sample_rpc"
  by (simp_all add: launch_net_def launch_tool_def expecting_def effect_def load_alt_def run_bind_def
      expecting_ok_def io_def run_return_def send_v0_tx_def build_v0_tx_def)

lemma launch_settings:
  "parse_unsigned ''1000000000'' = Some (1000000000 :: u64)"
  "parse_unsigned ''100'' = Some (100 :: u16)" "parse_unsigned ''0'' = Some (0 :: u64)"
  "expecting_some (Some x) s = Some (Ok x, s)" "expecting_ok (Ok y) s = Some (Ok y, s)"
  "asserting True s = Some (Ok (), s)" "launch_env ''QUOTE_MINT'' = Some ''SOL''"
  "k \<noteq> ''QUOTE_MINT'' \<Longrightarrow> env_or launch_env k d = d" "launch_env ''ALT'' = None"
  by (simp_all add: parse_unsigned_def digit_value_def expecting_some_def expecting_ok_def
      expecting_def io_def asserting_def launch_env_def env_or_def unwrap_or_def)

lemma launch_quote_mint:
  "ac_owner (sample_account NATIVE_MINT) = SPL_TOKEN_PROGRAM_ID"
  "initial_virtual_quote_reserves sample_global qc NATIVE_MINT = Some 30000000000"
  "g_token_total_supply sample_global = 1000000000000000"
  by (simp_all add: sample_account_def sample_accounts_def initial_virtual_quote_reserves_def
      sample_global_def NATIVE_MINT_def pump_bonding_curve_def sample_sdk_env_def
      sample_env_def last_key_bytes PUMP_PROGRAM_ID_def SPL_TOKEN_PROGRAM_ID_def
      seed_defs bytes_of_string_def)

lemma launch_returns:
  "\<exists>s'. example_create_v2_token2022_quote sample_sdk_env sample_codecs launch_tool
     (\<lambda>_. Some NATIVE_MINT) (\<lambda>_. launch_net) launch_env (\<lambda>_ _. 0) () = Some (Ok (), s')"
proof -
  obtain q where q: "buy_quote_bonding_curve_token_out sample_sdk_env sample_global sample_fee_config
     (initial_bonding_curve sample_global 3 NATIVE_MINT 30000000000 False False 0) 1000000000000000
     1000000000 100 = Ok q" using launch_quote by blast
  obtain qc where qc: "or_default (io_bind (fetch_quote_control sample_sdk_env sample_codecs
      sample_rpc) (\<lambda>qc. io (Ok (Some qc)))) None () = Some (Ok qc, ())" 
    using sample_accounts_Some by (auto simp: or_default_def fetch_quote_control_def get_account_def
        sample_fetch io_bind_def io_def decode_quote_control_def decode_def sample_codecs_def
        split: sum.splits option.splits)
  obtain ixs where ixs: "create_v2_and_buy_instruction sample_sdk_env (\<lambda>_. 0) (\<lambda>_. 0) 77 3
      ''Example'' ''EX'' ''https://example.com/ex.json'' 3 NATIVE_MINT SPL_TOKEN_PROGRAM_ID False False
      0 None sample_global 1000000000 (q_max_input q) = Some ixs"
    using launch_recipients
    by (cases "create_v2_and_buy_instruction sample_sdk_env (\<lambda>_. 0) (\<lambda>_. 0) 77 3
      ''Example'' ''EX'' ''https://example.com/ex.json'' 3 NATIVE_MINT SPL_TOKEN_PROGRAM_ID False False
      0 None sample_global 1000000000 (q_max_input q)")
      (auto simp: create_v2_and_buy_instruction_def buy_v2_instructions_def Let_def
        bonding_curve_preview_def default_bonding_curve_def)
  show ?thesis
    unfolding example_create_v2_token2022_quote_def Let_def
    by (simp add: run_bind_step launch_settings launch_calls launch_fetches launch_quote_mint q qc
        ixs run_return_def cong: if_cong)
qed

theorem launch_buys_as_quoted_witness:
  "\<exists>user glob cfg vq creator_bps q ixs.
    buy_quote_bonding_curve_token_out sample_sdk_env glob cfg
      (initial_bonding_curve glob user NATIVE_MINT vq False False creator_bps)
      (g_token_total_supply glob) 1000000000 100 = Ok q \<and>
    dispatch_trade (last ixs) = Some (PumpBuyV2, 1000000000, unat (q_max_input q)) \<and>
    filter meta_is_signer (ix_accounts (last ixs)) = user_signs user"
proof -
  obtain s' where "example_create_v2_token2022_quote sample_sdk_env sample_codecs launch_tool
     (\<lambda>_. Some NATIVE_MINT) (\<lambda>_. launch_net) launch_env (\<lambda>_ _. 0) () = Some (Ok (), s')"
    using launch_returns by blast
  from launch_buys_as_quoted [OF sample_codegen_ok this]
  obtain user glob cfg vq creator_bps q ixs and qm and amount :: u64 and bps :: u16
    where c: "Option.bind (launch_env ''QUOTE_MINT'') (\<lambda>_. Some NATIVE_MINT) = Some qm"
    "parse_unsigned (env_or launch_env ''TOKEN_AMOUNT'' ''1000000000'') = Some amount"
    "parse_unsigned (env_or launch_env ''SLIPPAGE_BPS'' ''100'') = Some bps"
    and r: "buy_quote_bonding_curve_token_out sample_sdk_env glob cfg
      (initial_bonding_curve glob user qm vq False False creator_bps)
      (g_token_total_supply glob) amount bps = Ok q"
    "dispatch_trade (last ixs) = Some (PumpBuyV2, unat amount, unat (q_max_input q))"
    "filter meta_is_signer (ix_accounts (last ixs)) = user_signs user"
    unfolding Let_def by (elim exE conjE) (rule that)
  have v: "qm = NATIVE_MINT" "amount = 1000000000" "bps = 100" "unat amount = 1000000000"
    using c by (simp_all add: launch_settings)
  show ?thesis using r unfolding v by (intro exI conjI) simp_all
qed

end
