(* ===== verification/Spec2Isabelle.thy ===== *)
theory Spec2Isabelle
  imports Quote_Properties Amm_Properties Pda_Separation Tx_Properties Client_Properties
    Snapshot_Properties Local_Validator Flow_Properties
begin

text \<open>
  Verification of the Rust SDK of the pump and pump-amm Solana programs (\<open>src/src\<close>).

  \<^bold>\<open>The program.\<close> The crate prices trades offline, builds the instructions of the on-chain
  programs, and wraps both in an RPC client. An open coin trades on its bonding curve (pump); a
  completed one in its canonical pool (pump-amm). A quote reads decoded accounts (\<open>Global\<close>,
  \<open>FeeConfig\<close>, \<open>BondingCurve\<close>, \<open>GlobalConfig\<close>, \<open>Pool\<close>); a builder derives the addresses the
  program expects (\<open>pda.rs\<close>) and encodes the quote's bounds; \<open>AsyncPumpClient\<close> fetches the
  accounts, quotes and builds. Nothing is kept between the calls of the offline half; the state of
  the client is the cluster behind its connection. Beside the crate, three developer binaries serve
  its tests: \<open>clone_devnet_accounts\<close> copies the accounts of a cluster and rewrites them for a
  local chain whose test currency is a synthetic USDC mint, \<open>local_validator\<close> starts from
  that copy, \<open>airdropusdc\<close> mints the test currency. The state of the first is the map of accounts
  it builds, beside the clusters it reads. The programs of \<open>examples\<close> string the calls together:
  fund a fresh wallet, fetch, quote, build, sign and send.

  \<^bold>\<open>Values.\<close> A \<open>u64\<close>, \<open>u128\<close>, \<open>i128\<close> is a word of its width, so that the unchecked operations
  wrap as in a release build, and \<open>as u64\<close> truncates. A public key is a 256-bit word in the order
  of its bytes, an account a record of the fields the SDK reads. A \<open>Result\<close> or a panic is a value of
  \<open>('e, 'a) res\<close>: \<open>Ok\<close>, \<open>Err\<close> or \<open>panic\<close> (division by zero, index out of range,
  \<open>expect\<close>), with \<open>?\<close> as \<open>and_then\<close> (\<open>Prelude\<close>).

  \<^bold>\<open>Theories and sources.\<close>

  \<^item> \<open>Prelude\<close>: machine integers, checked operations, results. \<open>Accounts\<close>: the IDL structs of
    \<open>idls/pump.json\<close> and \<open>idls/pump_amm.json\<close> behind \<open>state.rs\<close>, keys and constants. \<open>Pda\<close>:
    \<open>constants.rs\<close> and \<open>pda.rs\<close>.
  \<^item> \<open>Math_Utils\<close>: \<open>math/mod.rs\<close>, \<open>math/utils.rs\<close>. \<open>Fees\<close>: \<open>math/fees.rs\<close>. \<open>Curve\<close>:
    \<open>math/bonding_curve.rs\<close>. \<open>Amm\<close>: \<open>math/amm.rs\<close>. \<open>Sdk_Quotes\<close>: recipients, quotes and
    multi-hop quotes of \<open>sdk/mod.rs\<close>, routes of \<open>sdk/pump_amm_ix.rs\<close>, new-coin reserves of
    \<open>sdk/pump_v2.rs\<close>, \<open>quote_trade\<close> of \<open>sdk/trade_tx.rs\<close>.
  \<^item> \<open>Idl_Layout\<close>: account slots, discriminators and argument order of the IDLs. \<open>Ix_Core\<close>:
    instructions and \<open>token.rs\<close>. \<open>Pump_V3\<close>, \<open>Pump_V2\<close>, \<open>Pump_V2_Coin\<close>, \<open>Pump_Legacy\<close>,
    \<open>Pump_Amm_Ix\<close>: the builders of the files of those names (\<open>Pump_Legacy\<close> with
    \<open>sdk/pump_fees_ix.rs\<close>). \<open>Trade_Tx\<close>: \<open>sdk/trade_tx.rs\<close>.
  \<^item> \<open>Account_Codec\<close>: \<open>account_wrapper.rs\<close>, \<open>accounts.rs\<close>, \<open>errors.rs\<close>. \<open>Curve_Codec\<close>: the
    interface of a codec and the curve's. \<open>Rpc_Client\<close>, \<open>Client_Trades\<close>, \<open>Client_Routes\<close>:
    \<open>async_client.rs\<close> (fetches; curve trades and pump-quoted creation; multi-hop routes).
  \<^item> \<open>Snapshot_Env\<close>: command line, networks, fixed accounts (\<open>fixed_pdas\<close>) and fixtures of
    \<open>bin/clone_devnet_accounts/main.rs\<close>, and its effects. \<open>Snapshot\<close>: its operations on the map,
    from \<open>clone_one\<close> to \<open>main\<close>. \<open>Local_Validator\<close>: \<open>bin/local_validator\<close>. \<open>Codec_Layouts\<close>: the codecs of \<open>Pool\<close> and \<open>Global\<close> from the IDL.
  \<^item> \<open>Session\<close>: programs over one connection that may panic or wait for ever (\<open>run\<close>), the wait
    for a confirmation and the helpers of \<open>tests/common/mod.rs\<close>. \<open>Airdrop\<close>: \<open>bin/airdropusdc\<close>,
    with the \<open>f64\<close> arithmetic it uses in \<open>Float64\<close> and integer parsing in \<open>Text_Parsing\<close>.
    \<open>Example_Flows\<close>: the programs of \<open>examples\<close>, \<open>example_<file>\<close> each.
  \<^item> Lemmas: \<open>Curve_Facts\<close>, \<open>Curve_Trades\<close>, \<open>Curve_V3\<close>, \<open>Amm_Facts\<close>, \<open>Sdk_Facts\<close>,
    \<open>Byte_Facts\<close>, \<open>Ix_Facts\<close>, \<open>Client_Facts\<close>, \<open>Route_Discovery\<close>, \<open>Route_State\<close>,
    \<open>Snapshot_Facts\<close>, \<open>Snapshot_Rekey\<close>, \<open>Snapshot_Stages\<close>. Concrete states the witnesses
    evaluate: \<open>Sample_State\<close>, \<open>Sample_Cluster\<close>, \<open>Sample_Tool\<close>, \<open>Sample_Run\<close>.

  \<^bold>\<open>What is shown.\<close>

  \<^item> Curve quotes (\<open>Quote_Properties\<close>): the exact-in fee derivation refines its specification on
    natural numbers; exact-in and exact-out quotes invert each other within the rounding they
    state; selling tokens pays at most what buying them cost, on every curve whose reserves
    moved by no more than the trade, and the cost grows with the amount; v3 quotes past the
    remaining supply are the sum of the curve and the pool leg; two places where a \<open>u64\<close> cast loses high bits.
  \<^item> AMM and multi-hop quotes (\<open>Amm_Properties\<close>): the exact-out input is the least that keeps the
    product; a sell is covered by the vault; \<open>multi_hop_route\<close> accepts exactly the paths
    (\<open>route_path\<close>); a multi-hop quote is positive; each fee is charged on one hop, the protocol
    fee where the user's currency trades, the creator and LP fees at the far coin.
  \<^item> Addresses (\<open>Pda_Separation\<close>): no two derivations of the SDK hash the same bytes.
  \<^item> Instructions (\<open>Ix_Properties\<close>): a trade's data read back to the trade and its amounts
    (\<open>dispatch_trade\<close>), the user is its only signer (legacy, v2, v3 and AMM), v2 and v3
    account lists agree with the IDL entries they stand for, \<open>migrate_v2\<close> never panics.
  \<^item> Transactions (\<open>Tx_Properties\<close>): a quote is that of the venue, direction and amount of the
    transaction for the same trade; a SOL-pool buy wraps what it may spend; the multi-hop transaction and its errors on every input.
  \<^item> Client (\<open>Client_Properties\<close>): a curve account of the first layout decodes to its fields with
    zeros for the later ones; fetches do not panic; \<open>discover_route\<close> follows the chain of quote
    mints and ends after at most eight fetches on any cluster; a quoted route always builds, and
    what it builds trades the ends of the route in the direction asked for.
  \<^item> Snapshot tool (\<open>Snapshot_Properties\<close>): a finished snapshot is well formed
    (\<open>snapshot_ready\<close>); a graduated pool is re-keyed to the canonical USDC address with vaults and LP
    mint that agree with it, nothing else moving; the lookup tables are merged in order of first
    occurrence; the patched \<open>Global\<close> decodes to the cloned one but for two fields; every recipient
    the SDK can draw is copied; the one account a SOL pool should have copied and has not.
    \<open>validator_loads_dump\<close> (\<open>Local_Validator\<close>): the validator adds every account of the dump.
  \<^item> Programs (\<open>Flow_Properties\<close>): the wait for a confirmation ends within 61 polls; the airdrop
    mints exactly the amount given, as the \<open>f64\<close> arithmetic loses nothing of six decimals below
    2^51 units; the launch of a coin buys within the maximum quoted on its initial curve.

  \<^bold>\<open>Parameters and contracts.\<close> Code outside \<open>src/\<close> is an argument of the model.
  \<open>find_program_address\<close> is a field of \<open>pda_env\<close> of which nothing is assumed. \<open>codegen_ok\<close>: the
  client generated from the IDL lists accounts and encodes arguments as the IDL says.
  \<open>token_ok\<close>: the SPL Token constructors succeed for the SPL Token program. \<open>draw_ok\<close>: a random
  index is below its bound. \<open>rpc_ok\<close>: an RPC batch is answered with one entry per key and no call
  panics. \<open>serves\<close>, \<open>serves_batches\<close>: the cluster does not change during the calls.
  \<open>codecs_ok\<close>: no generated deserializer panics. \<open>pools_ok\<close>: the account of a canonical pool holds
  the pool of the mints its address is derived from. The locale \<open>account_codec\<close> (decoding inverts
  encoding, encodings of a type have one length, the unchecked deserializer reads
  whatever the checked one does) is what the zero-padding wrapper needs of a
  generated codec; it is interpreted on the codec of \<open>BondingCurve\<close>, written out from the IDL. \<open>valid_codec\<close>
  is the weaker interface of a codec that writes back the values of a given form, interpreted on those
  of \<open>Pool\<close> and \<open>Global\<close>; \<open>writes_back\<close> is what the tool needs of it. \<open>tool_env\<close> holds
  the layouts of the token programs and of lookup tables and the rent formula: \<open>token_layouts_ok\<close>
  says that reading a token account or mint gives back what was packed or written into it,
  \<open>writes_table\<close> the same of a lookup table. \<open>net\<close> holds the other calls of \<open>RpcClient\<close>, the
  clock, key pairs, signing and the constructors of the compute-budget and mint instructions;
  \<open>clock_ok\<close> says that the clock does not go back and that a sleep is at least as long as asked
  for. The decoder of base58 keys and \<open>RpcClient::new\<close> are arguments of the programs that call them.

  \<^bold>\<open>Bounds.\<close> There is no fuel: every loop is a structural recursion over a list, except the
  discovery of a route, which the source bounds by \<open>MAX_HOPS\<close> and whose measure is the number of
  hops left, and the wait for a confirmation, a partial function that \<open>await_confirmation_ends\<close>
  shows to return: 30 seconds at half a second a poll are 61 polls at most.

  \<^bold>\<open>Not modelled.\<close> What the Solana and SPL crates do: the transport below \<open>RpcClient\<close>,
  serialization and signing of transactions, their execution. Re-exports and \<open>declare_program!\<close>
  (\<open>lib.rs\<close>). What a trade does to the reserves on chain: a property of two states of a curve
  quantifies over both. Of the binaries and examples, what they print, the file the snapshot is written to and read from
  (bincode and zstd), the faucet and the validator process. Tests; values asserted by the tests are
  conformance lemmas of \<open>Sample_State\<close>. The signs of floating-point zeros and the order of the
  multiplications in \<open>powi\<close>, which no result here depends on.
\<close>

end
